(* ===== verification/OFT_Prelude.thy ===== *)
theory OFT_Prelude
  imports Main "HOL-Library.Word"
begin

text \<open>
  Shared vocabulary of the development: Rust's fixed-width integers as words, the
  \<open>Result\<close> type with every error a transaction of the OFT program can end in, the
  overflow-checked operators (\<^verbatim>\<open>overflow-checks = true\<close> in the workspace's
  \<^verbatim>\<open>Cargo.toml\<close>), the checked and saturating methods, \<^verbatim>\<open>[u8; 32]\<close> as a type of its
  own, slices, and big-endian integers.

  Every characterisation of an integer operation is an equivalence over \<open>unat\<close>: the
  operation returns a word \<open>c\<close> iff \<open>unat c\<close> is the exact result over the naturals. A
  result that does not fit has no such word, which is the overflow panic.
\<close>

section \<open>Types and errors\<close>

type_synonym u8 = "8 word"
type_synonym u16 = "16 word"
type_synonym u32 = "32 word"
type_synonym u64 = "64 word"
type_synonym i64 = "64 word"
type_synonym u128 = "128 word"
type_synonym bytes = "u8 list"

datatype OFTError =
    Unauthorized
  | InvalidSender
  | InvalidDecimals
  | SlippageExceeded
  | InvalidTokenDest
  | RateLimitExceeded
  | InvalidFee
  | InvalidMintAuthority
  | Paused

text \<open>Where Rust unwinds instead of returning an error.\<close>

datatype panic =
    ArithmeticOverflow
  | DivisionByZero
  | SliceOutOfRange
  | UnwrapOnErr

text \<open>The errors Anchor's account validation returns for the constraints the program declares.\<close>

datatype anchor_error =
    AccountNotSigner
  | AccountNotInitialized
  | AccountDiscriminatorMismatch
  | AccountDidNotSerialize
  | AccountNotAssociatedTokenAccount
  | ConstraintMut
  | ConstraintSeeds
  | ConstraintAddress
  | ConstraintTokenMint
  | ConstraintTokenOwner
  | ConstraintTokenTokenProgram
  | ConstraintMintTokenProgram
  | ConstraintAssociatedTokenTokenProgram
  | InvalidProgramId

text \<open>\<open>Foreign n\<close> is an error code a called program returned.\<close>

datatype error =
    OFT OFTError
  | Anchor anchor_error
  | InvalidArgument
  | AccountAlreadyInUse
  | MissingAccount
  | Panic panic
  | Foreign nat

type_synonym 'a result = "error + 'a"

named_theorems result_simps \<open>when a sequence of fallible steps succeeds or fails\<close>
named_theorems int_iff \<open>integer operations characterised over the naturals\<close>
named_theorems bytes_simps \<open>slices and encodings\<close>

section \<open>Sequencing fallible code\<close>

text \<open>\<open>and_then m f\<close> is \<^verbatim>\<open>let x = m?; f(x)\<close>; \<open>require\<close> is the macro of that name.\<close>

definition and_then :: "'a result \<Rightarrow> ('a \<Rightarrow> 'b result) \<Rightarrow> 'b result" where
  "and_then m f = (case m of Inl e \<Rightarrow> Inl e | Inr x \<Rightarrow> f x)"

definition require :: "bool \<Rightarrow> error \<Rightarrow> unit result" where
  "require c e = (if c then Inr () else Inl e)"

definition ok_or :: "'a option \<Rightarrow> error \<Rightarrow> 'a result" where
  "ok_or m e = (case m of None \<Rightarrow> Inl e | Some x \<Rightarrow> Inr x)"

lemma and_then_Inl [simp]: "and_then (Inl e) f = Inl e"
  by (simp add: and_then_def)

lemma and_then_Inr [simp]: "and_then (Inr x) f = f x"
  by (simp add: and_then_def)

lemma and_then_eq_Inr [result_simps]:
  "(and_then m f = Inr y) = (\<exists>x. m = Inr x \<and> f x = Inr y)"
  by (cases m) auto

lemma and_then_eq_Inl [result_simps]:
  "(and_then m f = Inl e) = (m = Inl e \<or> (\<exists>x. m = Inr x \<and> f x = Inl e))"
  by (cases m) auto

lemma and_then_assoc: "and_then (and_then m f) g = and_then m (\<lambda>x. and_then (f x) g)"
  by (cases m) auto

lemma require_eq_Inr [result_simps]: "(require c e = Inr u) = c"
  by (simp add: require_def)

lemma require_eq_Inl [result_simps]: "(require c e = Inl e') = (\<not> c \<and> e' = e)"
  by (auto simp: require_def)

lemma require_True [simp]: "require True e = Inr ()"
  by (simp add: require_def)

lemma require_False [simp]: "require False e = Inl e"
  by (simp add: require_def)

lemma ok_or_eq_Inr [result_simps]: "(ok_or m e = Inr x) = (m = Some x)"
  by (auto simp: ok_or_def split: option.splits)

lemma ok_or_eq_Inl [result_simps]: "(ok_or m e = Inl e') = (m = None \<and> e' = e)"
  by (auto simp: ok_or_def split: option.splits)

lemma ok_or_Some [simp]: "ok_or (Some x) e = Inr x"
  by (simp add: ok_or_def)

lemma ok_or_None [simp]: "ok_or None e = Inl e"
  by (simp add: ok_or_def)

section \<open>Overflow-checked operators\<close>

definition u_add :: "'a::len word \<Rightarrow> 'a word \<Rightarrow> 'a word result" where
  "u_add a b = (if unat a + unat b < 2 ^ LENGTH('a) then Inr (a + b) else Inl (Panic ArithmeticOverflow))"

definition u_sub :: "'a::len word \<Rightarrow> 'a word \<Rightarrow> 'a word result" where
  "u_sub a b = (if unat b \<le> unat a then Inr (a - b) else Inl (Panic ArithmeticOverflow))"

definition u_mul :: "'a::len word \<Rightarrow> 'a word \<Rightarrow> 'a word result" where
  "u_mul a b = (if unat a * unat b < 2 ^ LENGTH('a) then Inr (a * b) else Inl (Panic ArithmeticOverflow))"

definition u_div :: "'a::len word \<Rightarrow> 'a word \<Rightarrow> 'a word result" where
  "u_div a b = (if b = 0 then Inl (Panic DivisionByZero) else Inr (a div b))"

definition u_rem :: "'a::len word \<Rightarrow> 'a word \<Rightarrow> 'a word result" where
  "u_rem a b = (if b = 0 then Inl (Panic DivisionByZero) else Inr (a mod b))"

definition u_pow :: "'a::len word \<Rightarrow> u32 \<Rightarrow> 'a word result" where
  "u_pow a n = (if unat a ^ unat n < 2 ^ LENGTH('a) then Inr (a ^ unat n)
                else Inl (Panic ArithmeticOverflow))"

section \<open>Checked and saturating methods\<close>

definition checked_add :: "'a::len word \<Rightarrow> 'a word \<Rightarrow> 'a word option" where
  "checked_add a b = (if unat a + unat b < 2 ^ LENGTH('a) then Some (a + b) else None)"

definition checked_sub :: "'a::len word \<Rightarrow> 'a word \<Rightarrow> 'a word option" where
  "checked_sub a b = (if unat b \<le> unat a then Some (a - b) else None)"

definition checked_mul :: "'a::len word \<Rightarrow> 'a word \<Rightarrow> 'a word option" where
  "checked_mul a b = (if unat a * unat b < 2 ^ LENGTH('a) then Some (a * b) else None)"

definition checked_div :: "'a::len word \<Rightarrow> 'a word \<Rightarrow> 'a word option" where
  "checked_div a b = (if b = 0 then None else Some (a div b))"

definition saturating_add :: "'a::len word \<Rightarrow> 'a word \<Rightarrow> 'a word" where
  "saturating_add a b = (if unat a + unat b < 2 ^ LENGTH('a) then a + b else - 1)"

definition saturating_mul :: "'a::len word \<Rightarrow> 'a word \<Rightarrow> 'a word" where
  "saturating_mul a b = (if unat a * unat b < 2 ^ LENGTH('a) then a * b else - 1)"

text \<open>\<^verbatim>\<open>u64::try_from(x)\<close> for a \<^verbatim>\<open>u128\<close> and \<^verbatim>\<open>u64::try_from(t)\<close> for an \<^verbatim>\<open>i64\<close>.\<close>

definition try_u64_of_u128 :: "u128 \<Rightarrow> u64 option" where
  "try_u64_of_u128 x = (if unat x < 2 ^ 64 then Some (ucast x) else None)"

definition try_u64_of_i64 :: "i64 \<Rightarrow> u64 option" where
  "try_u64_of_i64 t = (if sint t < 0 then None else Some t)"

subsection \<open>Their values over the naturals\<close>

lemma unat_eq_self_iff: "(a = b) = (unat a = unat b)"
  by (rule word_unat_eq_iff)

lemma unat_lt_len: "unat (c::'a::len word) < 2 ^ LENGTH('a)"
  by (rule unsigned_less)

lemma u_add_iff [int_iff]: "(u_add a b = Inr c) = (unat c = unat a + unat b)"
  using unat_lt_len [of c] unat_add_lem [of a b]
  by (auto simp: u_add_def unat_eq_self_iff simp del: unsigned_less)

lemma u_sub_iff [int_iff]: "(u_sub a b = Inr c) = (unat a = unat b + unat c)"
  by (auto simp: u_sub_def unat_eq_self_iff unat_sub word_le_nat_alt)

lemma u_mul_iff [int_iff]: "(u_mul a b = Inr c) = (unat c = unat a * unat b)"
  using unat_lt_len [of c] unat_mult_lem [of a b]
  by (auto simp: u_mul_def unat_eq_self_iff simp del: unsigned_less)

lemma u_div_iff [int_iff]: "(u_div a b = Inr c) = (b \<noteq> 0 \<and> unat c = unat a div unat b)"
  by (auto simp: u_div_def unat_eq_self_iff unat_div)

lemma u_rem_iff [int_iff]: "(u_rem a b = Inr c) = (b \<noteq> 0 \<and> unat c = unat a mod unat b)"
  by (auto simp: u_rem_def unat_eq_self_iff unat_mod)

lemma unat_power_small:
  fixes a :: "'a::len word"
  assumes "unat a ^ n < 2 ^ LENGTH('a)"
  shows "unat (a ^ n) = unat a ^ n"
proof -
  have "a ^ n = word_of_nat (unat a ^ n)" by simp
  then have "unat (a ^ n) = unat (word_of_nat (unat a ^ n) :: 'a word)" by (rule arg_cong)
  also have "\<dots> = unat a ^ n mod 2 ^ LENGTH('a)" by (rule unat_of_nat)
  finally show ?thesis using assms by simp
qed

lemma u_pow_iff [int_iff]: "(u_pow a n = Inr c) = (unat c = unat a ^ unat n)"
  using unat_lt_len [of c] unat_power_small [of a "unat n"]
  by (auto simp: u_pow_def unat_eq_self_iff simp del: unsigned_less)

lemma checked_add_iff [int_iff]: "(checked_add a b = Some c) = (unat c = unat a + unat b)"
  using unat_lt_len [of c] unat_add_lem [of a b]
  by (auto simp: checked_add_def unat_eq_self_iff simp del: unsigned_less)

lemma checked_sub_iff [int_iff]: "(checked_sub a b = Some c) = (unat a = unat b + unat c)"
  by (auto simp: checked_sub_def unat_eq_self_iff unat_sub word_le_nat_alt)

lemma checked_mul_iff [int_iff]: "(checked_mul a b = Some c) = (unat c = unat a * unat b)"
  using unat_lt_len [of c] unat_mult_lem [of a b]
  by (auto simp: checked_mul_def unat_eq_self_iff simp del: unsigned_less)

lemma checked_div_iff [int_iff]: "(checked_div a b = Some c) = (b \<noteq> 0 \<and> unat c = unat a div unat b)"
  by (auto simp: checked_div_def unat_eq_self_iff unat_div)

lemma checked_sub_None [int_iff]: "(checked_sub a b = None) = (unat a < unat b)"
  by (auto simp: checked_sub_def)

lemma unat_max_word: "unat (- 1 :: 'a::len word) = 2 ^ LENGTH('a) - 1"
  by (simp add: unsigned_minus_1_eq_mask mask_eq_exp_minus_1)

lemma unat_saturating_add:
  "unat (saturating_add a b) = min (2 ^ LENGTH('a) - 1) (unat a + unat (b :: 'a::len word))"
  using unat_add_lem [of a b] by (auto simp: saturating_add_def unat_max_word)

lemma unat_saturating_mul:
  "unat (saturating_mul a b) = min (2 ^ LENGTH('a) - 1) (unat a * unat (b :: 'a::len word))"
  using unat_mult_lem [of a b] by (auto simp: saturating_mul_def unat_max_word)

lemma try_u64_of_u128_iff [int_iff]: "(try_u64_of_u128 x = Some y) = (unat y = unat x)"
proof -
  have "unat (ucast x :: u64) = unat x" if "unat x < 2 ^ 64"
    using that by (simp add: unsigned_ucast_eq take_bit_nat_eq_self)
  with unat_lt_len [of y] show ?thesis
    by (auto simp: try_u64_of_u128_def unat_eq_self_iff simp del: unsigned_less)
qed

lemma unat_ucast_up: "LENGTH('a) \<le> LENGTH('b) \<Longrightarrow> unat (ucast (w::'a::len word) :: 'b::len word) = unat w"
proof -
  assume "LENGTH('a) \<le> LENGTH('b)"
  then have "unat w < 2 ^ LENGTH('b)"
    by (rule less_le_trans [OF unat_lt_len power_increasing]) simp
  then show ?thesis by (simp only: unsigned_ucast_eq take_bit_nat_eq_self)
qed

text \<open>The widening casts \<^verbatim>\<open>as u128\<close> and \<^verbatim>\<open>as u32\<close> keep the value.\<close>

lemma unat_up [simp]:
  "unat (ucast (w::u64) :: u128) = unat w"
  "unat (ucast (v::u16) :: u128) = unat v"
  "unat (ucast (u::u8) :: u32) = unat u"
  by (simp_all add: unat_ucast_up)

lemma u_op_panics:
  "u_add a b = Inl e \<Longrightarrow> e = Panic ArithmeticOverflow"
  "u_sub a b = Inl e \<Longrightarrow> e = Panic ArithmeticOverflow"
  "u_mul a b = Inl e \<Longrightarrow> e = Panic ArithmeticOverflow"
  "u_div a b = Inl e \<Longrightarrow> e = Panic DivisionByZero"
  "u_rem a b = Inl e \<Longrightarrow> e = Panic DivisionByZero"
  by (auto simp: u_add_def u_sub_def u_mul_def u_div_def u_rem_def split: if_splits)

text \<open>Introduction rules: when an operator does not panic.\<close>

lemma u_mul_Inr: "unat a * unat b < 2 ^ LENGTH('a) \<Longrightarrow> u_mul a b = Inr (a * b)"
  for a b :: "'a::len word" by (simp add: u_mul_def)

lemma u_sub_Inr: "unat b \<le> unat a \<Longrightarrow> u_sub a b = Inr (a - b)"
  by (simp add: u_sub_def)

section \<open>Fixed arrays of 32 bytes\<close>

text \<open>
  \<^verbatim>\<open>[u8; 32]\<close>, and \<^verbatim>\<open>Pubkey\<close>, which wraps one: \<^verbatim>\<open>Pubkey::from\<close>, \<^verbatim>\<open>to_bytes\<close> and
  \<^verbatim>\<open>as_ref\<close> only change the Rust type.
\<close>

typedef bytes32 = "{bs :: bytes. length bs = 32}"
  morphisms to_bytes Abs_bytes32
  by (rule exI [of _ "replicate 32 0"]) simp

type_synonym pubkey = bytes32

definition repeat32 :: "u8 \<Rightarrow> bytes32" where
  "repeat32 b = Abs_bytes32 (replicate 32 b)"

definition pad32 :: "bytes \<Rightarrow> bytes32" where
  "pad32 bs = Abs_bytes32 (take 32 (bs @ replicate 32 0))"

instantiation bytes32 :: equal
begin

definition equal_bytes32 :: "bytes32 \<Rightarrow> bytes32 \<Rightarrow> bool" where
  "equal_bytes32 a b = (to_bytes a = to_bytes b)"

instance
  by standard (simp add: equal_bytes32_def to_bytes_inject)

end

abbreviation default_pubkey :: pubkey where
  "default_pubkey \<equiv> repeat32 0"

lemma Abs_bytes32_to_bytes [simp, code abstype]: "Abs_bytes32 (to_bytes b) = b"
  by (rule to_bytes_inverse)

lemma length_to_bytes [simp]: "length (to_bytes b) = 32"
  using to_bytes [of b] by simp

lemma to_bytes_repeat32 [simp, code abstract]: "to_bytes (repeat32 b) = replicate 32 b"
  by (simp add: repeat32_def Abs_bytes32_inverse)

lemma to_bytes_pad32 [code abstract]: "to_bytes (pad32 bs) = take 32 (bs @ replicate 32 0)"
  by (simp add: pad32_def Abs_bytes32_inverse)

lemma to_bytes_pad32_32 [simp]: "length bs = 32 \<Longrightarrow> to_bytes (pad32 bs) = bs"
  by (simp add: to_bytes_pad32)

lemma to_bytes_inj [simp]: "(to_bytes a = to_bytes b) = (a = b)"
  by (rule to_bytes_inject)

lemma pad32_to_bytes [simp]: "pad32 (to_bytes b) = b"
  by (simp flip: to_bytes_inj)

lemma repeat32_inj [simp]: "(repeat32 a = repeat32 b) = (a = b)"
  by (metis length_greater_0_conv length_to_bytes nth_replicate to_bytes_repeat32 zero_less_numeral)

section \<open>Slices\<close>

text \<open>\<^verbatim>\<open>xs[a..b]\<close> and \<^verbatim>\<open>xs[a..]\<close> panic when the range leaves the slice.\<close>

definition slice :: "nat \<Rightarrow> nat \<Rightarrow> 'a list \<Rightarrow> 'a list result" where
  "slice a b xs = (if a \<le> b \<and> b \<le> length xs then Inr (take (b - a) (drop a xs))
                   else Inl (Panic SliceOutOfRange))"

definition slice_from :: "nat \<Rightarrow> 'a list \<Rightarrow> 'a list result" where
  "slice_from a xs = (if a \<le> length xs then Inr (drop a xs) else Inl (Panic SliceOutOfRange))"

definition index :: "'a list \<Rightarrow> nat \<Rightarrow> 'a result" where
  "index xs i = (if i < length xs then Inr (xs ! i) else Inl (Panic SliceOutOfRange))"

text \<open>\<^verbatim>\<open>copy_from_slice\<close> into an array of \<open>n\<close> elements panics unless the lengths agree.\<close>

definition copy_from_slice :: "nat \<Rightarrow> 'a list \<Rightarrow> 'a list result" where
  "copy_from_slice n src = (if length src = n then Inr src else Inl (Panic SliceOutOfRange))"

lemma slice_middle [bytes_simps]:
  "length p = a \<Longrightarrow> a + length m = b \<Longrightarrow> slice a b (p @ m @ s) = Inr m"
  by (auto simp: slice_def)

lemma slice_eq_Inr: "(slice a b xs = Inr m) = (a \<le> b \<and> b \<le> length xs \<and> m = take (b - a) (drop a xs))"
  by (auto simp: slice_def)

lemma slice_eq_Inl: "(slice a b xs = Inl e) = (\<not> (a \<le> b \<and> b \<le> length xs) \<and> e = Panic SliceOutOfRange)"
  by (auto simp: slice_def)

lemma copy_from_slice_eq_Inr: "(copy_from_slice n src = Inr m) = (length src = n \<and> m = src)"
  by (auto simp: copy_from_slice_def)

lemma slice_copy:
  "a \<le> b \<Longrightarrow> and_then (slice a b xs) (copy_from_slice (b - a)) = slice a b xs"
  by (auto simp: slice_def copy_from_slice_def)

section \<open>Big-endian integers\<close>

text \<open>
  \<open>be_bytes n w\<close> are the low \<open>n\<close> bytes of \<open>w\<close>, most significant first;
  \<^verbatim>\<open>to_be_bytes\<close> of a \<^verbatim>\<open>u64\<close> is \<open>be_bytes 8\<close>, of a \<^verbatim>\<open>u32\<close> \<open>be_bytes 4\<close>.
\<close>

primrec be_bytes :: "nat \<Rightarrow> 'a::len word \<Rightarrow> bytes" where
  "be_bytes 0 w = []"
| "be_bytes (Suc n) w = ucast (drop_bit (8 * n) w) # be_bytes n w"

definition be_value :: "bytes \<Rightarrow> nat" where
  "be_value bs = foldl (\<lambda>acc b. acc * 256 + unat b) 0 bs"

definition from_be_bytes :: "bytes \<Rightarrow> 'a::len word" where
  "from_be_bytes bs = word_of_nat (be_value bs)"

lemma length_be_bytes [simp]: "length (be_bytes n w) = n"
  by (induction n) auto

lemma be_value_foldl: "foldl (\<lambda>acc b. acc * 256 + unat (b::u8)) a bs = a * 256 ^ length bs + be_value bs"
proof (induction bs arbitrary: a)
  case Nil
  show ?case by (simp add: be_value_def)
next
  case (Cons b bs)
  have "be_value (b # bs) = unat b * 256 ^ length bs + be_value bs"
    using Cons.IH [of "unat b"] by (simp add: be_value_def)
  then show ?case using Cons.IH [of "a * 256 + unat b"] by (simp add: algebra_simps)
qed

lemma be_value_Nil [simp]: "be_value [] = 0"
  by (simp add: be_value_def)

lemma be_value_Cons [simp]: "be_value (b # bs) = unat b * 256 ^ length bs + be_value bs"
  using be_value_foldl [of "unat b" bs] by (simp add: be_value_def)

lemma be_value_less: "be_value bs < 256 ^ length bs"
proof (induction bs)
  case (Cons b bs)
  have "unat b \<le> 255" using unat_lt_len [of b] by simp
  then have "unat b * 256 ^ length bs \<le> 255 * 256 ^ length bs" by (rule mult_right_mono) simp
  with Cons have "unat b * 256 ^ length bs + be_value bs < 255 * 256 ^ length bs + 256 ^ length bs"
    by (rule add_le_less_mono [rotated])
  then show ?case by simp
qed simp

lemma unat_byte_of: "unat (ucast (drop_bit (8 * n) w) :: u8) = unat w div 256 ^ n mod 256"
proof -
  have "unat (drop_bit (8 * n) w) = unat w div 256 ^ n"
    by (simp only: unat_drop_bit_eq) (simp add: drop_bit_eq_div power_mult)
  then show ?thesis by (simp only: unsigned_ucast_eq) (simp add: take_bit_eq_mod)
qed

lemma be_value_be_bytes: "be_value (be_bytes n w) = unat w mod 256 ^ n"
proof (induction n)
  case (Suc n)
  have "unat w mod 256 ^ Suc n = 256 ^ n * (unat w div 256 ^ n mod 256) + unat w mod 256 ^ n"
    using mod_mult2_eq [of "unat w" "256 ^ n" 256] by (simp add: mult.commute)
  with Suc show ?case by (simp add: unat_byte_of)
qed simp

lemma be_value_inj:
  "length as = length bs \<Longrightarrow> be_value as = be_value bs \<Longrightarrow> as = bs"
proof (induction as bs rule: list_induct2)
  case (Cons a as b bs)
  let ?n = "256 ^ length bs"
  have lt: "be_value as < ?n" "be_value bs < ?n"
    using be_value_less [of as] be_value_less [of bs] Cons.hyps by auto
  have eq: "unat a * ?n + be_value as = unat b * ?n + be_value bs"
    using Cons.prems Cons.hyps by simp
  have "unat a = (unat a * ?n + be_value as) div ?n" using lt by simp
  also have "\<dots> = unat b" using lt unfolding eq by simp
  finally have "unat a = unat b" .
  with eq Cons.IH show ?case by (simp add: unat_eq_self_iff)
qed simp

lemma from_be_be_bytes:
  assumes "LENGTH('a) \<le> 8 * n"
  shows "from_be_bytes (be_bytes n w) = (w :: 'a::len word)"
proof -
  have "unat w < 2 ^ (8 * n)"
    by (rule less_le_trans [OF unat_lt_len power_increasing [OF assms]]) simp
  then have "unat w mod 256 ^ n = unat w" by (simp add: power_mult)
  then show ?thesis by (simp add: from_be_bytes_def be_value_be_bytes)
qed

lemma be_bytes_from_be:
  assumes "length bs = n" and "8 * n \<le> LENGTH('a)"
  shows "be_bytes n (from_be_bytes bs :: 'a::len word) = bs"
proof (rule be_value_inj)
  have "be_value bs < 2 ^ (8 * n)" using be_value_less [of bs] assms(1) by (simp add: power_mult)
  also have "\<dots> \<le> 2 ^ LENGTH('a)" using assms(2) by (rule power_increasing) simp
  finally have "unat (from_be_bytes bs :: 'a word) = be_value bs"
    by (simp add: from_be_bytes_def unat_of_nat)
  then show "be_value (be_bytes n (from_be_bytes bs :: 'a word)) = be_value bs"
    using be_value_less [of bs] assms(1) by (simp add: be_value_be_bytes)
qed (use assms in simp)

subsection \<open>The contract of a fixed-width field\<close>

text \<open>
  What the message codecs rely on: a value is written as exactly \<open>width\<close> bytes and read
  back from them. The readers slice the message at a constant offset, so the client's
  lemma is about a slice of a longer message.
\<close>

locale fixed_field =
  fixes enc :: "'v \<Rightarrow> bytes" and dec :: "bytes \<Rightarrow> 'v" and width :: nat
  assumes dec_enc: "dec (enc v) = v"
    and enc_dec: "length bs = width \<Longrightarrow> enc (dec bs) = bs"
    and length_enc: "length (enc v) = width"
begin

lemma enc_inj: "enc v = enc v' \<Longrightarrow> v = v'"
  using dec_enc by metis

definition read_at :: "nat \<Rightarrow> bytes \<Rightarrow> 'v result" where
  "read_at off msg = and_then (and_then (slice off (off + width) msg) (copy_from_slice width))
     (\<lambda>bs. Inr (dec bs))"

lemma read_written:
  assumes "length p = off"
  shows "read_at off (p @ enc v @ s) = Inr v"
  using assms by (simp add: read_at_def length_enc slice_middle copy_from_slice_def dec_enc)

lemma read_ok: "off + width \<le> length msg \<Longrightarrow> \<exists>v. read_at off msg = Inr v"
  by (simp add: read_at_def slice_def copy_from_slice_def)

lemma read_short: "length msg < off + width \<Longrightarrow> read_at off msg = Inl (Panic SliceOutOfRange)"
  by (simp add: read_at_def slice_def)

lemma read_value: "read_at off msg = Inr v \<Longrightarrow> enc v = take width (drop off msg)"
  by (auto simp: read_at_def slice_def copy_from_slice_def enc_dec and_then_eq_Inr split: if_splits)

end

interpretation be64: fixed_field "be_bytes 8 :: u64 \<Rightarrow> bytes" from_be_bytes 8
  by unfold_locales (auto intro: from_be_be_bytes be_bytes_from_be)

interpretation be32: fixed_field "be_bytes 4 :: u32 \<Rightarrow> bytes" from_be_bytes 4
  by unfold_locales (auto intro: from_be_be_bytes be_bytes_from_be)

interpretation arr32: fixed_field to_bytes pad32 32
  by unfold_locales auto

end
