(* ===== verification/OFT_Store.thy ===== *)
theory OFT_Store
  imports OFT_Prelude
begin

text \<open>
  The configuration account of one OFT (\<^verbatim>\<open>state/oft.rs\<close>) and its conversion between the
  token's local decimals (ld) and the decimals shared by all chains (sd). Field names carry
  the prefix \<open>os_\<close>, those of \<^verbatim>\<open>LzReceiveTypesAccounts\<close> the prefix \<open>lr_\<close>.
\<close>

section \<open>Definitions\<close>

datatype OFTType = Native | Adapter

record OFTStore =
  os_oft_type :: OFTType
  os_ld2sd_rate :: u64
  os_token_mint :: pubkey
  os_token_escrow :: pubkey
  os_endpoint_program :: pubkey
  os_bump :: u8
  os_tvl_ld :: u64
  os_admin :: pubkey
  os_default_fee_bps :: u16
  os_paused :: bool
  os_pauser :: "pubkey option"
  os_unpauser :: "pubkey option"

definition ld2sd :: "OFTStore \<Rightarrow> u64 \<Rightarrow> u64 result" where
  "ld2sd self amount_ld = u_div amount_ld (os_ld2sd_rate self)"

definition sd2ld :: "OFTStore \<Rightarrow> u64 \<Rightarrow> u64 result" where
  "sd2ld self amount_sd = u_mul amount_sd (os_ld2sd_rate self)"

definition remove_dust :: "OFTStore \<Rightarrow> u64 \<Rightarrow> u64 result" where
  "remove_dust self amount_ld =
     and_then (u_rem amount_ld (os_ld2sd_rate self)) (\<lambda>dust. u_sub amount_ld dust)"

record LzReceiveTypesAccounts =
  lr_oft_store :: pubkey
  lr_token_mint :: pubkey

text \<open>
  \<^verbatim>\<open>INIT_SPACE\<close> of the two accounts: the Borsh size of each field, one byte more for an
  \<^verbatim>\<open>Option\<close> and one byte for the enum's tag.
\<close>

definition OFTStore_INIT_SPACE :: nat where
  "OFTStore_INIT_SPACE = 1 + 8 + 32 + 32 + 32 + 1 + 8 + 32 + 2 + 1 + (1 + 32) + (1 + 32)"

definition LzReceiveTypesAccounts_INIT_SPACE :: nat where
  "LzReceiveTypesAccounts_INIT_SPACE = 32 + 32"

section \<open>Values\<close>

abbreviation rate :: "OFTStore \<Rightarrow> nat" where
  "rate s \<equiv> unat (os_ld2sd_rate s)"

lemma rate_pos: "(os_ld2sd_rate s \<noteq> 0) = (0 < rate s)"
  by (simp add: unat_eq_self_iff)

lemma ld2sd_iff [int_iff]: "(ld2sd s a = Inr c) = (os_ld2sd_rate s \<noteq> 0 \<and> unat c = unat a div rate s)"
  by (simp add: ld2sd_def int_iff)

lemma sd2ld_iff [int_iff]: "(sd2ld s a = Inr c) = (unat c = unat a * rate s)"
  by (simp add: sd2ld_def int_iff)

lemma remove_dust_iff [int_iff]:
  "(remove_dust s a = Inr c) = (os_ld2sd_rate s \<noteq> 0 \<and> unat c = unat a - unat a mod rate s)"
proof -
  have "unat (a mod os_ld2sd_rate s) \<le> unat a" by (simp add: unat_mod)
  then show ?thesis
    by (auto simp: remove_dust_def u_rem_def u_sub_iff unat_mod)
qed

lemma remove_dust_ok: "os_ld2sd_rate s \<noteq> 0 \<Longrightarrow> \<exists>c. remove_dust s a = Inr c"
  by (auto simp: remove_dust_def u_rem_def u_sub_def unat_mod)

lemma remove_dust_error: "(remove_dust s a = Inl e) = (os_ld2sd_rate s = 0 \<and> e = Panic DivisionByZero)"
  by (auto simp: remove_dust_def u_rem_def u_sub_def unat_mod)

lemma remove_dust_dvd: "remove_dust s a = Inr c \<Longrightarrow> rate s dvd unat c"
  by (auto simp: int_iff minus_mod_eq_mult_div)

lemma remove_dust_le: "remove_dust s a = Inr c \<Longrightarrow> unat c \<le> unat a"
  by (auto simp: int_iff)

lemma remove_dust_near: "remove_dust s a = Inr c \<Longrightarrow> unat a < unat c + rate s"
proof -
  assume "remove_dust s a = Inr c"
  then have "0 < rate s" and "unat c = unat a - unat a mod rate s" by (auto simp: int_iff rate_pos)
  moreover from this have "unat a mod rate s < rate s" by simp
  ultimately show ?thesis by linarith
qed

section \<open>The contract of the conversion\<close>

text \<open>
  What the transfer path relies on. An amount is \<open>clean\<close> when it has no dust; a clean amount
  survives the trip to shared decimals and back unchanged, and subtracting a clean fee
  from a clean amount leaves a clean amount.
\<close>

locale decimal_conversion =
  fixes ok :: "'s \<Rightarrow> bool"
    and to_sd to_ld dedust :: "'s \<Rightarrow> u64 \<Rightarrow> u64 result"
    and clean :: "'s \<Rightarrow> u64 \<Rightarrow> bool"
  assumes dedust_total: "ok s \<Longrightarrow> \<exists>c. dedust s a = Inr c"
    and dedust_clean: "dedust s a = Inr c \<Longrightarrow> clean s c"
    and dedust_le: "dedust s a = Inr c \<Longrightarrow> unat c \<le> unat a"
    and clean_diff: "clean s a \<Longrightarrow> clean s b \<Longrightarrow> unat b \<le> unat a \<Longrightarrow> clean s (a - b)"
    and clean_exact: "ok s \<Longrightarrow> clean s a \<Longrightarrow> \<exists>sd. to_sd s a = Inr sd \<and> to_ld s sd = Inr a"
begin

text \<open>The net amount (an amount without dust less a fee without dust) is carried exactly.\<close>

lemma net_carried_exactly:
  assumes "ok s" and "dedust s gross = Inr a" and "dedust s f = Inr fee" and "u_sub a fee = Inr net"
  shows "\<exists>sd. to_sd s net = Inr sd \<and> to_ld s sd = Inr net"
proof -
  have "unat fee \<le> unat a" and "net = a - fee"
    using assms(4) by (auto simp: u_sub_def split: if_splits)
  then have "clean s net"
    using assms(2,3) by (auto intro: clean_diff dedust_clean)
  with assms(1) show ?thesis by (rule clean_exact)
qed

end

interpretation dec: decimal_conversion "\<lambda>s. os_ld2sd_rate s \<noteq> 0" ld2sd sd2ld remove_dust
  "\<lambda>s a. rate s dvd unat a"
proof unfold_locales
  fix s :: OFTStore and a assume "os_ld2sd_rate s \<noteq> 0" then show "\<exists>c. remove_dust s a = Inr c"
    by (rule remove_dust_ok)
next
  fix s a c assume "remove_dust s a = Inr c" then show "rate s dvd unat c"
    by (rule remove_dust_dvd)
next
  fix s a c assume "remove_dust s a = Inr c" then show "unat c \<le> unat a"
    by (rule remove_dust_le)
next
  fix s :: OFTStore and a b :: u64
  assume "rate s dvd unat a" "rate s dvd unat b" "unat b \<le> unat a"
  then show "rate s dvd unat (a - b)" by (simp add: unat_sub word_le_nat_alt)
next
  fix s :: OFTStore and a :: u64
  assume nz: "os_ld2sd_rate s \<noteq> 0" and dvd: "rate s dvd unat a"
  have "ld2sd s a = Inr (a div os_ld2sd_rate s)" using nz by (simp add: ld2sd_def u_div_def)
  moreover have "sd2ld s (a div os_ld2sd_rate s) = Inr a"
    using dvd by (simp add: int_iff unat_div)
  ultimately show "\<exists>sd. ld2sd s a = Inr sd \<and> sd2ld s sd = Inr a" by blast
qed

section \<open>Properties\<close>

text \<open>
  C30: decimal conversion is exact up to dust. For a store with a non-zero rate, removing
  the dust never panics, yields the largest multiple of the rate not above the amount, and
  what it yields converts to shared decimals and back to itself.
\<close>

theorem remove_dust_exact:
  assumes "os_ld2sd_rate s \<noteq> 0"
  shows "\<exists>c sd. remove_dust s a = Inr c \<and> rate s dvd unat c \<and> unat c \<le> unat a
           \<and> unat a < unat c + rate s \<and> ld2sd s a = Inr sd \<and> ld2sd s c = Inr sd \<and> sd2ld s sd = Inr c"
proof -
  obtain c where c: "remove_dust s a = Inr c" using dec.dedust_total assms by blast
  have v: "unat c = unat a div rate s * rate s" using c by (simp add: int_iff minus_mod_eq_div_mult)
  have "ld2sd s a = Inr (a div os_ld2sd_rate s)" using assms by (simp add: ld2sd_def u_div_def)
  moreover have "ld2sd s c = Inr (a div os_ld2sd_rate s)"
    using assms v rate_pos [of s] by (simp add: int_iff unat_div)
  moreover have "sd2ld s (a div os_ld2sd_rate s) = Inr c" using v by (simp add: int_iff unat_div)
  ultimately show ?thesis
    using c remove_dust_dvd [OF c] remove_dust_le [OF c] remove_dust_near [OF c] by blast
qed

text \<open>A six-decimals token on a chain whose token has nine: the rate is \<open>1000\<close>.\<close>

definition example_store :: "OFTType \<Rightarrow> OFTStore" where
  "example_store t = \<lparr>os_oft_type = t, os_ld2sd_rate = 1000, os_token_mint = repeat32 1,
     os_token_escrow = repeat32 2, os_endpoint_program = repeat32 3, os_bump = 255,
     os_tvl_ld = 0, os_admin = repeat32 4, os_default_fee_bps = 0, os_paused = False,
     os_pauser = None, os_unpauser = None\<rparr>"

theorem remove_dust_exact_witness:
  "os_ld2sd_rate (example_store Native) \<noteq> 0 \<and> remove_dust (example_store Native) 1234567 = Inr 1234000
   \<and> (\<exists>sd. sd2ld (example_store Native) sd = Inr 1234000)"
proof -
  have h: "os_ld2sd_rate (example_store Native) \<noteq> 0" by (simp add: example_store_def)
  have "remove_dust (example_store Native) 1234567 = Inr 1234000"
    by (simp add: example_store_def int_iff)
  with h remove_dust_exact [OF h, of 1234567] show ?thesis by auto
qed

end
