(* ===== verification/OFT_Runtime.thy ===== *)
theory OFT_Runtime
  imports OFT_Prelude
begin

text \<open>
  Everything the program calls and does not contain: the Solana runtime (addresses, system
  program, clock), the SPL token programs, the associated-token program, LayerZero's
  endpoint and the \<^verbatim>\<open>oapp\<close> helper crate. None of it is defined here. It is the record
  \<open>runtime\<close>, an argument of every definition that calls out; \<open>'x\<close> is the state those
  programs own. A cross-program invocation takes that state and returns the new one or an
  error, and cannot touch the accounts of the OFT program.

  The data types below are the ones of those crates that the program reads or builds,
  restricted to the fields it uses.
\<close>

section \<open>Data exchanged with other programs\<close>

record Clock =
  ck_unix_timestamp :: i64
  ck_epoch :: u64

text \<open>An account as a transaction names it.\<close>

record AccountInfo =
  ai_key :: pubkey
  ai_is_signer :: bool
  ai_is_writable :: bool

record LzAccount =
  la_pubkey :: pubkey
  la_is_signer :: bool
  la_is_writable :: bool

record TransferFee =
  tf_maximum_fee :: u64
  tf_transfer_fee_basis_points :: u16

text \<open>The extension \<^verbatim>\<open>TransferFeeConfig\<close> is used through \<^verbatim>\<open>get_epoch_fee\<close> only.\<close>

type_synonym TransferFeeConfig = "u64 \<Rightarrow> TransferFee"

text \<open>\<open>mi_token_program\<close> and \<open>ta_token_program\<close> are the owners of the accounts.\<close>

record Mint =
  mi_token_program :: pubkey
  mi_decimals :: u8
  mi_mint_authority :: "pubkey option"

record TokenAccount =
  ta_token_program :: pubkey
  ta_mint :: pubkey
  ta_owner :: pubkey
  ta_amount :: u64

record MessagingFee =
  mf_native_fee :: u64
  mf_lz_token_fee :: u64

record MessagingReceipt =
  mr_guid :: bytes32
  mr_nonce :: u64
  mr_fee :: MessagingFee

record EndpointSendParams =
  es_dst_eid :: u32
  es_receiver :: bytes32
  es_message :: bytes
  es_options :: bytes
  es_native_fee :: u64
  es_lz_token_fee :: u64

record QuoteParams =
  qp_sender :: pubkey
  qp_dst_eid :: u32
  qp_receiver :: bytes32
  qp_message :: bytes
  qp_pay_in_lz_token :: bool
  qp_options :: bytes

record ClearParams =
  cl_receiver :: pubkey
  cl_src_eid :: u32
  cl_sender :: bytes32
  cl_nonce :: u64
  cl_guid :: bytes32
  cl_message :: bytes

record SendComposeParams =
  co_to :: pubkey
  co_guid :: bytes32
  co_index :: u16
  co_message :: bytes

record LzReceiveParams =
  lp_src_eid :: u32
  lp_sender :: bytes32
  lp_nonce :: u64
  lp_guid :: bytes32
  lp_message :: bytes

section \<open>The runtime\<close>

text \<open>Constants and addresses, then the token side, then the endpoint side.\<close>

record 'x solana =
  program_id :: pubkey
  SYSTEM_PROGRAM_ID :: pubkey
  ASSOCIATED_TOKEN_ID :: pubkey
  EVENT_AUTHORITY_SEED :: bytes
  create_program_address :: "bytes list \<Rightarrow> pubkey \<Rightarrow> pubkey option"
  find_program_address :: "bytes list \<Rightarrow> pubkey \<Rightarrow> pubkey \<times> u8"
  create_account :: "'x \<Rightarrow> pubkey \<Rightarrow> pubkey \<Rightarrow> nat \<Rightarrow> 'x result"

record 'x token_api = "'x solana" +
  is_token_program :: "pubkey \<Rightarrow> bool"
  get_mint :: "'x \<Rightarrow> pubkey \<Rightarrow> Mint result"
  get_transfer_fee_config :: "'x \<Rightarrow> pubkey \<Rightarrow> TransferFeeConfig option result"
  get_token_account :: "'x \<Rightarrow> pubkey \<Rightarrow> TokenAccount result"
  is_uninitialized :: "'x \<Rightarrow> pubkey \<Rightarrow> bool"
  get_associated_token_address :: "pubkey \<Rightarrow> pubkey \<Rightarrow> pubkey \<Rightarrow> pubkey"
  create_token_account :: "'x \<Rightarrow> pubkey \<Rightarrow> pubkey \<Rightarrow> pubkey \<Rightarrow> pubkey \<Rightarrow> pubkey \<Rightarrow> 'x result"
  create_associated_token :: "'x \<Rightarrow> pubkey \<Rightarrow> pubkey \<Rightarrow> pubkey \<Rightarrow> pubkey \<Rightarrow> pubkey \<Rightarrow> 'x result"
  transfer_checked :: "Clock result \<Rightarrow> 'x \<Rightarrow> pubkey \<Rightarrow> pubkey \<Rightarrow> pubkey \<Rightarrow> pubkey \<Rightarrow> pubkey \<Rightarrow>
    bytes list option \<Rightarrow> u64 \<Rightarrow> u8 \<Rightarrow> 'x result"
  burn :: "'x \<Rightarrow> pubkey \<Rightarrow> pubkey \<Rightarrow> pubkey \<Rightarrow> pubkey \<Rightarrow> u64 \<Rightarrow> 'x result"
  mint_to :: "'x \<Rightarrow> pubkey \<Rightarrow> pubkey \<Rightarrow> pubkey \<Rightarrow> pubkey \<Rightarrow> pubkey list \<Rightarrow> bytes list \<Rightarrow> u64 \<Rightarrow> 'x result"
  calculate_post_fee_amount :: "TransferFee \<Rightarrow> u64 \<Rightarrow> u64 option"

record 'x runtime = "'x token_api" +
  ENDPOINT_ID :: pubkey
  LZ_RECEIVE_TYPES_SEED :: bytes
  EVENT_SEED :: bytes
  CLEAR_MIN_ACCOUNTS_LEN :: nat
  options_combine :: "bytes \<Rightarrow> bytes \<Rightarrow> bytes result"
  assert_type_3 :: "bytes \<Rightarrow> unit result"
  endpoint_register_oapp :: "'x \<Rightarrow> pubkey \<Rightarrow> pubkey \<Rightarrow> AccountInfo list \<Rightarrow> bytes list \<Rightarrow> pubkey \<Rightarrow> 'x result"
  endpoint_set_delegate :: "'x \<Rightarrow> pubkey \<Rightarrow> pubkey \<Rightarrow> AccountInfo list \<Rightarrow> bytes list \<Rightarrow> pubkey \<Rightarrow> 'x result"
  endpoint_send :: "'x \<Rightarrow> pubkey \<Rightarrow> pubkey \<Rightarrow> AccountInfo list \<Rightarrow> bytes list \<Rightarrow> EndpointSendParams \<Rightarrow>
    (MessagingReceipt \<times> 'x) result"
  endpoint_quote :: "'x \<Rightarrow> pubkey \<Rightarrow> AccountInfo list \<Rightarrow> QuoteParams \<Rightarrow> MessagingFee result"
  endpoint_clear :: "'x \<Rightarrow> pubkey \<Rightarrow> pubkey \<Rightarrow> AccountInfo list \<Rightarrow> bytes list \<Rightarrow> ClearParams \<Rightarrow> 'x result"
  endpoint_send_compose :: "'x \<Rightarrow> pubkey \<Rightarrow> pubkey \<Rightarrow> AccountInfo list \<Rightarrow> bytes list \<Rightarrow>
    SendComposeParams \<Rightarrow> 'x result"
  get_accounts_for_clear :: "pubkey \<Rightarrow> pubkey \<Rightarrow> u32 \<Rightarrow> bytes32 \<Rightarrow> u64 \<Rightarrow> LzAccount list"
  get_accounts_for_send_compose :: "pubkey \<Rightarrow> pubkey \<Rightarrow> pubkey \<Rightarrow> bytes32 \<Rightarrow> u16 \<Rightarrow> bytes \<Rightarrow> LzAccount list"

text \<open>\<^verbatim>\<open>Clock::get()?.unix_timestamp.try_into().unwrap()\<close>: a time before 1970 panics.\<close>

definition now :: "Clock result \<Rightarrow> u64 result" where
  "now clock = and_then clock (\<lambda>c. ok_or (try_u64_of_i64 (ck_unix_timestamp c)) (Panic UnwrapOnErr))"

text \<open>The balance of a token account; an address that holds none counts as 0.\<close>

definition balance :: "'x runtime \<Rightarrow> 'x \<Rightarrow> pubkey \<Rightarrow> nat" where
  "balance rt x k = (case get_token_account rt x k of Inl _ \<Rightarrow> 0 | Inr ta \<Rightarrow> unat (ta_amount ta))"

end
