(* ===== verification/Rate_Limiter.thy ===== *)
theory Rate_Limiter
  imports OFT_Runtime
begin

text \<open>
  The token bucket of \<^verbatim>\<open>state/peer_config.rs\<close> (field prefix \<open>rl_\<close>). The code computes with
  saturating 64-bit operations; the abstract bucket below computes over the naturals and
  never saturates. The refinement lemmas say that both agree, because the result is capped
  at the capacity, which is itself a 64-bit value.
\<close>

section \<open>Definitions\<close>

record RateLimiter =
  rl_capacity :: u64
  rl_tokens :: u64
  rl_refill_per_second :: u64
  rl_last_refill_time :: u64

text \<open>The derived \<^verbatim>\<open>Default\<close>.\<close>

definition RateLimiter_default :: RateLimiter where
  "RateLimiter_default =
     \<lparr>rl_capacity = 0, rl_tokens = 0, rl_refill_per_second = 0, rl_last_refill_time = 0\<rparr>"

definition refill :: "Clock result \<Rightarrow> RateLimiter \<Rightarrow> u64 \<Rightarrow> RateLimiter result" where
  "refill clock self extra_tokens =
     and_then (now clock) (\<lambda>current_time.
     and_then
       (if current_time > rl_last_refill_time self
        then and_then (u_sub current_time (rl_last_refill_time self)) (\<lambda>time_elapsed_in_seconds.
             Inr (saturating_add extra_tokens
                    (saturating_mul time_elapsed_in_seconds (rl_refill_per_second self))))
        else Inr extra_tokens) (\<lambda>new_tokens.
     Inr (self\<lparr>rl_tokens := min (rl_capacity self) (saturating_add (rl_tokens self) new_tokens),
               rl_last_refill_time := current_time\<rparr>)))"

definition set_rate :: "Clock result \<Rightarrow> RateLimiter \<Rightarrow> u64 \<Rightarrow> RateLimiter result" where
  "set_rate clock self refill_per_second =
     and_then (refill clock self 0) (\<lambda>self'.
     Inr (self'\<lparr>rl_refill_per_second := refill_per_second\<rparr>))"

definition set_capacity :: "Clock result \<Rightarrow> RateLimiter \<Rightarrow> u64 \<Rightarrow> RateLimiter result" where
  "set_capacity clock self capacity =
     and_then (now clock) (\<lambda>t.
     Inr (self\<lparr>rl_capacity := capacity, rl_tokens := capacity, rl_last_refill_time := t\<rparr>))"

definition try_consume :: "Clock result \<Rightarrow> RateLimiter \<Rightarrow> u64 \<Rightarrow> RateLimiter result" where
  "try_consume clock self amount =
     and_then (refill clock self 0) (\<lambda>self'.
     (case checked_sub (rl_tokens self') amount of
        Some new_tokens \<Rightarrow> Inr (self'\<lparr>rl_tokens := new_tokens\<rparr>)
      | None \<Rightarrow> Inl (OFT RateLimitExceeded)))"

section \<open>Time\<close>

abbreviation clk_time :: "Clock \<Rightarrow> nat" where
  "clk_time c \<equiv> unat (ck_unix_timestamp c)"

lemma now_Inr: "(now (Inr c) = Inr t) = (0 \<le> sint (ck_unix_timestamp c) \<and> t = ck_unix_timestamp c)"
  by (auto simp: now_def try_u64_of_i64_def ok_or_def split: if_splits)

lemma now_time: "now (Inr c) = Inr t \<Longrightarrow> unat t = clk_time c"
  by (simp add: now_Inr)

section \<open>The abstract bucket\<close>

record bucket =
  bk_cap :: nat
  bk_level :: nat
  bk_rate :: nat
  bk_last :: nat

definition bucket_of :: "RateLimiter \<Rightarrow> bucket" where
  "bucket_of r = \<lparr>bk_cap = unat (rl_capacity r), bk_level = unat (rl_tokens r),
     bk_rate = unat (rl_refill_per_second r), bk_last = unat (rl_last_refill_time r)\<rparr>"

text \<open>What is in the bucket at time \<open>t\<close>, before it is written back.\<close>

definition bucket_at :: "bucket \<Rightarrow> nat \<Rightarrow> nat" where
  "bucket_at b t = min (bk_cap b) (bk_level b + bk_rate b * (t - bk_last b))"

definition bucket_refill :: "nat \<Rightarrow> bucket \<Rightarrow> nat \<Rightarrow> bucket" where
  "bucket_refill t b extra =
     b\<lparr>bk_level := min (bk_cap b) (bk_level b + extra + bk_rate b * (t - bk_last b)), bk_last := t\<rparr>"

definition bucket_consume :: "nat \<Rightarrow> bucket \<Rightarrow> nat \<Rightarrow> bucket option" where
  "bucket_consume t b n =
     (if n \<le> bucket_at b t then Some (b\<lparr>bk_level := bucket_at b t - n, bk_last := t\<rparr>) else None)"

lemma bucket_consume_Some:
  "(bucket_consume t b n = Some b') =
     (n \<le> bucket_at b t \<and> b' = b\<lparr>bk_level := bucket_at b t - n, bk_last := t\<rparr>)"
  by (auto simp: bucket_consume_def)

section \<open>Refinement\<close>

lemma min_saturated:
  fixes c m :: nat
  assumes "c \<le> m"
  shows "min c (min m (k + min m (e + min m p))) = min c (k + e + p)"
  using assms by (simp add: min_def)

text \<open>\<open>refilled\<close> names what \<^verbatim>\<open>refill\<close> writes back.\<close>

definition refilled :: "u64 \<Rightarrow> RateLimiter \<Rightarrow> u64 \<Rightarrow> RateLimiter" where
  "refilled t self extra =
     self\<lparr>rl_tokens := min (rl_capacity self) (saturating_add (rl_tokens self)
            (if t > rl_last_refill_time self
             then saturating_add extra (saturating_mul (t - rl_last_refill_time self) (rl_refill_per_second self))
             else extra)),
          rl_last_refill_time := t\<rparr>"

lemma refill_eq: "refill clock self extra = and_then (now clock) (\<lambda>t. Inr (refilled t self extra))"
proof (cases "now clock")
  case (Inr t)
  show ?thesis
    by (auto simp: refill_def refilled_def Inr u_sub_def word_less_nat_alt)
qed (simp add: refill_def)

lemma unat_min: "unat (min a b) = min (unat a) (unat b)"
  by (simp add: min_def word_le_nat_alt)

lemma unat_refilled_tokens:
  "unat (rl_tokens (refilled t self extra))
     = min (unat (rl_capacity self))
         (unat (rl_tokens self) + unat extra
          + unat (rl_refill_per_second self) * (unat t - unat (rl_last_refill_time self)))"
proof -
  let ?M = "2 ^ LENGTH(64) - 1 :: nat"
  have cap: "unat (rl_capacity self) \<le> ?M"
    using unat_lt_len [of "rl_capacity self"] by (simp del: unsigned_less)
  have ext: "unat extra \<le> ?M" using unat_lt_len [of extra] by (simp del: unsigned_less)
  show ?thesis
  proof (cases "t > rl_last_refill_time self")
    case True
    then have "unat (t - rl_last_refill_time self) = unat t - unat (rl_last_refill_time self)"
      by (simp add: unat_sub word_le_nat_alt word_less_nat_alt)
    then show ?thesis
      using True min_saturated [OF cap]
      by (simp add: refilled_def unat_min unat_saturating_add unat_saturating_mul mult.commute)
  next
    case False
    then have "unat t - unat (rl_last_refill_time self) = 0" by (simp add: word_less_nat_alt)
    then show ?thesis
      using False min_saturated [OF cap, of _ 0 "unat extra"] ext
      by (simp add: refilled_def unat_min unat_saturating_add)
  qed
qed

lemma refilled_refines: "bucket_of (refilled t self extra) = bucket_refill (unat t) (bucket_of self) (unat extra)"
  by (simp add: bucket_of_def bucket_refill_def unat_refilled_tokens) (simp add: refilled_def)

lemma refill_ok:
  "refill (Inr c) self extra = Inr self' \<Longrightarrow>
     bucket_of self' = bucket_refill (clk_time c) (bucket_of self) (unat extra)"
  by (auto simp: refill_eq result_simps refilled_refines now_time)

lemma try_consume_eq:
  assumes "now clock = Inr t"
  shows "try_consume clock self a =
    (if unat a \<le> bucket_at (bucket_of self) (unat t)
     then Inr ((refilled t self 0)\<lparr>rl_tokens := rl_tokens (refilled t self 0) - a\<rparr>)
     else Inl (OFT RateLimitExceeded))"
  using assms by (auto simp: try_consume_def refill_eq checked_sub_def unat_refilled_tokens
      bucket_at_def bucket_of_def)

lemma try_consume_refines:
  assumes "now clock = Inr t"
  shows "map_option bucket_of (case try_consume clock self a of Inl _ \<Rightarrow> None | Inr s \<Rightarrow> Some s)
           = bucket_consume (unat t) (bucket_of self) (unat a)"
proof (cases "unat a \<le> bucket_at (bucket_of self) (unat t)")
  case True
  then have "unat (rl_tokens (refilled t self 0) - a) = bucket_at (bucket_of self) (unat t) - unat a"
    by (simp add: unat_sub word_le_nat_alt unat_refilled_tokens bucket_at_def bucket_of_def)
  with True show ?thesis
    by (simp add: try_consume_eq [OF assms] bucket_consume_def) (simp add: bucket_of_def refilled_def)
qed (simp add: try_consume_eq [OF assms] bucket_consume_def)

section \<open>Invariant\<close>

definition limiter_wf :: "RateLimiter \<Rightarrow> bool" where
  "limiter_wf r = (rl_tokens r \<le> rl_capacity r)"

lemma limiter_wf_bucket: "limiter_wf r = (bk_level (bucket_of r) \<le> bk_cap (bucket_of r))"
  by (simp add: limiter_wf_def bucket_of_def word_le_nat_alt)

lemma refilled_wf [simp, intro]: "limiter_wf (refilled t r e)"
  by (simp add: limiter_wf_def refilled_def)

lemma refill_wf: "refill clock r e = Inr r' \<Longrightarrow> limiter_wf r'"
  by (auto simp: refill_eq result_simps)

lemma set_rate_wf: "set_rate clock r n = Inr r' \<Longrightarrow> limiter_wf r'"
  by (auto simp: set_rate_def refill_eq result_simps limiter_wf_def refilled_def)

lemma set_capacity_wf: "set_capacity clock r n = Inr r' \<Longrightarrow> limiter_wf r'"
  by (auto simp: set_capacity_def result_simps limiter_wf_def)

lemma try_consume_wf:
  assumes "try_consume clock r a = Inr r'"
  shows "limiter_wf r'"
proof -
  obtain t where t: "now clock = Inr t"
    using assms by (auto simp: try_consume_def refill_eq result_simps)
  have "bucket_consume (unat t) (bucket_of r) (unat a) = Some (bucket_of r')"
    using try_consume_refines [OF t, of r a] assms by simp
  then show ?thesis
    by (auto simp: limiter_wf_bucket bucket_consume_Some bucket_at_def)
qed

lemma RateLimiter_default_wf [simp]: "limiter_wf RateLimiter_default"
  by (simp add: limiter_wf_def RateLimiter_default_def)

lemmas limiter_wf_intros = refill_wf set_rate_wf set_capacity_wf try_consume_wf

section \<open>What a bucket guarantees over time\<close>

text \<open>
  \<open>run_steps\<close> adds up what a sequence of timed steps hands out; \<open>timed\<close> says that the clock
  does not run backwards between \<open>t\<close> and \<open>t'\<close>.

  The contract a transfer path relies on. \<open>avail s t\<close> is what the limiter would let through
  at time \<open>t\<close>. One step at time \<open>t\<close> hands out \<open>c\<close> and may put back \<open>extra\<close>; over time the
  bucket gains at most \<open>speed\<close> per second and never holds more than \<open>cap\<close>.
\<close>

fun run_steps :: "('c \<Rightarrow> 's \<Rightarrow> 'op \<Rightarrow> 's \<times> nat) \<Rightarrow> 's \<Rightarrow> ('c \<times> 'op) list \<Rightarrow> 's \<times> nat" where
  "run_steps step s [] = (s, 0)"
| "run_steps step s ((c, op) # es) =
     (let (s', n) = step c s op; (s'', m) = run_steps step s' es in (s'', n + m))"

fun timed :: "('c \<Rightarrow> nat) \<Rightarrow> nat \<Rightarrow> ('c \<times> 'op) list \<Rightarrow> nat \<Rightarrow> bool" where
  "timed time t [] t' = (t \<le> t')"
| "timed time t ((c, op) # es) t' = (t \<le> time c \<and> timed time (time c) es t')"

lemma timed_le: "timed time t es t' \<Longrightarrow> t \<le> t'"
  by (induction time t es t' rule: timed.induct) auto

locale token_bucket =
  fixes avail :: "'s \<Rightarrow> nat \<Rightarrow> nat"
    and last speed cap :: "'s \<Rightarrow> nat"
    and time :: "'c \<Rightarrow> nat"
    and step :: "'c \<Rightarrow> 's \<Rightarrow> 'op \<Rightarrow> 's \<times> nat"
    and extra :: "'op \<Rightarrow> nat"
  assumes avail_cap: "avail s t \<le> cap s"
    and avail_grows: "last s \<le> t \<Longrightarrow> t \<le> t' \<Longrightarrow> avail s t' \<le> avail s t + speed s * (t' - t)"
    and step_pays: "last s \<le> time c \<Longrightarrow> step c s op = (s', n) \<Longrightarrow>
          avail s' (time c) + n \<le> avail s (time c) + extra op"
    and step_frame: "last s \<le> time c \<Longrightarrow> step c s op = (s', n) \<Longrightarrow>
          last s' \<le> time c \<and> speed s' = speed s \<and> cap s' = cap s"
begin

abbreviation extras :: "('c \<times> 'op) list \<Rightarrow> nat" where
  "extras es \<equiv> \<Sum>e\<leftarrow>es. extra (snd e)"

lemma run_bounded:
  "last s \<le> t \<Longrightarrow> timed time t es t' \<Longrightarrow> run_steps step s es = (s', n) \<Longrightarrow>
     n + avail s' t' \<le> avail s t + speed s * (t' - t) + extras es"
proof (induction es arbitrary: s t n)
  case Nil
  then show ?case using avail_grows [of s t t'] by simp
next
  case (Cons e es)
  obtain c op where e: "e = (c, op)" by (cases e)
  obtain s1 k where st: "step c s op = (s1, k)" by (cases "step c s op")
  obtain m where rn: "run_steps step s1 es = (s', m)" and n: "n = k + m"
    using Cons.prems(3) by (auto simp: e st split: prod.splits)
  have ts: "t \<le> time c" "timed time (time c) es t'" using Cons.prems(2) by (auto simp: e)
  then have le: "last s \<le> time c" using Cons.prems(1) by simp
  have fr: "last s1 \<le> time c" "speed s1 = speed s" using step_frame [OF le st] by auto
  have "m + avail s' t' \<le> avail s1 (time c) + speed s * (t' - time c) + extras es"
    using Cons.IH [OF fr(1) ts(2) rn] fr(2) by simp
  moreover have "avail s1 (time c) + k \<le> avail s (time c) + extra op" by (rule step_pays [OF le st])
  moreover have "avail s (time c) \<le> avail s t + speed s * (time c - t)"
    by (rule avail_grows [OF Cons.prems(1) ts(1)])
  moreover have "speed s * (t' - t) = speed s * (time c - t) + speed s * (t' - time c)"
    using ts(1) timed_le [OF ts(2)] by (simp flip: distrib_left)
  ultimately show ?case by (simp add: n e)
qed

text \<open>Whatever happened before: a window lets through at most a full bucket and its refill.\<close>

lemma run_window:
  assumes "last s \<le> t" and "timed time t es t'" and "run_steps step s es = (s', n)"
  shows "n \<le> cap s + speed s * (t' - t) + extras es"
  using run_bounded [OF assms] avail_cap [of s t] by linarith

end

text \<open>
  One use of a limiter by a transfer: an outgoing amount is taken from the outbound
  limiter, an incoming one is put back. A consume that fails aborts the transaction and
  leaves the limiter as it was.
\<close>

datatype limiter_op = Consume u64 | TopUp u64

definition limiter_step :: "Clock \<Rightarrow> RateLimiter \<Rightarrow> limiter_op \<Rightarrow> RateLimiter \<times> nat" where
  "limiter_step c r op = (case op of
      Consume a \<Rightarrow> (case try_consume (Inr c) r a of Inl _ \<Rightarrow> (r, 0) | Inr r' \<Rightarrow> (r', unat a))
    | TopUp e \<Rightarrow> (case refill (Inr c) r e of Inl _ \<Rightarrow> (r, 0) | Inr r' \<Rightarrow> (r', 0)))"

definition limiter_extra :: "limiter_op \<Rightarrow> nat" where
  "limiter_extra op = (case op of Consume _ \<Rightarrow> 0 | TopUp e \<Rightarrow> unat e)"

abbreviation limiter_avail :: "RateLimiter \<Rightarrow> nat \<Rightarrow> nat" where
  "limiter_avail r t \<equiv> bucket_at (bucket_of r) t"

lemma bucket_at_fresh: "bk_last b = t \<Longrightarrow> bucket_at b t = min (bk_cap b) (bk_level b)"
  by (simp add: bucket_at_def)

lemma limiter_step_cases:
  assumes "limiter_step c r op = (r', n)"
  obtains (unchanged) "r' = r" "n = 0"
  | (consumed) a where "op = Consume a" "n = unat a"
      "bucket_consume (clk_time c) (bucket_of r) n = Some (bucket_of r')"
  | (topped) e where "op = TopUp e" "n = 0"
      "bucket_of r' = bucket_refill (clk_time c) (bucket_of r) (unat e)"
proof (cases op)
  case (Consume a)
  show ?thesis
  proof (cases "try_consume (Inr c) r a")
    case (Inr s)
    then obtain t where t: "now (Inr c) = Inr t"
      by (auto simp: try_consume_def refill_eq result_simps)
    show ?thesis
      using consumed [OF Consume] assms Inr try_consume_refines [OF t, of r a] now_time [OF t]
      by (simp add: limiter_step_def Consume)
  qed (use assms unchanged in \<open>simp add: limiter_step_def Consume\<close>)
next
  case (TopUp e)
  then show ?thesis
    using assms unchanged topped [OF TopUp] refill_ok [of c r e r']
    by (auto simp: limiter_step_def split: sum.splits)
qed

interpretation rl: token_bucket limiter_avail "\<lambda>r. bk_last (bucket_of r)" "\<lambda>r. bk_rate (bucket_of r)"
  "\<lambda>r. bk_cap (bucket_of r)" clk_time limiter_step limiter_extra
proof unfold_locales
  fix r t show "limiter_avail r t \<le> bk_cap (bucket_of r)" by (simp add: bucket_at_def)
next
  fix r t t' assume "bk_last (bucket_of r) \<le> t" "t \<le> t'"
  then have "t' - bk_last (bucket_of r) = (t - bk_last (bucket_of r)) + (t' - t)" by simp
  then show "limiter_avail r t' \<le> limiter_avail r t + bk_rate (bucket_of r) * (t' - t)"
    by (simp add: bucket_at_def distrib_left)
next
  fix r c op r' n
  assume "bk_last (bucket_of r) \<le> clk_time c" and "limiter_step c r op = (r', n)"
  from this(2) show "limiter_avail r' (clk_time c) + n \<le> limiter_avail r (clk_time c) + limiter_extra op"
    by (cases rule: limiter_step_cases)
      (auto simp: bucket_consume_Some bucket_refill_def bucket_at_def limiter_extra_def)
next
  fix r c op r' n
  assume "bk_last (bucket_of r) \<le> clk_time c" and "limiter_step c r op = (r', n)"
  from this(2,1) show "bk_last (bucket_of r') \<le> clk_time c \<and> bk_rate (bucket_of r') = bk_rate (bucket_of r)
      \<and> bk_cap (bucket_of r') = bk_cap (bucket_of r)"
    by (cases rule: limiter_step_cases)
      (auto simp: bucket_consume_Some bucket_refill_def)
qed

section \<open>Properties\<close>

text \<open>
  C19: the saturating refill is the exact refill. At any clock reading from 1970 on,
  \<^verbatim>\<open>refill\<close> succeeds and leaves \<open>min(capacity, tokens + extra + rate * elapsed)\<close> computed
  without overflow, where a clock that did not advance adds nothing; capacity and rate are
  kept and the time of the refill is recorded.
\<close>

theorem refill_exact:
  assumes "0 \<le> sint (ck_unix_timestamp c)"
  shows "\<exists>r'. refill (Inr c) r e = Inr r'
     \<and> unat (rl_tokens r') = min (unat (rl_capacity r)) (unat (rl_tokens r) + unat e
          + unat (rl_refill_per_second r) * (clk_time c - unat (rl_last_refill_time r)))
     \<and> rl_capacity r' = rl_capacity r \<and> rl_refill_per_second r' = rl_refill_per_second r
     \<and> rl_last_refill_time r' = ck_unix_timestamp c"
proof -
  have "now (Inr c) = Inr (ck_unix_timestamp c)" using assms by (simp add: now_Inr)
  then have "refill (Inr c) r e = Inr (refilled (ck_unix_timestamp c) r e)" by (simp add: refill_eq)
  then show ?thesis
    by (simp add: unat_refilled_tokens) (simp add: refilled_def)
qed

text \<open>A limiter of capacity 100 that gains 2 tokens a second, last touched at time 1000.\<close>

definition example_limiter :: RateLimiter where
  "example_limiter = \<lparr>rl_capacity = 100, rl_tokens = 10, rl_refill_per_second = 2, rl_last_refill_time = 1000\<rparr>"

definition clock_at :: "u64 \<Rightarrow> Clock" where
  "clock_at t = \<lparr>ck_unix_timestamp = t, ck_epoch = 0\<rparr>"

theorem refill_exact_witness:
  "\<exists>r'. refill (Inr (clock_at 1020)) example_limiter 5 = Inr r' \<and> unat (rl_tokens r') = 55"
  using refill_exact [of "clock_at 1020" example_limiter 5]
  by (auto simp: clock_at_def example_limiter_def)

text \<open>
  C18: \<^verbatim>\<open>try_consume\<close> decides exactly. At any clock reading from 1970 on it succeeds iff the
  amount is at most what the bucket holds after the refill, then takes exactly that amount,
  and fails with \<^verbatim>\<open>RateLimitExceeded\<close> otherwise, never with another error.
\<close>

theorem try_consume_exact:
  assumes "0 \<le> sint (ck_unix_timestamp c)"
  shows "if unat a \<le> min (unat (rl_capacity r)) (unat (rl_tokens r)
              + unat (rl_refill_per_second r) * (clk_time c - unat (rl_last_refill_time r)))
     then \<exists>r0 r'. refill (Inr c) r 0 = Inr r0 \<and> try_consume (Inr c) r a = Inr r'
            \<and> r' = r0\<lparr>rl_tokens := rl_tokens r'\<rparr> \<and> unat (rl_tokens r') + unat a = unat (rl_tokens r0)
     else try_consume (Inr c) r a = Inl (OFT RateLimitExceeded)"
proof -
  let ?t = "ck_unix_timestamp c"
  have t: "now (Inr c) = Inr ?t" using assms by (simp add: now_Inr)
  have "unat (rl_tokens (refilled ?t r 0) - a) + unat a = unat (rl_tokens (refilled ?t r 0))"
    if "unat a \<le> unat (rl_tokens (refilled ?t r 0))"
    using that by (simp add: unat_sub word_le_nat_alt)
  then show ?thesis
    by (simp add: try_consume_eq [OF t] refill_eq t bucket_at_def bucket_of_def unat_refilled_tokens)
qed

theorem try_consume_exact_witness:
  "(\<exists>r'. try_consume (Inr (clock_at 1020)) example_limiter 50 = Inr r')
   \<and> try_consume (Inr (clock_at 1020)) example_limiter 51 = Inl (OFT RateLimitExceeded)"
  using try_consume_exact [of "clock_at 1020" 50 example_limiter]
    try_consume_exact [of "clock_at 1020" 51 example_limiter]
  by (auto simp: clock_at_def example_limiter_def)

text \<open>
  C15: the rate limit. Whatever the limiter's history, any sequence of consumes and top-ups
  at non-decreasing clock times between \<open>t\<close> and \<open>t'\<close> lets through at most one full bucket
  plus the refill of the window plus what came back in the other direction.
\<close>

theorem limiter_window_bound:
  assumes "unat (rl_last_refill_time r) \<le> t" and "timed clk_time t es t'"
    and "run_steps limiter_step r es = (r', n)"
  shows "n \<le> unat (rl_capacity r) + unat (rl_refill_per_second r) * (t' - t)
           + (\<Sum>e\<leftarrow>es. limiter_extra (snd e))"
  using rl.run_window [of r t es t' r' n] assms by (simp add: bucket_of_def)

theorem limiter_window_bound_witness:
  "snd (run_steps limiter_step example_limiter
     [(clock_at 1000, Consume 10), (clock_at 1005, Consume 11), (clock_at 1010, Consume 20)]) = 30
   \<and> (30::nat) \<le> 100 + 2 * 10"
proof -
  let ?es = "[(clock_at 1000, Consume 10), (clock_at 1005, Consume 11), (clock_at 1010, Consume 20)]"
  have "snd (run_steps limiter_step example_limiter ?es) = 30"
    by (simp add: limiter_step_def try_consume_def refill_eq now_def clock_at_def try_u64_of_i64_def
        example_limiter_def refilled_def saturating_add_def saturating_mul_def checked_sub_def min_def)
  moreover have "snd (run_steps limiter_step example_limiter ?es) \<le> 100 + 2 * 10"
    using limiter_window_bound [of example_limiter 1000 ?es 1010, OF _ _ prod.collapse [symmetric]]
    by (simp add: example_limiter_def clock_at_def limiter_extra_def del: run_steps.simps)
  ultimately show ?thesis by simp
qed

end
