(* ===== verification/Peer_Config.thy ===== *)
theory Peer_Config
  imports Rate_Limiter
begin

text \<open>
  The per-destination account (\<^verbatim>\<open>state/peer_config.rs\<close>): peer address, enforced executor
  options, optional fee, and one optional token-bucket rate limiter per direction. Field
  prefixes: \<open>eo_\<close> for \<^verbatim>\<open>EnforcedOptions\<close>, \<open>pc_\<close> for \<^verbatim>\<open>PeerConfig\<close>.
\<close>

section \<open>Definitions\<close>

definition ENFORCED_OPTIONS_SEND_MAX_LEN :: nat where
  "ENFORCED_OPTIONS_SEND_MAX_LEN = 512"

definition ENFORCED_OPTIONS_SEND_AND_CALL_MAX_LEN :: nat where
  "ENFORCED_OPTIONS_SEND_AND_CALL_MAX_LEN = 1024"

record EnforcedOptions =
  eo_send :: bytes
  eo_send_and_call :: bytes

definition EnforcedOptions_default :: EnforcedOptions where
  "EnforcedOptions_default = \<lparr>eo_send = [], eo_send_and_call = []\<rparr>"

definition get_enforced_options :: "EnforcedOptions \<Rightarrow> bytes option \<Rightarrow> bytes" where
  "get_enforced_options self composed_msg =
     (if composed_msg = None then eo_send self else eo_send_and_call self)"

definition combine_options :: "'x runtime \<Rightarrow> EnforcedOptions \<Rightarrow> bytes option \<Rightarrow> bytes \<Rightarrow> bytes result" where
  "combine_options rt self compose_msg extra_options =
     options_combine rt (get_enforced_options self compose_msg) extra_options"

record PeerConfig =
  pc_peer_address :: bytes32
  pc_enforced_options :: EnforcedOptions
  pc_outbound_rate_limiter :: "RateLimiter option"
  pc_inbound_rate_limiter :: "RateLimiter option"
  pc_fee_bps :: "u16 option"
  pc_bump :: u8

text \<open>
  The account a fresh \<^verbatim>\<open>init\<close> yields: all bytes zero. \<open>PeerConfig_INIT_SPACE\<close> is the derived
  \<^verbatim>\<open>InitSpace\<close> (with the two \<^verbatim>\<open>max_len\<close> attributes), \<open>PeerConfig_size\<close> the Borsh size of a
  value: 4 bytes of length before each vector, one tag byte before each option.
\<close>

definition PeerConfig_zero :: PeerConfig where
  "PeerConfig_zero = \<lparr>pc_peer_address = repeat32 0, pc_enforced_options = EnforcedOptions_default,
     pc_outbound_rate_limiter = None, pc_inbound_rate_limiter = None, pc_fee_bps = None, pc_bump = 0\<rparr>"

definition PeerConfig_INIT_SPACE :: nat where
  "PeerConfig_INIT_SPACE = 32
     + ((4 + ENFORCED_OPTIONS_SEND_MAX_LEN) + (4 + ENFORCED_OPTIONS_SEND_AND_CALL_MAX_LEN))
     + (1 + 4 * 8) + (1 + 4 * 8) + (1 + 2) + 1"

definition option_size :: "nat \<Rightarrow> 'a option \<Rightarrow> nat" where
  "option_size n m = (case m of None \<Rightarrow> 1 | Some _ \<Rightarrow> 1 + n)"

definition PeerConfig_size :: "PeerConfig \<Rightarrow> nat" where
  "PeerConfig_size p = 32
     + ((4 + length (eo_send (pc_enforced_options p))) + (4 + length (eo_send_and_call (pc_enforced_options p))))
     + option_size (4 * 8) (pc_outbound_rate_limiter p) + option_size (4 * 8) (pc_inbound_rate_limiter p)
     + option_size 2 (pc_fee_bps p) + 1"

end
