(* ===== verification/OFT_World.thy ===== *)
theory OFT_World
  imports OFT_Store Peer_Config
begin

text \<open>
  The state the OFT program owns and the account checks its instructions share. The
  program's accounts are one map from addresses to tagged values (the tag is Anchor's
  discriminator); \<open>ext\<close> is what the called programs own; \<open>events\<close> is the log of emitted
  events (\<^verbatim>\<open>events.rs\<close>). A transaction that fails leaves no trace, so an instruction is a
  function to \<open>world result\<close>.

  Account constraints are the attributes of the \<^verbatim>\<open>#[derive(Accounts)]\<close> structs, evaluated as
  Anchor documents them: first every account is loaded in field order, then the constraints
  are checked in field order (\<^verbatim>\<open>init\<close> fields before the others), within a field \<^verbatim>\<open>seeds\<close>,
  \<^verbatim>\<open>mut\<close>, \<^verbatim>\<open>has_one\<close>, \<^verbatim>\<open>constraint\<close>, \<^verbatim>\<open>address\<close>, \<^verbatim>\<open>token\<close>.
\<close>

section \<open>State\<close>

record OFTSent =
  sent_guid :: bytes32
  sent_dst_eid :: u32
  sent_from :: pubkey
  sent_amount_sent_ld :: u64
  sent_amount_received_ld :: u64

record OFTReceived =
  recv_guid :: bytes32
  recv_src_eid :: u32
  recv_to :: pubkey
  recv_amount_received_ld :: u64

datatype oft_event = Sent OFTSent | Received OFTReceived

datatype oft_account =
    AOFTStore OFTStore
  | APeerConfig PeerConfig
  | ALzReceiveTypes LzReceiveTypesAccounts

record 'x world =
  accounts :: "pubkey \<rightharpoonup> oft_account"
  events :: "oft_event list"
  ext :: 'x

section \<open>Addresses\<close>

definition OFT_SEED :: bytes where "OFT_SEED = [0x4F, 0x46, 0x54]"

definition PEER_SEED :: bytes where "PEER_SEED = [0x50, 0x65, 0x65, 0x72]"

definition ENFORCED_OPTIONS_SEED :: bytes where
  "ENFORCED_OPTIONS_SEED = [0x45, 0x6E, 0x66, 0x6F, 0x72, 0x63, 0x65, 0x64, 0x4F, 0x70, 0x74, 0x69, 0x6F, 0x6E, 0x73]"

abbreviation oft_seeds :: "pubkey \<Rightarrow> bytes list" where
  "oft_seeds escrow \<equiv> [OFT_SEED, to_bytes escrow]"

abbreviation peer_seeds :: "pubkey \<Rightarrow> u32 \<Rightarrow> bytes list" where
  "peer_seeds oft_store eid \<equiv> [PEER_SEED, to_bytes oft_store, be_bytes 4 eid]"

abbreviation signer_seeds :: "pubkey \<Rightarrow> u8 \<Rightarrow> bytes list" where
  "signer_seeds escrow bump \<equiv> [OFT_SEED, to_bytes escrow, [bump]]"

section \<open>Loading and checking accounts\<close>

definition load_oft_store :: "'x world \<Rightarrow> AccountInfo \<Rightarrow> OFTStore result" where
  "load_oft_store w ai = (case accounts w (ai_key ai) of
      None \<Rightarrow> Inl (Anchor AccountNotInitialized)
    | Some (AOFTStore s) \<Rightarrow> Inr s
    | Some _ \<Rightarrow> Inl (Anchor AccountDiscriminatorMismatch))"

definition load_peer :: "'x world \<Rightarrow> AccountInfo \<Rightarrow> PeerConfig result" where
  "load_peer w ai = (case accounts w (ai_key ai) of
      None \<Rightarrow> Inl (Anchor AccountNotInitialized)
    | Some (APeerConfig p) \<Rightarrow> Inr p
    | Some _ \<Rightarrow> Inl (Anchor AccountDiscriminatorMismatch))"

definition check_signer :: "AccountInfo \<Rightarrow> unit result" where
  "check_signer ai = require (ai_is_signer ai) (Anchor AccountNotSigner)"

definition check_mut :: "AccountInfo \<Rightarrow> unit result" where
  "check_mut ai = require (ai_is_writable ai) (Anchor ConstraintMut)"

text \<open>\<^verbatim>\<open>seeds = [...], bump = b\<close>: the address derived with the stored bump.\<close>

definition check_seeds :: "'x runtime \<Rightarrow> bytes list \<Rightarrow> u8 \<Rightarrow> AccountInfo \<Rightarrow> unit result" where
  "check_seeds rt seeds bump ai =
     require (create_program_address rt (seeds @ [[bump]]) (program_id rt) = Some (ai_key ai))
       (Anchor ConstraintSeeds)"

definition check_address :: "pubkey \<Rightarrow> AccountInfo \<Rightarrow> error \<Rightarrow> unit result" where
  "check_address k ai e = require (ai_key ai = k) e"

definition check_token :: "TokenAccount \<Rightarrow> pubkey option \<Rightarrow> pubkey \<Rightarrow> pubkey \<Rightarrow> unit result" where
  "check_token ta authority mint token_program =
     and_then (require (authority = None \<or> authority = Some (ta_owner ta)) (Anchor ConstraintTokenOwner)) (\<lambda>_.
     and_then (require (ta_mint ta = mint) (Anchor ConstraintTokenMint)) (\<lambda>_.
     require (ta_token_program ta = token_program) (Anchor ConstraintTokenTokenProgram)))"

definition check_mint_program :: "Mint \<Rightarrow> pubkey \<Rightarrow> unit result" where
  "check_mint_program mi token_program =
     require (mi_token_program mi = token_program) (Anchor ConstraintMintTokenProgram)"

text \<open>\<^verbatim>\<open>Interface<TokenInterface>\<close> and \<^verbatim>\<open>Program<...>\<close>: the account is the program itself.\<close>

definition check_token_program :: "'x runtime \<Rightarrow> AccountInfo \<Rightarrow> unit result" where
  "check_token_program rt ai = require (is_token_program rt (ai_key ai)) (Anchor InvalidProgramId)"

definition check_program :: "pubkey \<Rightarrow> AccountInfo \<Rightarrow> unit result" where
  "check_program k ai = require (ai_key ai = k) (Anchor InvalidProgramId)"

text \<open>
  The two accounts \<^verbatim>\<open>#[event_cpi]\<close> adds are the event authority, checked by its seeds, and the
  program, which has no constraint: \<^verbatim>\<open>emit_cpi!\<close> is a call of the program by itself, and it fails
  if the program is not among the accounts of the instruction.
\<close>

definition check_event_cpi :: "'x runtime \<Rightarrow> AccountInfo \<Rightarrow> unit result" where
  "check_event_cpi rt event_authority =
     require (ai_key event_authority = fst (find_program_address rt [EVENT_AUTHORITY_SEED rt] (program_id rt)))
       (Anchor ConstraintSeeds)"

definition emit_cpi :: "'x runtime \<Rightarrow> AccountInfo list \<Rightarrow> unit result" where
  "emit_cpi rt infos = require (program_id rt \<in> ai_key ` set infos) MissingAccount"

lemmas check_defs = check_signer_def check_mut_def check_seeds_def check_address_def check_token_def
  check_mint_program_def check_token_program_def check_program_def check_event_cpi_def

section \<open>Writing accounts back\<close>

text \<open>
  Anchor serialises every \<^verbatim>\<open>mut\<close> account when the handler returns; a value longer than the
  account's data is an error. An \<^verbatim>\<open>OFTStore\<close> always fits, a \<^verbatim>\<open>PeerConfig\<close> need not: its two
  option vectors have no length check of their own.
\<close>

definition save_oft_store :: "'x world \<Rightarrow> AccountInfo \<Rightarrow> OFTStore \<Rightarrow> 'x world" where
  "save_oft_store w ai s = w\<lparr>accounts := (accounts w)(ai_key ai \<mapsto> AOFTStore s)\<rparr>"

definition save_peer :: "'x world \<Rightarrow> AccountInfo \<Rightarrow> PeerConfig \<Rightarrow> 'x world result" where
  "save_peer w ai p =
     (if PeerConfig_size p \<le> PeerConfig_INIT_SPACE
      then Inr (w\<lparr>accounts := (accounts w)(ai_key ai \<mapsto> APeerConfig p)\<rparr>)
      else Inl (Anchor AccountDidNotSerialize))"

definition save_lz_receive_types :: "'x world \<Rightarrow> AccountInfo \<Rightarrow> LzReceiveTypesAccounts \<Rightarrow> 'x world" where
  "save_lz_receive_types w ai l = w\<lparr>accounts := (accounts w)(ai_key ai \<mapsto> ALzReceiveTypes l)\<rparr>"

section \<open>Lemmas\<close>

lemma load_oft_store_Inr [result_simps]: "(load_oft_store w ai = Inr s) = (accounts w (ai_key ai) = Some (AOFTStore s))"
  by (auto simp: load_oft_store_def split: option.splits oft_account.splits)

lemma load_peer_Inr [result_simps]: "(load_peer w ai = Inr p) = (accounts w (ai_key ai) = Some (APeerConfig p))"
  by (auto simp: load_peer_def split: option.splits oft_account.splits)

lemma save_peer_Inr [result_simps]:
  "(save_peer w ai p = Inr w') =
     (PeerConfig_size p \<le> PeerConfig_INIT_SPACE \<and> w' = w\<lparr>accounts := (accounts w)(ai_key ai \<mapsto> APeerConfig p)\<rparr>)"
  by (auto simp: save_peer_def)

lemma save_oft_store_sel [simp]:
  "accounts (save_oft_store w ai s) = (accounts w)(ai_key ai \<mapsto> AOFTStore s)"
  "events (save_oft_store w ai s) = events w"
  "ext (save_oft_store w ai s) = ext w"
  by (simp_all add: save_oft_store_def)

lemma option_size_le: "option_size n m \<le> 1 + n"
  by (simp add: option_size_def split: option.splits)

text \<open>Options within their declared maxima always fit, whatever else the peer holds.\<close>

lemma PeerConfig_fits:
  assumes "length (eo_send (pc_enforced_options p)) \<le> ENFORCED_OPTIONS_SEND_MAX_LEN"
    and "length (eo_send_and_call (pc_enforced_options p)) \<le> ENFORCED_OPTIONS_SEND_AND_CALL_MAX_LEN"
  shows "PeerConfig_size p \<le> PeerConfig_INIT_SPACE"
  using assms option_size_le [of 32 "pc_outbound_rate_limiter p"]
    option_size_le [of 32 "pc_inbound_rate_limiter p"] option_size_le [of 2 "pc_fee_bps p"]
  by (simp add: PeerConfig_size_def PeerConfig_INIT_SPACE_def)

text \<open>Replacing a limiter by another one does not change the size.\<close>

lemma option_size_map [simp]: "option_size n (map_option f m) = option_size n m"
  by (simp add: option_size_def split: option.splits)

section \<open>What the runtime promises about addresses\<close>

text \<open>
  \<^verbatim>\<open>find_program_address\<close> returns an address together with the bump that
  \<^verbatim>\<open>create_program_address\<close> derives it with.
\<close>

definition pda_law :: "'x runtime \<Rightarrow> bool" where
  "pda_law rt = (\<forall>seeds k b. find_program_address rt seeds (program_id rt) = (k, b) \<longrightarrow>
     create_program_address rt (seeds @ [[b]]) (program_id rt) = Some k)"

text \<open>The address of the OFT whose escrow is \<open>e\<close>.\<close>

abbreviation oft_pda :: "'x runtime \<Rightarrow> pubkey \<Rightarrow> pubkey" where
  "oft_pda rt e \<equiv> fst (find_program_address rt (oft_seeds e) (program_id rt))"

end
