(* ===== verification/Example_Ledger.thy ===== *)
theory Example_Ledger
  imports OFT_Runtime
begin

text \<open>
  A small ledger that stands in for the other programs when a theorem is evaluated at a
  concrete input: token accounts and mints as maps, the endpoint as a log of what it was
  asked to do. It models no code of the repository; its only use is to show that the
  hypotheses about the called programs can hold together.
\<close>

section \<open>State\<close>

record ledger =
  lg_tokens :: "pubkey \<rightharpoonup> TokenAccount"
  lg_mints :: "pubkey \<rightharpoonup> Mint"
  lg_fee :: "TransferFeeConfig option"
  lg_sent :: "EndpointSendParams list"
  lg_cleared :: "ClearParams list"
  lg_composed :: "SendComposeParams list"
  lg_delegate :: "pubkey \<rightharpoonup> pubkey"

section \<open>Operations\<close>

definition ledger_post_fee :: "TransferFee \<Rightarrow> u64 \<Rightarrow> u64 option" where
  "ledger_post_fee f a =
     Some (word_of_nat (unat a - min ((unat a * unat (tf_transfer_fee_basis_points f) + 9999) div 10000)
       (unat (tf_maximum_fee f))))"

definition ledger_token :: "ledger \<Rightarrow> pubkey \<Rightarrow> TokenAccount result" where
  "ledger_token x k = ok_or (lg_tokens x k) (Anchor AccountNotInitialized)"

definition set_amount :: "ledger \<Rightarrow> pubkey \<Rightarrow> TokenAccount \<Rightarrow> u64 \<Rightarrow> ledger" where
  "set_amount x k ta n = x\<lparr>lg_tokens := (lg_tokens x)(k \<mapsto> ta\<lparr>ta_amount := n\<rparr>)\<rparr>"

definition ledger_net :: "Clock result \<Rightarrow> ledger \<Rightarrow> u64 \<Rightarrow> u64 result" where
  "ledger_net clock x a = (case lg_fee x of None \<Rightarrow> Inr a
     | Some cfg \<Rightarrow> and_then clock (\<lambda>c. ok_or (ledger_post_fee (cfg (ck_epoch c)) a) InvalidArgument))"

definition ledger_transfer :: "Clock result \<Rightarrow> ledger \<Rightarrow> pubkey \<Rightarrow> pubkey \<Rightarrow> pubkey \<Rightarrow> pubkey \<Rightarrow> pubkey \<Rightarrow>
    bytes list option \<Rightarrow> u64 \<Rightarrow> u8 \<Rightarrow> ledger result" where
  "ledger_transfer clock x program from mint to authority seeds amount decimals =
     and_then (ledger_token x from) (\<lambda>src.
     and_then (require (ta_owner src = authority) (Foreign 4)) (\<lambda>_.
     and_then (ledger_token x to) (\<lambda>dst.
     and_then (u_sub (ta_amount src) amount) (\<lambda>left.
     if from = to then Inr x else
     and_then (ledger_net clock x amount) (\<lambda>net.
     and_then (u_add (ta_amount dst) net) (\<lambda>total.
     Inr (set_amount (set_amount x from src left) to dst total)))))))"

definition ledger_burn :: "ledger \<Rightarrow> pubkey \<Rightarrow> pubkey \<Rightarrow> pubkey \<Rightarrow> pubkey \<Rightarrow> u64 \<Rightarrow> ledger result" where
  "ledger_burn x program mint from authority amount =
     and_then (ledger_token x from) (\<lambda>src.
     and_then (u_sub (ta_amount src) amount) (\<lambda>left. Inr (set_amount x from src left)))"

definition ledger_mint_to :: "ledger \<Rightarrow> pubkey \<Rightarrow> pubkey \<Rightarrow> pubkey \<Rightarrow> pubkey \<Rightarrow> pubkey list \<Rightarrow> bytes list \<Rightarrow> u64 \<Rightarrow>
    ledger result" where
  "ledger_mint_to x program mint to authority signers seeds amount =
     and_then (ledger_token x to) (\<lambda>dst.
     and_then (u_add (ta_amount dst) amount) (\<lambda>total. Inr (set_amount x to dst total)))"

definition ledger_create_token :: "ledger \<Rightarrow> pubkey \<Rightarrow> pubkey \<Rightarrow> pubkey \<Rightarrow> pubkey \<Rightarrow> pubkey \<Rightarrow> ledger result" where
  "ledger_create_token x payer key mint authority program =
     (if lg_tokens x key = None
      then Inr (x\<lparr>lg_tokens := (lg_tokens x)(key \<mapsto>
             \<lparr>ta_token_program = program, ta_mint = mint, ta_owner = authority, ta_amount = 0\<rparr>)\<rparr>)
      else Inl AccountAlreadyInUse)"

text \<open>Derived addresses: a digest of the last byte of every seed.\<close>

definition digest :: "bytes list \<Rightarrow> u8" where
  "digest seeds = foldl (\<lambda>acc s. acc * 7 + (if s = [] then 0 else last s)) 1 seeds"

section \<open>The runtime\<close>

definition ledger_runtime :: "ledger runtime" where
  "ledger_runtime = \<lparr>
     program_id = repeat32 100, SYSTEM_PROGRAM_ID = repeat32 101, ASSOCIATED_TOKEN_ID = repeat32 102,
     EVENT_AUTHORITY_SEED = [1, 2],
     create_program_address = (\<lambda>seeds _. Some (repeat32 (digest seeds))),
     find_program_address = (\<lambda>seeds _. (repeat32 (digest (seeds @ [[255]])), 255)),
     create_account = (\<lambda>x _ _ _. Inr x),
     is_token_program = (\<lambda>k. k = repeat32 103),
     get_mint = (\<lambda>x k. ok_or (lg_mints x k) (Anchor AccountNotInitialized)),
     get_transfer_fee_config = (\<lambda>x _. Inr (lg_fee x)),
     get_token_account = ledger_token,
     is_uninitialized = (\<lambda>x k. lg_tokens x k = None),
     get_associated_token_address = (\<lambda>wallet mint _. repeat32 (digest [to_bytes wallet, to_bytes mint])),
     create_token_account = ledger_create_token,
     create_associated_token = (\<lambda>x payer key authority mint program. ledger_create_token x payer key mint authority program),
     transfer_checked = ledger_transfer,
     burn = ledger_burn,
     mint_to = ledger_mint_to,
     calculate_post_fee_amount = ledger_post_fee,
     ENDPOINT_ID = repeat32 104, LZ_RECEIVE_TYPES_SEED = [7], EVENT_SEED = [1, 2],
     CLEAR_MIN_ACCOUNTS_LEN = 1,
     options_combine = (\<lambda>a b. Inr (a @ b)),
     assert_type_3 = (\<lambda>opt. require (take 2 opt = [0, 3]) (Foreign 1)),
     endpoint_register_oapp = (\<lambda>x _ oapp _ _ d. Inr (x\<lparr>lg_delegate := (lg_delegate x)(oapp \<mapsto> d)\<rparr>)),
     endpoint_set_delegate = (\<lambda>x _ oapp _ _ d. Inr (x\<lparr>lg_delegate := (lg_delegate x)(oapp \<mapsto> d)\<rparr>)),
     endpoint_send = (\<lambda>x _ _ _ _ p. Inr (\<lparr>mr_guid = repeat32 9, mr_nonce = 1,
        mr_fee = \<lparr>mf_native_fee = es_native_fee p, mf_lz_token_fee = 0\<rparr>\<rparr>, x\<lparr>lg_sent := p # lg_sent x\<rparr>)),
     endpoint_quote = (\<lambda>x _ _ p. Inr \<lparr>mf_native_fee = word_of_nat (length (qp_message p)), mf_lz_token_fee = 0\<rparr>),
     endpoint_clear = (\<lambda>x _ _ _ _ p. Inr (x\<lparr>lg_cleared := p # lg_cleared x\<rparr>)),
     endpoint_send_compose = (\<lambda>x _ _ _ _ p. Inr (x\<lparr>lg_composed := p # lg_composed x\<rparr>)),
     get_accounts_for_clear = (\<lambda>ep receiver _ _ _. [\<lparr>la_pubkey = ep, la_is_signer = False, la_is_writable = False\<rparr>]),
     get_accounts_for_send_compose = (\<lambda>ep _ _ _ _ _. [\<lparr>la_pubkey = ep, la_is_signer = False, la_is_writable = False\<rparr>])\<rparr>"

text \<open>Accounts named by one byte, and a ledger with a mint and two token accounts of wallet 30.\<close>

definition acct :: "u8 \<Rightarrow> bool \<Rightarrow> bool \<Rightarrow> AccountInfo" where
  "acct k s wr = \<lparr>ai_key = repeat32 k, ai_is_signer = s, ai_is_writable = wr\<rparr>"

definition wallet_account :: "u64 \<Rightarrow> TokenAccount" where
  "wallet_account n = \<lparr>ta_token_program = repeat32 103, ta_mint = repeat32 1, ta_owner = repeat32 30, ta_amount = n\<rparr>"

definition demo_ledger :: ledger where
  "demo_ledger = \<lparr>lg_tokens = [repeat32 20 \<mapsto> wallet_account 5000000, repeat32 21 \<mapsto> wallet_account 0],
     lg_mints = [repeat32 1 \<mapsto> \<lparr>mi_token_program = repeat32 103, mi_decimals = 9, mi_mint_authority = Some (repeat32 120)\<rparr>],
     lg_fee = None, lg_sent = [], lg_cleared = [], lg_composed = [], lg_delegate = Map.empty\<rparr>"

section \<open>What it answers\<close>

lemma ledger_runtime_sel [simp]:
  "program_id ledger_runtime = repeat32 100"
  "SYSTEM_PROGRAM_ID ledger_runtime = repeat32 101"
  "ASSOCIATED_TOKEN_ID ledger_runtime = repeat32 102"
  "EVENT_AUTHORITY_SEED ledger_runtime = [1, 2]"
  "create_program_address ledger_runtime = (\<lambda>seeds _. Some (repeat32 (digest seeds)))"
  "find_program_address ledger_runtime = (\<lambda>seeds _. (repeat32 (digest (seeds @ [[255]])), 255))"
  "create_account ledger_runtime = (\<lambda>x _ _ _. Inr x)"
  "is_token_program ledger_runtime = (\<lambda>k. k = repeat32 103)"
  "get_mint ledger_runtime = (\<lambda>x k. ok_or (lg_mints x k) (Anchor AccountNotInitialized))"
  "get_transfer_fee_config ledger_runtime = (\<lambda>x _. Inr (lg_fee x))"
  "get_token_account ledger_runtime = ledger_token"
  "is_uninitialized ledger_runtime = (\<lambda>x k. lg_tokens x k = None)"
  "get_associated_token_address ledger_runtime = (\<lambda>wallet mint _. repeat32 (digest [to_bytes wallet, to_bytes mint]))"
  "create_token_account ledger_runtime = ledger_create_token"
  "create_associated_token ledger_runtime = (\<lambda>x payer key authority mint program. ledger_create_token x payer key mint authority program)"
  "transfer_checked ledger_runtime = ledger_transfer"
  "burn ledger_runtime = ledger_burn"
  "mint_to ledger_runtime = ledger_mint_to"
  "calculate_post_fee_amount ledger_runtime = ledger_post_fee"
  "ENDPOINT_ID ledger_runtime = repeat32 104"
  "LZ_RECEIVE_TYPES_SEED ledger_runtime = [7]"
  "EVENT_SEED ledger_runtime = [1, 2]"
  "CLEAR_MIN_ACCOUNTS_LEN ledger_runtime = 1"
  "options_combine ledger_runtime = (\<lambda>a b. Inr (a @ b))"
  "assert_type_3 ledger_runtime = (\<lambda>opt. require (take 2 opt = [0, 3]) (Foreign 1))"
  "endpoint_register_oapp ledger_runtime = (\<lambda>x _ oapp _ _ d. Inr (x\<lparr>lg_delegate := (lg_delegate x)(oapp \<mapsto> d)\<rparr>))"
  "endpoint_set_delegate ledger_runtime = (\<lambda>x _ oapp _ _ d. Inr (x\<lparr>lg_delegate := (lg_delegate x)(oapp \<mapsto> d)\<rparr>))"
  "endpoint_send ledger_runtime = (\<lambda>x _ _ _ _ p. Inr (\<lparr>mr_guid = repeat32 9, mr_nonce = 1, mr_fee = \<lparr>mf_native_fee = es_native_fee p, mf_lz_token_fee = 0\<rparr>\<rparr>, x\<lparr>lg_sent := p # lg_sent x\<rparr>))"
  "endpoint_quote ledger_runtime = (\<lambda>x _ _ p. Inr \<lparr>mf_native_fee = word_of_nat (length (qp_message p)), mf_lz_token_fee = 0\<rparr>)"
  "endpoint_clear ledger_runtime = (\<lambda>x _ _ _ _ p. Inr (x\<lparr>lg_cleared := p # lg_cleared x\<rparr>))"
  "endpoint_send_compose ledger_runtime = (\<lambda>x _ _ _ _ p. Inr (x\<lparr>lg_composed := p # lg_composed x\<rparr>))"
  "get_accounts_for_clear ledger_runtime = (\<lambda>ep receiver _ _ _. [\<lparr>la_pubkey = ep, la_is_signer = False, la_is_writable = False\<rparr>])"
  "get_accounts_for_send_compose ledger_runtime = (\<lambda>ep _ _ _ _ _. [\<lparr>la_pubkey = ep, la_is_signer = False, la_is_writable = False\<rparr>])"
  by (simp_all add: ledger_runtime_def)

lemma ledger_net_le: "unat (word_of_nat (unat (a::u64) - n) :: u64) = unat a - n"
proof -
  have "unat a - n < 2 ^ 64" using unat_lt_len [of a] by (simp del: unsigned_less)
  then show ?thesis by (simp add: unat_of_nat)
qed

lemma ledger_token_set [simp]:
  "ledger_token (set_amount x k ta n) j = (if j = k then Inr (ta\<lparr>ta_amount := n\<rparr>) else ledger_token x j)"
  by (simp add: ledger_token_def set_amount_def)

end
