(* ===== verification/Fees.thy ===== *)
theory Fees
  imports OFT_Store Example_Ledger
begin

text \<open>
  The fee computation of \<^verbatim>\<open>instructions/quote_send.rs\<close>, shared by quotes and sends: the OFT's
  own fee in basis points, the Token-2022 transfer fee (asked of the token program in one
  direction, inverted by code copied into the program in the other), and the removal of
  dust.
\<close>

section \<open>Definitions\<close>

definition MAX_FEE_BASIS_POINTS :: u16 where
  "MAX_FEE_BASIS_POINTS = 10000"

definition ONE_IN_BASIS_POINTS :: u128 where
  "ONE_IN_BASIS_POINTS = ucast MAX_FEE_BASIS_POINTS"

definition calculate_fee :: "u64 \<Rightarrow> u16 \<Rightarrow> u16 option \<Rightarrow> u64 result" where
  "calculate_fee pre_fee_amount default_fee_bps fee_bps =
     (let final_fee_bps = (case fee_bps of Some bps \<Rightarrow> ucast bps | None \<Rightarrow> ucast default_fee_bps) :: u128
      in if final_fee_bps = 0 \<or> pre_fee_amount = 0 then Inr 0
         else and_then (u_mul (ucast pre_fee_amount) final_fee_bps) (\<lambda>fee.
              and_then (u_div fee ONE_IN_BASIS_POINTS) (\<lambda>q. Inr (ucast q))))"

definition ceil_div :: "u128 \<Rightarrow> u128 \<Rightarrow> u128 option" where
  "ceil_div numerator denominator =
     Option.bind (checked_add numerator denominator) (\<lambda>s.
     Option.bind (checked_sub s 1) (\<lambda>d. checked_div d denominator))"

definition calculate_pre_fee_amount :: "TransferFee \<Rightarrow> u64 \<Rightarrow> u64 option" where
  "calculate_pre_fee_amount fee post_fee_amount =
     (let maximum_fee = tf_maximum_fee fee;
          transfer_fee_basis_points = ucast (tf_transfer_fee_basis_points fee) :: u128
      in if transfer_fee_basis_points = 0 then Some post_fee_amount
         else if post_fee_amount = 0 then Some 0
         else if transfer_fee_basis_points = ONE_IN_BASIS_POINTS then checked_add maximum_fee post_fee_amount
         else Option.bind (checked_mul (ucast post_fee_amount) ONE_IN_BASIS_POINTS) (\<lambda>numerator.
              Option.bind (checked_sub ONE_IN_BASIS_POINTS transfer_fee_basis_points) (\<lambda>denominator.
              Option.bind (ceil_div numerator denominator) (\<lambda>raw_pre_fee_amount.
              Option.bind (checked_sub raw_pre_fee_amount (ucast post_fee_amount)) (\<lambda>raw_fee.
              if raw_fee \<ge> ucast maximum_fee then checked_add post_fee_amount maximum_fee
              else try_u64_of_u128 raw_pre_fee_amount)))))"

definition get_post_fee_amount_ld :: "'x runtime \<Rightarrow> Clock result \<Rightarrow> 'x \<Rightarrow> pubkey \<Rightarrow> u64 \<Rightarrow> u64 result" where
  "get_post_fee_amount_ld rt clock x token_mint amount_ld =
     and_then (get_transfer_fee_config rt x token_mint) (\<lambda>ext.
     (case ext of
        Some transfer_fee_config \<Rightarrow>
          and_then clock (\<lambda>c.
          ok_or (calculate_post_fee_amount rt (transfer_fee_config (ck_epoch c)) amount_ld) InvalidArgument)
      | None \<Rightarrow> Inr amount_ld))"

definition get_pre_fee_amount_ld :: "'x runtime \<Rightarrow> Clock result \<Rightarrow> 'x \<Rightarrow> pubkey \<Rightarrow> u64 \<Rightarrow> u64 result" where
  "get_pre_fee_amount_ld rt clock x token_mint amount_ld =
     and_then (get_transfer_fee_config rt x token_mint) (\<lambda>ext.
     (case ext of
        Some transfer_fee \<Rightarrow>
          and_then clock (\<lambda>c.
          ok_or (calculate_pre_fee_amount (transfer_fee (ck_epoch c)) amount_ld) InvalidArgument)
      | None \<Rightarrow> Inr amount_ld))"

definition compute_fee_and_adjust_amount ::
  "'x runtime \<Rightarrow> Clock result \<Rightarrow> 'x \<Rightarrow> u64 \<Rightarrow> OFTStore \<Rightarrow> pubkey \<Rightarrow> u16 option \<Rightarrow> (u64 \<times> u64 \<times> u64) result" where
  "compute_fee_and_adjust_amount rt clock x amount_ld oft_store token_mint fee_bps =
     (if os_oft_type oft_store = Adapter then
        and_then (get_post_fee_amount_ld rt clock x token_mint amount_ld) (\<lambda>post.
        and_then (remove_dust oft_store post) (\<lambda>amount_received_ld.
        and_then (get_pre_fee_amount_ld rt clock x token_mint amount_received_ld) (\<lambda>amount_sent_ld.
        and_then (calculate_fee amount_received_ld (os_default_fee_bps oft_store) fee_bps) (\<lambda>fee.
        and_then (remove_dust oft_store fee) (\<lambda>oft_fee_ld.
        and_then (u_sub amount_received_ld oft_fee_ld) (\<lambda>amount_received_ld'.
        Inr (amount_sent_ld, amount_received_ld', oft_fee_ld)))))))
      else
        and_then (remove_dust oft_store amount_ld) (\<lambda>amount_sent_ld.
        and_then (calculate_fee amount_sent_ld (os_default_fee_bps oft_store) fee_bps) (\<lambda>fee.
        and_then (remove_dust oft_store fee) (\<lambda>oft_fee_ld.
        and_then (u_sub amount_sent_ld oft_fee_ld) (\<lambda>amount_received_ld.
        Inr (amount_sent_ld, amount_received_ld, oft_fee_ld))))))"

section \<open>The OFT fee\<close>

abbreviation effective_bps :: "u16 \<Rightarrow> u16 option \<Rightarrow> nat" where
  "effective_bps d b \<equiv> (case b of Some bps \<Rightarrow> unat bps | None \<Rightarrow> unat d)"

lemma ONE_val [simp]: "unat ONE_IN_BASIS_POINTS = 10000"
  by (simp add: ONE_IN_BASIS_POINTS_def MAX_FEE_BASIS_POINTS_def)

lemma u64_u16_bound: "unat (a::u64) * unat (b::u16) < 2 ^ 128"
proof -
  have "unat a * unat b < 2 ^ 64 * 2 ^ 16"
    using unat_lt_len [of a] unat_lt_len [of b] by (intro mult_strict_mono) (auto simp del: unsigned_less)
  then show ?thesis by simp
qed

lemma calculate_fee_eq:
  "calculate_fee a d b = Inr (word_of_nat (unat a * effective_bps d b div 10000))"
proof -
  let ?b = "(case b of Some bps \<Rightarrow> ucast bps | None \<Rightarrow> ucast d) :: u128"
  have ub: "unat ?b = effective_bps d b" by (cases b) auto
  show ?thesis
  proof (cases "?b = 0 \<or> a = 0")
    case True
    then have "unat a * effective_bps d b = 0" using ub by auto
    with True show ?thesis by (auto simp: calculate_fee_def)
  next
    case False
    have small: "unat a * effective_bps d b < 2 ^ 128" using u64_u16_bound by (cases b) auto
    then have m: "u_mul (ucast a) ?b = Inr (ucast a * ?b)" by (simp add: u_mul_def ub)
    have "unat (ucast a * ?b div ONE_IN_BASIS_POINTS) = unat a * effective_bps d b div 10000"
      using small by (simp add: unat_div unat_mult_lem [THEN iffD1] ub)
    then have "(ucast (ucast a * ?b div ONE_IN_BASIS_POINTS) :: u64)
        = word_of_nat (unat a * effective_bps d b div 10000)"
      by (metis of_nat_unat)
    moreover have "ONE_IN_BASIS_POINTS \<noteq> 0" by (simp add: unat_eq_self_iff)
    ultimately show ?thesis using False m by (simp add: calculate_fee_def u_div_def)
  qed
qed

lemma calculate_fee_value:
  assumes "effective_bps d b \<le> 10000" and "calculate_fee a d b = Inr f"
  shows "unat f = unat a * effective_bps d b div 10000" and "unat f \<le> unat a"
proof -
  have "unat a * effective_bps d b div 10000 \<le> unat a * 10000 div 10000"
    using assms(1) by (intro div_le_mono mult_le_mono) auto
  then have le: "unat a * effective_bps d b div 10000 \<le> unat a" by simp
  then have "unat a * effective_bps d b div 10000 < 2 ^ 64"
    using unat_lt_len [of a] by (simp del: unsigned_less)
  then show "unat f = unat a * effective_bps d b div 10000"
    using assms(2) by (auto simp: calculate_fee_eq unat_of_nat)
  with le show "unat f \<le> unat a" by simp
qed

section \<open>The transfer fee and its inverse\<close>

text \<open>
  The documented fee of a Token-2022 transfer: basis points of the amount, rounded up,
  capped at the maximum. \<open>net_of f a\<close> is what arrives of \<open>a\<close>.
\<close>

definition transfer_fee_of :: "TransferFee \<Rightarrow> nat \<Rightarrow> nat" where
  "transfer_fee_of f a = min ((a * unat (tf_transfer_fee_basis_points f) + 9999) div 10000) (unat (tf_maximum_fee f))"

definition net_of :: "TransferFee \<Rightarrow> nat \<Rightarrow> nat" where
  "net_of f a = a - transfer_fee_of f a"

definition pre_fee_of :: "TransferFee \<Rightarrow> nat \<Rightarrow> nat" where
  "pre_fee_of f p =
     (let b = unat (tf_transfer_fee_basis_points f); m = unat (tf_maximum_fee f)
      in if b = 0 then p else if p = 0 then 0 else if b = 10000 then m + p
         else min ((p * 10000 + (10000 - b) - 1) div (10000 - b)) (p + m))"

lemma ceil_le_iff: "0 < d \<Longrightarrow> ((n + d - 1) div d \<le> a) = (n \<le> a * (d::nat))"
proof -
  assume d: "0 < d"
  have "((n + d - 1) div d \<le> a) = ((n + d - 1) div d < Suc a)" by auto
  also have "\<dots> = (n + d - 1 < Suc a * d)" by (rule div_less_iff_less_mult [OF d])
  also have "\<dots> = (n \<le> a * d)" using d by auto
  finally show ?thesis .
qed

text \<open>The inverse is a lower adjoint of \<open>net_of\<close>: the least amount of which \<open>p\<close> arrives.\<close>

lemma fee_share_iff:
  fixes a b p :: nat
  assumes "b \<le> 10000"
  shows "(p + (a * b + 9999) div 10000 \<le> a) = (p * 10000 \<le> a * (10000 - b))"
proof -
  obtain c where c: "c = a * b" by blast
  have le: "c \<le> a * 10000" using assms by (simp add: c)
  have "(p + (c + 9999) div 10000 \<le> a) = (p \<le> a \<and> (c + 9999) div 10000 \<le> a - p)" by linarith
  also have "\<dots> = (p \<le> a \<and> c \<le> (a - p) * 10000)"
    using ceil_le_iff [of 10000 c "a - p"] by (simp add: add.commute)
  also have "\<dots> = (p * 10000 \<le> a * 10000 - c)" using le by (auto simp: diff_mult_distrib)
  finally show ?thesis by (simp add: c diff_mult_distrib2)
qed

lemma pre_fee_adjoint:
  assumes "unat (tf_transfer_fee_basis_points f) \<le> 10000"
  shows "(p \<le> net_of f a) = (pre_fee_of f p \<le> a)"
proof -
  let ?b = "unat (tf_transfer_fee_basis_points f)" and ?m = "unat (tf_maximum_fee f)"
  consider "?b = 0 \<or> p = 0" | "0 < p" "?b = 10000" | "0 < p" "0 < ?b" "?b < 10000"
    using assms by linarith
  then show ?thesis
  proof cases
    case 1
    then show ?thesis by (auto simp: net_of_def transfer_fee_of_def pre_fee_of_def Let_def)
  next
    case 2
    then have "transfer_fee_of f a = min a ?m" by (simp add: transfer_fee_of_def)
    with 2 show ?thesis by (auto simp: net_of_def pre_fee_of_def Let_def)
  next
    case 3
    let ?share = "(a * ?b + 9999) div 10000" and ?raw = "(p * 10000 + (10000 - ?b) - 1) div (10000 - ?b)"
    have "(p \<le> net_of f a) = (p + min ?share ?m \<le> a)"
      using 3 by (auto simp: net_of_def transfer_fee_of_def)
    also have "\<dots> = (p + ?share \<le> a \<or> p + ?m \<le> a)" by (auto simp: min_def)
    also have "\<dots> = (?raw \<le> a \<or> p + ?m \<le> a)"
      using fee_share_iff [OF assms] ceil_le_iff [of "10000 - ?b" "p * 10000" a] 3 by simp
    also have "\<dots> = (pre_fee_of f p \<le> a)"
      using 3 by (auto simp: pre_fee_of_def Let_def min_def)
    finally show ?thesis .
  qed
qed

lemma ceil_div_iff [int_iff]:
  assumes "unat n + unat d < 2 ^ 128" and "d \<noteq> 0"
  shows "(ceil_div n d = Some q) = (unat q = (unat n + unat d - 1) div unat d)"
proof -
  have "checked_add n d = Some (n + d)" using assms by (simp add: checked_add_def)
  moreover have s: "unat (n + d) = unat n + unat d" using assms by (simp add: unat_add_lem [THEN iffD1])
  moreover have "0 < unat d" using assms(2) by (simp add: unat_eq_self_iff)
  then have "checked_sub (n + d) 1 = Some (n + d - 1)" "unat (n + d - 1) = unat n + unat d - 1"
    using s by (auto simp: checked_sub_def unat_sub word_le_nat_alt)
  ultimately show ?thesis using assms(2) by (simp add: ceil_div_def checked_div_iff)
qed

lemma calculate_pre_fee_amount_mid:
  assumes b: "unat (tf_transfer_fee_basis_points f) = b"
    and "0 < b" and "b < 10000" and "p \<noteq> 0"
  shows "(calculate_pre_fee_amount f p = Some r) = (unat r = pre_fee_of f (unat p))"
proof -
  let ?b = "ucast (tf_transfer_fee_basis_points f) :: u128"
  obtain raw where rw: "raw = (unat p * 10000 + (10000 - b) - 1) div (10000 - b)" by blast
  let ?num = "ucast p * ONE_IN_BASIS_POINTS" and ?den = "ONE_IN_BASIS_POINTS - ?b"
  have small: "unat p * 10000 < 2 ^ 64 * 10000" using unat_lt_len [of p] by (simp del: unsigned_less)
  then have num: "checked_mul (ucast p) ONE_IN_BASIS_POINTS = Some ?num" "unat ?num = unat p * 10000"
    by (auto simp: checked_mul_def unat_mult_lem [THEN iffD1])
  have den: "checked_sub ONE_IN_BASIS_POINTS ?b = Some ?den" "unat ?den = 10000 - b"
    using assms by (auto simp: checked_sub_def unat_sub word_le_nat_alt)
  have den0: "?den \<noteq> 0" using den(2) assms by (auto simp: unat_eq_self_iff)
  have fits: "unat ?num + unat ?den < 2 ^ 128" using num(2) den(2) small by simp
  have pos: "0 < 10000 - b" using assms by simp
  have "unat p * 10000 * 1 \<le> unat p * 10000 * (10000 - b)" using pos by (intro mult_le_mono2) linarith
  then have "raw \<le> unat p * 10000"
    using ceil_le_iff [OF pos, of "unat p * 10000" "unat p * 10000"] by (simp add: rw)
  then have "raw < 2 ^ 128" using small by simp
  then have raw: "unat (word_of_nat raw :: u128) = raw" by (simp add: unat_of_nat)
  then have cd: "ceil_div ?num ?den = Some (word_of_nat raw)"
    using ceil_div_iff [OF fits den0, of "word_of_nat raw"] num(2) den(2) by (simp add: rw)
  have "unat p \<le> raw"
  proof (rule ccontr)
    assume "\<not> unat p \<le> raw"
    then have "raw \<le> unat p - 1" and "0 < unat p" by auto
    then have "unat p * 10000 \<le> (unat p - 1) * (10000 - b)"
      using ceil_le_iff [of "10000 - b" "unat p * 10000" "unat p - 1"] assms by (simp add: rw)
    also have "\<dots> \<le> (unat p - 1) * 10000" by simp
    finally show False using \<open>0 < unat p\<close> by simp
  qed
  then have diff: "checked_sub (word_of_nat raw :: u128) (ucast p) = Some (word_of_nat raw - ucast p)"
    "unat (word_of_nat raw - ucast p :: u128) = raw - unat p"
    using raw by (auto simp: checked_sub_def unat_sub word_le_nat_alt)
  have "unat p \<noteq> 0" using assms(4) by (simp add: unat_eq_self_iff)
  then have pf: "pre_fee_of f (unat p) = min raw (unat p + unat (tf_maximum_fee f))"
    unfolding pre_fee_of_def Let_def b rw using assms(2,3) by simp
  have nz: "?b \<noteq> 0" "?b \<noteq> ONE_IN_BASIS_POINTS" using assms by (auto simp: unat_eq_self_iff)
  have "(calculate_pre_fee_amount f p = Some r) =
      ((if unat (tf_maximum_fee f) \<le> raw - unat p then checked_add p (tf_maximum_fee f)
        else try_u64_of_u128 (word_of_nat raw)) = Some r)"
    using nz \<open>p \<noteq> 0\<close> by (simp add: calculate_pre_fee_amount_def Let_def num(1) den(1) cd diff word_le_nat_alt)
  also have "\<dots> = (unat r = pre_fee_of f (unat p))"
    using \<open>unat p \<le> raw\<close> raw by (auto simp: pf checked_add_iff try_u64_of_u128_iff min_def)
  finally show ?thesis .
qed

lemma calculate_pre_fee_amount_iff:
  assumes "unat (tf_transfer_fee_basis_points f) \<le> 10000"
  shows "(calculate_pre_fee_amount f p = Some r) = (unat r = pre_fee_of f (unat p))"
proof -
  let ?b = "unat (tf_transfer_fee_basis_points f)"
  have nz: "(ucast (tf_transfer_fee_basis_points f) = (0::u128)) = (?b = 0)"
    "(ucast (tf_transfer_fee_basis_points f) = ONE_IN_BASIS_POINTS) = (?b = 10000)"
    by (simp_all only: unat_eq_self_iff unat_up ONE_val unsigned_0)
  consider "?b = 0 \<or> p = 0 \<or> ?b = 10000" | "0 < ?b" "?b < 10000" "p \<noteq> 0" using assms by linarith
  then show ?thesis
  proof cases
    case 1
    then show ?thesis
      by (auto simp: calculate_pre_fee_amount_def pre_fee_of_def Let_def nz checked_add_iff unat_eq_self_iff)
  next
    case 2
    then show ?thesis by (rule calculate_pre_fee_amount_mid [OF refl])
  qed
qed

lemma calculate_pre_fee_amount_invalid:
  assumes "10000 < unat (tf_transfer_fee_basis_points f)" and "p \<noteq> 0"
  shows "calculate_pre_fee_amount f p = None"
proof -
  have "checked_sub ONE_IN_BASIS_POINTS (ucast (tf_transfer_fee_basis_points f)) = None"
    using assms by (simp add: checked_sub_None)
  moreover have "ucast (tf_transfer_fee_basis_points f) \<noteq> (0::u128)"
    "ucast (tf_transfer_fee_basis_points f) \<noteq> ONE_IN_BASIS_POINTS"
    using assms by (auto simp: unat_eq_self_iff)
  ultimately show ?thesis
    using assms(2) by (simp add: calculate_pre_fee_amount_def Let_def bind_eq_None_conv)
qed

section \<open>Amounts of a transfer\<close>

text \<open>
  The token program's side, as documented for the transfer-fee extension:
  \<^verbatim>\<open>calculate_post_fee_amount\<close>, where it answers, returns the amount less the fee.
\<close>

definition post_fee_law :: "'x runtime \<Rightarrow> bool" where
  "post_fee_law rt = (\<forall>f a y. calculate_post_fee_amount rt f a = Some y \<longrightarrow> unat y = net_of f (unat a))"

lemma pre_fee_amount_bounds:
  assumes "calculate_pre_fee_amount f p = Some r"
  shows "unat p \<le> net_of f (unat r)" and "unat p \<le> net_of f a \<Longrightarrow> unat r \<le> a"
proof -
  have "unat p \<le> net_of f (unat r) \<and> (unat p \<le> net_of f a \<longrightarrow> unat r \<le> a)"
  proof (cases "unat (tf_transfer_fee_basis_points f) \<le> 10000")
    case True
    then have "unat r = pre_fee_of f (unat p)" using assms by (simp add: calculate_pre_fee_amount_iff)
    then show ?thesis using pre_fee_adjoint [OF True] by simp
  next
    case False
    then have "p = 0" using assms calculate_pre_fee_amount_invalid [of f p] by force
    moreover from this have "r = 0"
      using assms False by (simp add: calculate_pre_fee_amount_def Let_def split: if_splits)
    ultimately show ?thesis by simp
  qed
  then show "unat p \<le> net_of f (unat r)" and "unat p \<le> net_of f a \<Longrightarrow> unat r \<le> a" by auto
qed

lemma net_of_le: "net_of f a \<le> a"
  by (simp add: net_of_def)

lemma get_post_fee_amount_ld_iff:
  "(get_post_fee_amount_ld rt clock x m a = Inr y) =
     (get_transfer_fee_config rt x m = Inr None \<and> y = a
      \<or> (\<exists>cfg c. get_transfer_fee_config rt x m = Inr (Some cfg) \<and> clock = Inr c
           \<and> calculate_post_fee_amount rt (cfg (ck_epoch c)) a = Some y))"
  by (auto simp: get_post_fee_amount_ld_def result_simps split: option.splits)

lemma get_pre_fee_amount_ld_iff:
  "(get_pre_fee_amount_ld rt clock x m a = Inr y) =
     (get_transfer_fee_config rt x m = Inr None \<and> y = a
      \<or> (\<exists>cfg c. get_transfer_fee_config rt x m = Inr (Some cfg) \<and> clock = Inr c
           \<and> calculate_pre_fee_amount (cfg (ck_epoch c)) a = Some y))"
  by (auto simp: get_pre_fee_amount_ld_def result_simps split: option.splits)

text \<open>The two directions together: at most what was asked for, and enough to arrive.\<close>

lemma pre_post_fee_amount_ld:
  assumes law: "post_fee_law rt" and pre: "get_pre_fee_amount_ld rt clock x m p = Inr s"
  shows "get_post_fee_amount_ld rt clock x m a = Inr y \<Longrightarrow> unat p \<le> unat y \<Longrightarrow> unat s \<le> unat a"
    and "get_post_fee_amount_ld rt clock x m s = Inr z \<Longrightarrow> unat p \<le> unat z"
    and "unat p \<le> unat s"
proof -
  consider "get_transfer_fee_config rt x m = Inr None" "s = p"
    | cfg c where "get_transfer_fee_config rt x m = Inr (Some cfg)" "clock = Inr c"
        "calculate_pre_fee_amount (cfg (ck_epoch c)) p = Some s"
    using pre by (auto simp: get_pre_fee_amount_ld_iff)
  then have *: "(get_post_fee_amount_ld rt clock x m a = Inr y \<longrightarrow> unat p \<le> unat y \<longrightarrow> unat s \<le> unat a)
    \<and> (get_post_fee_amount_ld rt clock x m s = Inr z \<longrightarrow> unat p \<le> unat z) \<and> unat p \<le> unat s"
  proof cases
    case 1
    then show ?thesis by (simp add: get_post_fee_amount_ld_iff)
  next
    case 2
    note b = pre_fee_amount_bounds [OF 2(3)]
    have "unat p \<le> unat s" using b(1) net_of_le order_trans by blast
    with b law show ?thesis by (simp add: get_post_fee_amount_ld_iff 2 post_fee_law_def)
  qed
  show "get_post_fee_amount_ld rt clock x m a = Inr y \<Longrightarrow> unat p \<le> unat y \<Longrightarrow> unat s \<le> unat a"
    and "get_post_fee_amount_ld rt clock x m s = Inr z \<Longrightarrow> unat p \<le> unat z"
    and "unat p \<le> unat s" using * by simp_all
qed

lemma compute_fee_cases:
  assumes "compute_fee_and_adjust_amount rt clock x a st m b = Inr (s, r, f)"
  obtains (adapter) post r0 fee where "os_oft_type st = Adapter"
      "get_post_fee_amount_ld rt clock x m a = Inr post" "remove_dust st post = Inr r0"
      "get_pre_fee_amount_ld rt clock x m r0 = Inr s"
      "calculate_fee r0 (os_default_fee_bps st) b = Inr fee" "remove_dust st fee = Inr f"
      "unat r0 = unat f + unat r"
  | (native) fee where "os_oft_type st = Native" "remove_dust st a = Inr s"
      "calculate_fee s (os_default_fee_bps st) b = Inr fee" "remove_dust st fee = Inr f"
      "unat s = unat f + unat r"
  using assms
  by (cases "os_oft_type st")
    (auto simp: compute_fee_and_adjust_amount_def result_simps u_sub_iff)

lemma compute_fee_rate: "compute_fee_and_adjust_amount rt clock x a st m b = Inr (s, r, f) \<Longrightarrow> os_ld2sd_rate st \<noteq> 0"
  by (elim compute_fee_cases) (auto simp: remove_dust_iff)

lemma compute_fee_clean:
  assumes "compute_fee_and_adjust_amount rt clock x a st m b = Inr (s, r, f)"
  shows "rate st dvd unat r" and "rate st dvd unat f"
proof -
  have "rate st dvd unat f + unat r \<and> rate st dvd unat f"
    using assms by (elim compute_fee_cases) (metis remove_dust_dvd)+
  then show "rate st dvd unat r" and "rate st dvd unat f" by (auto simp: dvd_add_right_iff)
qed

text \<open>The amount a transfer carries survives the trip through shared decimals.\<close>

lemma compute_fee_carried:
  assumes "compute_fee_and_adjust_amount rt clock x a st m b = Inr (s, r, f)"
  shows "\<exists>sd. ld2sd st r = Inr sd \<and> sd2ld st sd = Inr r"
  using dec.clean_exact [OF compute_fee_rate [OF assms] compute_fee_clean(1) [OF assms]] .

lemma compute_fee_sent_le:
  assumes "post_fee_law rt" and "compute_fee_and_adjust_amount rt clock x a st m b = Inr (s, r, f)"
  shows "unat s \<le> unat a"
  using assms(2)
proof (cases rule: compute_fee_cases)
  case adapter
  then show ?thesis using pre_post_fee_amount_ld(1) [OF assms(1)] remove_dust_le by blast
qed (auto dest: remove_dust_le)

lemma compute_fee_covered:
  assumes "post_fee_law rt" and "compute_fee_and_adjust_amount rt clock x a st m b = Inr (s, r, f)"
  shows "unat r + unat f \<le> unat s"
  using assms(2)
proof (cases rule: compute_fee_cases)
  case adapter
  then show ?thesis using pre_post_fee_amount_ld(3) [OF assms(1)] by (metis add.commute)
qed simp

lemma compute_fee_delivered:
  assumes "post_fee_law rt" and "compute_fee_and_adjust_amount rt clock x a st m b = Inr (s, r, f)"
    and "os_oft_type st = Adapter" and "get_post_fee_amount_ld rt clock x m s = Inr y"
  shows "unat r + unat f \<le> unat y"
  using assms(2)
proof (cases rule: compute_fee_cases)
  case adapter
  then show ?thesis using pre_post_fee_amount_ld(2) [OF assms(1)] assms(4) by (metis add.commute)
qed (simp add: assms(3))

lemma ledger_post_fee_law: "post_fee_law ledger_runtime"
  by (auto simp: post_fee_law_def ledger_post_fee_def ledger_net_le net_of_def
      transfer_fee_of_def)

lemma remove_dust_mono_sub:
  assumes "remove_dust st a = Inr a'" and "remove_dust st b = Inr b'" and "unat b \<le> unat a"
  shows "unat b' \<le> unat a'"
proof -
  have "unat b' = unat b div rate st * rate st" "unat a' = unat a div rate st * rate st"
    using assms(1,2) by (auto simp: remove_dust_iff minus_mod_eq_div_mult)
  moreover have "unat b div rate st \<le> unat a div rate st" using assms(3) by (rule div_le_mono)
  ultimately show ?thesis by (simp add: mult_le_mono1)
qed

section \<open>Properties\<close>

text \<open>
  C17: the copied inversion of the transfer fee is exact. For a fee of at most 100\%,
  \<^verbatim>\<open>calculate_pre_fee_amount\<close> returns the least amount of which at least the requested one
  arrives after the (rounded-up, capped) transfer fee, and returns \<^verbatim>\<open>None\<close> only when no
  64-bit amount is enough; its 128-bit intermediate results never overflow.
\<close>

theorem pre_fee_amount_least:
  assumes "unat (tf_transfer_fee_basis_points f) \<le> 10000"
  shows "case calculate_pre_fee_amount f p of
       Some r \<Rightarrow> unat p \<le> net_of f (unat r) \<and> (\<forall>a. unat p \<le> net_of f a \<longrightarrow> unat r \<le> a)
     | None \<Rightarrow> (\<forall>a < 2 ^ 64. net_of f a < unat p)"
proof (cases "calculate_pre_fee_amount f p")
  case None
  have "2 ^ 64 \<le> pre_fee_of f (unat p)"
  proof (rule ccontr)
    assume "\<not> 2 ^ 64 \<le> pre_fee_of f (unat p)"
    then have "unat (word_of_nat (pre_fee_of f (unat p)) :: u64) = pre_fee_of f (unat p)"
      by (simp add: unat_of_nat)
    then show False using calculate_pre_fee_amount_iff [OF assms] None by (metis option.simps(3))
  qed
  then have "\<forall>a < 2 ^ 64. \<not> unat p \<le> net_of f a" using pre_fee_adjoint [OF assms] by auto
  then show ?thesis by (simp add: None not_le)
qed (simp add: pre_fee_amount_bounds)

text \<open>A fee of 1\% of at most 5000: to deliver 990 the program sends 1000.\<close>

definition example_fee :: TransferFee where
  "example_fee = \<lparr>tf_maximum_fee = 5000, tf_transfer_fee_basis_points = 100\<rparr>"

theorem pre_fee_amount_least_witness:
  "unat (tf_transfer_fee_basis_points example_fee) \<le> 10000
   \<and> calculate_pre_fee_amount example_fee 990 = Some 1000 \<and> 990 \<le> net_of example_fee 1000"
proof -
  have h: "unat (tf_transfer_fee_basis_points example_fee) \<le> 10000" by (simp add: example_fee_def)
  have r: "calculate_pre_fee_amount example_fee 990 = Some 1000"
    using h by (simp add: calculate_pre_fee_amount_iff) (simp add: example_fee_def pre_fee_of_def)
  show ?thesis using h r pre_fee_amount_least [OF h, of 990] by simp
qed

text \<open>
  C39: the OFT fee. \<^verbatim>\<open>calculate_fee\<close> never panics; for rates of at most 100\% the cast to
  64 bits loses nothing and the fee is the basis points of the amount rounded down, so it
  never exceeds the amount. A peer's own rate takes precedence over the default.
\<close>

theorem calculate_fee_exact:
  assumes "effective_bps d b \<le> 10000"
  shows "\<exists>fee. calculate_fee a d b = Inr fee \<and> unat fee = unat a * effective_bps d b div 10000
           \<and> unat fee \<le> unat a"
  using calculate_fee_value [OF assms calculate_fee_eq] calculate_fee_eq [of a d b] by blast

theorem calculate_fee_exact_witness:
  "effective_bps 500 (Some 25) \<le> 10000 \<and> calculate_fee 1000001 500 (Some 25) = Inr 2500"
proof -
  have h: "effective_bps 500 (Some 25) \<le> 10000" by simp
  obtain fee where "calculate_fee 1000001 500 (Some 25) = Inr fee" "unat fee = 2500"
    using calculate_fee_exact [OF h, of 1000001] by auto
  moreover from this(2) have "fee = 2500" by (simp add: unat_eq_self_iff)
  ultimately show ?thesis using h by simp
qed

text \<open>
  C6: the amounts of a transfer. Whenever \<^verbatim>\<open>compute_fee_and_adjust_amount\<close> succeeds, the
  sender is charged at most the amount asked for; received amount and OFT fee carry no dust
  and together are covered by the amount sent; the received amount converts to shared
  decimals and back exactly; a native transfer charges exactly their sum; and for an adapter
  at least their sum arrives in the escrow after the token's own transfer fee.
\<close>

theorem compute_fee_sound:
  assumes "post_fee_law rt" and "compute_fee_and_adjust_amount rt clock x a st m b = Inr (s, r, f)"
  shows "unat s \<le> unat a \<and> unat r + unat f \<le> unat s \<and> rate st dvd unat r \<and> rate st dvd unat f
     \<and> (\<exists>sd. ld2sd st r = Inr sd \<and> sd2ld st sd = Inr r)
     \<and> (os_oft_type st = Native \<longrightarrow> unat s = unat r + unat f)
     \<and> (os_oft_type st = Adapter \<longrightarrow>
          (\<forall>y. get_post_fee_amount_ld rt clock x m s = Inr y \<longrightarrow> unat r + unat f \<le> unat y))"
proof -
  have "unat s = unat r + unat f" if "os_oft_type st = Native"
    using assms(2) that by (elim compute_fee_cases) auto
  then show ?thesis
    using compute_fee_sent_le [OF assms] compute_fee_covered [OF assms] compute_fee_clean [OF assms(2)]
      compute_fee_carried [OF assms(2)] compute_fee_delivered [OF assms] by blast
qed

text \<open>
  C38: a native transfer can always be priced. With a non-zero rate and an effective fee of
  at most 100\%, the computation returns for every amount, whatever the token program
  answers.
\<close>

theorem compute_fee_native_total:
  assumes "os_oft_type st = Native" and "os_ld2sd_rate st \<noteq> 0"
    and "effective_bps (os_default_fee_bps st) b \<le> 10000"
  shows "\<exists>s r f. compute_fee_and_adjust_amount rt clock x a st m b = Inr (s, r, f)"
proof -
  obtain s where s: "remove_dust st a = Inr s" using remove_dust_ok assms(2) by blast
  obtain fee where fee: "calculate_fee s (os_default_fee_bps st) b = Inr fee" using calculate_fee_eq by blast
  obtain f where f: "remove_dust st fee = Inr f" using remove_dust_ok assms(2) by blast
  have "unat f \<le> unat s"
    using remove_dust_le [OF f] calculate_fee_value(2) [OF assms(3) fee] by simp
  then show ?thesis
    using assms(1) by (simp add: compute_fee_and_adjust_amount_def s fee f u_sub_Inr)
qed

definition fee_ledger :: ledger where
  "fee_ledger = demo_ledger\<lparr>lg_fee := Some (\<lambda>_. example_fee)\<rparr>"

lemma fee_ledger_fee [simp]: "lg_fee fee_ledger = Some (\<lambda>_. example_fee)"
  by (simp add: fee_ledger_def)

text \<open>A million units of a token with that fee, less the OFT's own 1\%, at three decimals of dust.\<close>

lemma example_compute:
  assumes "lg_fee x = Some (\<lambda>_. example_fee)"
  shows "compute_fee_and_adjust_amount ledger_runtime (Inr c) x 1000000 (example_store Adapter) m (Some 100)
    = Inr (1000000, 986000, 9000)"
  using assms
  by (simp add: compute_fee_and_adjust_amount_def get_post_fee_amount_ld_def get_pre_fee_amount_ld_def
      example_store_def ledger_post_fee_def calculate_fee_eq
      remove_dust_def u_rem_def u_sub_def example_fee_def calculate_pre_fee_amount_def Let_def
      ONE_IN_BASIS_POINTS_def MAX_FEE_BASIS_POINTS_def checked_mul_def checked_sub_def checked_add_def
      ceil_div_def checked_div_def try_u64_of_u128_def)

theorem compute_fee_sound_witness:
  "post_fee_law ledger_runtime
   \<and> compute_fee_and_adjust_amount ledger_runtime (Inr \<lparr>ck_unix_timestamp = 0, ck_epoch = 0\<rparr>) fee_ledger
       1000000 (example_store Adapter) (repeat32 1) (Some 100) = Inr (1000000, 986000, 9000)
   \<and> rate (example_store Adapter) dvd 986000"
  using compute_fee_sound [OF ledger_post_fee_law example_compute [OF fee_ledger_fee]]
    ledger_post_fee_law example_compute [OF fee_ledger_fee]
  by (simp add: example_store_def)

theorem compute_fee_native_total_witness:
  "\<exists>s r f. compute_fee_and_adjust_amount ledger_runtime (Inl InvalidArgument) fee_ledger
     1234567 (example_store Native) (repeat32 1) (Some 9999) = Inr (s, r, f)"
  using compute_fee_native_total [of "example_store Native" "Some 9999"]
  by (simp add: example_store_def)

end
