(* ===== verification/OFT_Admin.thy ===== *)
theory OFT_Admin
  imports OFT_World Fees
begin

text \<open>
  The two instructions that change an OFT's own configuration:
  \<^verbatim>\<open>instructions/set_oft_config.rs\<close> (by the admin) and \<^verbatim>\<open>instructions/set_pause.rs\<close> (by the
  pauser or the unpauser). Prefixes: \<open>so_\<close> and \<open>sp_\<close> for the accounts.
\<close>

section \<open>Definitions\<close>

subsection \<open>The store account of an existing OFT\<close>

text \<open>
  Every instruction but \<^verbatim>\<open>init_oft\<close> declares the account with the same \<^verbatim>\<open>seeds\<close> and \<^verbatim>\<open>bump\<close>
  attributes.
\<close>

definition check_oft_store_seeds :: "'x runtime \<Rightarrow> OFTStore \<Rightarrow> AccountInfo \<Rightarrow> unit result" where
  "check_oft_store_seeds rt s ai = check_seeds rt (oft_seeds (os_token_escrow s)) (os_bump s) ai"

definition check_admin :: "OFTStore \<Rightarrow> AccountInfo \<Rightarrow> unit result" where
  "check_admin s admin = require (os_admin s = ai_key admin) (OFT Unauthorized)"

subsection \<open>\<^verbatim>\<open>set_oft_config\<close>\<close>

record SetOFTConfig =
  so_admin :: AccountInfo
  so_oft_store :: AccountInfo

datatype SetOFTConfigParams =
    ConfigAdmin pubkey
  | ConfigDelegate pubkey
  | ConfigDefaultFee u16
  | ConfigPaused bool
  | ConfigPauser "pubkey option"
  | ConfigUnpauser "pubkey option"

definition SetOFTConfig_try_accounts :: "'x runtime \<Rightarrow> 'x world \<Rightarrow> SetOFTConfig \<Rightarrow> OFTStore result" where
  "SetOFTConfig_try_accounts rt w a =
     and_then (check_signer (so_admin a)) (\<lambda>_.
     and_then (load_oft_store w (so_oft_store a)) (\<lambda>s.
     and_then (check_oft_store_seeds rt s (so_oft_store a)) (\<lambda>_.
     and_then (check_mut (so_oft_store a)) (\<lambda>_.
     and_then (check_admin s (so_admin a)) (\<lambda>_.
     Inr s)))))"

fun SetOFTConfig_apply :: "'x runtime \<Rightarrow> SetOFTConfig \<Rightarrow> AccountInfo list \<Rightarrow> OFTStore \<Rightarrow> 'x \<Rightarrow> SetOFTConfigParams \<Rightarrow>
    (OFTStore \<times> 'x) result" where
  "SetOFTConfig_apply rt a remaining_accounts s x (ConfigAdmin admin) = Inr (s\<lparr>os_admin := admin\<rparr>, x)"
| "SetOFTConfig_apply rt a remaining_accounts s x (ConfigDelegate delegate) =
     and_then (endpoint_set_delegate rt x (os_endpoint_program s) (ai_key (so_oft_store a)) remaining_accounts
                 (signer_seeds (os_token_escrow s) (os_bump s)) delegate) (\<lambda>x'.
     Inr (s, x'))"
| "SetOFTConfig_apply rt a remaining_accounts s x (ConfigDefaultFee fee_bps) =
     and_then (require (fee_bps < MAX_FEE_BASIS_POINTS) (OFT InvalidFee)) (\<lambda>_.
     Inr (s\<lparr>os_default_fee_bps := fee_bps\<rparr>, x))"
| "SetOFTConfig_apply rt a remaining_accounts s x (ConfigPaused paused) = Inr (s\<lparr>os_paused := paused\<rparr>, x)"
| "SetOFTConfig_apply rt a remaining_accounts s x (ConfigPauser pauser) = Inr (s\<lparr>os_pauser := pauser\<rparr>, x)"
| "SetOFTConfig_apply rt a remaining_accounts s x (ConfigUnpauser unpauser) = Inr (s\<lparr>os_unpauser := unpauser\<rparr>, x)"

definition set_oft_config :: "'x runtime \<Rightarrow> 'x world \<Rightarrow> SetOFTConfig \<Rightarrow> AccountInfo list \<Rightarrow> SetOFTConfigParams \<Rightarrow>
    'x world result" where
  "set_oft_config rt w a remaining_accounts params =
     and_then (SetOFTConfig_try_accounts rt w a) (\<lambda>s.
     and_then (SetOFTConfig_apply rt a remaining_accounts s (ext w) params) (\<lambda>(s', x').
     Inr (save_oft_store (w\<lparr>ext := x'\<rparr>) (so_oft_store a) s')))"

subsection \<open>\<^verbatim>\<open>set_pause\<close>\<close>

record SetPause =
  sp_signer :: AccountInfo
  sp_oft_store :: AccountInfo

record SetPauseParams =
  sp_paused :: bool

definition is_valid_signer :: "pubkey \<Rightarrow> OFTStore \<Rightarrow> bool \<Rightarrow> bool" where
  "is_valid_signer signer oft_store paused =
     (if paused then os_pauser oft_store = Some signer else os_unpauser oft_store = Some signer)"

definition SetPause_try_accounts :: "'x runtime \<Rightarrow> 'x world \<Rightarrow> SetPause \<Rightarrow> SetPauseParams \<Rightarrow> OFTStore result" where
  "SetPause_try_accounts rt w a params =
     and_then (check_signer (sp_signer a)) (\<lambda>_.
     and_then (load_oft_store w (sp_oft_store a)) (\<lambda>s.
     and_then (check_oft_store_seeds rt s (sp_oft_store a)) (\<lambda>_.
     and_then (check_mut (sp_oft_store a)) (\<lambda>_.
     and_then (require (is_valid_signer (ai_key (sp_signer a)) s (sp_paused params)) (OFT Unauthorized)) (\<lambda>_.
     Inr s)))))"

definition SetPause_apply :: "OFTStore \<Rightarrow> SetPauseParams \<Rightarrow> OFTStore" where
  "SetPause_apply s params = s\<lparr>os_paused := sp_paused params\<rparr>"

definition set_pause :: "'x runtime \<Rightarrow> 'x world \<Rightarrow> SetPause \<Rightarrow> SetPauseParams \<Rightarrow> 'x world result" where
  "set_pause rt w a params =
     and_then (SetPause_try_accounts rt w a params) (\<lambda>s.
     Inr (save_oft_store w (sp_oft_store a) (SetPause_apply s params)))"

section \<open>When they succeed\<close>

lemma set_oft_config_cases:
  assumes "set_oft_config rt w a ra p = Inr w'"
  obtains (configured) s s' x' where "accounts w (ai_key (so_oft_store a)) = Some (AOFTStore s)"
    "ai_is_signer (so_admin a)" "os_admin s = ai_key (so_admin a)"
    "SetOFTConfig_apply rt a ra s (ext w) p = Inr (s', x')"
    "w' = save_oft_store (w\<lparr>ext := x'\<rparr>) (so_oft_store a) s'"
  using assms
  by (auto simp: set_oft_config_def SetOFTConfig_try_accounts_def check_oft_store_seeds_def check_admin_def
      check_defs result_simps)

lemma set_pause_cases:
  assumes "set_pause rt w a p = Inr w'"
  obtains (paused) s where "accounts w (ai_key (sp_oft_store a)) = Some (AOFTStore s)"
    "ai_is_signer (sp_signer a)" "is_valid_signer (ai_key (sp_signer a)) s (sp_paused p)"
    "w' = save_oft_store w (sp_oft_store a) (s\<lparr>os_paused := sp_paused p\<rparr>)"
  using assms
  by (auto simp: set_pause_def SetPause_try_accounts_def SetPause_apply_def check_oft_store_seeds_def
      check_defs result_simps)

text \<open>The fields the struct's comment calls immutable, and the balance the OFT accounts for.\<close>

definition same_immutable :: "OFTStore \<Rightarrow> OFTStore \<Rightarrow> bool" where
  "same_immutable s s' = (os_oft_type s' = os_oft_type s \<and> os_ld2sd_rate s' = os_ld2sd_rate s
     \<and> os_token_mint s' = os_token_mint s \<and> os_token_escrow s' = os_token_escrow s
     \<and> os_endpoint_program s' = os_endpoint_program s \<and> os_bump s' = os_bump s)"

lemma same_immutable_refl [simp]: "same_immutable s s"
  by (simp add: same_immutable_def)

lemma same_immutable_trans: "same_immutable a b \<Longrightarrow> same_immutable b c \<Longrightarrow> same_immutable a c"
  by (simp add: same_immutable_def)

lemma SetOFTConfig_apply_frame:
  assumes "SetOFTConfig_apply rt a ra s x p = Inr (s', x')"
  shows "same_immutable s s'" and "os_tvl_ld s' = os_tvl_ld s"
    and "os_default_fee_bps s < 10000 \<Longrightarrow> os_default_fee_bps s' < 10000"
    and "x' = x \<or> (\<exists>d. endpoint_set_delegate rt x (os_endpoint_program s) (ai_key (so_oft_store a)) ra
          (signer_seeds (os_token_escrow s) (os_bump s)) d = Inr x')"
  using assms by (cases p; auto simp: result_simps same_immutable_def MAX_FEE_BASIS_POINTS_def)+

section \<open>Properties\<close>

text \<open>
  C32: configuration belongs to the admin. On an OFT whose stored address is valid, a
  \<^verbatim>\<open>set_oft_config\<close> with writable store succeeds only for a signing admin; anyone else who
  signs gets \<^verbatim>\<open>Unauthorized\<close>, and nothing but this store's configurable fields changes: the
  immutable fields and the locked value stay.
\<close>

theorem set_oft_config_authorized:
  assumes "accounts w (ai_key (so_oft_store a)) = Some (AOFTStore s)" and "ai_is_signer (so_admin a)"
    and "ai_is_writable (so_oft_store a)"
    and "create_program_address rt (oft_seeds (os_token_escrow s) @ [[os_bump s]]) (program_id rt) = Some (ai_key (so_oft_store a))"
  shows "(ai_key (so_admin a) \<noteq> os_admin s \<longrightarrow> set_oft_config rt w a ra p = Inl (OFT Unauthorized))
     \<and> (\<forall>w'. set_oft_config rt w a ra p = Inr w' \<longrightarrow>
          (\<exists>s'. accounts w' = (accounts w)(ai_key (so_oft_store a) \<mapsto> AOFTStore s')
             \<and> same_immutable s s' \<and> os_tvl_ld s' = os_tvl_ld s \<and> events w' = events w))"
proof (intro conjI impI allI)
  assume "ai_key (so_admin a) \<noteq> os_admin s"
  then show "set_oft_config rt w a ra p = Inl (OFT Unauthorized)"
    using assms by (simp add: set_oft_config_def SetOFTConfig_try_accounts_def check_oft_store_seeds_def
        check_admin_def check_defs load_oft_store_def require_def)
next
  fix w' assume "set_oft_config rt w a ra p = Inr w'"
  then show "\<exists>s'. accounts w' = (accounts w)(ai_key (so_oft_store a) \<mapsto> AOFTStore s')
      \<and> same_immutable s s' \<and> os_tvl_ld s' = os_tvl_ld s \<and> events w' = events w"
    using assms(1) by (elim set_oft_config_cases) (auto dest: SetOFTConfig_apply_frame(1,2))
qed

text \<open>A world with the example adapter at its derived address.\<close>

definition example_world :: "OFTStore \<Rightarrow> ledger \<Rightarrow> ledger world" where
  "example_world s x = \<lparr>accounts = [repeat32 120 \<mapsto> AOFTStore s], events = [], ext = x\<rparr>"

lemmas example_world_defs = example_world_def example_store_def acct_def digest_def OFT_SEED_def

theorem set_oft_config_authorized_witness:
  "set_oft_config ledger_runtime (example_world (example_store Adapter) demo_ledger)
     \<lparr>so_admin = acct 30 True False, so_oft_store = acct 120 False True\<rparr> [] (ConfigPaused True) = Inl (OFT Unauthorized)"
  using set_oft_config_authorized [of "example_world (example_store Adapter) demo_ledger"
      "\<lparr>so_admin = acct 30 True False, so_oft_store = acct 120 False True\<rparr>" "example_store Adapter"
      ledger_runtime "[]" "ConfigPaused True"]
  by (simp add: example_world_defs)

text \<open>
  The default fee stays below 100\%. \<^verbatim>\<open>set_oft_config\<close> refuses a default fee of 10000
  basis points or more with \<^verbatim>\<open>InvalidFee\<close> and stores every smaller one.
\<close>

lemma set_default_fee_bounded:
  assumes "SetOFTConfig_try_accounts rt w a = Inr s"
  shows "set_oft_config rt w a ra (ConfigDefaultFee fee) =
     (if unat fee < 10000 then Inr (save_oft_store w (so_oft_store a) (s\<lparr>os_default_fee_bps := fee\<rparr>))
      else Inl (OFT InvalidFee))"
  using assms by (simp add: set_oft_config_def require_def MAX_FEE_BASIS_POINTS_def word_less_nat_alt)

text \<open>
  C33: who may pause. On an OFT whose stored address is valid, \<^verbatim>\<open>set_pause\<close> to paused
  succeeds exactly for the configured pauser and back exactly for the configured unpauser;
  every other signer, the admin included, gets \<^verbatim>\<open>Unauthorized\<close>. It changes the flag only.
\<close>

theorem set_pause_exact:
  assumes "accounts w (ai_key (sp_oft_store a)) = Some (AOFTStore s)" and "ai_is_signer (sp_signer a)"
    and "ai_is_writable (sp_oft_store a)"
    and "create_program_address rt (oft_seeds (os_token_escrow s) @ [[os_bump s]]) (program_id rt) = Some (ai_key (sp_oft_store a))"
  shows "set_pause rt w a p =
     (if (if sp_paused p then os_pauser s else os_unpauser s) = Some (ai_key (sp_signer a))
      then Inr (w\<lparr>accounts := (accounts w)(ai_key (sp_oft_store a) \<mapsto> AOFTStore (s\<lparr>os_paused := sp_paused p\<rparr>))\<rparr>)
      else Inl (OFT Unauthorized))"
  using assms by (simp add: set_pause_def SetPause_try_accounts_def SetPause_apply_def check_oft_store_seeds_def
      check_defs load_oft_store_def require_def is_valid_signer_def save_oft_store_def)

theorem set_pause_exact_witness:
  "set_pause ledger_runtime (example_world (example_store Adapter) demo_ledger)
     \<lparr>sp_signer = acct 4 True False, sp_oft_store = acct 120 False True\<rparr> \<lparr>sp_paused = True\<rparr> = Inl (OFT Unauthorized)"
  using set_pause_exact [of "example_world (example_store Adapter) demo_ledger"
      "\<lparr>sp_signer = acct 4 True False, sp_oft_store = acct 120 False True\<rparr>" "example_store Adapter"
      ledger_runtime "\<lparr>sp_paused = True\<rparr>"]
  by (simp add: example_world_defs)

end
