(* ===== verification/Set_Peer_Config.thy ===== *)
theory Set_Peer_Config
  imports OFT_Admin
begin

text \<open>
  Configuration of one destination (\<^verbatim>\<open>instructions/set_peer_config.rs\<close>), which also creates
  the peer account on first use. Prefix \<open>pe_\<close> for the accounts, \<open>pp_\<close> and \<open>rp_\<close> for the
  parameters.
\<close>

section \<open>Definitions\<close>

record SetPeerConfig =
  pe_admin :: AccountInfo
  pe_peer :: AccountInfo
  pe_oft_store :: AccountInfo
  pe_system_program :: AccountInfo

record RateLimitParams =
  rp_refill_per_second :: "u64 option"
  rp_capacity :: "u64 option"

datatype PeerConfigParam =
    PeerAddress bytes32
  | FeeBps "u16 option"
  | SetEnforcedOptions bytes bytes
  | OutboundRateLimit "RateLimitParams option"
  | InboundRateLimit "RateLimitParams option"

record SetPeerConfigParams =
  pp_remote_eid :: u32
  pp_config :: PeerConfigParam

text \<open>\<^verbatim>\<open>init_if_needed\<close>: an absent account is created with all bytes zero.\<close>

definition init_peer_if_needed :: "'x runtime \<Rightarrow> 'x world \<Rightarrow> SetPeerConfig \<Rightarrow> u32 \<Rightarrow> (PeerConfig \<times> u8 \<times> 'x) result" where
  "init_peer_if_needed rt w a eid =
     (let (k, bump) = find_program_address rt (peer_seeds (ai_key (pe_oft_store a)) eid) (program_id rt) in
      and_then (require (ai_key (pe_peer a) = k) (Anchor ConstraintSeeds)) (\<lambda>_.
      and_then (case accounts w (ai_key (pe_peer a)) of
         None \<Rightarrow> and_then (create_account rt (ext w) (ai_key (pe_admin a)) (ai_key (pe_peer a)) (8 + PeerConfig_INIT_SPACE))
                   (\<lambda>x'. Inr (PeerConfig_zero, bump, x'))
       | Some (APeerConfig p) \<Rightarrow> Inr (p, bump, ext w)
       | Some _ \<Rightarrow> Inl (Anchor AccountDiscriminatorMismatch)) (\<lambda>r.
      and_then (check_mut (pe_peer a)) (\<lambda>_.
      Inr r))))"

definition SetPeerConfig_try_accounts :: "'x runtime \<Rightarrow> 'x world \<Rightarrow> SetPeerConfig \<Rightarrow> SetPeerConfigParams \<Rightarrow>
    (PeerConfig \<times> u8 \<times> 'x) result" where
  "SetPeerConfig_try_accounts rt w a params =
     and_then (check_signer (pe_admin a)) (\<lambda>_.
     and_then (load_oft_store w (pe_oft_store a)) (\<lambda>s.
     and_then (check_program (SYSTEM_PROGRAM_ID rt) (pe_system_program a)) (\<lambda>_.
     and_then (init_peer_if_needed rt w a (pp_remote_eid params)) (\<lambda>r.
     and_then (check_mut (pe_admin a)) (\<lambda>_.
     and_then (check_oft_store_seeds rt s (pe_oft_store a)) (\<lambda>_.
     and_then (check_admin s (pe_admin a)) (\<lambda>_.
     Inr r)))))))"

definition update_rate_limiter :: "Clock result \<Rightarrow> RateLimiter option \<Rightarrow> RateLimitParams option \<Rightarrow> RateLimiter option result" where
  "update_rate_limiter clock rate_limiter params = (case params of
      Some param \<Rightarrow>
        and_then (case rp_capacity param of
            Some capacity \<Rightarrow> set_capacity clock (case rate_limiter of Some l \<Rightarrow> l | None \<Rightarrow> RateLimiter_default) capacity
          | None \<Rightarrow> Inr (case rate_limiter of Some l \<Rightarrow> l | None \<Rightarrow> RateLimiter_default)) (\<lambda>limiter.
        and_then (case rp_refill_per_second param of
            Some refill_rate \<Rightarrow> set_rate clock limiter refill_rate
          | None \<Rightarrow> Inr limiter) (\<lambda>limiter'.
        Inr (Some limiter')))
    | None \<Rightarrow> Inr None)"

fun SetPeerConfig_config :: "'x runtime \<Rightarrow> Clock result \<Rightarrow> PeerConfig \<Rightarrow> PeerConfigParam \<Rightarrow> PeerConfig result" where
  "SetPeerConfig_config rt clock peer (PeerAddress peer_address) = Inr (peer\<lparr>pc_peer_address := peer_address\<rparr>)"
| "SetPeerConfig_config rt clock peer (FeeBps fee_bps) =
     and_then (case fee_bps of Some f \<Rightarrow> require (f < MAX_FEE_BASIS_POINTS) (OFT InvalidFee) | None \<Rightarrow> Inr ()) (\<lambda>_.
     Inr (peer\<lparr>pc_fee_bps := fee_bps\<rparr>))"
| "SetPeerConfig_config rt clock peer (SetEnforcedOptions send send_and_call) =
     and_then (assert_type_3 rt send) (\<lambda>_.
     and_then (assert_type_3 rt send_and_call) (\<lambda>_.
     Inr (peer\<lparr>pc_enforced_options := (pc_enforced_options peer)\<lparr>eo_send := send, eo_send_and_call := send_and_call\<rparr>\<rparr>)))"
| "SetPeerConfig_config rt clock peer (OutboundRateLimit rate_limit_params) =
     and_then (update_rate_limiter clock (pc_outbound_rate_limiter peer) rate_limit_params) (\<lambda>l.
     Inr (peer\<lparr>pc_outbound_rate_limiter := l\<rparr>))"
| "SetPeerConfig_config rt clock peer (InboundRateLimit rate_limit_params) =
     and_then (update_rate_limiter clock (pc_inbound_rate_limiter peer) rate_limit_params) (\<lambda>l.
     Inr (peer\<lparr>pc_inbound_rate_limiter := l\<rparr>))"

definition SetPeerConfig_apply :: "'x runtime \<Rightarrow> Clock result \<Rightarrow> u8 \<Rightarrow> PeerConfig \<Rightarrow> SetPeerConfigParams \<Rightarrow> PeerConfig result" where
  "SetPeerConfig_apply rt clock bump peer params =
     and_then (SetPeerConfig_config rt clock peer (pp_config params)) (\<lambda>peer'.
     Inr (peer'\<lparr>pc_bump := bump\<rparr>))"

definition set_peer_config :: "'x runtime \<Rightarrow> Clock result \<Rightarrow> 'x world \<Rightarrow> SetPeerConfig \<Rightarrow> SetPeerConfigParams \<Rightarrow>
    'x world result" where
  "set_peer_config rt clock w a params =
     and_then (SetPeerConfig_try_accounts rt w a params) (\<lambda>(peer, bump, x').
     and_then (SetPeerConfig_apply rt clock bump peer params) (\<lambda>peer'.
     save_peer (w\<lparr>ext := x'\<rparr>) (pe_peer a) peer'))"

section \<open>Well-formed peers\<close>

definition peer_wf :: "PeerConfig \<Rightarrow> bool" where
  "peer_wf p = ((\<forall>f. pc_fee_bps p = Some f \<longrightarrow> unat f < 10000)
     \<and> (\<forall>l. pc_outbound_rate_limiter p = Some l \<longrightarrow> limiter_wf l)
     \<and> (\<forall>l. pc_inbound_rate_limiter p = Some l \<longrightarrow> limiter_wf l))"

lemma PeerConfig_zero_wf [simp]: "peer_wf PeerConfig_zero"
  by (simp add: peer_wf_def PeerConfig_zero_def)

lemma update_rate_limiter_wf:
  assumes "update_rate_limiter clock r p = Inr r'" and "\<And>l. r = Some l \<Longrightarrow> limiter_wf l" and "r' = Some l'"
  shows "limiter_wf l'"
  using assms by (auto simp: update_rate_limiter_def result_simps intro: limiter_wf_intros split: option.splits)

lemma SetPeerConfig_config_wf:
  assumes "SetPeerConfig_config rt clock p c = Inr p'" and "peer_wf p"
  shows "peer_wf p'"
  using assms
  by (cases c; fastforce simp: peer_wf_def result_simps MAX_FEE_BASIS_POINTS_def word_less_nat_alt
      dest: update_rate_limiter_wf split: option.splits)

lemma SetPeerConfig_apply_wf:
  "SetPeerConfig_apply rt clock b p c = Inr p' \<Longrightarrow> peer_wf p \<Longrightarrow> peer_wf p'"
  by (auto simp: SetPeerConfig_apply_def result_simps peer_wf_def dest: SetPeerConfig_config_wf)

section \<open>When it succeeds\<close>

lemma set_peer_config_cases:
  assumes "set_peer_config rt clock w a p = Inr w'"
  obtains (configured) s peer bump x' peer' where "accounts w (ai_key (pe_oft_store a)) = Some (AOFTStore s)"
    "ai_is_signer (pe_admin a)" "os_admin s = ai_key (pe_admin a)"
    "find_program_address rt (peer_seeds (ai_key (pe_oft_store a)) (pp_remote_eid p)) (program_id rt) = (ai_key (pe_peer a), bump)"
    "accounts w (ai_key (pe_peer a)) = None \<and> peer = PeerConfig_zero
       \<and> create_account rt (ext w) (ai_key (pe_admin a)) (ai_key (pe_peer a)) (8 + PeerConfig_INIT_SPACE) = Inr x'
     \<or> accounts w (ai_key (pe_peer a)) = Some (APeerConfig peer) \<and> x' = ext w"
    "SetPeerConfig_apply rt clock bump peer p = Inr peer'"
    "PeerConfig_size peer' \<le> PeerConfig_INIT_SPACE"
    "w' = w\<lparr>accounts := (accounts w)(ai_key (pe_peer a) \<mapsto> APeerConfig peer'), ext := x'\<rparr>"
  using assms
  by (auto simp: set_peer_config_def SetPeerConfig_try_accounts_def init_peer_if_needed_def
      check_oft_store_seeds_def check_admin_def check_defs result_simps
      split: prod.splits option.splits oft_account.splits)

lemma set_capacity_eq:
  assumes "now clock = Inr t"
  shows "set_capacity clock l c = Inr \<lparr>rl_capacity = c, rl_tokens = c, rl_refill_per_second = rl_refill_per_second l,
    rl_last_refill_time = t\<rparr>"
  using assms by (cases l) (simp add: set_capacity_def)

text \<open>A limiter refilled now that is full stays full under a new rate.\<close>

lemma set_rate_full:
  assumes "now clock = Inr t"
  shows "set_rate clock \<lparr>rl_capacity = c, rl_tokens = c, rl_refill_per_second = r0, rl_last_refill_time = t\<rparr> r
    = Inr \<lparr>rl_capacity = c, rl_tokens = c, rl_refill_per_second = r, rl_last_refill_time = t\<rparr>"
  using assms by (simp add: set_rate_def refill_eq refilled_def saturating_add_def)

lemma set_rate_exact:
  assumes "now clock = Inr t"
  shows "\<exists>tokens. set_rate clock l r = Inr \<lparr>rl_capacity = rl_capacity l, rl_tokens = tokens, rl_refill_per_second = r,
      rl_last_refill_time = t\<rparr> \<and> unat tokens = bucket_at (bucket_of l) (unat t)"
proof (rule exI, rule conjI)
  show "set_rate clock l r = Inr \<lparr>rl_capacity = rl_capacity l, rl_tokens = rl_tokens (refilled t l 0),
      rl_refill_per_second = r, rl_last_refill_time = t\<rparr>"
    using assms by (cases l) (simp add: set_rate_def refill_eq refilled_def)
  show "unat (rl_tokens (refilled t l 0)) = bucket_at (bucket_of l) (unat t)"
    using unat_refilled_tokens [of t l 0] by (simp add: bucket_at_def bucket_of_def)
qed

section \<open>Properties\<close>

text \<open>
  C34: what \<^verbatim>\<open>set_peer_config\<close> can do. When it succeeds, the signer was the admin stored in
  the OFT, the only account that changed is the one derived from this OFT and the remote
  endpoint id, that account now holds a peer with its canonical bump that fits its data, and
  if a peer was well-formed before (fee below 100\%, no bucket above its capacity) it still is.
\<close>

theorem set_peer_config_effect:
  assumes "set_peer_config rt clock w a p = Inr w'"
  shows "\<exists>s peer. accounts w (ai_key (pe_oft_store a)) = Some (AOFTStore s)
     \<and> ai_is_signer (pe_admin a) \<and> os_admin s = ai_key (pe_admin a)
     \<and> accounts w' = (accounts w)(ai_key (pe_peer a) \<mapsto> APeerConfig peer) \<and> events w' = events w
     \<and> find_program_address rt (peer_seeds (ai_key (pe_oft_store a)) (pp_remote_eid p)) (program_id rt)
         = (ai_key (pe_peer a), pc_bump peer)
     \<and> PeerConfig_size peer \<le> PeerConfig_INIT_SPACE
     \<and> ((\<forall>old. accounts w (ai_key (pe_peer a)) = Some (APeerConfig old) \<longrightarrow> peer_wf old) \<longrightarrow> peer_wf peer)"
  using assms
proof (cases rule: set_peer_config_cases)
  case (configured s peer bump x' peer')
  note old = configured(5) and ap = configured(6) and rest = configured(1-4,7,8)
  have "pc_bump peer' = bump" using ap by (auto simp: SetPeerConfig_apply_def result_simps)
  moreover have "peer_wf peer'" if "\<forall>q. accounts w (ai_key (pe_peer a)) = Some (APeerConfig q) \<longrightarrow> peer_wf q"
    using old that SetPeerConfig_apply_wf [OF ap] by auto
  ultimately show ?thesis using rest by (intro exI [of _ s] exI [of _ peer']) simp
qed

text \<open>
  C35: configuring a limiter, on each choice of parameters. No parameters remove the limiter.
  Otherwise start from the limiter that is there, or from an empty one (everything zero) if
  there is none. Capacity and rate: a full bucket of the new capacity with the new rate,
  dated now. Capacity only: a full bucket of the new capacity, dated now, with the rate it
  had. Rate only: the old rate is credited up to now, then the new rate holds, with the
  capacity it had. Neither: the limiter as it was, so that an absent one becomes an empty one
  that lets nothing through.
\<close>

theorem update_rate_limiter_exact:
  assumes "now clock = Inr t" and "old = (case l of Some o' \<Rightarrow> o' | None \<Rightarrow>
      \<lparr>rl_capacity = 0, rl_tokens = 0, rl_refill_per_second = 0, rl_last_refill_time = 0\<rparr>)"
  shows "case params of
      None \<Rightarrow> update_rate_limiter clock l params = Inr None
    | Some ps \<Rightarrow> (case (rp_capacity ps, rp_refill_per_second ps) of
        (Some c, Some r) \<Rightarrow> update_rate_limiter clock l params
          = Inr (Some \<lparr>rl_capacity = c, rl_tokens = c, rl_refill_per_second = r, rl_last_refill_time = t\<rparr>)
      | (Some c, None) \<Rightarrow> update_rate_limiter clock l params
          = Inr (Some \<lparr>rl_capacity = c, rl_tokens = c, rl_refill_per_second = rl_refill_per_second old, rl_last_refill_time = t\<rparr>)
      | (None, Some r) \<Rightarrow> (\<exists>tokens. update_rate_limiter clock l params
          = Inr (Some \<lparr>rl_capacity = rl_capacity old, rl_tokens = tokens, rl_refill_per_second = r, rl_last_refill_time = t\<rparr>)
          \<and> unat tokens = bucket_at (bucket_of old) (unat t))
      | (None, None) \<Rightarrow> update_rate_limiter clock l params = Inr (Some old))"
proof (cases params)
  case (Some ps)
  have old: "(case l of Some o' \<Rightarrow> o' | None \<Rightarrow> RateLimiter_default) = old"
    by (simp add: assms(2) RateLimiter_default_def split: option.split)
  have upd: "update_rate_limiter clock l (Some ps) =
      and_then (case rp_capacity ps of Some c \<Rightarrow> set_capacity clock old c | None \<Rightarrow> Inr old) (\<lambda>limiter.
      and_then (case rp_refill_per_second ps of Some r \<Rightarrow> set_rate clock limiter r | None \<Rightarrow> Inr limiter) (\<lambda>limiter'.
      Inr (Some limiter')))"
    by (simp add: update_rate_limiter_def old cong: option.case_cong)
  have "\<exists>tokens. and_then (set_rate clock old r) (\<lambda>limiter. Inr (Some limiter)) = Inr (Some \<lparr>rl_capacity = rl_capacity old,
      rl_tokens = tokens, rl_refill_per_second = r, rl_last_refill_time = t\<rparr>) \<and> unat tokens = bucket_at (bucket_of old) (unat t)" for r
    using set_rate_exact [OF assms(1), of old r] by auto
  then show ?thesis
    by (cases "rp_capacity ps"; cases "rp_refill_per_second ps")
      (simp_all add: Some upd set_capacity_eq [OF assms(1)] set_rate_full [OF assms(1)])
qed (simp add: update_rate_limiter_def)

theorem update_rate_limiter_exact_witness:
  "now (Inr (clock_at 1020)) = Inr 1020
   \<and> (\<exists>tokens. update_rate_limiter (Inr (clock_at 1020)) (Some example_limiter)
        (Some \<lparr>rp_refill_per_second = Some 7, rp_capacity = None\<rparr>)
        = Inr (Some \<lparr>rl_capacity = rl_capacity example_limiter, rl_tokens = tokens, rl_refill_per_second = 7, rl_last_refill_time = 1020\<rparr>)
        \<and> unat tokens = 50)
   \<and> update_rate_limiter (Inr (clock_at 1020)) None (Some \<lparr>rp_refill_per_second = None, rp_capacity = Some 9\<rparr>)
        = Inr (Some \<lparr>rl_capacity = 9, rl_tokens = 9, rl_refill_per_second = 0, rl_last_refill_time = 1020\<rparr>)"
proof -
  have h: "now (Inr (clock_at 1020)) = Inr 1020" by (simp add: now_Inr clock_at_def)
  have "bucket_at (bucket_of example_limiter) 1020 = 50"
    by (simp add: bucket_at_def bucket_of_def example_limiter_def)
  with h update_rate_limiter_exact [OF h refl, of "Some example_limiter" "Some \<lparr>rp_refill_per_second = Some 7, rp_capacity = None\<rparr>"]
    update_rate_limiter_exact [OF h refl, of None "Some \<lparr>rp_refill_per_second = None, rp_capacity = Some 9\<rparr>"]
  show ?thesis by simp
qed

definition example_peer_accounts :: SetPeerConfig where
  "example_peer_accounts = \<lparr>pe_admin = acct 4 True True, pe_peer = acct 57 False True,
     pe_oft_store = acct 120 False False, pe_system_program = acct 101 False False\<rparr>"

lemmas example_peer_defs = set_peer_config_def SetPeerConfig_try_accounts_def init_peer_if_needed_def
  check_oft_store_seeds_def check_admin_def check_defs load_oft_store_def example_peer_accounts_def PEER_SEED_def
  SetPeerConfig_apply_def save_peer_def PeerConfig_zero_def PeerConfig_size_def option_size_def
  EnforcedOptions_default_def PeerConfig_INIT_SPACE_def ENFORCED_OPTIONS_SEND_MAX_LEN_def
  ENFORCED_OPTIONS_SEND_AND_CALL_MAX_LEN_def

lemma be_bytes_4: "be_bytes 4 w = [ucast (drop_bit 24 w), ucast (drop_bit 16 w), ucast (drop_bit 8 w), ucast w]"
  by (simp add: numeral_eq_Suc)

theorem set_peer_config_effect_witness:
  "\<exists>w' peer. set_peer_config ledger_runtime (Inr (clock_at 5)) (example_world (example_store Adapter) demo_ledger)
       example_peer_accounts \<lparr>pp_remote_eid = 5, pp_config = FeeBps (Some 30)\<rparr> = Inr w'
     \<and> accounts w' (repeat32 57) = Some (APeerConfig peer) \<and> peer_wf peer"
proof -
  let ?p = "\<lparr>pp_remote_eid = 5, pp_config = FeeBps (Some 30)\<rparr>"
  obtain w' where w': "set_peer_config ledger_runtime (Inr (clock_at 5))
      (example_world (example_store Adapter) demo_ledger) example_peer_accounts ?p = Inr w'"
    by (simp add: example_world_defs example_peer_defs be_bytes_4 MAX_FEE_BASIS_POINTS_def)
  show ?thesis
    using w' set_peer_config_effect [OF w'] by (auto simp: example_peer_accounts_def acct_def example_world_def)
qed

text \<open>
  A peer's fee stays below 100\%. With valid accounts, a peer fee of 10000 basis points
  or more is refused with \<^verbatim>\<open>InvalidFee\<close>.
\<close>

lemma set_peer_fee_refused:
  assumes "SetPeerConfig_try_accounts rt w a p = Inr (peer, bump, x)" and "pp_config p = FeeBps (Some f)"
    and "10000 \<le> unat f"
  shows "set_peer_config rt clock w a p = Inl (OFT InvalidFee)"
  using assms by (simp add: set_peer_config_def SetPeerConfig_apply_def require_def MAX_FEE_BASIS_POINTS_def
      word_less_nat_alt)

end
