(* ===== verification/Msg_Codec.thy ===== *)
theory Msg_Codec
  imports OFT_Prelude
begin

text \<open>
  The cross-chain message (\<^verbatim>\<open>msg_codec.rs\<close>): recipient (32 bytes), amount in shared
  decimals (8 bytes, big-endian), and, only when the transfer carries a compose message,
  the sender (32 bytes) and the compose payload. The readers slice at constant offsets and
  panic on a message that is too short.
\<close>

section \<open>Definitions\<close>

definition SEND_TO_OFFSET :: nat where "SEND_TO_OFFSET = 0"

definition SEND_AMOUNT_SD_OFFSET :: nat where "SEND_AMOUNT_SD_OFFSET = 32"

definition COMPOSE_MSG_OFFSET :: nat where "COMPOSE_MSG_OFFSET = 40"

definition msg_codec_encode :: "bytes32 \<Rightarrow> u64 \<Rightarrow> pubkey \<Rightarrow> bytes option \<Rightarrow> bytes" where
  "msg_codec_encode send_to amount_sd sender compose_msg =
     (case compose_msg of
        Some msg \<Rightarrow> to_bytes send_to @ be_bytes 8 amount_sd @ to_bytes sender @ msg
      | None \<Rightarrow> to_bytes send_to @ be_bytes 8 amount_sd)"

definition msg_codec_send_to :: "bytes \<Rightarrow> bytes32 result" where
  "msg_codec_send_to message =
     and_then (and_then (slice SEND_TO_OFFSET SEND_AMOUNT_SD_OFFSET message) (copy_from_slice 32))
       (\<lambda>send_to. Inr (pad32 send_to))"

definition msg_codec_amount_sd :: "bytes \<Rightarrow> u64 result" where
  "msg_codec_amount_sd message =
     and_then (and_then (slice SEND_AMOUNT_SD_OFFSET COMPOSE_MSG_OFFSET message) (copy_from_slice 8))
       (\<lambda>amount_sd_bytes. Inr (from_be_bytes amount_sd_bytes))"

definition msg_codec_compose_msg :: "bytes \<Rightarrow> bytes option result" where
  "msg_codec_compose_msg message =
     (if length message > COMPOSE_MSG_OFFSET
      then and_then (slice_from COMPOSE_MSG_OFFSET message) (\<lambda>m. Inr (Some m))
      else Inr None)"

section \<open>Reading fields\<close>

lemma msg_codec_send_to_read: "msg_codec_send_to m = arr32.read_at 0 m"
  by (simp add: msg_codec_send_to_def arr32.read_at_def SEND_TO_OFFSET_def SEND_AMOUNT_SD_OFFSET_def)

lemma msg_codec_amount_sd_read: "msg_codec_amount_sd m = be64.read_at 32 m"
  by (simp add: msg_codec_amount_sd_def be64.read_at_def COMPOSE_MSG_OFFSET_def SEND_AMOUNT_SD_OFFSET_def)

text \<open>The compose reader never panics: its slice is guarded by the length test.\<close>

lemma msg_codec_compose_msg_eq:
  "msg_codec_compose_msg m = Inr (if 40 < length m then Some (drop 40 m) else None)"
  by (simp add: msg_codec_compose_msg_def slice_from_def COMPOSE_MSG_OFFSET_def)

lemma msg_codec_encode_prefix:
  obtains s where "msg_codec_encode to amt sndr cm = to_bytes to @ be_bytes 8 amt @ s"
proof -
  have "msg_codec_encode to amt sndr cm
      = to_bytes to @ be_bytes 8 amt @ (case cm of None \<Rightarrow> [] | Some m \<Rightarrow> to_bytes sndr @ m)"
    by (simp add: msg_codec_encode_def split: option.splits)
  then show ?thesis by (rule that)
qed

lemma length_msg_codec_encode:
  "length (msg_codec_encode to amt sndr cm) = (case cm of None \<Rightarrow> 40 | Some m \<Rightarrow> 72 + length m)"
  by (simp add: msg_codec_encode_def split: option.splits)

lemma send_to_encode [bytes_simps]: "msg_codec_send_to (msg_codec_encode to amt sndr cm) = Inr to"
proof -
  obtain s where "msg_codec_encode to amt sndr cm = to_bytes to @ be_bytes 8 amt @ s"
    by (rule msg_codec_encode_prefix)
  then show ?thesis
    using arr32.read_written [of "[]" 0 to] by (simp add: msg_codec_send_to_read)
qed

lemma amount_sd_encode [bytes_simps]: "msg_codec_amount_sd (msg_codec_encode to amt sndr cm) = Inr amt"
proof -
  obtain s where "msg_codec_encode to amt sndr cm = to_bytes to @ be_bytes 8 amt @ s"
    by (rule msg_codec_encode_prefix)
  then show ?thesis
    using be64.read_written [of "to_bytes to" 32 amt] by (simp add: msg_codec_amount_sd_read)
qed

lemma compose_msg_encode [bytes_simps]:
  "msg_codec_compose_msg (msg_codec_encode to amt sndr cm) = Inr (map_option (\<lambda>m. to_bytes sndr @ m) cm)"
  by (simp add: msg_codec_compose_msg_eq msg_codec_encode_def split: option.splits)

lemma msg_codec_short_panics:
  "length m < 32 \<Longrightarrow> msg_codec_send_to m = Inl (Panic SliceOutOfRange)"
  "length m < 40 \<Longrightarrow> msg_codec_amount_sd m = Inl (Panic SliceOutOfRange)"
  by (simp_all add: msg_codec_send_to_read msg_codec_amount_sd_read arr32.read_short be64.read_short)

lemma msg_codec_long_reads:
  assumes "40 \<le> length m"
  obtains to amt where "msg_codec_send_to m = Inr to" and "msg_codec_amount_sd m = Inr amt"
    and "m = to_bytes to @ be_bytes 8 amt @ drop 40 m"
proof -
  obtain to where to: "arr32.read_at 0 m = Inr to"
    using arr32.read_ok [of 0 m] assms by auto
  obtain amt where amt: "be64.read_at 32 m = Inr amt"
    using be64.read_ok [of 32 m] assms by auto
  have "to_bytes to = take 32 m" using arr32.read_value [OF to] by simp
  moreover have "be_bytes 8 amt = take 8 (drop 32 m)" using be64.read_value [OF amt] by simp
  moreover have "m = take 32 m @ take 8 (drop 32 m) @ drop 40 m"
    using append_take_drop_id [of 32 m] append_take_drop_id [of 8 "drop 32 m"] by simp
  ultimately show ?thesis
    using that to amt by (simp add: msg_codec_send_to_read msg_codec_amount_sd_read)
qed

section \<open>Properties\<close>

text \<open>
  C28: round trip of the cross-chain message. Every field written by \<^verbatim>\<open>encode\<close> is read back
  by its reader: the recipient, the amount, and the compose payload prefixed with the
  sender; without a compose message the reader returns \<^verbatim>\<open>None\<close>.
\<close>

theorem msg_codec_roundtrip:
  "msg_codec_send_to (msg_codec_encode to amt sndr cm) = Inr to
   \<and> msg_codec_amount_sd (msg_codec_encode to amt sndr cm) = Inr amt
   \<and> msg_codec_compose_msg (msg_codec_encode to amt sndr cm)
       = Inr (case cm of None \<Rightarrow> None | Some m \<Rightarrow> Some (to_bytes sndr @ m))"
  by (simp add: bytes_simps split: option.splits)

text \<open>
  C31: which byte strings are messages. A byte string is the encoding of some transfer
  exactly when it is 40 bytes long or at least 72: a peer that sends 41 to 71 bytes has not
  used this format, though the readers still accept it.
\<close>

theorem msg_codec_image:
  "(\<exists>to amt sndr cm. m = msg_codec_encode to amt sndr cm) = (length m = 40 \<or> 72 \<le> length m)"
proof
  assume "\<exists>to amt sndr cm. m = msg_codec_encode to amt sndr cm"
  then show "length m = 40 \<or> 72 \<le> length m"
    by (auto simp: length_msg_codec_encode split: option.splits)
next
  assume len: "length m = 40 \<or> 72 \<le> length m"
  then have "40 \<le> length m" by auto
  then obtain to and amt :: u64 where m: "m = to_bytes to @ be_bytes 8 amt @ drop 40 m"
    by (rule msg_codec_long_reads) blast
  have sp: "drop 40 m = take 32 (drop 40 m) @ drop 72 m"
    using append_take_drop_id [of 32 "drop 40 m"] by simp
  show "\<exists>to amt sndr cm. m = msg_codec_encode to amt sndr cm"
  proof (cases "length m = 40")
    case True
    with m have "m = msg_codec_encode to amt default_pubkey None"
      by (simp add: msg_codec_encode_def)
    then show ?thesis by blast
  next
    case False
    with len have "to_bytes (pad32 (take 32 (drop 40 m))) = take 32 (drop 40 m)" by simp
    with m sp have "m = msg_codec_encode to amt (pad32 (take 32 (drop 40 m))) (Some (drop 72 m))"
      by (simp add: msg_codec_encode_def)
    then show ?thesis by blast
  qed
qed

end
