(* ===== verification/Quotes.thy ===== *)
theory Quotes
  imports Set_Peer_Config Msg_Codec
begin

text \<open>
  The two read-only instructions: \<^verbatim>\<open>instructions/quote_oft.rs\<close> (what a transfer would cost
  and deliver) and the handler of \<^verbatim>\<open>instructions/quote_send.rs\<close> (the endpoint's messaging
  fee). Neither declares a \<^verbatim>\<open>mut\<close> account. Prefixes: \<open>qo_\<close>, \<open>op_\<close>, \<open>qs_\<close>, \<open>qq_\<close>.
\<close>

section \<open>Definitions\<close>

subsection \<open>The peer account of a transfer\<close>

definition check_peer_seeds :: "'x runtime \<Rightarrow> AccountInfo \<Rightarrow> u32 \<Rightarrow> PeerConfig \<Rightarrow> AccountInfo \<Rightarrow> unit result" where
  "check_peer_seeds rt oft_store eid peer ai = check_seeds rt (peer_seeds (ai_key oft_store) eid) (pc_bump peer) ai"

subsection \<open>\<^verbatim>\<open>quote_oft\<close>\<close>

record QuoteOFT =
  qo_oft_store :: AccountInfo
  qo_peer :: AccountInfo
  qo_token_mint :: AccountInfo

record QuoteOFTParams =
  op_dst_eid :: u32
  op_to :: bytes32
  op_amount_ld :: u64
  op_min_amount_ld :: u64
  op_options :: bytes
  op_compose_msg :: "bytes option"
  op_pay_in_lz_token :: bool

record OFTFeeDetail =
  fd_fee_amount_ld :: u64
  fd_description :: string

record OFTReceipt =
  or_amount_sent_ld :: u64
  or_amount_received_ld :: u64

record OFTLimits =
  ol_min_amount_ld :: u64
  ol_max_amount_ld :: u64

record QuoteOFTResult =
  qr_oft_limits :: OFTLimits
  qr_oft_fee_details :: "OFTFeeDetail list"
  qr_oft_receipt :: OFTReceipt

definition QuoteOFT_try_accounts :: "'x runtime \<Rightarrow> 'x world \<Rightarrow> QuoteOFT \<Rightarrow> QuoteOFTParams \<Rightarrow> (OFTStore \<times> PeerConfig) result" where
  "QuoteOFT_try_accounts rt w a params =
     and_then (load_oft_store w (qo_oft_store a)) (\<lambda>s.
     and_then (load_peer w (qo_peer a)) (\<lambda>peer.
     and_then (get_mint rt (ext w) (ai_key (qo_token_mint a))) (\<lambda>_.
     and_then (check_oft_store_seeds rt s (qo_oft_store a)) (\<lambda>_.
     and_then (check_peer_seeds rt (qo_oft_store a) (op_dst_eid params) peer (qo_peer a)) (\<lambda>_.
     and_then (check_address (os_token_mint s) (qo_token_mint a) (Anchor ConstraintAddress)) (\<lambda>_.
     Inr (s, peer)))))))"

definition QuoteOFT_apply :: "'x runtime \<Rightarrow> Clock result \<Rightarrow> 'x \<Rightarrow> QuoteOFT \<Rightarrow> OFTStore \<Rightarrow> PeerConfig \<Rightarrow> QuoteOFTParams \<Rightarrow>
    QuoteOFTResult result" where
  "QuoteOFT_apply rt clock x a s peer params =
     and_then (require (\<not> os_paused s) (OFT Paused)) (\<lambda>_.
     and_then (compute_fee_and_adjust_amount rt clock x (op_amount_ld params) s (ai_key (qo_token_mint a)) (pc_fee_bps peer))
       (\<lambda>(amount_sent_ld, amount_received_ld, oft_fee_ld).
     and_then (require (amount_received_ld \<ge> op_min_amount_ld params) (OFT SlippageExceeded)) (\<lambda>_.
     and_then (u_add amount_received_ld oft_fee_ld) (\<lambda>total.
     and_then
       (if total < amount_sent_ld
        then and_then (u_sub amount_sent_ld oft_fee_ld) (\<lambda>d.
             and_then (u_sub d amount_received_ld) (\<lambda>transfer_fee.
             Inr [\<lparr>fd_fee_amount_ld = transfer_fee, fd_description = ''Token2022 Transfer Fee''\<rparr>]))
        else Inr []) (\<lambda>oft_fee_details.
     Inr \<lparr>qr_oft_limits = \<lparr>ol_min_amount_ld = 0, ol_max_amount_ld = 0xffffffffffffffff\<rparr>,
          qr_oft_fee_details = oft_fee_details @
            (if oft_fee_ld > 0 then [\<lparr>fd_fee_amount_ld = oft_fee_ld, fd_description = ''Cross Chain Fee''\<rparr>] else []),
          qr_oft_receipt = \<lparr>or_amount_sent_ld = amount_sent_ld, or_amount_received_ld = amount_received_ld\<rparr>\<rparr>)))))"

definition quote_oft :: "'x runtime \<Rightarrow> Clock result \<Rightarrow> 'x world \<Rightarrow> QuoteOFT \<Rightarrow> QuoteOFTParams \<Rightarrow> QuoteOFTResult result" where
  "quote_oft rt clock w a params =
     and_then (QuoteOFT_try_accounts rt w a params) (\<lambda>(s, peer).
     QuoteOFT_apply rt clock (ext w) a s peer params)"

subsection \<open>\<^verbatim>\<open>quote_send\<close>\<close>

record QuoteSend =
  qs_oft_store :: AccountInfo
  qs_peer :: AccountInfo
  qs_token_mint :: AccountInfo

record QuoteSendParams =
  qq_dst_eid :: u32
  qq_to :: bytes32
  qq_amount_ld :: u64
  qq_min_amount_ld :: u64
  qq_options :: bytes
  qq_compose_msg :: "bytes option"
  qq_pay_in_lz_token :: bool

definition QuoteSend_try_accounts :: "'x runtime \<Rightarrow> 'x world \<Rightarrow> QuoteSend \<Rightarrow> QuoteSendParams \<Rightarrow> (OFTStore \<times> PeerConfig) result" where
  "QuoteSend_try_accounts rt w a params =
     and_then (load_oft_store w (qs_oft_store a)) (\<lambda>s.
     and_then (load_peer w (qs_peer a)) (\<lambda>peer.
     and_then (get_mint rt (ext w) (ai_key (qs_token_mint a))) (\<lambda>_.
     and_then (check_oft_store_seeds rt s (qs_oft_store a)) (\<lambda>_.
     and_then (check_peer_seeds rt (qs_oft_store a) (qq_dst_eid params) peer (qs_peer a)) (\<lambda>_.
     and_then (check_address (os_token_mint s) (qs_token_mint a) (Anchor ConstraintAddress)) (\<lambda>_.
     Inr (s, peer)))))))"

text \<open>The message handed to the endpoint for pricing: the amount in it is \<open>amount_received_ld\<close>.\<close>

definition QuoteSend_quote_params :: "QuoteSend \<Rightarrow> PeerConfig \<Rightarrow> QuoteSendParams \<Rightarrow> u64 \<Rightarrow> bytes \<Rightarrow> QuoteParams" where
  "QuoteSend_quote_params a peer params amount_received_ld options =
     \<lparr>qp_sender = ai_key (qs_oft_store a), qp_dst_eid = qq_dst_eid params, qp_receiver = pc_peer_address peer,
      qp_message = msg_codec_encode (qq_to params) amount_received_ld default_pubkey (qq_compose_msg params),
      qp_pay_in_lz_token = qq_pay_in_lz_token params, qp_options = options\<rparr>"

definition QuoteSend_apply :: "'x runtime \<Rightarrow> Clock result \<Rightarrow> 'x \<Rightarrow> QuoteSend \<Rightarrow> AccountInfo list \<Rightarrow> OFTStore \<Rightarrow> PeerConfig \<Rightarrow>
    QuoteSendParams \<Rightarrow> MessagingFee result" where
  "QuoteSend_apply rt clock x a remaining_accounts s peer params =
     and_then (require (\<not> os_paused s) (OFT Paused)) (\<lambda>_.
     and_then (compute_fee_and_adjust_amount rt clock x (qq_amount_ld params) s (ai_key (qs_token_mint a)) (pc_fee_bps peer))
       (\<lambda>(_, amount_received_ld, _).
     and_then (require (amount_received_ld \<ge> qq_min_amount_ld params) (OFT SlippageExceeded)) (\<lambda>_.
     and_then (combine_options rt (pc_enforced_options peer) (qq_compose_msg params) (qq_options params)) (\<lambda>options.
     endpoint_quote rt x (os_endpoint_program s) remaining_accounts
       (QuoteSend_quote_params a peer params amount_received_ld options)))))"

definition quote_send :: "'x runtime \<Rightarrow> Clock result \<Rightarrow> 'x world \<Rightarrow> QuoteSend \<Rightarrow> AccountInfo list \<Rightarrow> QuoteSendParams \<Rightarrow>
    MessagingFee result" where
  "quote_send rt clock w a remaining_accounts params =
     and_then (QuoteSend_try_accounts rt w a params) (\<lambda>(s, peer).
     QuoteSend_apply rt clock (ext w) a remaining_accounts s peer params)"

section \<open>The quoted fees\<close>

lemma compute_fee_total_fits:
  assumes "post_fee_law rt" and "compute_fee_and_adjust_amount rt clock x a st m b = Inr (s, r, f)"
  obtains t where "u_add r f = Inr t" and "unat t = unat r + unat f"
proof -
  have "unat r + unat f < 2 ^ LENGTH(64)"
    using compute_fee_covered [OF assms] unat_lt_len [of s] by linarith
  then show ?thesis using that [of "r + f"] by (simp add: u_add_def unat_add_lem [THEN iffD1])
qed

lemma QuoteOFT_apply_eq:
  assumes "post_fee_law rt" and "\<not> os_paused s"
    and "compute_fee_and_adjust_amount rt clock x (op_amount_ld p) s (ai_key (qo_token_mint a)) (pc_fee_bps peer) = Inr (sent, rcv, fee)"
    and "op_min_amount_ld p \<le> rcv"
  shows "\<exists>q. QuoteOFT_apply rt clock x a s peer p = Inr q
     \<and> qr_oft_receipt q = \<lparr>or_amount_sent_ld = sent, or_amount_received_ld = rcv\<rparr>
     \<and> (\<Sum>d\<leftarrow>qr_oft_fee_details q. unat (fd_fee_amount_ld d)) + unat rcv = unat sent"
proof -
  obtain t where t: "u_add rcv fee = Inr t" "unat t = unat rcv + unat fee"
    by (rule compute_fee_total_fits [OF assms(1,3)])
  have le: "unat rcv + unat fee \<le> unat sent" by (rule compute_fee_covered [OF assms(1,3)])
  have d1: "u_sub sent fee = Inr (sent - fee)" "unat (sent - fee) = unat sent - unat fee"
    using le by (auto simp: u_sub_def unat_sub word_le_nat_alt)
  have d2: "u_sub (sent - fee) rcv = Inr (sent - fee - rcv)"
    "unat (sent - fee - rcv) = unat sent - unat fee - unat rcv"
    using le d1(2) by (auto simp: u_sub_def unat_sub word_le_nat_alt)
  show ?thesis
    using assms(2-4) le t d1 d2
    by (cases "t < sent"; cases "fee = 0")
      (auto simp: QuoteOFT_apply_def require_def word_less_nat_alt word_neq_0_conv unat_eq_self_iff)
qed

section \<open>Properties\<close>

text \<open>
  C26: \<^verbatim>\<open>quote_oft\<close> accounts for every unit. For an unpaused OFT, when the amounts can be
  computed and the received one meets the minimum, the quote never panics, its receipt is
  the computed pair, and the listed fees plus the received amount are exactly the sent one.
\<close>

theorem quote_oft_balanced:
  assumes "post_fee_law rt" and "QuoteOFT_try_accounts rt w a p = Inr (s, peer)" and "\<not> os_paused s"
    and "compute_fee_and_adjust_amount rt clock (ext w) (op_amount_ld p) s (ai_key (qo_token_mint a)) (pc_fee_bps peer) = Inr (sent, rcv, fee)"
    and "op_min_amount_ld p \<le> rcv"
  shows "\<exists>q. quote_oft rt clock w a p = Inr q
     \<and> qr_oft_receipt q = \<lparr>or_amount_sent_ld = sent, or_amount_received_ld = rcv\<rparr>
     \<and> (\<Sum>d\<leftarrow>qr_oft_fee_details q. unat (fd_fee_amount_ld d)) + unat rcv = unat sent"
  using QuoteOFT_apply_eq [OF assms(1,3,4,5)] assms(2) by (simp add: quote_oft_def)

text \<open>The example adapter, its peer for endpoint 5, and the token with a transfer fee.\<close>

definition transfer_world :: "OFTStore \<Rightarrow> PeerConfig \<Rightarrow> ledger \<Rightarrow> ledger world" where
  "transfer_world s peer x = \<lparr>accounts = [repeat32 120 \<mapsto> AOFTStore s, repeat32 57 \<mapsto> APeerConfig peer],
     events = [], ext = x\<rparr>"

definition example_peer :: PeerConfig where
  "example_peer = PeerConfig_zero\<lparr>pc_peer_address := repeat32 77, pc_fee_bps := Some 100, pc_bump := 255\<rparr>"

definition example_quote :: QuoteOFT where
  "example_quote = \<lparr>qo_oft_store = acct 120 False False, qo_peer = acct 57 False False, qo_token_mint = acct 1 False False\<rparr>"

definition example_quote_params :: QuoteOFTParams where
  "example_quote_params = \<lparr>op_dst_eid = 5, op_to = repeat32 8, op_amount_ld = 1000000, op_min_amount_ld = 900000,
     op_options = [], op_compose_msg = None, op_pay_in_lz_token = False\<rparr>"

lemmas transfer_world_defs = transfer_world_def example_peer_def fee_ledger_def demo_ledger_def
  example_world_defs check_oft_store_seeds_def check_peer_seeds_def check_defs load_oft_store_def load_peer_def
  PEER_SEED_def be_bytes_4 PeerConfig_zero_def

theorem quote_oft_balanced_witness:
  "\<exists>q. quote_oft ledger_runtime (Inr (clock_at 0)) (transfer_world (example_store Adapter) example_peer fee_ledger)
       example_quote example_quote_params = Inr q
     \<and> (\<Sum>d\<leftarrow>qr_oft_fee_details q. unat (fd_fee_amount_ld d)) = 14000"
proof -
  let ?w = "transfer_world (example_store Adapter) example_peer fee_ledger"
  have acc: "QuoteOFT_try_accounts ledger_runtime ?w example_quote example_quote_params
      = Inr (example_store Adapter, example_peer)"
    by (simp add: QuoteOFT_try_accounts_def transfer_world_defs example_quote_def example_quote_params_def)
  have cmp: "compute_fee_and_adjust_amount ledger_runtime (Inr (clock_at 0)) (ext ?w)
      (op_amount_ld example_quote_params) (example_store Adapter) (ai_key (qo_token_mint example_quote))
      (pc_fee_bps example_peer) = Inr (1000000, 986000, 9000)"
    using example_compute [OF fee_ledger_fee]
    by (simp add: transfer_world_def example_quote_def example_quote_params_def example_peer_def acct_def)
  show ?thesis
    using quote_oft_balanced [OF ledger_post_fee_law acc _ cmp]
    by (auto simp: example_store_def example_quote_params_def)
qed

end
