(* ===== verification/Token_Laws.thy ===== *)
theory Token_Laws
  imports Fees OFT_World
begin

text \<open>
  What the transfer instructions rely on from the token programs and the endpoint, as named
  predicates on the runtime, and the frame lemmas that follow. \<open>owner\<close> is the authority
  stored in a token account. An account owned by the address of an OFT is in \<^emph>\<open>custody\<close>: only
  the OFT program can sign for it.
\<close>

section \<open>The laws\<close>

definition owner :: "'x runtime \<Rightarrow> 'x \<Rightarrow> pubkey \<Rightarrow> pubkey option" where
  "owner rt x k = (case get_token_account rt x k of Inl _ \<Rightarrow> None | Inr ta \<Rightarrow> Some (ta_owner ta))"

text \<open>
  SPL token instructions. A transfer takes the amount from one account, the token's transfer
  fee is withheld, the rest arrives; from an account to itself it changes nothing. It leaves
  the mint's fee configuration alone.
\<close>

definition transferred :: "'x runtime \<Rightarrow> Clock result \<Rightarrow> 'x \<Rightarrow> pubkey \<Rightarrow> pubkey \<Rightarrow> pubkey \<Rightarrow> u64 \<Rightarrow> 'x \<Rightarrow> bool" where
  "transferred rt clock x from mint to amount x' = (
     (\<forall>k. owner rt x' k = owner rt x k) \<and>
     (\<forall>m. get_transfer_fee_config rt x' m = get_transfer_fee_config rt x m) \<and>
     (if from = to then \<forall>k. balance rt x' k = balance rt x k
      else (\<exists>net. get_post_fee_amount_ld rt clock x mint amount = Inr net
             \<and> balance rt x from = balance rt x' from + unat amount
             \<and> balance rt x' to = balance rt x to + unat net
             \<and> (\<forall>k. k \<noteq> from \<and> k \<noteq> to \<longrightarrow> balance rt x' k = balance rt x k))))"

definition transfer_law :: "'x runtime \<Rightarrow> bool" where
  "transfer_law rt = (\<forall>clock x program from mint to authority seeds amount decimals x'.
     transfer_checked rt clock x program from mint to authority seeds amount decimals = Inr x' \<longrightarrow>
       transferred rt clock x from mint to amount x')"

definition burn_law :: "'x runtime \<Rightarrow> bool" where
  "burn_law rt = (\<forall>x program mint from authority amount x'.
     burn rt x program mint from authority amount = Inr x' \<longrightarrow>
       (\<forall>k. owner rt x' k = owner rt x k) \<and> balance rt x from = balance rt x' from + unat amount
       \<and> (\<forall>k. k \<noteq> from \<longrightarrow> balance rt x' k = balance rt x k))"

definition mint_to_law :: "'x runtime \<Rightarrow> bool" where
  "mint_to_law rt = (\<forall>x program mint to authority signers seeds amount x'.
     mint_to rt x program mint to authority signers seeds amount = Inr x' \<longrightarrow>
       (\<forall>k. owner rt x' k = owner rt x k) \<and> balance rt x' to = balance rt x to + unat amount
       \<and> (\<forall>k. k \<noteq> to \<longrightarrow> balance rt x' k = balance rt x k))"

text \<open>A new token account is empty, belongs to the authority, and was no token account before.\<close>

definition opened :: "'x runtime \<Rightarrow> 'x \<Rightarrow> 'x \<Rightarrow> pubkey \<Rightarrow> pubkey \<Rightarrow> bool" where
  "opened rt x x' key authority = (owner rt x key = None \<and> owner rt x' key = Some authority \<and> balance rt x' key = 0
     \<and> (\<forall>k. k \<noteq> key \<longrightarrow> owner rt x' k = owner rt x k \<and> balance rt x' k = balance rt x k))"

definition create_law :: "'x runtime \<Rightarrow> bool" where
  "create_law rt = (
     (\<forall>x payer key space x'. create_account rt x payer key space = Inr x' \<longrightarrow>
        (\<forall>k. owner rt x' k = owner rt x k \<and> balance rt x' k = balance rt x k))
   \<and> (\<forall>x payer key mint authority program x'.
        create_token_account rt x payer key mint authority program = Inr x' \<longrightarrow> opened rt x x' key authority)
   \<and> (\<forall>x payer key authority mint program x'.
        create_associated_token rt x payer key authority mint program = Inr x' \<longrightarrow> opened rt x x' key authority))"

text \<open>
  \<open>custody_kept rt x x'\<close>: every token account that belongs to an OFT still does and has not
  lost anything. It is what the endpoint promises for its instructions, and what
  transactions that do not call the OFT program cannot violate, since nobody else signs for
  an OFT's address.
\<close>

definition custody_kept :: "'x runtime \<Rightarrow> 'x \<Rightarrow> 'x \<Rightarrow> bool" where
  "custody_kept rt x x' = (\<forall>k e. owner rt x k = Some (oft_pda rt e) \<longrightarrow>
     owner rt x' k = owner rt x k \<and> balance rt x k \<le> balance rt x' k)"

definition endpoint_law :: "'x runtime \<Rightarrow> bool" where
  "endpoint_law rt = (
     (\<forall>x ep oapp ra seeds d x'. endpoint_register_oapp rt x ep oapp ra seeds d = Inr x' \<longrightarrow> custody_kept rt x x')
   \<and> (\<forall>x ep oapp ra seeds d x'. endpoint_set_delegate rt x ep oapp ra seeds d = Inr x' \<longrightarrow> custody_kept rt x x')
   \<and> (\<forall>x ep oapp ra seeds p r x'. endpoint_send rt x ep oapp ra seeds p = Inr (r, x') \<longrightarrow> custody_kept rt x x')
   \<and> (\<forall>x ep oapp ra seeds p x'. endpoint_clear rt x ep oapp ra seeds p = Inr x' \<longrightarrow> custody_kept rt x x')
   \<and> (\<forall>x ep oapp ra seeds p x'. endpoint_send_compose rt x ep oapp ra seeds p = Inr x' \<longrightarrow> custody_kept rt x x'))"

definition runtime_laws :: "'x runtime \<Rightarrow> bool" where
  "runtime_laws rt = (pda_law rt \<and> post_fee_law rt \<and> transfer_law rt \<and> burn_law rt \<and> mint_to_law rt
     \<and> create_law rt \<and> endpoint_law rt)"

text \<open>
  What the endpoint does with token accounts, used where a theorem states balances after its
  instructions exactly: \<^verbatim>\<open>clear\<close> and \<^verbatim>\<open>send_compose\<close> call no token program, and \<^verbatim>\<open>send\<close> collects
  its price in lamports unless a fee in the LayerZero token is offered.
\<close>

definition tokens_untouched :: "'x runtime \<Rightarrow> 'x \<Rightarrow> 'x \<Rightarrow> bool" where
  "tokens_untouched rt x x' = ((\<forall>k. get_token_account rt x' k = get_token_account rt x k)
     \<and> (\<forall>m. get_transfer_fee_config rt x' m = get_transfer_fee_config rt x m))"

definition endpoint_no_tokens :: "'x runtime \<Rightarrow> bool" where
  "endpoint_no_tokens rt = (
     (\<forall>x ep oapp ra seeds p r x'. endpoint_send rt x ep oapp ra seeds p = Inr (r, x') \<longrightarrow> es_lz_token_fee p = 0 \<longrightarrow>
        tokens_untouched rt x x')
   \<and> (\<forall>x ep oapp ra seeds p x'. endpoint_clear rt x ep oapp ra seeds p = Inr x' \<longrightarrow> tokens_untouched rt x x')
   \<and> (\<forall>x ep oapp ra seeds p x'. endpoint_send_compose rt x ep oapp ra seeds p = Inr x' \<longrightarrow> tokens_untouched rt x x'))"

lemma runtime_lawsD:
  assumes "runtime_laws rt"
  shows "pda_law rt" "post_fee_law rt" "transfer_law rt" "burn_law rt" "mint_to_law rt" "create_law rt" "endpoint_law rt"
  using assms by (auto simp: runtime_laws_def)

section \<open>Consequences\<close>

lemma balance_account: "get_token_account rt x k = Inr ta \<Longrightarrow> balance rt x k = unat (ta_amount ta)"
  by (simp add: balance_def)

lemma owner_account: "get_token_account rt x k = Inr ta \<Longrightarrow> owner rt x k = Some (ta_owner ta)"
  by (simp add: owner_def)

lemma transfer_lawD:
  "transfer_law rt \<Longrightarrow> transfer_checked rt clock x pr from mint to auth sd amt d = Inr x' \<Longrightarrow>
     transferred rt clock x from mint to amt x'"
  by (simp add: transfer_law_def)

lemma transfer_keeps:
  assumes "transfer_law rt" "transfer_checked rt clock x pr from mint to auth sd amt d = Inr x'"
  shows "owner rt x' k = owner rt x k" and "get_transfer_fee_config rt x' m = get_transfer_fee_config rt x m"
    and "from = to \<Longrightarrow> balance rt x' k = balance rt x k"
  using transfer_lawD [OF assms] by (simp_all add: transferred_def)

lemma transfer_moves:
  assumes "transfer_law rt" "transfer_checked rt clock x pr from mint to auth sd amt d = Inr x'" and "from \<noteq> to"
  obtains net where "get_post_fee_amount_ld rt clock x mint amt = Inr net"
    "balance rt x from = balance rt x' from + unat amt" "balance rt x' to = balance rt x to + unat net"
    "\<forall>k. k \<noteq> from \<and> k \<noteq> to \<longrightarrow> balance rt x' k = balance rt x k"
  using transfer_lawD [OF assms(1,2)] assms(3) by (auto simp: transferred_def)

text \<open>At most the amount leaves the source, and nobody else loses.\<close>

lemma transfer_loses:
  assumes "transfer_law rt" "transfer_checked rt clock x pr from mint to auth sd amt d = Inr x'"
  shows "balance rt x k \<le> balance rt x' k + (if k = from then unat amt else 0)"
proof (cases "from = to")
  case True
  then show ?thesis using transfer_keeps(3) [OF assms] by simp
next
  case False
  obtain net where "get_post_fee_amount_ld rt clock x mint amt = Inr net"
    "balance rt x from = balance rt x' from + unat amt" "balance rt x' to = balance rt x to + unat net"
    "\<forall>k. k \<noteq> from \<and> k \<noteq> to \<longrightarrow> balance rt x' k = balance rt x k"
    by (rule transfer_moves [OF assms False])
  then show ?thesis by (cases "k = from"; cases "k = to") simp_all
qed

lemma burn_moves:
  assumes "burn_law rt" "burn rt x pr mint from auth amt = Inr x'"
  shows "owner rt x' k = owner rt x k" and "balance rt x from = balance rt x' from + unat amt"
    and "k \<noteq> from \<Longrightarrow> balance rt x' k = balance rt x k"
  using assms unfolding burn_law_def by blast+

lemma mint_to_moves:
  assumes "mint_to_law rt" "mint_to rt x pr mint to auth sg sd amt = Inr x'"
  shows "owner rt x' k = owner rt x k" and "balance rt x' to = balance rt x to + unat amt"
    and "k \<noteq> to \<Longrightarrow> balance rt x' k = balance rt x k"
  using assms unfolding mint_to_law_def by blast+

lemma custody_keptI:
  "(\<And>k e. owner rt x k = Some (oft_pda rt e) \<Longrightarrow> owner rt x' k = owner rt x k) \<Longrightarrow>
   (\<And>k e. owner rt x k = Some (oft_pda rt e) \<Longrightarrow> balance rt x k \<le> balance rt x' k) \<Longrightarrow> custody_kept rt x x'"
  by (auto simp: custody_kept_def)

lemma custody_keptD:
  assumes "custody_kept rt x x'" and "owner rt x k = Some (oft_pda rt e)"
  shows "owner rt x' k = owner rt x k" and "balance rt x k \<le> balance rt x' k"
  using assms unfolding custody_kept_def by blast+

lemma custody_refl [simp]: "custody_kept rt x x"
  by (simp add: custody_kept_def)

lemma custody_trans: "custody_kept rt x y \<Longrightarrow> custody_kept rt y z \<Longrightarrow> custody_kept rt x z"
proof (rule custody_keptI)
  fix k e assume c: "custody_kept rt x y" "custody_kept rt y z" and o: "owner rt x k = Some (oft_pda rt e)"
  have y: "owner rt y k = Some (oft_pda rt e)" using custody_keptD(1) [OF c(1) o] o by simp
  show "owner rt z k = owner rt x k" using custody_keptD(1) [OF c(2) y] y o by simp
  show "balance rt x k \<le> balance rt z k" using custody_keptD(2) [OF c(1) o] custody_keptD(2) [OF c(2) y] by simp
qed

lemma custody_mint_to:
  assumes "mint_to_law rt" "mint_to rt x pr mint to auth sg sd amt = Inr x'"
  shows "custody_kept rt x x'"
proof (rule custody_keptI)
  fix k show "owner rt x' k = owner rt x k" by (rule mint_to_moves(1) [OF assms])
  show "balance rt x k \<le> balance rt x' k"
    using mint_to_moves(2,3) [OF assms] by (cases "k = to") auto
qed

lemma custody_opened: "opened rt x x' key a \<Longrightarrow> custody_kept rt x x'"
  unfolding opened_def by (rule custody_keptI) (metis option.distinct(1) order_refl)+

lemma create_lawD:
  assumes "create_law rt"
  shows "create_account rt x payer key space = Inr x' \<Longrightarrow> owner rt x' k = owner rt x k"
    and "create_account rt x payer key space = Inr x' \<Longrightarrow> balance rt x' k = balance rt x k"
    and "create_token_account rt x payer key mint a program = Inr x' \<Longrightarrow> opened rt x x' key a"
    and "create_associated_token rt x payer key a mint program = Inr x' \<Longrightarrow> opened rt x x' key a"
  using assms by (auto simp: create_law_def)

text \<open>Opening an account changes no balance: the address held no tokens before.\<close>

lemma opened_balance: "opened rt x x' key a \<Longrightarrow> balance rt x' k = balance rt x k"
  by (cases "k = key") (auto simp: opened_def owner_def balance_def split: sum.splits)

lemma tokens_untouched_refl [simp]: "tokens_untouched rt x x"
  by (simp add: tokens_untouched_def)

lemma tokens_untouchedD:
  assumes "tokens_untouched rt x x'"
  shows "balance rt x' k = balance rt x k" and "owner rt x' k = owner rt x k"
    and "get_post_fee_amount_ld rt clock x' m n = get_post_fee_amount_ld rt clock x m n"
  using assms by (simp_all add: tokens_untouched_def balance_def owner_def get_post_fee_amount_ld_def)

lemma endpoint_no_tokensD:
  assumes "endpoint_no_tokens rt"
  shows "endpoint_send rt x ep oapp ra seeds sp = Inr (r, x') \<Longrightarrow> es_lz_token_fee sp = 0 \<Longrightarrow> tokens_untouched rt x x'"
    and "endpoint_clear rt x ep oapp ra seeds cp = Inr x' \<Longrightarrow> tokens_untouched rt x x'"
    and "endpoint_send_compose rt x ep oapp ra seeds scp = Inr x' \<Longrightarrow> tokens_untouched rt x x'"
  using assms by (auto simp: endpoint_no_tokens_def)

lemma custody_create_account:
  "create_law rt \<Longrightarrow> create_account rt x payer key space = Inr x' \<Longrightarrow> custody_kept rt x x'"
  by (rule custody_keptI) (simp_all add: create_lawD)

lemma endpoint_lawD:
  assumes "endpoint_law rt"
  shows "endpoint_register_oapp rt x ep oapp ra seeds d = Inr x' \<Longrightarrow> custody_kept rt x x'"
    and "endpoint_set_delegate rt x ep oapp ra seeds d = Inr x' \<Longrightarrow> custody_kept rt x x'"
    and "endpoint_send rt x ep oapp ra seeds sp = Inr (r, x') \<Longrightarrow> custody_kept rt x x'"
    and "endpoint_clear rt x ep oapp ra seeds cp = Inr x' \<Longrightarrow> custody_kept rt x x'"
    and "endpoint_send_compose rt x ep oapp ra seeds scp = Inr x' \<Longrightarrow> custody_kept rt x x'"
  using assms by (auto simp: endpoint_law_def)

section \<open>The example ledger obeys them\<close>

lemma ledger_balance: "balance ledger_runtime x k = (case lg_tokens x k of None \<Rightarrow> 0 | Some ta \<Rightarrow> unat (ta_amount ta))"
  by (simp add: balance_def ledger_token_def ok_or_def split: option.splits)

lemma ledger_owner: "owner ledger_runtime x k = map_option ta_owner (lg_tokens x k)"
  by (simp add: owner_def ledger_token_def ok_or_def split: option.splits)

lemma ledger_net_post_fee: "get_post_fee_amount_ld ledger_runtime clock x m a = ledger_net clock x a"
  by (simp add: get_post_fee_amount_ld_def ledger_net_def cong: option.case_cong)

lemma ledger_transfer_law: "transfer_law ledger_runtime"
  unfolding transfer_law_def transferred_def ledger_balance ledger_owner ledger_net_post_fee
  by (auto simp: ledger_transfer_def ledger_token_def result_simps int_iff set_amount_def split: if_splits)

lemma ledger_burn_law: "burn_law ledger_runtime"
  unfolding burn_law_def ledger_balance ledger_owner
  by (auto simp: ledger_burn_def ledger_token_def result_simps int_iff set_amount_def)

lemma ledger_mint_to_law: "mint_to_law ledger_runtime"
  unfolding mint_to_law_def ledger_balance ledger_owner
  by (auto simp: ledger_mint_to_def ledger_token_def result_simps int_iff set_amount_def)

lemma ledger_create_law: "create_law ledger_runtime"
  unfolding create_law_def opened_def ledger_balance ledger_owner
  by (auto simp: ledger_create_token_def split: if_splits)

lemma ledger_endpoint_law: "endpoint_law ledger_runtime"
  unfolding endpoint_law_def custody_kept_def ledger_balance ledger_owner by auto

lemma ledger_no_tokens: "endpoint_no_tokens ledger_runtime"
  by (auto simp: endpoint_no_tokens_def tokens_untouched_def ledger_token_def)

lemma ledger_pda_law: "pda_law ledger_runtime"
  by (auto simp: pda_law_def)

lemma ledger_laws: "runtime_laws ledger_runtime"
  by (simp add: runtime_laws_def ledger_pda_law ledger_post_fee_law ledger_transfer_law ledger_burn_law
      ledger_mint_to_law ledger_create_law ledger_endpoint_law)

end
