(* ===== verification/Withdraw_Fee.thy ===== *)
theory Withdraw_Fee
  imports OFT_Admin Token_Laws
begin

text \<open>
  Withdrawal of collected fees (\<^verbatim>\<open>instructions/withdraw_fee.rs\<close>). The escrow holds the
  locked tokens (\<open>os_tvl_ld\<close>) together with the fees; only the difference may leave. Prefix
  \<open>wf_\<close>.
\<close>

section \<open>Definitions\<close>

record WithdrawFee =
  wf_admin :: AccountInfo
  wf_oft_store :: AccountInfo
  wf_token_mint :: AccountInfo
  wf_token_escrow :: AccountInfo
  wf_token_dest :: AccountInfo
  wf_token_program :: AccountInfo

record WithdrawFeeParams =
  wf_fee_ld :: u64

definition WithdrawFee_try_accounts :: "'x runtime \<Rightarrow> 'x world \<Rightarrow> WithdrawFee \<Rightarrow> (OFTStore \<times> Mint \<times> TokenAccount) result" where
  "WithdrawFee_try_accounts rt w a =
     and_then (check_signer (wf_admin a)) (\<lambda>_.
     and_then (load_oft_store w (wf_oft_store a)) (\<lambda>s.
     and_then (get_mint rt (ext w) (ai_key (wf_token_mint a))) (\<lambda>mint.
     and_then (get_token_account rt (ext w) (ai_key (wf_token_escrow a))) (\<lambda>escrow.
     and_then (get_token_account rt (ext w) (ai_key (wf_token_dest a))) (\<lambda>dest.
     and_then (check_token_program rt (wf_token_program a)) (\<lambda>_.
     and_then (check_oft_store_seeds rt s (wf_oft_store a)) (\<lambda>_.
     and_then (check_admin s (wf_admin a)) (\<lambda>_.
     and_then (check_address (os_token_mint s) (wf_token_mint a) (Anchor ConstraintAddress)) (\<lambda>_.
     and_then (check_mint_program mint (ai_key (wf_token_program a))) (\<lambda>_.
     and_then (check_mut (wf_token_escrow a)) (\<lambda>_.
     and_then (check_address (os_token_escrow s) (wf_token_escrow a) (Anchor ConstraintAddress)) (\<lambda>_.
     and_then (check_token escrow (Some (ai_key (wf_oft_store a))) (ai_key (wf_token_mint a)) (ai_key (wf_token_program a))) (\<lambda>_.
     and_then (check_mut (wf_token_dest a)) (\<lambda>_.
     and_then (check_token dest None (ai_key (wf_token_mint a)) (ai_key (wf_token_program a))) (\<lambda>_.
     Inr (s, mint, escrow))))))))))))))))"

definition WithdrawFee_apply :: "'x runtime \<Rightarrow> Clock result \<Rightarrow> 'x \<Rightarrow> WithdrawFee \<Rightarrow> OFTStore \<Rightarrow> Mint \<Rightarrow> TokenAccount \<Rightarrow>
    WithdrawFeeParams \<Rightarrow> 'x result" where
  "WithdrawFee_apply rt clock x a s mint escrow params =
     and_then (u_sub (ta_amount escrow) (os_tvl_ld s)) (\<lambda>available.
     and_then (require (available \<ge> wf_fee_ld params) (OFT InvalidFee)) (\<lambda>_.
     transfer_checked rt clock x (ai_key (wf_token_program a)) (ai_key (wf_token_escrow a)) (ai_key (wf_token_mint a))
       (ai_key (wf_token_dest a)) (ai_key (wf_oft_store a))
       (Some (signer_seeds (ai_key (wf_token_escrow a)) (os_bump s))) (wf_fee_ld params) (mi_decimals mint)))"

definition withdraw_fee :: "'x runtime \<Rightarrow> Clock result \<Rightarrow> 'x world \<Rightarrow> WithdrawFee \<Rightarrow> WithdrawFeeParams \<Rightarrow> 'x world result" where
  "withdraw_fee rt clock w a params =
     and_then (WithdrawFee_try_accounts rt w a) (\<lambda>(s, mint, escrow).
     and_then (WithdrawFee_apply rt clock (ext w) a s mint escrow params) (\<lambda>x'.
     Inr (w\<lparr>ext := x'\<rparr>)))"

section \<open>When it succeeds\<close>

lemma WithdrawFee_accounts_Inr:
  assumes "WithdrawFee_try_accounts rt w a = Inr (s, mint, escrow)"
  shows "accounts w (ai_key (wf_oft_store a)) = Some (AOFTStore s)" "ai_is_signer (wf_admin a)"
    "os_admin s = ai_key (wf_admin a)" "ai_key (wf_token_escrow a) = os_token_escrow s"
    "get_token_account rt (ext w) (os_token_escrow s) = Inr escrow" "ta_owner escrow = ai_key (wf_oft_store a)"
  using assms
  by (auto simp: WithdrawFee_try_accounts_def check_oft_store_seeds_def check_admin_def check_defs result_simps)

lemma withdraw_fee_cases:
  assumes "withdraw_fee rt clock w a p = Inr w'"
  obtains (withdrawn) s mint escrow x' where "WithdrawFee_try_accounts rt w a = Inr (s, mint, escrow)"
    "unat (os_tvl_ld s) + unat (wf_fee_ld p) \<le> balance rt (ext w) (os_token_escrow s)"
    "transfer_checked rt clock (ext w) (ai_key (wf_token_program a)) (os_token_escrow s) (ai_key (wf_token_mint a))
       (ai_key (wf_token_dest a)) (ai_key (wf_oft_store a))
       (Some (signer_seeds (os_token_escrow s) (os_bump s))) (wf_fee_ld p) (mi_decimals mint) = Inr x'"
    "w' = w\<lparr>ext := x'\<rparr>"
proof -
  obtain s mint escrow x' where acc: "WithdrawFee_try_accounts rt w a = Inr (s, mint, escrow)"
    and ap: "WithdrawFee_apply rt clock (ext w) a s mint escrow p = Inr x'" and w': "w' = w\<lparr>ext := x'\<rparr>"
    using assms by (auto simp: withdraw_fee_def result_simps)
  note f = WithdrawFee_accounts_Inr [OF acc]
  have "unat (os_tvl_ld s) + unat (wf_fee_ld p) \<le> balance rt (ext w) (os_token_escrow s)"
    using ap by (auto simp: WithdrawFee_apply_def result_simps int_iff word_le_nat_alt balance_account [OF f(5)])
  with acc ap w' f(4) that show ?thesis by (auto simp: WithdrawFee_apply_def result_simps)
qed

lemma withdraw_fee_accounts [simp]:
  "withdraw_fee rt clock w a p = Inr w' \<Longrightarrow> accounts w' = accounts w"
  "withdraw_fee rt clock w a p = Inr w' \<Longrightarrow> events w' = events w"
  by (auto elim: withdraw_fee_cases)

section \<open>Properties\<close>

text \<open>
  C27: fee withdrawal on every branch. With valid accounts and an escrow that holds at least
  the locked value, \<^verbatim>\<open>withdraw_fee\<close> refuses with \<^verbatim>\<open>InvalidFee\<close> exactly the amounts above what
  the escrow holds beyond that value, and otherwise is one token transfer of that amount out
  of the escrow, signed by the OFT; an escrow below the locked value makes it panic.
\<close>

theorem withdraw_fee_exact:
  assumes "WithdrawFee_try_accounts rt w a = Inr (s, mint, escrow)"
  shows "withdraw_fee rt clock w a p =
     (if balance rt (ext w) (os_token_escrow s) < unat (os_tvl_ld s) then Inl (Panic ArithmeticOverflow)
      else if balance rt (ext w) (os_token_escrow s) - unat (os_tvl_ld s) < unat (wf_fee_ld p) then Inl (OFT InvalidFee)
      else map_sum id (\<lambda>x'. w\<lparr>ext := x'\<rparr>)
        (transfer_checked rt clock (ext w) (ai_key (wf_token_program a)) (os_token_escrow s) (ai_key (wf_token_mint a))
          (ai_key (wf_token_dest a)) (ai_key (wf_oft_store a)) (Some (signer_seeds (os_token_escrow s) (os_bump s)))
          (wf_fee_ld p) (mi_decimals mint)))"
proof -
  note f = WithdrawFee_accounts_Inr [OF assms]
  show ?thesis
    using assms f(4) balance_account [OF f(5)]
    by (auto simp: withdraw_fee_def WithdrawFee_apply_def u_sub_def require_def word_le_nat_alt unat_sub
        and_then_def [where m = "transfer_checked _ _ _ _ _ _ _ _ _ _ _"] split: sum.splits)
qed

text \<open>
  C10: withdrawing fees never touches locked value. If token transfers move what they say,
  then after any successful \<^verbatim>\<open>withdraw_fee\<close> the escrow still holds at least \<^verbatim>\<open>tvl_ld\<close>, the
  caller was the admin, and no account of the program changed.
\<close>

theorem withdraw_fee_keeps_locked:
  assumes "transfer_law rt" and "withdraw_fee rt clock w a p = Inr w'"
  shows "\<exists>s. accounts w (ai_key (wf_oft_store a)) = Some (AOFTStore s) \<and> os_admin s = ai_key (wf_admin a)
     \<and> ai_is_signer (wf_admin a) \<and> accounts w' = accounts w
     \<and> unat (os_tvl_ld s) \<le> balance rt (ext w') (os_token_escrow s)"
  using assms(2)
proof (cases rule: withdraw_fee_cases)
  case (withdrawn s mint escrow x')
  note acc = withdrawn(1) and le = withdrawn(2) and tr = withdrawn(3) and w' = withdrawn(4)
  show ?thesis
    using le w' WithdrawFee_accounts_Inr [OF acc] transfer_loses [OF assms(1) tr, of "os_token_escrow s"] by auto
qed

text \<open>The example adapter with 600000 locked and 900000 in its escrow.\<close>

definition escrow_account :: "u64 \<Rightarrow> TokenAccount" where
  "escrow_account n = \<lparr>ta_token_program = repeat32 103, ta_mint = repeat32 1, ta_owner = repeat32 120, ta_amount = n\<rparr>"

definition escrow_ledger :: "u64 \<Rightarrow> ledger" where
  "escrow_ledger n = demo_ledger\<lparr>lg_tokens := (lg_tokens demo_ledger)(repeat32 2 \<mapsto> escrow_account n)\<rparr>"

definition example_withdraw :: WithdrawFee where
  "example_withdraw = \<lparr>wf_admin = acct 4 True False, wf_oft_store = acct 120 False False, wf_token_mint = acct 1 False False,
     wf_token_escrow = acct 2 False True, wf_token_dest = acct 21 False True, wf_token_program = acct 103 False False\<rparr>"

definition locked_world :: "ledger world" where
  "locked_world = example_world ((example_store Adapter)\<lparr>os_tvl_ld := 600000\<rparr>) (escrow_ledger 900000)"

lemmas example_withdraw_defs = WithdrawFee_try_accounts_def example_withdraw_def locked_world_def escrow_ledger_def
  escrow_account_def demo_ledger_def wallet_account_def ledger_token_def check_oft_store_seeds_def check_admin_def
  check_defs load_oft_store_def example_world_defs

lemma example_withdraw_accounts:
  "\<exists>mint. WithdrawFee_try_accounts ledger_runtime locked_world example_withdraw
     = Inr ((example_store Adapter)\<lparr>os_tvl_ld := 600000\<rparr>, mint, escrow_account 900000)"
  by (simp add: example_withdraw_defs)

lemma locked_world_balance: "balance ledger_runtime (ext locked_world) (repeat32 2) = 900000"
  by (simp add: ledger_balance locked_world_def example_world_def escrow_ledger_def escrow_account_def)

theorem withdraw_fee_exact_witness:
  "withdraw_fee ledger_runtime (Inr (clock_at 5)) locked_world example_withdraw \<lparr>wf_fee_ld = 300001\<rparr> = Inl (OFT InvalidFee)"
proof -
  obtain mint where acc: "WithdrawFee_try_accounts ledger_runtime locked_world example_withdraw
     = Inr ((example_store Adapter)\<lparr>os_tvl_ld := 600000\<rparr>, mint, escrow_account 900000)"
    using example_withdraw_accounts by blast
  show ?thesis
    using withdraw_fee_exact [OF acc, of "Inr (clock_at 5)" "\<lparr>wf_fee_ld = 300001\<rparr>"] locked_world_balance
    by (simp add: example_store_def)
qed

lemma example_withdraw_succeeds:
  "\<exists>w'. withdraw_fee ledger_runtime (Inr (clock_at 5)) locked_world example_withdraw \<lparr>wf_fee_ld = 300000\<rparr> = Inr w'"
  by (simp add: withdraw_fee_def WithdrawFee_apply_def u_sub_def u_add_def ledger_transfer_def ledger_net_def
      example_withdraw_defs)

theorem withdraw_fee_keeps_locked_witness:
  "\<exists>w'. withdraw_fee ledger_runtime (Inr (clock_at 5)) locked_world example_withdraw \<lparr>wf_fee_ld = 300000\<rparr> = Inr w'
     \<and> 600000 \<le> balance ledger_runtime (ext w') (repeat32 2)"
proof -
  obtain w' where w': "withdraw_fee ledger_runtime (Inr (clock_at 5)) locked_world example_withdraw
      \<lparr>wf_fee_ld = 300000\<rparr> = Inr w'"
    using example_withdraw_succeeds by blast
  then show ?thesis
    using withdraw_fee_keeps_locked [OF ledger_transfer_law w']
    by (auto simp: example_withdraw_def locked_world_def example_world_def acct_def example_store_def)
qed

end
