(* ===== verification/Init_OFT.thy ===== *)
theory Init_OFT
  imports OFT_World Example_Ledger
begin

text \<open>
  Creation of an OFT (\<^verbatim>\<open>instructions/init_oft.rs\<close>): the configuration account at the address
  derived from the escrow, the account LayerZero's executor reads, the escrow itself, and
  the registration with the endpoint. Account fields carry the prefix \<open>io_\<close>, parameters \<open>ip_\<close>.
\<close>

section \<open>Definitions\<close>

record InitOFT =
  io_payer :: AccountInfo
  io_oft_store :: AccountInfo
  io_lz_receive_types_accounts :: AccountInfo
  io_token_mint :: AccountInfo
  io_token_escrow :: AccountInfo
  io_token_program :: AccountInfo
  io_system_program :: AccountInfo

record InitOFTParams =
  ip_oft_type :: OFTType
  ip_admin :: pubkey
  ip_shared_decimals :: u8
  ip_endpoint_program :: "pubkey option"

text \<open>\<^verbatim>\<open>init\<close> with \<^verbatim>\<open>seeds\<close>: the derived address must match and hold nothing yet.\<close>

definition init_pda :: "'x runtime \<Rightarrow> (pubkey \<Rightarrow> bool) \<Rightarrow> 'x \<Rightarrow> AccountInfo \<Rightarrow> AccountInfo \<Rightarrow> bytes list \<Rightarrow> nat \<Rightarrow> (u8 \<times> 'x) result" where
  "init_pda rt in_use x payer ai seeds space =
     (let (k, bump) = find_program_address rt seeds (program_id rt) in
      and_then (require (ai_key ai = k) (Anchor ConstraintSeeds)) (\<lambda>_.
      and_then (require (\<not> in_use (ai_key ai)) AccountAlreadyInUse) (\<lambda>_.
      and_then (create_account rt x (ai_key payer) (ai_key ai) space) (\<lambda>x'.
      and_then (check_mut ai) (\<lambda>_.
      Inr (bump, x'))))))"

text \<open>Returns the mint, the bump of \<^verbatim>\<open>oft_store\<close> and the state after the three creations.\<close>

definition InitOFT_try_accounts :: "'x runtime \<Rightarrow> 'x world \<Rightarrow> InitOFT \<Rightarrow> (Mint \<times> u8 \<times> 'x) result" where
  "InitOFT_try_accounts rt w a =
     and_then (check_signer (io_payer a)) (\<lambda>_.
     and_then (get_mint rt (ext w) (ai_key (io_token_mint a))) (\<lambda>mint.
     and_then (check_token_program rt (io_token_program a)) (\<lambda>_.
     and_then (check_program (SYSTEM_PROGRAM_ID rt) (io_system_program a)) (\<lambda>_.
     and_then (init_pda rt (\<lambda>k. accounts w k \<noteq> None) (ext w) (io_payer a) (io_oft_store a)
                 (oft_seeds (ai_key (io_token_escrow a))) (8 + OFTStore_INIT_SPACE)) (\<lambda>(bump, x1).
     and_then (init_pda rt (\<lambda>k. k = ai_key (io_oft_store a) \<or> accounts w k \<noteq> None) x1 (io_payer a) (io_lz_receive_types_accounts a)
                 [LZ_RECEIVE_TYPES_SEED rt, to_bytes (ai_key (io_oft_store a))]
                 (8 + LzReceiveTypesAccounts_INIT_SPACE)) (\<lambda>(_, x2).
     and_then (create_token_account rt x2 (ai_key (io_payer a)) (ai_key (io_token_escrow a))
                 (ai_key (io_token_mint a)) (ai_key (io_oft_store a)) (ai_key (io_token_program a))) (\<lambda>x3.
     and_then (check_mut (io_token_escrow a)) (\<lambda>_.
     and_then (check_mut (io_payer a)) (\<lambda>_.
     and_then (check_mint_program mint (ai_key (io_token_program a))) (\<lambda>_.
     Inr (mint, bump, x3)))))))))))"

definition InitOFT_apply :: "'x runtime \<Rightarrow> InitOFT \<Rightarrow> AccountInfo list \<Rightarrow> Mint \<Rightarrow> u8 \<Rightarrow> 'x \<Rightarrow> InitOFTParams \<Rightarrow>
    (OFTStore \<times> LzReceiveTypesAccounts \<times> 'x) result" where
  "InitOFT_apply rt a remaining_accounts mint bump x params =
     and_then (require (ip_shared_decimals params \<le> mi_decimals mint) (OFT InvalidDecimals)) (\<lambda>_.
     and_then (u_sub (mi_decimals mint) (ip_shared_decimals params)) (\<lambda>d.
     and_then (u_pow 10 (ucast d)) (\<lambda>ld2sd_rate.
     let endpoint_program = (case ip_endpoint_program params of Some e \<Rightarrow> e | None \<Rightarrow> ENDPOINT_ID rt);
         oft_store = \<lparr>os_oft_type = ip_oft_type params, os_ld2sd_rate = ld2sd_rate,
           os_token_mint = ai_key (io_token_mint a), os_token_escrow = ai_key (io_token_escrow a),
           os_endpoint_program = endpoint_program, os_bump = bump, os_tvl_ld = 0,
           os_admin = ip_admin params, os_default_fee_bps = 0, os_paused = False,
           os_pauser = None, os_unpauser = None\<rparr>;
         lz_receive_types_accounts = \<lparr>lr_oft_store = ai_key (io_oft_store a), lr_token_mint = ai_key (io_token_mint a)\<rparr>
     in and_then (endpoint_register_oapp rt x endpoint_program (ai_key (io_oft_store a)) remaining_accounts
                    (signer_seeds (ai_key (io_token_escrow a)) bump) (ip_admin params)) (\<lambda>x'.
        Inr (oft_store, lz_receive_types_accounts, x')))))"

definition init_oft :: "'x runtime \<Rightarrow> 'x world \<Rightarrow> InitOFT \<Rightarrow> AccountInfo list \<Rightarrow> InitOFTParams \<Rightarrow> 'x world result" where
  "init_oft rt w a remaining_accounts params =
     and_then (InitOFT_try_accounts rt w a) (\<lambda>(mint, bump, x).
     and_then (InitOFT_apply rt a remaining_accounts mint bump x params) (\<lambda>(oft_store, lz_types, x').
     Inr (save_lz_receive_types (save_oft_store (w\<lparr>ext := x'\<rparr>) (io_oft_store a) oft_store)
            (io_lz_receive_types_accounts a) lz_types)))"

section \<open>What creation yields\<close>

lemma init_pda_Inr [result_simps]:
  "(init_pda rt in_use x payer ai seeds space = Inr (b, x')) =
     (find_program_address rt seeds (program_id rt) = (ai_key ai, b) \<and> ai_is_writable ai
      \<and> \<not> in_use (ai_key ai) \<and> create_account rt x (ai_key payer) (ai_key ai) space = Inr x')"
  by (auto simp: init_pda_def result_simps check_mut_def split: prod.splits)

lemma init_oft_cases:
  assumes "init_oft rt w a ra p = Inr w'"
  obtains (created) mint bump x1 x2 x3 st lz x' where
    "get_mint rt (ext w) (ai_key (io_token_mint a)) = Inr mint"
    "find_program_address rt (oft_seeds (ai_key (io_token_escrow a))) (program_id rt) = (ai_key (io_oft_store a), bump)"
    "accounts w (ai_key (io_oft_store a)) = None"
    "accounts w (ai_key (io_lz_receive_types_accounts a)) = None"
    "ai_key (io_lz_receive_types_accounts a) \<noteq> ai_key (io_oft_store a)"
    "create_account rt (ext w) (ai_key (io_payer a)) (ai_key (io_oft_store a)) (8 + OFTStore_INIT_SPACE) = Inr x1"
    "create_account rt x1 (ai_key (io_payer a)) (ai_key (io_lz_receive_types_accounts a))
       (8 + LzReceiveTypesAccounts_INIT_SPACE) = Inr x2"
    "create_token_account rt x2 (ai_key (io_payer a)) (ai_key (io_token_escrow a))
       (ai_key (io_token_mint a)) (ai_key (io_oft_store a)) (ai_key (io_token_program a)) = Inr x3"
    "InitOFT_apply rt a ra mint bump x3 p = Inr (st, lz, x')"
    "w' = save_lz_receive_types (save_oft_store (w\<lparr>ext := x'\<rparr>) (io_oft_store a) st) (io_lz_receive_types_accounts a) lz"
    "fst (find_program_address rt [LZ_RECEIVE_TYPES_SEED rt, to_bytes (ai_key (io_oft_store a))] (program_id rt))
       = ai_key (io_lz_receive_types_accounts a)"
  using assms
  by (auto simp: init_oft_def InitOFT_try_accounts_def result_simps check_defs split: prod.splits)

lemma InitOFT_apply_Inr:
  assumes "InitOFT_apply rt a ra mint bump x p = Inr (st, lz, x')"
  shows "unat (ip_shared_decimals p) \<le> unat (mi_decimals mint)"
    and "rate st = 10 ^ (unat (mi_decimals mint) - unat (ip_shared_decimals p))"
    and "os_token_escrow st = ai_key (io_token_escrow a)" "os_bump st = bump" "os_tvl_ld st = 0"
    and "os_default_fee_bps st = 0" "os_admin st = ip_admin p" "os_oft_type st = ip_oft_type p"
    and "os_token_mint st = ai_key (io_token_mint a)" "\<not> os_paused st"
    and "endpoint_register_oapp rt x (os_endpoint_program st) (ai_key (io_oft_store a)) ra
           (signer_seeds (ai_key (io_token_escrow a)) bump) (ip_admin p) = Inr x'"
    and "os_endpoint_program st = (case ip_endpoint_program p of Some e \<Rightarrow> e | None \<Rightarrow> ENDPOINT_ID rt)"
    and "os_pauser st = None" "os_unpauser st = None"
  using assms
  by (auto simp: InitOFT_apply_def Let_def result_simps int_iff word_le_nat_alt
      unat_sub u_sub_def split: if_splits option.splits)

lemma ten_power_fits: "((10::nat) ^ n < 2 ^ 64) = (n < 20)"
proof
  assume "(10::nat) ^ n < 2 ^ 64"
  then have "(10::nat) ^ n < 10 ^ 20" by simp
  then show "n < 20" by (rule power_less_imp_less_exp [rotated]) simp
next
  assume "n < 20"
  then have "(10::nat) ^ n \<le> 10 ^ 19" by (intro power_increasing) auto
  then show "(10::nat) ^ n < 2 ^ 64" by simp
qed

section \<open>Properties\<close>

text \<open>
  C36: what a created OFT looks like. A successful \<^verbatim>\<open>init_oft\<close> adds exactly two accounts, at
  addresses that held none, and changes no other: the store at the address derived from its
  escrow, and the executor's account at the one derived from the store, with the store and
  the mint in it. The store holds escrow, mint, type, admin and canonical bump, and as its
  endpoint the program in the parameters or else LayerZero's; it starts unpaused with no fee,
  nothing locked and nobody to pause it, and its rate is ten to the difference of the
  decimals, which is at most 19. The escrow was created as a token account of the mint with
  the store as its authority, and the store was registered at that endpoint, with its own
  signature and the admin as delegate.
\<close>

theorem init_oft_creates:
  assumes "init_oft rt w a ra p = Inr w'"
  shows "\<exists>st mint x2 x3. accounts w' = (accounts w)(ai_key (io_oft_store a) \<mapsto> AOFTStore st,
         ai_key (io_lz_receive_types_accounts a) \<mapsto> ALzReceiveTypes
           \<lparr>lr_oft_store = ai_key (io_oft_store a), lr_token_mint = ai_key (io_token_mint a)\<rparr>)
     \<and> accounts w (ai_key (io_oft_store a)) = None \<and> accounts w (ai_key (io_lz_receive_types_accounts a)) = None
     \<and> find_program_address rt (oft_seeds (os_token_escrow st)) (program_id rt) = (ai_key (io_oft_store a), os_bump st)
     \<and> os_token_escrow st = ai_key (io_token_escrow a) \<and> os_token_mint st = ai_key (io_token_mint a)
     \<and> os_oft_type st = ip_oft_type p \<and> os_admin st = ip_admin p
     \<and> fst (find_program_address rt [LZ_RECEIVE_TYPES_SEED rt, to_bytes (ai_key (io_oft_store a))] (program_id rt))
         = ai_key (io_lz_receive_types_accounts a)
     \<and> os_endpoint_program st = (case ip_endpoint_program p of Some e \<Rightarrow> e | None \<Rightarrow> ENDPOINT_ID rt)
     \<and> os_tvl_ld st = 0 \<and> os_default_fee_bps st = 0 \<and> \<not> os_paused st \<and> os_pauser st = None \<and> os_unpauser st = None
     \<and> get_mint rt (ext w) (ai_key (io_token_mint a)) = Inr mint
     \<and> unat (mi_decimals mint) - unat (ip_shared_decimals p) \<le> 19
     \<and> rate st = 10 ^ (unat (mi_decimals mint) - unat (ip_shared_decimals p))
     \<and> create_token_account rt x2 (ai_key (io_payer a)) (ai_key (io_token_escrow a))
         (ai_key (io_token_mint a)) (ai_key (io_oft_store a)) (ai_key (io_token_program a)) = Inr x3
     \<and> endpoint_register_oapp rt x3 (os_endpoint_program st) (ai_key (io_oft_store a)) ra
         (signer_seeds (os_token_escrow st) (os_bump st)) (ip_admin p) = Inr (ext w')"
  using assms
proof (cases rule: init_oft_cases)
  case (created mint bump x1 x2 x3 st lz x')
  note ap = created(9) and rest = created(1-4,8,10,11)
  have "lz = \<lparr>lr_oft_store = ai_key (io_oft_store a), lr_token_mint = ai_key (io_token_mint a)\<rparr>"
    using ap by (auto simp: InitOFT_apply_def Let_def result_simps)
  moreover have "unat (mi_decimals mint) - unat (ip_shared_decimals p) \<le> 19"
    using unat_lt_len [of "os_ld2sd_rate st"] ten_power_fits InitOFT_apply_Inr(2) [OF ap]
    by (simp del: unsigned_less)
  ultimately show ?thesis
    using rest InitOFT_apply_Inr [OF ap]
    by (intro exI [of _ st] exI [of _ mint] exI [of _ x2] exI [of _ x3]) (simp add: save_lz_receive_types_def)
qed

text \<open>
  C37: refused decimals. With valid accounts, shared decimals above the token's give
  \<^verbatim>\<open>InvalidDecimals\<close>, a difference of 20 or more panics in \<^verbatim>\<open>pow\<close>, and every other
  choice fails only if the endpoint refuses the registration.
\<close>

theorem init_oft_decimals:
  assumes "InitOFT_try_accounts rt w a = Inr (mint, bump, x)"
  shows "if unat (mi_decimals mint) < unat (ip_shared_decimals p) then init_oft rt w a ra p = Inl (OFT InvalidDecimals)
     else if 20 \<le> unat (mi_decimals mint) - unat (ip_shared_decimals p)
     then init_oft rt w a ra p = Inl (Panic ArithmeticOverflow)
     else (\<exists>w'. init_oft rt w a ra p = Inr w')
        \<or> (\<exists>ep e. init_oft rt w a ra p = Inl e \<and> endpoint_register_oapp rt x ep (ai_key (io_oft_store a)) ra
             (signer_seeds (ai_key (io_token_escrow a)) bump) (ip_admin p) = Inl e)"
proof -
  let ?d = "mi_decimals mint - ip_shared_decimals p"
  have "(10::nat) ^ (unat (mi_decimals mint) - unat (ip_shared_decimals p)) < 2 ^ 64
      \<longleftrightarrow> unat (mi_decimals mint) - unat (ip_shared_decimals p) < 20" by (rule ten_power_fits)
  then show ?thesis
    using assms
    by (auto simp: init_oft_def InitOFT_apply_def Let_def u_sub_def u_pow_def word_le_nat_alt unat_sub
        and_then_def [where m = "endpoint_register_oapp _ _ _ _ _ _ _"] split: sum.splits)
qed

text \<open>An adapter for a nine-decimals mint with six shared decimals, created on the example ledger.\<close>

definition example_init :: InitOFT where
  "example_init = \<lparr>io_payer = acct 30 True True, io_oft_store = acct 120 False True,
     io_lz_receive_types_accounts = acct 245 False True, io_token_mint = acct 1 False False,
     io_token_escrow = acct 2 True True, io_token_program = acct 103 False False,
     io_system_program = acct 101 False False\<rparr>"

definition example_init_params :: "u8 \<Rightarrow> InitOFTParams" where
  "example_init_params d = \<lparr>ip_oft_type = Adapter, ip_admin = repeat32 4, ip_shared_decimals = d,
     ip_endpoint_program = None\<rparr>"

definition empty_world :: "'x \<Rightarrow> 'x world" where
  "empty_world x = \<lparr>accounts = Map.empty, events = [], ext = x\<rparr>"

lemmas example_init_defs = example_init_def example_init_params_def empty_world_def acct_def
  demo_ledger_def init_pda_def check_defs digest_def OFT_SEED_def ledger_create_token_def
  OFTStore_INIT_SPACE_def

lemma example_init_accounts:
  "\<exists>x. InitOFT_try_accounts ledger_runtime (empty_world demo_ledger) example_init
     = Inr (\<lparr>mi_token_program = repeat32 103, mi_decimals = 9, mi_mint_authority = Some (repeat32 120)\<rparr>, 255, x)"
  by (simp add: InitOFT_try_accounts_def example_init_defs)

theorem init_oft_decimals_witness:
  "init_oft ledger_runtime (empty_world demo_ledger) example_init [] (example_init_params 10)
     = Inl (OFT InvalidDecimals)"
proof -
  obtain x where "InitOFT_try_accounts ledger_runtime (empty_world demo_ledger) example_init
     = Inr (\<lparr>mi_token_program = repeat32 103, mi_decimals = 9, mi_mint_authority = Some (repeat32 120)\<rparr>, 255, x)"
    using example_init_accounts by blast
  from init_oft_decimals [OF this, of "example_init_params 10" "[]"] show ?thesis
    by (simp add: example_init_params_def)
qed

lemma example_init_succeeds:
  "\<exists>w'. init_oft ledger_runtime (empty_world demo_ledger) example_init [] (example_init_params 6) = Inr w'"
  by (simp add: init_oft_def InitOFT_try_accounts_def InitOFT_apply_def u_sub_def u_pow_def example_init_defs)

theorem init_oft_creates_witness:
  "\<exists>w' st. init_oft ledger_runtime (empty_world demo_ledger) example_init [] (example_init_params 6) = Inr w'
     \<and> accounts w' (repeat32 120) = Some (AOFTStore st) \<and> rate st = 1000 \<and> os_endpoint_program st = repeat32 104"
proof -
  obtain w' where w': "init_oft ledger_runtime (empty_world demo_ledger) example_init [] (example_init_params 6) = Inr w'"
    using example_init_succeeds by blast
  show ?thesis
    using init_oft_creates [OF w'] w' by (auto simp: example_init_defs)
qed

end
