(* ===== verification/OFT_Invariant.thy ===== *)
theory OFT_Invariant
  imports Set_Peer_Config Token_Laws Init_OFT
begin

text \<open>
  The invariant of the program's accounts. Every OFT sits at the canonical address of its
  escrow, owns that escrow, and the escrow holds at least the value recorded as locked; a
  native OFT has nothing locked; rates are positive and fees below 100\%. Every peer is
  well-formed and fits its account. The lemmas here show it for the instructions that move
  no tokens of an existing OFT.
\<close>

section \<open>Definition\<close>

definition store_ok :: "'x runtime \<Rightarrow> 'x \<Rightarrow> pubkey \<Rightarrow> OFTStore \<Rightarrow> bool" where
  "store_ok rt x k s = (find_program_address rt (oft_seeds (os_token_escrow s)) (program_id rt) = (k, os_bump s)
     \<and> owner rt x (os_token_escrow s) = Some k
     \<and> unat (os_tvl_ld s) \<le> balance rt x (os_token_escrow s)
     \<and> (os_oft_type s = Native \<longrightarrow> os_tvl_ld s = 0)
     \<and> os_ld2sd_rate s \<noteq> 0 \<and> unat (os_default_fee_bps s) < 10000)"

definition peer_ok :: "PeerConfig \<Rightarrow> bool" where
  "peer_ok p = (peer_wf p \<and> PeerConfig_size p \<le> PeerConfig_INIT_SPACE)"

definition world_ok :: "'x runtime \<Rightarrow> 'x world \<Rightarrow> bool" where
  "world_ok rt w = ((\<forall>k s. accounts w k = Some (AOFTStore s) \<longrightarrow> store_ok rt (ext w) k s)
     \<and> (\<forall>k p. accounts w k = Some (APeerConfig p) \<longrightarrow> peer_ok p))"

section \<open>Frame lemmas\<close>

lemma store_ok_pda: "store_ok rt x k s \<Longrightarrow> k = oft_pda rt (os_token_escrow s)"
  by (simp add: store_ok_def)

lemma store_ok_owner:
  "store_ok rt x k s \<Longrightarrow> owner rt x (os_token_escrow s) = Some (oft_pda rt (os_token_escrow s))"
  by (simp add: store_ok_def)

lemma store_ok_custody: "store_ok rt x k s \<Longrightarrow> custody_kept rt x x' \<Longrightarrow> store_ok rt x' k s"
  using custody_keptD [of rt x x' "os_token_escrow s" "os_token_escrow s"]
  by (auto simp: store_ok_def)

text \<open>Two OFTs never share an escrow.\<close>

lemma escrows_distinct:
  "store_ok rt x k s \<Longrightarrow> store_ok rt x k' s' \<Longrightarrow> k \<noteq> k' \<Longrightarrow> os_token_escrow s \<noteq> os_token_escrow s'"
  by (auto simp: store_ok_def)

lemma store_ok_same:
  assumes "store_ok rt x k s" and "same_immutable s s'" and "unat (os_default_fee_bps s') < 10000"
    and "unat (os_tvl_ld s') \<le> balance rt x' (os_token_escrow s)" and "owner rt x' (os_token_escrow s) = Some k"
    and "os_oft_type s = Native \<Longrightarrow> os_tvl_ld s' = os_tvl_ld s"
  shows "store_ok rt x' k s'"
  using assms by (auto simp: store_ok_def same_immutable_def)

lemma world_okD:
  assumes "world_ok rt w"
  shows "accounts w k = Some (AOFTStore s) \<Longrightarrow> store_ok rt (ext w) k s"
    and "accounts w k = Some (APeerConfig p) \<Longrightarrow> peer_ok p"
  using assms by (auto simp: world_ok_def)

text \<open>
  The rule every instruction's proof uses: whatever account changed, its new content is
  right, and the escrows of the stores that did not change are safe.
\<close>

lemma world_okI:
  assumes "world_ok rt w"
    and "\<And>k s. accounts w' k = Some (AOFTStore s) \<Longrightarrow>
      store_ok rt (ext w') k s \<or> accounts w k = Some (AOFTStore s) \<and>
        (store_ok rt (ext w) k s \<longrightarrow> store_ok rt (ext w') k s)"
    and "\<And>k p. accounts w' k = Some (APeerConfig p) \<Longrightarrow> peer_ok p \<or> accounts w k = Some (APeerConfig p)"
  shows "world_ok rt w'"
  using assms unfolding world_ok_def by meson

lemma world_ok_ext: "world_ok rt w \<Longrightarrow> custody_kept rt (ext w) x' \<Longrightarrow> world_ok rt (w\<lparr>ext := x'\<rparr>)"
  by (auto simp: world_ok_def intro: store_ok_custody)

lemma world_ok_store:
  assumes "world_ok rt w" and "custody_kept rt (ext w) x'" and "store_ok rt x' (ai_key ai) s'"
  shows "world_ok rt (save_oft_store (w\<lparr>ext := x'\<rparr>) ai s')"
  using assms by (auto simp: world_ok_def intro: store_ok_custody)

section \<open>Configuration instructions\<close>

lemma set_oft_config_ok:
  assumes "endpoint_law rt" "world_ok rt w" and "set_oft_config rt w a ra p = Inr w'"
  shows "world_ok rt w'"
  using assms(3)
proof (cases rule: set_oft_config_cases)
  case (configured s s' x')
  note old = configured(1) and ap = configured(4) and w' = configured(5)
  note fr = SetOFTConfig_apply_frame [OF ap]
  have kept: "custody_kept rt (ext w) x'" using fr(4) endpoint_lawD(2) [OF assms(1)] by auto
  have ok: "store_ok rt x' (ai_key (so_oft_store a)) s"
    by (rule store_ok_custody [OF world_okD(1) [OF assms(2) old] kept])
  have "store_ok rt x' (ai_key (so_oft_store a)) s'"
    using ok fr(1,2,3) by (intro store_ok_same [OF ok fr(1)]) (auto simp: store_ok_def word_less_nat_alt)
  then show ?thesis unfolding w' by (rule world_ok_store [OF assms(2) kept])
qed

lemma set_pause_ok:
  assumes "world_ok rt w" and "set_pause rt w a p = Inr w'"
  shows "world_ok rt w'"
  using assms(2)
proof (cases rule: set_pause_cases)
  case (paused s)
  note old = paused(1) and w' = paused(4)
  have "store_ok rt (ext w) (ai_key (sp_oft_store a)) (s\<lparr>os_paused := sp_paused p\<rparr>)"
    using world_okD(1) [OF assms(1) old] by (simp add: store_ok_def)
  then show ?thesis using world_ok_store [OF assms(1) custody_refl] by (simp add: w' save_oft_store_def)
qed

lemma set_peer_config_ok:
  assumes "create_law rt" "world_ok rt w" and "set_peer_config rt clock w a p = Inr w'"
  shows "world_ok rt w'"
  using assms(3)
proof (cases rule: set_peer_config_cases)
  case (configured s peer bump x' peer')
  note old = configured(5) and ap = configured(6) and size = configured(7) and w' = configured(8)
  have kept: "custody_kept rt (ext w) x'" using old custody_create_account [OF assms(1)] by auto
  have "peer_wf peer" using old world_okD(2) [OF assms(2)] by (auto simp: peer_ok_def)
  then have "peer_ok peer'" using SetPeerConfig_apply_wf [OF ap] size by (simp add: peer_ok_def)
  then show ?thesis using world_ok_ext [OF assms(2) kept] by (auto simp: w' world_ok_def)
qed

section \<open>Creation\<close>

lemma init_oft_ok:
  assumes "create_law rt" "endpoint_law rt" "world_ok rt w" and "init_oft rt w a ra p = Inr w'"
  shows "world_ok rt w'"
  using assms(4)
proof (cases rule: init_oft_cases)
  case (created mint bump x1 x2 x3 st lz x')
  note fp = created(2) and c1 = created(6) and c2 = created(7) and c3 = created(8) and ap = created(9) and w' = created(10)
  note st = InitOFT_apply_Inr [OF ap]
  have open3: "opened rt x2 x3 (ai_key (io_token_escrow a)) (ai_key (io_oft_store a))"
    by (rule create_lawD(3) [OF assms(1) c3])
  have reg: "custody_kept rt x3 x'"
    by (rule endpoint_lawD(1) [OF assms(2) st(11)])
  have kept: "custody_kept rt (ext w) x'"
    by (rule custody_trans [OF custody_create_account [OF assms(1) c1]
          custody_trans [OF custody_create_account [OF assms(1) c2] custody_trans [OF custody_opened [OF open3] reg]]])
  have own: "owner rt x3 (ai_key (io_token_escrow a)) = Some (oft_pda rt (ai_key (io_token_escrow a)))"
    using open3 fp by (simp add: opened_def)
  have "store_ok rt x' (ai_key (io_oft_store a)) st"
    using st fp custody_keptD(1) [OF reg own] own by (auto simp: store_ok_def rate_pos)
  then have "world_ok rt (save_oft_store (w\<lparr>ext := x'\<rparr>) (io_oft_store a) st)"
    by (rule world_ok_store [OF assms(3) kept])
  then show ?thesis by (auto simp: w' world_ok_def save_lz_receive_types_def)
qed

end
