(* ===== verification/OFT_Send.thy ===== *)
theory OFT_Send
  imports Quotes Withdraw_Fee OFT_Invariant
begin

text \<open>
  The outbound transfer (\<^verbatim>\<open>instructions/send.rs\<close>): fee computation, rate limits, locking (for
  an adapter) or burning (for a native OFT) the tokens, and the message handed to the
  endpoint. Prefix \<open>se_\<close> for the accounts, \<open>sm_\<close> for the parameters.
\<close>

section \<open>Definitions\<close>

record Send =
  se_signer :: AccountInfo
  se_peer :: AccountInfo
  se_oft_store :: AccountInfo
  se_token_source :: AccountInfo
  se_token_escrow :: AccountInfo
  se_token_mint :: AccountInfo
  se_token_program :: AccountInfo
  se_event_authority :: AccountInfo
  se_program :: AccountInfo

record SendParams =
  sm_dst_eid :: u32
  sm_to :: bytes32
  sm_amount_ld :: u64
  sm_min_amount_ld :: u64
  sm_options :: bytes
  sm_compose_msg :: "bytes option"
  sm_native_fee :: u64
  sm_lz_token_fee :: u64

definition Send_try_accounts :: "'x runtime \<Rightarrow> 'x world \<Rightarrow> Send \<Rightarrow> SendParams \<Rightarrow> (PeerConfig \<times> OFTStore \<times> Mint) result" where
  "Send_try_accounts rt w a params =
     and_then (check_signer (se_signer a)) (\<lambda>_.
     and_then (load_peer w (se_peer a)) (\<lambda>peer.
     and_then (load_oft_store w (se_oft_store a)) (\<lambda>s.
     and_then (get_token_account rt (ext w) (ai_key (se_token_source a))) (\<lambda>source.
     and_then (get_token_account rt (ext w) (ai_key (se_token_escrow a))) (\<lambda>escrow.
     and_then (get_mint rt (ext w) (ai_key (se_token_mint a))) (\<lambda>mint.
     and_then (check_token_program rt (se_token_program a)) (\<lambda>_.
     and_then (check_peer_seeds rt (se_oft_store a) (sm_dst_eid params) peer (se_peer a)) (\<lambda>_.
     and_then (check_mut (se_peer a)) (\<lambda>_.
     and_then (check_oft_store_seeds rt s (se_oft_store a)) (\<lambda>_.
     and_then (check_mut (se_oft_store a)) (\<lambda>_.
     and_then (check_mut (se_token_source a)) (\<lambda>_.
     and_then (check_token source (Some (ai_key (se_signer a))) (ai_key (se_token_mint a)) (ai_key (se_token_program a))) (\<lambda>_.
     and_then (check_mut (se_token_escrow a)) (\<lambda>_.
     and_then (check_address (os_token_escrow s) (se_token_escrow a) (Anchor ConstraintAddress)) (\<lambda>_.
     and_then (check_token escrow (Some (ai_key (se_oft_store a))) (ai_key (se_token_mint a)) (ai_key (se_token_program a))) (\<lambda>_.
     and_then (check_mut (se_token_mint a)) (\<lambda>_.
     and_then (check_address (os_token_mint s) (se_token_mint a) (Anchor ConstraintAddress)) (\<lambda>_.
     and_then (check_mint_program mint (ai_key (se_token_program a))) (\<lambda>_.
     and_then (check_event_cpi rt (se_event_authority a)) (\<lambda>_.
     Inr (peer, s, mint)))))))))))))))))))))"

text \<open>\<^verbatim>\<open>if let Some(rate_limiter) = ...as_mut()\<close> around the two limiter calls.\<close>

definition consume_limit :: "Clock result \<Rightarrow> RateLimiter option \<Rightarrow> u64 \<Rightarrow> RateLimiter option result" where
  "consume_limit clock limiter amount = (case limiter of
      Some rate_limiter \<Rightarrow> and_then (try_consume clock rate_limiter amount) (\<lambda>l. Inr (Some l))
    | None \<Rightarrow> Inr None)"

definition refill_limit :: "Clock result \<Rightarrow> RateLimiter option \<Rightarrow> u64 \<Rightarrow> RateLimiter option result" where
  "refill_limit clock limiter amount = (case limiter of
      Some rate_limiter \<Rightarrow> and_then (refill clock rate_limiter amount) (\<lambda>l. Inr (Some l))
    | None \<Rightarrow> Inr None)"

definition Send_limits :: "Clock result \<Rightarrow> PeerConfig \<Rightarrow> u64 \<Rightarrow> PeerConfig result" where
  "Send_limits clock peer amount_received_ld =
     and_then (consume_limit clock (pc_outbound_rate_limiter peer) amount_received_ld) (\<lambda>outbound.
     and_then (refill_limit clock (pc_inbound_rate_limiter peer) amount_received_ld) (\<lambda>inbound.
     Inr (peer\<lparr>pc_outbound_rate_limiter := outbound, pc_inbound_rate_limiter := inbound\<rparr>)))"

definition Send_transfer :: "'x runtime \<Rightarrow> Clock result \<Rightarrow> 'x \<Rightarrow> Send \<Rightarrow> Mint \<Rightarrow> u64 \<Rightarrow> 'x result" where
  "Send_transfer rt clock x a mint amount =
     transfer_checked rt clock x (ai_key (se_token_program a)) (ai_key (se_token_source a)) (ai_key (se_token_mint a))
       (ai_key (se_token_escrow a)) (ai_key (se_signer a)) None amount (mi_decimals mint)"

definition Send_tokens :: "'x runtime \<Rightarrow> Clock result \<Rightarrow> 'x \<Rightarrow> Send \<Rightarrow> OFTStore \<Rightarrow> Mint \<Rightarrow> u64 \<Rightarrow> u64 \<Rightarrow> u64 \<Rightarrow>
    (OFTStore \<times> 'x) result" where
  "Send_tokens rt clock x a s mint amount_sent_ld amount_received_ld oft_fee_ld =
     (if os_oft_type s = Adapter then
        and_then (u_add (os_tvl_ld s) amount_received_ld) (\<lambda>tvl_ld.
        and_then (Send_transfer rt clock x a mint amount_sent_ld) (\<lambda>x'.
        Inr (s\<lparr>os_tvl_ld := tvl_ld\<rparr>, x')))
      else
        and_then (u_sub amount_sent_ld oft_fee_ld) (\<lambda>burnt.
        and_then (burn rt x (ai_key (se_token_program a)) (ai_key (se_token_mint a)) (ai_key (se_token_source a))
                    (ai_key (se_signer a)) burnt) (\<lambda>x1.
        and_then (if oft_fee_ld > 0 then Send_transfer rt clock x1 a mint oft_fee_ld else Inr x1) (\<lambda>x'.
        Inr (s, x')))))"

definition Send_endpoint_params :: "Send \<Rightarrow> PeerConfig \<Rightarrow> SendParams \<Rightarrow> u64 \<Rightarrow> bytes \<Rightarrow> EndpointSendParams" where
  "Send_endpoint_params a peer params amount_sd options =
     \<lparr>es_dst_eid = sm_dst_eid params, es_receiver = pc_peer_address peer,
      es_message = msg_codec_encode (sm_to params) amount_sd (ai_key (se_signer a)) (sm_compose_msg params),
      es_options = options, es_native_fee = sm_native_fee params, es_lz_token_fee = sm_lz_token_fee params\<rparr>"

text \<open>The accounts of the instruction, in the order of the struct.\<close>

definition Send_infos :: "Send \<Rightarrow> AccountInfo list" where
  "Send_infos a = [se_signer a, se_peer a, se_oft_store a, se_token_source a, se_token_escrow a, se_token_mint a,
     se_token_program a, se_event_authority a, se_program a]"

text \<open>Returns the two accounts, the outside state, the endpoint's receipt and the OFT receipt.\<close>

definition Send_apply :: "'x runtime \<Rightarrow> Clock result \<Rightarrow> 'x \<Rightarrow> Send \<Rightarrow> AccountInfo list \<Rightarrow> PeerConfig \<Rightarrow> OFTStore \<Rightarrow> Mint \<Rightarrow>
    SendParams \<Rightarrow> (PeerConfig \<times> OFTStore \<times> 'x \<times> MessagingReceipt \<times> OFTReceipt) result" where
  "Send_apply rt clock x a remaining_accounts peer s mint params =
     and_then (require (\<not> os_paused s) (OFT Paused)) (\<lambda>_.
     and_then (compute_fee_and_adjust_amount rt clock x (sm_amount_ld params) s (ai_key (se_token_mint a)) (pc_fee_bps peer))
       (\<lambda>(amount_sent_ld, amount_received_ld, oft_fee_ld).
     and_then (require (amount_received_ld \<ge> sm_min_amount_ld params) (OFT SlippageExceeded)) (\<lambda>_.
     and_then (Send_limits clock peer amount_received_ld) (\<lambda>peer'.
     and_then (Send_tokens rt clock x a s mint amount_sent_ld amount_received_ld oft_fee_ld) (\<lambda>(s', x1).
     and_then (index remaining_accounts 1) (\<lambda>sender.
     and_then (require (ai_key (se_oft_store a) = ai_key sender) (OFT InvalidSender)) (\<lambda>_.
     and_then (ld2sd s' amount_received_ld) (\<lambda>amount_sd.
     and_then (combine_options rt (pc_enforced_options peer') (sm_compose_msg params) (sm_options params)) (\<lambda>options.
     and_then (endpoint_send rt x1 (os_endpoint_program s') (ai_key (se_oft_store a)) remaining_accounts
                 (signer_seeds (ai_key (se_token_escrow a)) (os_bump s'))
                 (Send_endpoint_params a peer' params amount_sd options)) (\<lambda>(msg_receipt, x').
     and_then (emit_cpi rt (Send_infos a @ remaining_accounts)) (\<lambda>_.
     Inr (peer', s', x', msg_receipt,
       \<lparr>or_amount_sent_ld = amount_sent_ld, or_amount_received_ld = amount_received_ld\<rparr>))))))))))))"

definition Send_event :: "Send \<Rightarrow> SendParams \<Rightarrow> MessagingReceipt \<Rightarrow> OFTReceipt \<Rightarrow> oft_event" where
  "Send_event a params msg_receipt oft_receipt =
     Sent \<lparr>sent_guid = mr_guid msg_receipt, sent_dst_eid = sm_dst_eid params, sent_from = ai_key (se_token_source a),
       sent_amount_sent_ld = or_amount_sent_ld oft_receipt, sent_amount_received_ld = or_amount_received_ld oft_receipt\<rparr>"

definition send :: "'x runtime \<Rightarrow> Clock result \<Rightarrow> 'x world \<Rightarrow> Send \<Rightarrow> AccountInfo list \<Rightarrow> SendParams \<Rightarrow>
    (MessagingReceipt \<times> OFTReceipt \<times> 'x world) result" where
  "send rt clock w a remaining_accounts params =
     and_then (Send_try_accounts rt w a params) (\<lambda>(peer, s, mint).
     and_then (Send_apply rt clock (ext w) a remaining_accounts peer s mint params) (\<lambda>(peer', s', x', msg_receipt, oft_receipt).
     and_then (save_peer (w\<lparr>events := events w @ [Send_event a params msg_receipt oft_receipt], ext := x'\<rparr>) (se_peer a) peer') (\<lambda>w'.
     Inr (msg_receipt, oft_receipt, save_oft_store w' (se_oft_store a) s'))))"

section \<open>Limits\<close>

lemma consume_limit_Inr:
  "(consume_limit clock l n = Inr l') =
     (case l of None \<Rightarrow> l' = None | Some r \<Rightarrow> \<exists>r'. try_consume clock r n = Inr r' \<and> l' = Some r')"
  by (auto simp: consume_limit_def result_simps split: option.splits)

lemma refill_limit_Inr:
  "(refill_limit clock l n = Inr l') =
     (case l of None \<Rightarrow> l' = None | Some r \<Rightarrow> \<exists>r'. refill clock r n = Inr r' \<and> l' = Some r')"
  by (auto simp: refill_limit_def result_simps split: option.splits)

lemmas limit_Inr = consume_limit_Inr refill_limit_Inr

lemma limit_wf:
  "consume_limit clock l n = Inr l' \<Longrightarrow> l' = Some r \<Longrightarrow> limiter_wf r"
  "refill_limit clock l n = Inr l' \<Longrightarrow> l' = Some r \<Longrightarrow> limiter_wf r"
  by (auto simp: limit_Inr dest: limiter_wf_intros split: option.splits)

lemma option_size_shape: "(l = None) = (l' = None) \<Longrightarrow> option_size n l = option_size n l'"
  by (cases l; cases l') (simp_all add: option_size_def)

text \<open>The limiter updates keep the peer well-formed, its size, and everything but the limiters.\<close>

definition same_peer :: "PeerConfig \<Rightarrow> PeerConfig \<Rightarrow> bool" where
  "same_peer p p' = (pc_peer_address p' = pc_peer_address p \<and> pc_enforced_options p' = pc_enforced_options p
     \<and> pc_fee_bps p' = pc_fee_bps p \<and> pc_bump p' = pc_bump p
     \<and> (pc_outbound_rate_limiter p' = None) = (pc_outbound_rate_limiter p = None)
     \<and> (pc_inbound_rate_limiter p' = None) = (pc_inbound_rate_limiter p = None))"

lemma same_peer_size: "same_peer p p' \<Longrightarrow> PeerConfig_size p' = PeerConfig_size p"
  unfolding PeerConfig_size_def same_peer_def
  by (metis option_size_shape)

lemma Send_limits_Inr:
  assumes "Send_limits clock p n = Inr p'"
  shows "same_peer p p'" and "peer_wf p \<Longrightarrow> peer_wf p'"
    and "pc_outbound_rate_limiter p = Some l \<Longrightarrow>
      \<exists>l'. pc_outbound_rate_limiter p' = Some l' \<and> try_consume clock l n = Inr l'"
proof -
  obtain ob ib where c: "consume_limit clock (pc_outbound_rate_limiter p) n = Inr ob"
    "refill_limit clock (pc_inbound_rate_limiter p) n = Inr ib"
    and p': "p' = p\<lparr>pc_outbound_rate_limiter := ob, pc_inbound_rate_limiter := ib\<rparr>"
    using assms by (auto simp: Send_limits_def result_simps)
  show "same_peer p p'" using c by (auto simp: p' same_peer_def limit_Inr split: option.splits)
  show "peer_wf p \<Longrightarrow> peer_wf p'" using limit_wf(1) [OF c(1)] limit_wf(2) [OF c(2)] by (simp add: p' peer_wf_def)
  show "pc_outbound_rate_limiter p = Some l \<Longrightarrow>
      \<exists>l'. pc_outbound_rate_limiter p' = Some l' \<and> try_consume clock l n = Inr l'"
    using c(1) by (auto simp: p' limit_Inr)
qed

section \<open>When it succeeds\<close>

lemma Send_accounts_Inr:
  assumes "Send_try_accounts rt w a p = Inr (peer, s, mint)"
  shows "accounts w (ai_key (se_oft_store a)) = Some (AOFTStore s)" "accounts w (ai_key (se_peer a)) = Some (APeerConfig peer)"
    "ai_is_signer (se_signer a)" "ai_key (se_token_escrow a) = os_token_escrow s"
    "ai_key (se_token_mint a) = os_token_mint s"
    "owner rt (ext w) (ai_key (se_token_source a)) = Some (ai_key (se_signer a))"
    "owner rt (ext w) (os_token_escrow s) = Some (ai_key (se_oft_store a))"
  using assms
  by (auto simp: Send_try_accounts_def check_oft_store_seeds_def check_peer_seeds_def check_defs result_simps
      owner_account)

lemma Send_tokens_store:
  "Send_tokens rt clock x a s mint n r f = Inr (s', x') \<Longrightarrow>
     s' = s\<lparr>os_tvl_ld := os_tvl_ld s'\<rparr>
     \<and> unat (os_tvl_ld s') = unat (os_tvl_ld s) + (if os_oft_type s = Adapter then unat r else 0)"
  by (auto simp: Send_tokens_def result_simps int_iff split: if_splits)

lemma send_cases:
  assumes "send rt clock w a ra p = Inr (mr, rc, w')"
  obtains (sent) peer s mint fee peer' s' x1 sd opts x' where
    "Send_try_accounts rt w a p = Inr (peer, s, mint)" "\<not> os_paused s"
    "compute_fee_and_adjust_amount rt clock (ext w) (sm_amount_ld p) s (ai_key (se_token_mint a)) (pc_fee_bps peer)
       = Inr (or_amount_sent_ld rc, or_amount_received_ld rc, fee)"
    "sm_min_amount_ld p \<le> or_amount_received_ld rc"
    "Send_limits clock peer (or_amount_received_ld rc) = Inr peer'"
    "Send_tokens rt clock (ext w) a s mint (or_amount_sent_ld rc) (or_amount_received_ld rc) fee = Inr (s', x1)"
    "ld2sd s' (or_amount_received_ld rc) = Inr sd"
    "combine_options rt (pc_enforced_options peer) (sm_compose_msg p) (sm_options p) = Inr opts"
    "endpoint_send rt x1 (os_endpoint_program s) (ai_key (se_oft_store a)) ra
       (signer_seeds (os_token_escrow s) (os_bump s)) (Send_endpoint_params a peer p sd opts) = Inr (mr, x')"
    "w' = \<lparr>accounts = (accounts w)(ai_key (se_peer a) \<mapsto> APeerConfig peer', ai_key (se_oft_store a) \<mapsto> AOFTStore s'),
       events = events w @ [Send_event a p mr rc], ext = x'\<rparr>"
proof -
  obtain peer s mint peer' s' x' where acc: "Send_try_accounts rt w a p = Inr (peer, s, mint)"
    and ap: "Send_apply rt clock (ext w) a ra peer s mint p = Inr (peer', s', x', mr, rc)"
    and w': "w' = \<lparr>accounts = (accounts w)(ai_key (se_peer a) \<mapsto> APeerConfig peer', ai_key (se_oft_store a) \<mapsto> AOFTStore s'),
       events = events w @ [Send_event a p mr rc], ext = x'\<rparr>"
    using assms by (auto simp: send_def result_simps save_oft_store_def)
  obtain fee x1 sd opts where st:
    "compute_fee_and_adjust_amount rt clock (ext w) (sm_amount_ld p) s (ai_key (se_token_mint a)) (pc_fee_bps peer)
       = Inr (or_amount_sent_ld rc, or_amount_received_ld rc, fee)" "\<not> os_paused s"
    "sm_min_amount_ld p \<le> or_amount_received_ld rc"
    "Send_limits clock peer (or_amount_received_ld rc) = Inr peer'"
    "Send_tokens rt clock (ext w) a s mint (or_amount_sent_ld rc) (or_amount_received_ld rc) fee = Inr (s', x1)"
    "ld2sd s' (or_amount_received_ld rc) = Inr sd"
    "combine_options rt (pc_enforced_options peer') (sm_compose_msg p) (sm_options p) = Inr opts"
    "endpoint_send rt x1 (os_endpoint_program s') (ai_key (se_oft_store a)) ra
       (signer_seeds (ai_key (se_token_escrow a)) (os_bump s')) (Send_endpoint_params a peer' p sd opts) = Inr (mr, x')"
    using ap by (auto simp: Send_apply_def result_simps)
  have "same_peer peer peer'" by (rule Send_limits_Inr(1) [OF st(4)])
  then have "pc_enforced_options peer' = pc_enforced_options peer"
    "Send_endpoint_params a peer' p sd opts = Send_endpoint_params a peer p sd opts"
    by (simp_all add: same_peer_def Send_endpoint_params_def)
  moreover have "os_endpoint_program s' = os_endpoint_program s" "os_bump s' = os_bump s"
    using Send_tokens_store [OF st(5)] by (metis OFTStore.select_convs(5) OFTStore.surjective OFTStore.update_convs(7),
        metis OFTStore.select_convs(6) OFTStore.surjective OFTStore.update_convs(7))
  ultimately show ?thesis
    using that acc w' st Send_accounts_Inr(4) [OF acc] by metis
qed

section \<open>Where the tokens go\<close>

lemma Send_transfer_effect:
  assumes "transfer_law rt" and "Send_transfer rt clock x a mint n = Inr x'"
    and "ai_key (se_token_source a) \<noteq> ai_key (se_token_escrow a)"
  obtains net where "get_post_fee_amount_ld rt clock x (ai_key (se_token_mint a)) n = Inr net"
    "\<forall>k. owner rt x' k = owner rt x k"
    "balance rt x (ai_key (se_token_source a)) = balance rt x' (ai_key (se_token_source a)) + unat n"
    "balance rt x' (ai_key (se_token_escrow a)) = balance rt x (ai_key (se_token_escrow a)) + unat net"
    "\<forall>k. k \<noteq> ai_key (se_token_source a) \<longrightarrow> balance rt x k \<le> balance rt x' k"
    "\<forall>k. k \<noteq> ai_key (se_token_source a) \<and> k \<noteq> ai_key (se_token_escrow a) \<longrightarrow> balance rt x' k = balance rt x k"
proof -
  note tr = assms(2) [unfolded Send_transfer_def]
  obtain net where net: "get_post_fee_amount_ld rt clock x (ai_key (se_token_mint a)) n = Inr net"
    "balance rt x (ai_key (se_token_source a)) = balance rt x' (ai_key (se_token_source a)) + unat n"
    "balance rt x' (ai_key (se_token_escrow a)) = balance rt x (ai_key (se_token_escrow a)) + unat net"
    "\<forall>k. k \<noteq> ai_key (se_token_source a) \<and> k \<noteq> ai_key (se_token_escrow a) \<longrightarrow> balance rt x' k = balance rt x k"
    by (rule transfer_moves [OF assms(1) tr assms(3)])
  have "balance rt x k \<le> balance rt x' k" if "k \<noteq> ai_key (se_token_source a)" for k
    using transfer_loses [OF assms(1) tr, of k] that by simp
  with net show ?thesis using that transfer_keeps(1) [OF assms(1) tr] by blast
qed

text \<open>The source pays exactly \<open>n\<close>, nobody else loses, only the escrow gains, owners stay.\<close>

definition charged :: "'x runtime \<Rightarrow> Send \<Rightarrow> 'x \<Rightarrow> 'x \<Rightarrow> u64 \<Rightarrow> bool" where
  "charged rt a x x' n = ((\<forall>k. owner rt x' k = owner rt x k)
     \<and> balance rt x (ai_key (se_token_source a)) = balance rt x' (ai_key (se_token_source a)) + unat n
     \<and> (\<forall>k. k \<noteq> ai_key (se_token_source a) \<longrightarrow> balance rt x k \<le> balance rt x' k)
     \<and> (\<forall>k. k \<noteq> ai_key (se_token_source a) \<and> k \<noteq> ai_key (se_token_escrow a) \<longrightarrow> balance rt x' k = balance rt x k))"

lemma Send_transfer_charged:
  assumes "transfer_law rt" and "Send_transfer rt clock x a mint n = Inr x'"
    and "ai_key (se_token_source a) \<noteq> ai_key (se_token_escrow a)"
  shows "charged rt a x x' n"
  by (rule Send_transfer_effect [OF assms]) (simp add: charged_def)

lemma Send_native_charged:
  assumes laws: "runtime_laws rt" and tok: "Send_tokens rt clock x a s mint n r f = Inr (s', x')"
    and ty: "os_oft_type s \<noteq> Adapter" and ne: "ai_key (se_token_source a) \<noteq> ai_key (se_token_escrow a)"
  shows "charged rt a x x' n"
proof -
  note law = runtime_lawsD [OF laws]
  obtain burnt x1 where bn: "unat n = unat f + unat burnt"
    and br: "burn rt x (ai_key (se_token_program a)) (ai_key (se_token_mint a)) (ai_key (se_token_source a))
               (ai_key (se_signer a)) burnt = Inr x1"
    and tr: "if f > 0 then Send_transfer rt clock x1 a mint f = Inr x' else x' = x1"
    using tok ty by (auto simp: Send_tokens_def result_simps int_iff split: if_splits)
  note b = burn_moves [OF law(4) br]
  show ?thesis
  proof (cases "f > 0")
    case True
    then have tr: "Send_transfer rt clock x1 a mint f = Inr x'" using tr by simp
    show ?thesis using Send_transfer_charged [OF law(3) tr ne] b bn by (auto simp: charged_def)
  next
    case False
    then have "f = 0" using word_gt_0 [of f] by blast
    then have "x' = x1" "unat n = unat burnt" using tr bn by simp_all
    then show ?thesis using b by (simp add: charged_def eq_imp_le)
  qed
qed

lemma Send_tokens_effect:
  assumes laws: "runtime_laws rt" and tok: "Send_tokens rt clock x a s mint n r f = Inr (s', x')"
    and fee: "compute_fee_and_adjust_amount rt clock x amt s (ai_key (se_token_mint a)) b = Inr (n, r, f)"
    and ne: "ai_key (se_token_source a) \<noteq> ai_key (se_token_escrow a)"
  shows "owner rt x' k = owner rt x k"
    and "balance rt x (ai_key (se_token_source a)) = balance rt x' (ai_key (se_token_source a)) + unat n"
    and "k \<noteq> ai_key (se_token_source a) \<Longrightarrow> balance rt x k \<le> balance rt x' k"
    and "os_oft_type s = Adapter \<Longrightarrow>
      balance rt x (ai_key (se_token_escrow a)) + unat r + unat f \<le> balance rt x' (ai_key (se_token_escrow a))"
    and "k \<noteq> ai_key (se_token_source a) \<Longrightarrow> k \<noteq> ai_key (se_token_escrow a) \<Longrightarrow> balance rt x' k = balance rt x k"
proof -
  note law = runtime_lawsD [OF laws]
  have tr: "Send_transfer rt clock x a mint n = Inr x'" if "os_oft_type s = Adapter"
    using tok that by (auto simp: Send_tokens_def result_simps)
  have "charged rt a x x' n"
    using Send_transfer_charged [OF law(3) tr ne] Send_native_charged [OF laws tok _ ne] by blast
  then show "owner rt x' k = owner rt x k"
    and "balance rt x (ai_key (se_token_source a)) = balance rt x' (ai_key (se_token_source a)) + unat n"
    and "k \<noteq> ai_key (se_token_source a) \<Longrightarrow> balance rt x k \<le> balance rt x' k"
    and "k \<noteq> ai_key (se_token_source a) \<Longrightarrow> k \<noteq> ai_key (se_token_escrow a) \<Longrightarrow> balance rt x' k = balance rt x k"
    by (simp_all add: charged_def)
  show "balance rt x (ai_key (se_token_escrow a)) + unat r + unat f \<le> balance rt x' (ai_key (se_token_escrow a))"
    if ty: "os_oft_type s = Adapter"
    by (rule Send_transfer_effect [OF law(3) tr [OF ty] ne]) (use compute_fee_delivered [OF law(2) fee ty] in simp)
qed

text \<open>
  Nobody holds a key for a program account's address, so a transaction's signer is none. A
  signer's own token account is then no OFT's escrow.
\<close>

lemma source_not_escrow:
  assumes "world_ok rt w" "Send_try_accounts rt w a p = Inr (peer, s, mint)" "accounts w (ai_key (se_signer a)) = None"
    and "accounts w k = Some (AOFTStore t)"
  shows "os_token_escrow t \<noteq> ai_key (se_token_source a)"
  using Send_accounts_Inr(6) [OF assms(2)] world_okD(1) [OF assms(1,4)] assms(3,4) by (auto simp: store_ok_def)

lemma Send_tokens_custody:
  assumes laws: "runtime_laws rt" and ok: "world_ok rt w" and acc: "Send_try_accounts rt w a p = Inr (peer, s, mint)"
    and sg: "accounts w (ai_key (se_signer a)) = None"
    and tok: "Send_tokens rt clock (ext w) a s mint n r f = Inr (s', x')"
    and fee: "compute_fee_and_adjust_amount rt clock (ext w) amt s (ai_key (se_token_mint a)) b = Inr (n, r, f)"
  shows "accounts w k = Some (AOFTStore t) \<Longrightarrow> store_ok rt x' k t"
    and "store_ok rt x' (ai_key (se_oft_store a)) s'"
proof -
  note f = Send_accounts_Inr [OF acc]
  have ne: "ai_key (se_token_source a) \<noteq> ai_key (se_token_escrow a)"
    using source_not_escrow [OF ok acc sg f(1)] f(4) by simp
  note e = Send_tokens_effect [OF laws tok fee ne]
  show t: "store_ok rt x' k t" if "accounts w k = Some (AOFTStore t)" for k t
    using world_okD(1) [OF ok that] e(1) e(3) [OF source_not_escrow [OF ok acc sg that]]
    by (auto simp: store_ok_def)
  have s: "store_ok rt x' (ai_key (se_oft_store a)) s" and old: "store_ok rt (ext w) (ai_key (se_oft_store a)) s"
    using t world_okD(1) [OF ok] f(1) by auto
  have st: "s' = s\<lparr>os_tvl_ld := os_tvl_ld s'\<rparr>"
    and tvl: "unat (os_tvl_ld s') = unat (os_tvl_ld s) + (if os_oft_type s = Adapter then unat r else 0)"
    using Send_tokens_store [OF tok] by auto
  have "unat (os_tvl_ld s') \<le> balance rt x' (os_token_escrow s)"
    using tvl e(4) f(4) old s by (cases "os_oft_type s") (auto simp: store_ok_def)
  then have "store_ok rt x' (ai_key (se_oft_store a)) (s\<lparr>os_tvl_ld := os_tvl_ld s'\<rparr>)"
    using s tvl by (auto simp: store_ok_def unat_eq_self_iff [of "os_tvl_ld s'" 0])
  then show "store_ok rt x' (ai_key (se_oft_store a)) s'" using st by simp
qed

lemma send_ok:
  assumes laws: "runtime_laws rt" and ok: "world_ok rt w" and sg: "accounts w (ai_key (se_signer a)) = None"
    and snd: "send rt clock w a ra p = Inr (mr, rc, w')"
  shows "world_ok rt w'"
  using snd
proof (cases rule: send_cases)
  case (sent peer s mint fee peer' s' x1 sd opts x')
  note acc = sent(1) and fee = sent(3) and lim = sent(5) and tok = sent(6) and ep = sent(9) and w' = sent(10)
  note kept = endpoint_lawD(3) [OF runtime_lawsD(7) [OF laws] ep]
  note cust = Send_tokens_custody [OF laws ok acc sg tok fee]
  have "peer_ok peer'"
    using world_okD(2) [OF ok Send_accounts_Inr(2) [OF acc]] Send_limits_Inr(1,2) [OF lim]
    by (simp add: peer_ok_def same_peer_size)
  then show ?thesis
    using cust store_ok_custody [OF _ kept] world_okD(2) [OF ok]
    by (auto simp: world_ok_def w' split: if_splits)
qed

section \<open>Properties\<close>

text \<open>
  C4: every outbound transfer is backed. In a world that satisfies the invariant, for a
  signer that is no program account, a successful \<^verbatim>\<open>send\<close> returns a receipt whose charge is at
  most the requested amount, and whose delivery is at least the requested minimum and no more
  than the charge. When the endpoint is called, the sender's token account has lost exactly
  the charge and no account but it and the escrow has changed; if no fee in the LayerZero
  token is offered, that still holds at the end. An adapter's \<^verbatim>\<open>tvl_ld\<close> grows by exactly the
  delivered amount and its escrow by at least as much, even if the token withholds transfer
  fees; a native OFT's locked value stays the same. Nothing else in the store changes.
\<close>

theorem send_backed:
  assumes "runtime_laws rt" and "world_ok rt w" and "accounts w (ai_key (se_signer a)) = None"
    and "send rt clock w a ra p = Inr (mr, rc, w')" and "accounts w (ai_key (se_oft_store a)) = Some (AOFTStore s)"
    and "endpoint_no_tokens rt"
  shows "unat (or_amount_sent_ld rc) \<le> unat (sm_amount_ld p)
     \<and> sm_min_amount_ld p \<le> or_amount_received_ld rc
     \<and> unat (or_amount_received_ld rc) \<le> unat (or_amount_sent_ld rc)
     \<and> (\<exists>x1 ep. endpoint_send rt x1 (os_endpoint_program s) (ai_key (se_oft_store a)) ra
            (signer_seeds (os_token_escrow s) (os_bump s)) ep = Inr (mr, ext w')
          \<and> balance rt (ext w) (ai_key (se_token_source a)) = balance rt x1 (ai_key (se_token_source a)) + unat (or_amount_sent_ld rc)
          \<and> (\<forall>k. k \<noteq> ai_key (se_token_source a) \<and> k \<noteq> os_token_escrow s \<longrightarrow> balance rt x1 k = balance rt (ext w) k))
     \<and> (sm_lz_token_fee p = 0 \<longrightarrow>
          balance rt (ext w) (ai_key (se_token_source a)) = balance rt (ext w') (ai_key (se_token_source a)) + unat (or_amount_sent_ld rc)
          \<and> (\<forall>k. k \<noteq> ai_key (se_token_source a) \<and> k \<noteq> os_token_escrow s \<longrightarrow> balance rt (ext w') k = balance rt (ext w) k))
     \<and> (\<exists>tvl. accounts w' (ai_key (se_oft_store a)) = Some (AOFTStore (s\<lparr>os_tvl_ld := tvl\<rparr>))
          \<and> unat tvl = unat (os_tvl_ld s) + (if os_oft_type s = Adapter then unat (or_amount_received_ld rc) else 0)
          \<and> balance rt (ext w) (os_token_escrow s) + (if os_oft_type s = Adapter then unat (or_amount_received_ld rc) else 0)
              \<le> balance rt (ext w') (os_token_escrow s))"
  using assms(4)
proof (cases rule: send_cases)
  case (sent peer s0 mint fee peer' s' x1 sd opts x')
  note acc = sent(1) and fee = sent(3) and min = sent(4) and tok = sent(6) and ep = sent(9) and w' = sent(10)
  note f = Send_accounts_Inr [OF acc]
  have s0: "s0 = s" using f(1) assms(5) by simp
  have ne: "os_token_escrow s \<noteq> ai_key (se_token_source a)"
    by (rule source_not_escrow [OF assms(2) acc assms(3,5)])
  note e = Send_tokens_effect [OF assms(1) tok fee] and law = runtime_lawsD [OF assms(1)]
  let ?src = "ai_key (se_token_source a)"
  have moved: "balance rt (ext w) ?src = balance rt x1 ?src + unat (or_amount_sent_ld rc)"
    "\<forall>k. k \<noteq> ?src \<and> k \<noteq> os_token_escrow s \<longrightarrow> balance rt x1 k = balance rt (ext w) k"
    using e(2,5) ne f(4) s0 by simp_all
  have same: "balance rt x' k = balance rt x1 k" if "sm_lz_token_fee p = 0" for k
    by (rule tokens_untouchedD(1) [OF endpoint_no_tokensD(1) [OF assms(6) ep]])
      (simp add: that Send_endpoint_params_def)
  have own: "owner rt x1 (os_token_escrow s) = Some (oft_pda rt (os_token_escrow s))"
    using e(1) ne f(4) store_ok_owner [OF world_okD(1) [OF assms(2,5)]] s0 by simp
  have grow: "balance rt (ext w) (os_token_escrow s) + (if os_oft_type s = Adapter then unat (or_amount_received_ld rc) else 0)
      \<le> balance rt x1 (os_token_escrow s)"
    using e(3) [of "os_token_escrow s"] e(4) ne f(4) s0 by (cases "os_oft_type s") auto
  note st = Send_tokens_store [OF tok, unfolded s0]
  show ?thesis
    using compute_fee_sent_le [OF law(2) fee] compute_fee_covered [OF law(2) fee] min st grow moved same ep
      custody_keptD(2) [OF endpoint_lawD(3) [OF law(7) ep] own]
    by (intro conjI impI exI [of _ "os_tvl_ld s'"] exI [of _ x1] exI [of _ "Send_endpoint_params a peer p sd opts"])
      (auto simp: w' s0)
qed

text \<open>
  C9: the message says what was taken. When \<^verbatim>\<open>send\<close> succeeds, the endpoint was asked, in the
  OFT's name, to send to the configured peer a message from which the recipient, the compose
  payload and an amount in shared decimals are read back, and that amount in local decimals
  is exactly the amount in the receipt and in the emitted event.
\<close>

theorem send_message_exact:
  assumes "send rt clock w a ra p = Inr (mr, rc, w')"
  shows "\<exists>peer s x1 ep sd. accounts w (ai_key (se_peer a)) = Some (APeerConfig peer)
     \<and> accounts w (ai_key (se_oft_store a)) = Some (AOFTStore s)
     \<and> endpoint_send rt x1 (os_endpoint_program s) (ai_key (se_oft_store a)) ra
         (signer_seeds (os_token_escrow s) (os_bump s)) ep = Inr (mr, ext w')
     \<and> es_dst_eid ep = sm_dst_eid p \<and> es_receiver ep = pc_peer_address peer
     \<and> msg_codec_send_to (es_message ep) = Inr (sm_to p) \<and> msg_codec_amount_sd (es_message ep) = Inr sd
     \<and> msg_codec_compose_msg (es_message ep)
         = Inr (map_option (\<lambda>m. to_bytes (ai_key (se_signer a)) @ m) (sm_compose_msg p))
     \<and> sd2ld s sd = Inr (or_amount_received_ld rc)
     \<and> events w' = events w @ [Send_event a p mr rc]"
  using assms
proof (cases rule: send_cases)
  case (sent peer s mint fee peer' s' x1 sd opts x')
  note acc = sent(1) and fee = sent(3) and tok = sent(6) and sd = sent(7) and ep = sent(9) and w' = sent(10)
  have "os_ld2sd_rate s' = os_ld2sd_rate s" using Send_tokens_store [OF tok] by (cases s') auto
  then have "sd2ld s sd = Inr (or_amount_received_ld rc)"
    using compute_fee_carried [OF fee] sd by (auto simp: ld2sd_def)
  then show ?thesis
    using ep w' Send_accounts_Inr(1,2) [OF acc]
    by (intro exI [of _ peer] exI [of _ s] exI [of _ x1] exI [of _ "Send_endpoint_params a peer p sd opts"] exI [of _ sd])
      (simp add: Send_endpoint_params_def bytes_simps)
qed

text \<open>
  C25: what \<^verbatim>\<open>send\<close> refuses. With valid accounts a paused OFT answers \<^verbatim>\<open>Paused\<close>; an unpaused
  one answers \<^verbatim>\<open>SlippageExceeded\<close> if the computed amount is below the requested minimum, and
  otherwise \<^verbatim>\<open>RateLimitExceeded\<close> if it is more than the outbound bucket holds now.
\<close>

theorem send_refuses:
  assumes "Send_try_accounts rt w a p = Inr (peer, s, mint)"
    and "compute_fee_and_adjust_amount rt clock (ext w) (sm_amount_ld p) s (ai_key (se_token_mint a)) (pc_fee_bps peer)
       = Inr (sent, rcv, fee)"
    and "pc_outbound_rate_limiter peer = Some l" and "now clock = Inr t"
  shows "(os_paused s \<longrightarrow> send rt clock w a ra p = Inl (OFT Paused))
     \<and> (\<not> os_paused s \<and> \<not> sm_min_amount_ld p \<le> rcv \<longrightarrow> send rt clock w a ra p = Inl (OFT SlippageExceeded))
     \<and> (\<not> os_paused s \<and> sm_min_amount_ld p \<le> rcv \<and> bucket_at (bucket_of l) (unat t) < unat rcv \<longrightarrow>
          send rt clock w a ra p = Inl (OFT RateLimitExceeded))"
proof (intro conjI impI)
  assume "\<not> os_paused s \<and> sm_min_amount_ld p \<le> rcv \<and> bucket_at (bucket_of l) (unat t) < unat rcv"
  then show "send rt clock w a ra p = Inl (OFT RateLimitExceeded)"
    using assms(1-3) try_consume_eq [OF assms(4), of l rcv]
    by (simp add: send_def Send_apply_def Send_limits_def consume_limit_def)
qed (use assms(1,2) in \<open>simp_all add: send_def Send_apply_def\<close>)

text \<open>
  C23: \<^verbatim>\<open>quote_oft\<close> predicts \<^verbatim>\<open>send\<close>. If a \<^verbatim>\<open>send\<close> succeeds, then \<^verbatim>\<open>quote_oft\<close> for the same OFT,
  peer, mint, amount and minimum in the same state at the same time returns the very amounts
  of the receipt.
\<close>

theorem quote_oft_predicts_send:
  assumes "post_fee_law rt" and "send rt clock w a ra p = Inr (mr, rc, w')"
    and "q = \<lparr>qo_oft_store = se_oft_store a, qo_peer = se_peer a, qo_token_mint = se_token_mint a\<rparr>"
    and "op_dst_eid qp = sm_dst_eid p" and "op_amount_ld qp = sm_amount_ld p" and "op_min_amount_ld qp = sm_min_amount_ld p"
  shows "\<exists>r. quote_oft rt clock w q qp = Inr r \<and> qr_oft_receipt r = rc"
  using assms(2)
proof (cases rule: send_cases)
  case (sent peer s mint fee peer' s' x1 sd opts x')
  note acc = sent(1) and np = sent(2) and fee = sent(3) and min = sent(4)
  have "QuoteOFT_try_accounts rt w q qp = Inr (s, peer)"
    using acc by (auto simp: QuoteOFT_try_accounts_def Send_try_accounts_def result_simps assms(3,4))
  then show ?thesis
    using QuoteOFT_apply_eq [OF assms(1) np, of clock "ext w" qp q peer] fee min by (auto simp: quote_oft_def assms(3,5,6))
qed

text \<open>
  C24: \<^verbatim>\<open>quote_send\<close> prices a message of the same shape. If a \<^verbatim>\<open>send\<close> succeeds, then
  \<^verbatim>\<open>quote_send\<close> for the same OFT, peer, mint, amounts, recipient, options and compose message
  in the same state asks the endpoint for the price of a message of the same length to the
  same receiver with the same options. The two messages differ in content: the quote
  carries the amount in local decimals and no sender.
\<close>

theorem quote_send_same_shape:
  assumes "send rt clock w a ra p = Inr (mr, rc, w')"
    and "q = \<lparr>qs_oft_store = se_oft_store a, qs_peer = se_peer a, qs_token_mint = se_token_mint a\<rparr>"
    and "qp = \<lparr>qq_dst_eid = sm_dst_eid p, qq_to = sm_to p, qq_amount_ld = sm_amount_ld p,
      qq_min_amount_ld = sm_min_amount_ld p, qq_options = sm_options p, qq_compose_msg = sm_compose_msg p,
      qq_pay_in_lz_token = pay\<rparr>"
  shows "\<exists>s x1 ep quoted. accounts w (ai_key (se_oft_store a)) = Some (AOFTStore s) \<and> endpoint_send rt x1 (os_endpoint_program s) (ai_key (se_oft_store a)) ra
         (signer_seeds (os_token_escrow s) (os_bump s)) ep = Inr (mr, ext w')
     \<and> quote_send rt clock w q qra qp = endpoint_quote rt (ext w) (os_endpoint_program s) qra quoted
     \<and> qp_sender quoted = ai_key (se_oft_store a) \<and> qp_dst_eid quoted = es_dst_eid ep
     \<and> qp_receiver quoted = es_receiver ep \<and> qp_options quoted = es_options ep
     \<and> length (qp_message quoted) = length (es_message ep)
     \<and> msg_codec_amount_sd (qp_message quoted) = Inr (or_amount_received_ld rc)"
  using assms(1)
proof (cases rule: send_cases)
  case (sent peer s mint fee peer' s' x1 sd opts x')
  note acc = sent(1) and np = sent(2) and fee = sent(3) and min = sent(4) and opt = sent(8) and ep = sent(9) and w' = sent(10)
  have "QuoteSend_try_accounts rt w q qp = Inr (s, peer)"
    using acc by (auto simp: QuoteSend_try_accounts_def Send_try_accounts_def result_simps assms(2,3))
  then have "quote_send rt clock w q qra qp = endpoint_quote rt (ext w) (os_endpoint_program s) qra
      (QuoteSend_quote_params q peer qp (or_amount_received_ld rc) opts)"
    using np fee min opt by (simp add: quote_send_def QuoteSend_apply_def assms(2,3))
  then show ?thesis
    using ep w' Send_accounts_Inr(1) [OF acc]
    by (intro exI [of _ s] exI [of _ x1] exI [of _ "Send_endpoint_params a peer p sd opts"]
        exI [of _ "QuoteSend_quote_params q peer qp (or_amount_received_ld rc) opts"])
      (simp add: Send_endpoint_params_def QuoteSend_quote_params_def length_msg_codec_encode bytes_simps assms(2,3))
qed

section \<open>An example transfer\<close>

text \<open>Wallet 30 sends a million units of the token with the transfer fee through the adapter.\<close>

definition send_ledger :: ledger where
  "send_ledger = (escrow_ledger 0)\<lparr>lg_fee := Some (\<lambda>_. example_fee)\<rparr>"

definition send_world :: "PeerConfig \<Rightarrow> ledger world" where
  "send_world peer = transfer_world (example_store Adapter) peer send_ledger"

definition example_send :: Send where
  "example_send = \<lparr>se_signer = acct 30 True False, se_peer = acct 57 False True, se_oft_store = acct 120 False True,
     se_token_source = acct 20 False True, se_token_escrow = acct 2 False True, se_token_mint = acct 1 False True,
     se_token_program = acct 103 False False, se_event_authority = acct 62 False False, se_program = acct 100 False False\<rparr>"

definition example_send_params :: SendParams where
  "example_send_params = \<lparr>sm_dst_eid = 5, sm_to = repeat32 8, sm_amount_ld = 1000000, sm_min_amount_ld = 900000,
     sm_options = [], sm_compose_msg = None, sm_native_fee = 7, sm_lz_token_fee = 0\<rparr>"

definition example_remaining :: "AccountInfo list" where
  "example_remaining = [acct 104 False False, acct 120 False False]"

lemma send_world_accounts:
  assumes "pc_bump peer = 255"
  shows "\<exists>mint. Send_try_accounts ledger_runtime (send_world peer) example_send example_send_params
     = Inr (peer, example_store Adapter, mint)"
  using assms
  by (simp add: Send_try_accounts_def transfer_world_defs send_world_def send_ledger_def example_send_def
      example_send_params_def escrow_ledger_def escrow_account_def wallet_account_def ledger_token_def)

lemma send_world_amounts:
  "compute_fee_and_adjust_amount ledger_runtime (Inr (clock_at 5)) (ext (send_world peer))
      (sm_amount_ld example_send_params) (example_store Adapter) (ai_key (se_token_mint example_send)) (Some 100)
     = Inr (1000000, 986000, 9000)"
  using example_compute [of send_ledger]
  by (simp add: send_world_def transfer_world_def send_ledger_def example_send_params_def)

lemma send_world_ok: "peer_ok peer \<Longrightarrow> world_ok ledger_runtime (send_world peer)"
  by (simp add: world_ok_def send_world_def transfer_world_def store_ok_def ledger_owner ledger_balance
      send_ledger_def escrow_ledger_def escrow_account_def example_store_def digest_def OFT_SEED_def)

lemma example_peer_ok: "peer_ok example_peer"
  by (simp add: peer_ok_def peer_wf_def example_peer_def PeerConfig_zero_def PeerConfig_size_def option_size_def
      EnforcedOptions_default_def PeerConfig_INIT_SPACE_def ENFORCED_OPTIONS_SEND_MAX_LEN_def
      ENFORCED_OPTIONS_SEND_AND_CALL_MAX_LEN_def)

lemma example_send_succeeds:
  "\<exists>mr w'. send ledger_runtime (Inr (clock_at 5)) (send_world example_peer) example_send example_remaining example_send_params
     = Inr (mr, \<lparr>or_amount_sent_ld = 1000000, or_amount_received_ld = 986000\<rparr>, w')"
proof -
  obtain mint where acc: "Send_try_accounts ledger_runtime (send_world example_peer) example_send example_send_params
     = Inr (example_peer, example_store Adapter, mint)"
    using send_world_accounts [of example_peer] by (auto simp: example_peer_def)
  have pf: "pc_fee_bps example_peer = Some 100" by (simp add: example_peer_def)
  have lim: "Send_limits (Inr (clock_at 5)) example_peer n = Inr example_peer" for n
    by (simp add: Send_limits_def consume_limit_def refill_limit_def example_peer_def PeerConfig_zero_def)
  have np: "\<not> os_paused (example_store Adapter)" by (simp add: example_store_def)
  have "\<exists>s' x'. Send_tokens ledger_runtime (Inr (clock_at 5)) (ext (send_world example_peer)) example_send
      (example_store Adapter) mint 1000000 986000 9000 = Inr (s', x') \<and> os_ld2sd_rate s' = 1000"
    by (simp add: Send_tokens_def Send_transfer_def u_add_def ledger_transfer_def example_send_def send_world_def
        transfer_world_def send_ledger_def escrow_ledger_def escrow_account_def demo_ledger_def wallet_account_def
        ledger_token_def acct_def u_sub_def ledger_net_def ledger_post_fee_def example_fee_def example_store_def)
  then obtain s' x' where tok: "Send_tokens ledger_runtime (Inr (clock_at 5)) (ext (send_world example_peer)) example_send
      (example_store Adapter) mint 1000000 986000 9000 = Inr (s', x')" and rt: "os_ld2sd_rate s' = 1000" by blast
  have size: "PeerConfig_size example_peer \<le> PeerConfig_INIT_SPACE" using example_peer_ok by (simp add: peer_ok_def)
  show ?thesis
    using acc send_world_amounts [of example_peer] lim np tok size rt
    by (simp add: send_def Send_apply_def pf index_def save_peer_def ld2sd_def u_div_def combine_options_def
        example_remaining_def emit_cpi_def Send_infos_def) (simp add: example_send_def example_send_params_def acct_def)
qed

theorem send_backed_witness:
  "\<exists>mr rc w' st. send ledger_runtime (Inr (clock_at 5)) (send_world example_peer) example_send example_remaining
       example_send_params = Inr (mr, rc, w')
     \<and> accounts w' (repeat32 120) = Some (AOFTStore st) \<and> unat (os_tvl_ld st) = 986000
     \<and> 986000 \<le> balance ledger_runtime (ext w') (repeat32 2)
     \<and> balance ledger_runtime (ext w') (repeat32 20) = 4000000"
proof -
  obtain mr w' where s: "send ledger_runtime (Inr (clock_at 5)) (send_world example_peer) example_send example_remaining
      example_send_params = Inr (mr, \<lparr>or_amount_sent_ld = 1000000, or_amount_received_ld = 986000\<rparr>, w')"
    using example_send_succeeds by blast
  have sg: "accounts (send_world example_peer) (ai_key (se_signer example_send)) = None"
    and st: "accounts (send_world example_peer) (ai_key (se_oft_store example_send)) = Some (AOFTStore (example_store Adapter))"
    by (simp_all add: send_world_def transfer_world_def example_send_def acct_def)
  have k: "ai_key (se_oft_store example_send) = repeat32 120" "ai_key (se_token_source example_send) = repeat32 20"
    by (simp_all add: example_send_def acct_def)
  have bal: "balance ledger_runtime (ext (send_world example_peer)) (repeat32 20) = 5000000"
    by (simp add: send_world_def transfer_world_def ledger_balance send_ledger_def escrow_ledger_def demo_ledger_def
        wallet_account_def)
  have fee: "sm_lz_token_fee example_send_params = 0" by (simp add: example_send_params_def)
  note b = send_backed [OF ledger_laws send_world_ok [OF example_peer_ok] sg s st ledger_no_tokens, unfolded k bal]
  then have "balance ledger_runtime (ext w') (repeat32 20) = 4000000" using fee by simp
  then show ?thesis using s b by (auto simp: example_store_def)
qed

theorem send_message_exact_witness:
  "\<exists>mr rc w' x1 ep. send ledger_runtime (Inr (clock_at 5)) (send_world example_peer) example_send example_remaining
       example_send_params = Inr (mr, rc, w')
     \<and> endpoint_send ledger_runtime x1 (repeat32 3) (repeat32 120) example_remaining (signer_seeds (repeat32 2) 255) ep = Inr (mr, ext w')
     \<and> es_receiver ep = repeat32 77 \<and> msg_codec_send_to (es_message ep) = Inr (repeat32 8)
     \<and> msg_codec_amount_sd (es_message ep) = Inr 986"
proof -
  obtain mr w' where s: "send ledger_runtime (Inr (clock_at 5)) (send_world example_peer) example_send example_remaining
      example_send_params = Inr (mr, \<lparr>or_amount_sent_ld = 1000000, or_amount_received_ld = 986000\<rparr>, w')"
    using example_send_succeeds by blast
  have st: "accounts (send_world example_peer) (ai_key (se_oft_store example_send)) = Some (AOFTStore (example_store Adapter))"
    and k: "ai_key (se_oft_store example_send) = repeat32 120"
    by (simp_all add: send_world_def transfer_world_def example_send_def acct_def)
  have "sd = 986" if "sd2ld (example_store Adapter) sd = Inr 986000" for sd
    using that by (simp add: int_iff example_store_def unat_eq_self_iff [of sd 986])
  moreover have "accounts (send_world example_peer) (ai_key (se_peer example_send)) = Some (APeerConfig example_peer)"
    "sm_to example_send_params = repeat32 8" "pc_peer_address example_peer = repeat32 77"
    by (simp_all add: send_world_def transfer_world_def example_send_def acct_def example_send_params_def example_peer_def)
  ultimately show ?thesis using s send_message_exact [OF s] st unfolding k by (fastforce simp: example_store_def)
qed

theorem send_refuses_witness:
  "send ledger_runtime (Inr (clock_at 5)) (send_world (example_peer\<lparr>pc_outbound_rate_limiter := Some example_limiter\<rparr>))
     example_send example_remaining example_send_params = Inl (OFT RateLimitExceeded)"
proof -
  let ?peer = "example_peer\<lparr>pc_outbound_rate_limiter := Some example_limiter\<rparr>"
  obtain mint where acc: "Send_try_accounts ledger_runtime (send_world ?peer) example_send example_send_params
     = Inr (?peer, example_store Adapter, mint)"
    using send_world_accounts [of ?peer] by (auto simp: example_peer_def)
  have cmp: "compute_fee_and_adjust_amount ledger_runtime (Inr (clock_at 5)) (ext (send_world ?peer))
      (sm_amount_ld example_send_params) (example_store Adapter) (ai_key (se_token_mint example_send)) (pc_fee_bps ?peer)
     = Inr (1000000, 986000, 9000)"
    using send_world_amounts [of ?peer] by (simp add: example_peer_def)
  have t: "now (Inr (clock_at 5)) = Inr 5" by (simp add: now_Inr clock_at_def)
  have "bucket_at (bucket_of example_limiter) (unat (5 :: u64)) < unat (986000 :: u64)"
    by (simp add: bucket_at_def bucket_of_def example_limiter_def)
  then show ?thesis
    using send_refuses [OF acc cmp _ t, of example_limiter example_remaining]
    by (simp add: example_store_def example_send_params_def)
qed

theorem quote_oft_predicts_send_witness:
  "\<exists>r. quote_oft ledger_runtime (Inr (clock_at 5)) (send_world example_peer)
      \<lparr>qo_oft_store = se_oft_store example_send, qo_peer = se_peer example_send, qo_token_mint = se_token_mint example_send\<rparr>
      example_quote_params = Inr r \<and> or_amount_received_ld (qr_oft_receipt r) = 986000"
proof -
  obtain mr w' where s: "send ledger_runtime (Inr (clock_at 5)) (send_world example_peer) example_send example_remaining
      example_send_params = Inr (mr, \<lparr>or_amount_sent_ld = 1000000, or_amount_received_ld = 986000\<rparr>, w')"
    using example_send_succeeds by blast
  from quote_oft_predicts_send [OF ledger_post_fee_law s refl, of example_quote_params] show ?thesis
    by (auto simp: example_quote_params_def example_send_params_def)
qed

theorem quote_send_same_shape_witness:
  "\<exists>fee. quote_send ledger_runtime (Inr (clock_at 5)) (send_world example_peer)
     \<lparr>qs_oft_store = acct 120 False True, qs_peer = acct 57 False True, qs_token_mint = acct 1 False True\<rparr> []
     \<lparr>qq_dst_eid = 5, qq_to = repeat32 8, qq_amount_ld = 1000000, qq_min_amount_ld = 900000, qq_options = [],
      qq_compose_msg = None, qq_pay_in_lz_token = False\<rparr>
     = Inr fee"
proof -
  obtain mr w' where s: "send ledger_runtime (Inr (clock_at 5)) (send_world example_peer) example_send example_remaining
      example_send_params = Inr (mr, \<lparr>or_amount_sent_ld = 1000000, or_amount_received_ld = 986000\<rparr>, w')"
    using example_send_succeeds by blast
  from quote_send_same_shape [OF s refl refl, of "[]" False] show ?thesis
    by (auto simp: example_send_def example_send_params_def)
qed

end
