(* ===== verification/Compose_Msg_Codec.thy ===== *)
theory Compose_Msg_Codec
  imports OFT_Prelude
begin

text \<open>
  The message handed to a composer after a transfer arrived (\<^verbatim>\<open>compose_msg_codec.rs\<close>):
  nonce (8 bytes), source endpoint (4), amount in local decimals (8), then the payload
  \<^verbatim>\<open>[composeFrom][composeMsg]\<close> as it came with the cross-chain message.
\<close>

section \<open>Definitions\<close>

definition NONCE_OFFSET :: nat where "NONCE_OFFSET = 0"

definition SRC_EID_OFFSET :: nat where "SRC_EID_OFFSET = 8"

definition AMOUNT_LD_OFFSET :: nat where "AMOUNT_LD_OFFSET = 12"

definition COMPOSE_FROM_OFFSET :: nat where "COMPOSE_FROM_OFFSET = 20"

definition COMPOSED_MSG_OFFSET :: nat where "COMPOSED_MSG_OFFSET = 52"

definition compose_msg_codec_encode :: "u64 \<Rightarrow> u32 \<Rightarrow> u64 \<Rightarrow> bytes \<Rightarrow> bytes" where
  "compose_msg_codec_encode nonce src_eid amount_ld compose_msg =
     be_bytes 8 nonce @ be_bytes 4 src_eid @ be_bytes 8 amount_ld @ compose_msg"

definition compose_msg_codec_nonce :: "bytes \<Rightarrow> u64 result" where
  "compose_msg_codec_nonce message =
     and_then (and_then (slice NONCE_OFFSET SRC_EID_OFFSET message) (copy_from_slice 8))
       (\<lambda>nonce_bytes. Inr (from_be_bytes nonce_bytes))"

definition compose_msg_codec_src_eid :: "bytes \<Rightarrow> u32 result" where
  "compose_msg_codec_src_eid message =
     and_then (and_then (slice SRC_EID_OFFSET AMOUNT_LD_OFFSET message) (copy_from_slice 4))
       (\<lambda>src_eid_bytes. Inr (from_be_bytes src_eid_bytes))"

definition compose_msg_codec_amount_ld :: "bytes \<Rightarrow> u64 result" where
  "compose_msg_codec_amount_ld message =
     and_then (and_then (slice AMOUNT_LD_OFFSET COMPOSE_FROM_OFFSET message) (copy_from_slice 8))
       (\<lambda>amount_ld_bytes. Inr (from_be_bytes amount_ld_bytes))"

definition compose_msg_codec_compose_from :: "bytes \<Rightarrow> bytes32 result" where
  "compose_msg_codec_compose_from message =
     and_then (and_then (slice COMPOSE_FROM_OFFSET COMPOSED_MSG_OFFSET message) (copy_from_slice 32))
       (\<lambda>compose_from. Inr (pad32 compose_from))"

definition compose_msg_codec_compose_msg :: "bytes \<Rightarrow> bytes result" where
  "compose_msg_codec_compose_msg message =
     (if length message > COMPOSED_MSG_OFFSET then slice_from COMPOSED_MSG_OFFSET message else Inr [])"

section \<open>Reading fields\<close>

lemmas compose_offsets = NONCE_OFFSET_def SRC_EID_OFFSET_def AMOUNT_LD_OFFSET_def
  COMPOSE_FROM_OFFSET_def COMPOSED_MSG_OFFSET_def

lemma compose_readers:
  "compose_msg_codec_nonce m = be64.read_at 0 m"
  "compose_msg_codec_src_eid m = be32.read_at 8 m"
  "compose_msg_codec_amount_ld m = be64.read_at 12 m"
  "compose_msg_codec_compose_from m = arr32.read_at 20 m"
  by (simp_all add: compose_offsets compose_msg_codec_nonce_def compose_msg_codec_src_eid_def
      compose_msg_codec_amount_ld_def compose_msg_codec_compose_from_def
      be64.read_at_def be32.read_at_def arr32.read_at_def)

lemma compose_msg_codec_compose_msg_eq: "compose_msg_codec_compose_msg m = Inr (drop 52 m)"
  by (auto simp: compose_msg_codec_compose_msg_def slice_from_def compose_offsets)

lemma length_compose_encode [simp]: "length (compose_msg_codec_encode n e a c) = 20 + length c"
  by (simp add: compose_msg_codec_encode_def)

lemma compose_encode_header [bytes_simps]:
  "compose_msg_codec_nonce (compose_msg_codec_encode n e a c) = Inr n"
  "compose_msg_codec_src_eid (compose_msg_codec_encode n e a c) = Inr e"
  "compose_msg_codec_amount_ld (compose_msg_codec_encode n e a c) = Inr a"
  using be64.read_written [of "[]" 0 n] be32.read_written [of "be_bytes 8 n" 8 e]
    be64.read_written [of "be_bytes 8 n @ be_bytes 4 e" 12 a]
  by (simp_all add: compose_readers compose_msg_codec_encode_def)

lemma drop_compose_encode [bytes_simps]: "drop 20 (compose_msg_codec_encode n e a c) = c"
  by (simp add: compose_msg_codec_encode_def)

lemma compose_encode_payload [bytes_simps]:
  "compose_msg_codec_compose_from (compose_msg_codec_encode n e a (to_bytes from @ msg)) = Inr from"
  "compose_msg_codec_compose_msg (compose_msg_codec_encode n e a (to_bytes from @ msg)) = Inr msg"
  using arr32.read_written [of "be_bytes 8 n @ be_bytes 4 e @ be_bytes 8 a" 20 "from" msg]
  by (simp_all add: compose_readers compose_msg_codec_compose_msg_eq compose_msg_codec_encode_def)

section \<open>Properties\<close>

text \<open>
  C29: round trip of the compose message. When the payload is \<^verbatim>\<open>[composeFrom][composeMsg]\<close>,
  all five readers return what was encoded.
\<close>

theorem compose_msg_codec_roundtrip:
  "let m = compose_msg_codec_encode n e a (to_bytes from @ msg) in
     compose_msg_codec_nonce m = Inr n \<and> compose_msg_codec_src_eid m = Inr e
   \<and> compose_msg_codec_amount_ld m = Inr a \<and> compose_msg_codec_compose_from m = Inr from
   \<and> compose_msg_codec_compose_msg m = Inr msg"
  by (simp add: Let_def bytes_simps)

text \<open>
  The compose readers are safe exactly from 52 bytes on. On a shorter message the
  sender reader panics, below 20 bytes the amount reader does too, while the payload reader
  never does.
\<close>

lemma compose_msg_codec_bounds:
  "((\<exists>f. compose_msg_codec_compose_from m = Inr f) = (52 \<le> length m))
   \<and> ((\<exists>a. compose_msg_codec_amount_ld m = Inr a) = (20 \<le> length m))
   \<and> (\<exists>p. compose_msg_codec_compose_msg m = Inr p \<and> length p = length m - 52)"
proof (intro conjI)
  show "(\<exists>f. compose_msg_codec_compose_from m = Inr f) = (52 \<le> length m)"
    using arr32.read_ok [of 20 m] arr32.read_short [of m 20]
    by (cases "52 \<le> length m") (auto simp: compose_readers)
  show "(\<exists>a. compose_msg_codec_amount_ld m = Inr a) = (20 \<le> length m)"
    using be64.read_ok [of 12 m] be64.read_short [of m 12]
    by (cases "20 \<le> length m") (auto simp: compose_readers)
  show "\<exists>p. compose_msg_codec_compose_msg m = Inr p \<and> length p = length m - 52"
    by (simp add: compose_msg_codec_compose_msg_eq)
qed

end
