(* ===== verification/Lz_Receive.thy ===== *)
theory Lz_Receive
  imports OFT_Send Compose_Msg_Codec
begin

text \<open>
  The inbound transfer (\<^verbatim>\<open>instructions/lz_receive.rs\<close>): clearing the payload at the endpoint,
  rate limits, unlocking or minting the tokens, and handing on a compose message. Prefix
  \<open>re_\<close> for the accounts; the parameters are LayerZero's \<^verbatim>\<open>LzReceiveParams\<close> (\<open>lp_\<close>).
\<close>

section \<open>Definitions\<close>

record LzReceive =
  re_payer :: AccountInfo
  re_peer :: AccountInfo
  re_oft_store :: AccountInfo
  re_token_escrow :: AccountInfo
  re_to_address :: AccountInfo
  re_token_dest :: AccountInfo
  re_token_mint :: AccountInfo
  re_mint_authority :: AccountInfo
  re_token_program :: AccountInfo
  re_associated_token_program :: AccountInfo
  re_system_program :: AccountInfo
  re_event_authority :: AccountInfo
  re_program :: AccountInfo

text \<open>\<^verbatim>\<open>Option<AccountInfo>\<close>: the program's own address stands for \<^verbatim>\<open>None\<close>.\<close>

definition optional_account :: "'x runtime \<Rightarrow> AccountInfo \<Rightarrow> AccountInfo option" where
  "optional_account rt ai = (if ai_key ai = program_id rt then None else Some ai)"

text \<open>
  \<^verbatim>\<open>init_if_needed\<close> on the recipient's associated token account: created when the address is
  still a system account, then checked.
\<close>

definition init_token_dest_if_needed :: "'x runtime \<Rightarrow> 'x \<Rightarrow> LzReceive \<Rightarrow> 'x result" where
  "init_token_dest_if_needed rt x a =
     and_then
       (if is_uninitialized rt x (ai_key (re_token_dest a))
        then create_associated_token rt x (ai_key (re_payer a)) (ai_key (re_token_dest a)) (ai_key (re_to_address a))
               (ai_key (re_token_mint a)) (ai_key (re_token_program a))
        else Inr x) (\<lambda>x'.
     and_then (get_token_account rt x' (ai_key (re_token_dest a))) (\<lambda>dest.
     and_then (require (ta_mint dest = ai_key (re_token_mint a)) (Anchor ConstraintTokenMint)) (\<lambda>_.
     and_then (require (ta_owner dest = ai_key (re_to_address a)) (Anchor ConstraintTokenOwner)) (\<lambda>_.
     and_then (require (ta_token_program dest = ai_key (re_token_program a)) (Anchor ConstraintAssociatedTokenTokenProgram)) (\<lambda>_.
     and_then (require (ai_key (re_token_dest a) = get_associated_token_address rt (ai_key (re_to_address a))
                 (ai_key (re_token_mint a)) (ai_key (re_token_program a))) (Anchor AccountNotAssociatedTokenAccount)) (\<lambda>_.
     and_then (check_mut (re_token_dest a)) (\<lambda>_.
     Inr x')))))))"

definition check_mint_authority :: "Mint \<Rightarrow> AccountInfo option \<Rightarrow> unit result" where
  "check_mint_authority mint mint_authority = (case mint_authority of
      Some ai \<Rightarrow> require (mi_mint_authority mint = Some (ai_key ai)) (OFT InvalidMintAuthority)
    | None \<Rightarrow> Inr ())"

definition LzReceive_try_accounts :: "'x runtime \<Rightarrow> 'x world \<Rightarrow> LzReceive \<Rightarrow> LzReceiveParams \<Rightarrow>
    (PeerConfig \<times> OFTStore \<times> Mint \<times> 'x) result" where
  "LzReceive_try_accounts rt w a params =
     and_then (check_signer (re_payer a)) (\<lambda>_.
     and_then (load_peer w (re_peer a)) (\<lambda>peer.
     and_then (load_oft_store w (re_oft_store a)) (\<lambda>s.
     and_then (get_token_account rt (ext w) (ai_key (re_token_escrow a))) (\<lambda>escrow.
     and_then (get_mint rt (ext w) (ai_key (re_token_mint a))) (\<lambda>mint.
     and_then (check_token_program rt (re_token_program a)) (\<lambda>_.
     and_then (check_program (ASSOCIATED_TOKEN_ID rt) (re_associated_token_program a)) (\<lambda>_.
     and_then (check_program (SYSTEM_PROGRAM_ID rt) (re_system_program a)) (\<lambda>_.
     and_then (init_token_dest_if_needed rt (ext w) a) (\<lambda>x'.
     and_then (check_mut (re_payer a)) (\<lambda>_.
     and_then (check_peer_seeds rt (re_oft_store a) (lp_src_eid params) peer (re_peer a)) (\<lambda>_.
     and_then (check_mut (re_peer a)) (\<lambda>_.
     and_then (require (pc_peer_address peer = lp_sender params) (OFT InvalidSender)) (\<lambda>_.
     and_then (check_oft_store_seeds rt s (re_oft_store a)) (\<lambda>_.
     and_then (check_mut (re_oft_store a)) (\<lambda>_.
     and_then (check_mut (re_token_escrow a)) (\<lambda>_.
     and_then (check_address (os_token_escrow s) (re_token_escrow a) (Anchor ConstraintAddress)) (\<lambda>_.
     and_then (check_token escrow (Some (ai_key (re_oft_store a))) (ai_key (re_token_mint a)) (ai_key (re_token_program a))) (\<lambda>_.
     and_then (msg_codec_send_to (lp_message params)) (\<lambda>to.
     and_then (check_address to (re_to_address a) (OFT InvalidTokenDest)) (\<lambda>_.
     and_then (check_mut (re_token_mint a)) (\<lambda>_.
     and_then (check_address (os_token_mint s) (re_token_mint a) (Anchor ConstraintAddress)) (\<lambda>_.
     and_then (check_mint_program mint (ai_key (re_token_program a))) (\<lambda>_.
     and_then (check_mint_authority mint (optional_account rt (re_mint_authority a))) (\<lambda>_.
     and_then (check_event_cpi rt (re_event_authority a)) (\<lambda>_.
     Inr (peer, s, mint, x'))))))))))))))))))))))))))"

definition LzReceive_limits :: "Clock result \<Rightarrow> PeerConfig \<Rightarrow> u64 \<Rightarrow> PeerConfig result" where
  "LzReceive_limits clock peer amount_received_ld =
     and_then (consume_limit clock (pc_inbound_rate_limiter peer) amount_received_ld) (\<lambda>inbound.
     and_then (refill_limit clock (pc_outbound_rate_limiter peer) amount_received_ld) (\<lambda>outbound.
     Inr (peer\<lparr>pc_inbound_rate_limiter := inbound, pc_outbound_rate_limiter := outbound\<rparr>)))"

text \<open>Returns the store, the outside state and the amount that reached the recipient.\<close>

definition LzReceive_tokens :: "'x runtime \<Rightarrow> Clock result \<Rightarrow> 'x \<Rightarrow> LzReceive \<Rightarrow> OFTStore \<Rightarrow> Mint \<Rightarrow> u64 \<Rightarrow>
    (OFTStore \<times> 'x \<times> u64) result" where
  "LzReceive_tokens rt clock x a s mint amount_received_ld =
     (let seeds = signer_seeds (ai_key (re_token_escrow a)) (os_bump s) in
      if os_oft_type s = Adapter then
        and_then (u_sub (os_tvl_ld s) amount_received_ld) (\<lambda>tvl_ld.
        and_then (transfer_checked rt clock x (ai_key (re_token_program a)) (ai_key (re_token_escrow a))
                    (ai_key (re_token_mint a)) (ai_key (re_token_dest a)) (ai_key (re_oft_store a)) (Some seeds)
                    amount_received_ld (mi_decimals mint)) (\<lambda>x'.
        and_then (get_post_fee_amount_ld rt clock x' (ai_key (re_token_mint a)) amount_received_ld) (\<lambda>post.
        Inr (s\<lparr>os_tvl_ld := tvl_ld\<rparr>, x', post))))
      else (case optional_account rt (re_mint_authority a) of
        Some mint_authority \<Rightarrow>
          and_then (mint_to rt x (ai_key (re_token_program a)) (ai_key (re_token_mint a)) (ai_key (re_token_dest a))
                      (ai_key mint_authority) [ai_key (re_oft_store a)] seeds amount_received_ld) (\<lambda>x'.
          Inr (s, x', amount_received_ld))
      | None \<Rightarrow> Inl (OFT InvalidMintAuthority)))"

definition LzReceive_clear_params :: "LzReceive \<Rightarrow> LzReceiveParams \<Rightarrow> ClearParams" where
  "LzReceive_clear_params a params =
     \<lparr>cl_receiver = ai_key (re_oft_store a), cl_src_eid = lp_src_eid params, cl_sender = lp_sender params,
      cl_nonce = lp_nonce params, cl_guid = lp_guid params, cl_message = lp_message params\<rparr>"

definition LzReceive_compose_params :: "LzReceive \<Rightarrow> LzReceiveParams \<Rightarrow> u64 \<Rightarrow> bytes \<Rightarrow> SendComposeParams" where
  "LzReceive_compose_params a params amount_received_ld message =
     \<lparr>co_to = ai_key (re_to_address a), co_guid = lp_guid params, co_index = 0,
      co_message = compose_msg_codec_encode (lp_nonce params) (lp_src_eid params) amount_received_ld message\<rparr>"

definition LzReceive_compose :: "'x runtime \<Rightarrow> 'x \<Rightarrow> LzReceive \<Rightarrow> AccountInfo list \<Rightarrow> OFTStore \<Rightarrow> LzReceiveParams \<Rightarrow> u64 \<Rightarrow>
    'x result" where
  "LzReceive_compose rt x a remaining_accounts s params amount_received_ld =
     and_then (msg_codec_compose_msg (lp_message params)) (\<lambda>compose_msg.
     (case compose_msg of
        Some message \<Rightarrow>
          and_then (slice_from (CLEAR_MIN_ACCOUNTS_LEN rt) remaining_accounts) (\<lambda>accounts_for_composing.
          endpoint_send_compose rt x (os_endpoint_program s) (ai_key (re_oft_store a)) accounts_for_composing
            (signer_seeds (ai_key (re_token_escrow a)) (os_bump s))
            (LzReceive_compose_params a params amount_received_ld message))
      | None \<Rightarrow> Inr x))"

text \<open>The accounts of the instruction, in the order of the struct.\<close>

definition LzReceive_infos :: "LzReceive \<Rightarrow> AccountInfo list" where
  "LzReceive_infos a = [re_payer a, re_peer a, re_oft_store a, re_token_escrow a, re_to_address a, re_token_dest a,
     re_token_mint a, re_mint_authority a, re_token_program a, re_associated_token_program a, re_system_program a,
     re_event_authority a, re_program a]"

definition LzReceive_apply :: "'x runtime \<Rightarrow> Clock result \<Rightarrow> 'x \<Rightarrow> LzReceive \<Rightarrow> AccountInfo list \<Rightarrow> PeerConfig \<Rightarrow> OFTStore \<Rightarrow>
    Mint \<Rightarrow> LzReceiveParams \<Rightarrow> (PeerConfig \<times> OFTStore \<times> 'x \<times> u64) result" where
  "LzReceive_apply rt clock x a remaining_accounts peer s mint params =
     and_then (require (\<not> os_paused s) (OFT Paused)) (\<lambda>_.
     let seeds = signer_seeds (ai_key (re_token_escrow a)) (os_bump s) in
     and_then (slice 0 (CLEAR_MIN_ACCOUNTS_LEN rt) remaining_accounts) (\<lambda>accounts_for_clear.
     and_then (endpoint_clear rt x (os_endpoint_program s) (ai_key (re_oft_store a)) accounts_for_clear seeds
                 (LzReceive_clear_params a params)) (\<lambda>x1.
     and_then (msg_codec_amount_sd (lp_message params)) (\<lambda>amount_sd.
     and_then (sd2ld s amount_sd) (\<lambda>amount_ld.
     and_then (LzReceive_limits clock peer amount_ld) (\<lambda>peer'.
     and_then (LzReceive_tokens rt clock x1 a s mint amount_ld) (\<lambda>(s', x2, amount_received_ld).
     and_then (LzReceive_compose rt x2 a remaining_accounts s' params amount_received_ld) (\<lambda>x'.
     and_then (emit_cpi rt (LzReceive_infos a @ remaining_accounts)) (\<lambda>_.
     Inr (peer', s', x', amount_received_ld))))))))))"

definition LzReceive_event :: "LzReceive \<Rightarrow> LzReceiveParams \<Rightarrow> u64 \<Rightarrow> oft_event" where
  "LzReceive_event a params amount_received_ld =
     Received \<lparr>recv_guid = lp_guid params, recv_src_eid = lp_src_eid params, recv_to = ai_key (re_to_address a),
       recv_amount_received_ld = amount_received_ld\<rparr>"

definition lz_receive :: "'x runtime \<Rightarrow> Clock result \<Rightarrow> 'x world \<Rightarrow> LzReceive \<Rightarrow> AccountInfo list \<Rightarrow> LzReceiveParams \<Rightarrow>
    'x world result" where
  "lz_receive rt clock w a remaining_accounts params =
     and_then (LzReceive_try_accounts rt w a params) (\<lambda>(peer, s, mint, x).
     and_then (LzReceive_apply rt clock x a remaining_accounts peer s mint params) (\<lambda>(peer', s', x', amount_received_ld).
     and_then (save_peer (w\<lparr>events := events w @ [LzReceive_event a params amount_received_ld], ext := x'\<rparr>) (re_peer a) peer') (\<lambda>w'.
     Inr (save_oft_store w' (re_oft_store a) s'))))"

section \<open>Limits and accounts\<close>

lemma LzReceive_limits_Inr:
  assumes "LzReceive_limits clock p n = Inr p'"
  shows "same_peer p p'" and "peer_wf p \<Longrightarrow> peer_wf p'"
    and "pc_inbound_rate_limiter p = Some l \<Longrightarrow>
      \<exists>l'. pc_inbound_rate_limiter p' = Some l' \<and> try_consume clock l n = Inr l'"
proof -
  obtain ob ib where c: "consume_limit clock (pc_inbound_rate_limiter p) n = Inr ib"
    "refill_limit clock (pc_outbound_rate_limiter p) n = Inr ob"
    and p': "p' = p\<lparr>pc_inbound_rate_limiter := ib, pc_outbound_rate_limiter := ob\<rparr>"
    using assms by (auto simp: LzReceive_limits_def result_simps)
  show "same_peer p p'" using c by (auto simp: p' same_peer_def limit_Inr split: option.splits)
  show "peer_wf p \<Longrightarrow> peer_wf p'" using limit_wf(1) [OF c(1)] limit_wf(2) [OF c(2)] by (simp add: p' peer_wf_def)
  show "pc_inbound_rate_limiter p = Some l \<Longrightarrow>
      \<exists>l'. pc_inbound_rate_limiter p' = Some l' \<and> try_consume clock l n = Inr l'"
    using c(1) by (auto simp: p' limit_Inr)
qed

lemma init_token_dest_Inr:
  assumes "init_token_dest_if_needed rt x a = Inr x'"
  shows "x' = x \<or> create_associated_token rt x (ai_key (re_payer a)) (ai_key (re_token_dest a)) (ai_key (re_to_address a))
               (ai_key (re_token_mint a)) (ai_key (re_token_program a)) = Inr x'"
    and "owner rt x' (ai_key (re_token_dest a)) = Some (ai_key (re_to_address a))"
  using assms by (auto simp: init_token_dest_if_needed_def result_simps owner_account split: if_splits)

lemma LzReceive_accounts_Inr:
  assumes "LzReceive_try_accounts rt w a p = Inr (peer, s, mint, x)"
  shows "accounts w (ai_key (re_oft_store a)) = Some (AOFTStore s)" "accounts w (ai_key (re_peer a)) = Some (APeerConfig peer)"
    "ai_is_signer (re_payer a)" "ai_key (re_token_escrow a) = os_token_escrow s" "ai_key (re_token_mint a) = os_token_mint s"
    "pc_peer_address peer = lp_sender p" "msg_codec_send_to (lp_message p) = Inr (ai_key (re_to_address a))"
    "init_token_dest_if_needed rt (ext w) a = Inr x"
  using assms
  by (auto simp: LzReceive_try_accounts_def check_oft_store_seeds_def check_peer_seeds_def check_defs result_simps)

section \<open>When it succeeds\<close>

lemma LzReceive_tokens_store:
  "LzReceive_tokens rt clock x a s mint n = Inr (s', x', m) \<Longrightarrow>
     s' = s\<lparr>os_tvl_ld := os_tvl_ld s'\<rparr>
     \<and> unat (os_tvl_ld s) = unat (os_tvl_ld s') + (if os_oft_type s = Adapter then unat n else 0)"
  by (auto simp: LzReceive_tokens_def Let_def result_simps int_iff split: if_splits option.splits)

lemma lz_receive_cases:
  assumes "lz_receive rt clock w a ra p = Inr w'"
  obtains (received) peer s mint x ca x1 sd amt peer' s' x2 m x' where
    "LzReceive_try_accounts rt w a p = Inr (peer, s, mint, x)" "\<not> os_paused s"
    "endpoint_clear rt x (os_endpoint_program s) (ai_key (re_oft_store a)) ca
       (signer_seeds (os_token_escrow s) (os_bump s)) (LzReceive_clear_params a p) = Inr x1"
    "msg_codec_amount_sd (lp_message p) = Inr sd" "sd2ld s sd = Inr amt"
    "LzReceive_limits clock peer amt = Inr peer'"
    "LzReceive_tokens rt clock x1 a s mint amt = Inr (s', x2, m)"
    "LzReceive_compose rt x2 a ra s' p m = Inr x'"
    "w' = \<lparr>accounts = (accounts w)(ai_key (re_peer a) \<mapsto> APeerConfig peer', ai_key (re_oft_store a) \<mapsto> AOFTStore s'),
       events = events w @ [LzReceive_event a p m], ext = x'\<rparr>"
proof -
  obtain peer s mint x peer' s' x' m where acc: "LzReceive_try_accounts rt w a p = Inr (peer, s, mint, x)"
    and ap: "LzReceive_apply rt clock x a ra peer s mint p = Inr (peer', s', x', m)"
    and w': "w' = \<lparr>accounts = (accounts w)(ai_key (re_peer a) \<mapsto> APeerConfig peer', ai_key (re_oft_store a) \<mapsto> AOFTStore s'),
       events = events w @ [LzReceive_event a p m], ext = x'\<rparr>"
    using assms by (auto simp: lz_receive_def result_simps save_oft_store_def)
  note esc = LzReceive_accounts_Inr(4) [OF acc]
  obtain ca x1 sd amt x2 where st: "\<not> os_paused s"
    "endpoint_clear rt x (os_endpoint_program s) (ai_key (re_oft_store a)) ca
       (signer_seeds (os_token_escrow s) (os_bump s)) (LzReceive_clear_params a p) = Inr x1"
    "msg_codec_amount_sd (lp_message p) = Inr sd" "sd2ld s sd = Inr amt"
    "LzReceive_limits clock peer amt = Inr peer'"
    "LzReceive_tokens rt clock x1 a s mint amt = Inr (s', x2, m)"
    "LzReceive_compose rt x2 a ra s' p m = Inr x'"
    using ap by (auto simp: LzReceive_apply_def Let_def result_simps esc)
  show ?thesis by (rule that [OF acc st w'])
qed

section \<open>Where the tokens go\<close>

text \<open>The escrow loses at most the amount, no other account loses, owners stay.\<close>

lemma LzReceive_tokens_effect:
  assumes laws: "runtime_laws rt" and tok: "LzReceive_tokens rt clock x a s mint n = Inr (s', x', m)"
  shows "owner rt x' k = owner rt x k"
    and "balance rt x k \<le> balance rt x' k + (if os_oft_type s = Adapter \<and> k = ai_key (re_token_escrow a) then unat n else 0)"
    and "ai_key (re_token_dest a) \<noteq> ai_key (re_token_escrow a) \<Longrightarrow>
      balance rt x' (ai_key (re_token_dest a)) = balance rt x (ai_key (re_token_dest a)) + unat m"
proof -
  note law = runtime_lawsD [OF laws]
  have "owner rt x' k = owner rt x k
    \<and> balance rt x k \<le> balance rt x' k + (if os_oft_type s = Adapter \<and> k = ai_key (re_token_escrow a) then unat n else 0)
    \<and> (ai_key (re_token_dest a) \<noteq> ai_key (re_token_escrow a) \<longrightarrow>
      balance rt x' (ai_key (re_token_dest a)) = balance rt x (ai_key (re_token_dest a)) + unat m)"
  proof (cases "os_oft_type s = Adapter")
    case True
    then obtain sd d where tr: "transfer_checked rt clock x (ai_key (re_token_program a)) (ai_key (re_token_escrow a))
         (ai_key (re_token_mint a)) (ai_key (re_token_dest a)) (ai_key (re_oft_store a)) sd n d = Inr x'"
      and post: "get_post_fee_amount_ld rt clock x' (ai_key (re_token_mint a)) n = Inr m"
      using tok by (auto simp: LzReceive_tokens_def Let_def result_simps)
    have "get_post_fee_amount_ld rt clock x (ai_key (re_token_mint a)) n = Inr m"
      using post transfer_keeps(2) [OF law(3) tr] by (simp add: get_post_fee_amount_ld_def)
    then have "balance rt x' (ai_key (re_token_dest a)) = balance rt x (ai_key (re_token_dest a)) + unat m"
      if "ai_key (re_token_escrow a) \<noteq> ai_key (re_token_dest a)"
      by (auto intro: transfer_moves [OF law(3) tr that])
    then show ?thesis
      using True transfer_keeps(1) [OF law(3) tr] transfer_loses [OF law(3) tr, of k] by auto
  next
    case False
    then obtain ma where "optional_account rt (re_mint_authority a) = Some ma"
      using tok by (cases "optional_account rt (re_mint_authority a)") (auto simp: LzReceive_tokens_def)
    then have mt: "mint_to rt x (ai_key (re_token_program a)) (ai_key (re_token_mint a)) (ai_key (re_token_dest a))
        (ai_key ma) [ai_key (re_oft_store a)] (signer_seeds (ai_key (re_token_escrow a)) (os_bump s)) n = Inr x'" "m = n"
      using tok False by (auto simp: LzReceive_tokens_def Let_def result_simps)
    note mv = mint_to_moves [OF law(5) mt(1)]
    show ?thesis using False mt(2) mv by (cases "k = ai_key (re_token_dest a)") simp_all
  qed
  then show "owner rt x' k = owner rt x k"
    and "balance rt x k \<le> balance rt x' k + (if os_oft_type s = Adapter \<and> k = ai_key (re_token_escrow a) then unat n else 0)"
    and "ai_key (re_token_dest a) \<noteq> ai_key (re_token_escrow a) \<Longrightarrow>
      balance rt x' (ai_key (re_token_dest a)) = balance rt x (ai_key (re_token_dest a)) + unat m"
    by auto
qed

text \<open>
  What a delivery does to the balances: the recipient's account gains \<open>m\<close>, which is the amount
  itself when it is minted and what the token's transfer fee leaves of it when it is
  unlocked; the escrow loses the amount if it is unlocked; all others keep theirs.
\<close>

definition paid :: "'x runtime \<Rightarrow> Clock result \<Rightarrow> LzReceive \<Rightarrow> OFTStore \<Rightarrow> 'x \<Rightarrow> 'x \<Rightarrow> u64 \<Rightarrow> u64 \<Rightarrow> bool" where
  "paid rt clock a s x x' n m = (
     (if os_oft_type s = Adapter then get_post_fee_amount_ld rt clock x' (ai_key (re_token_mint a)) n = Inr m else m = n)
   \<and> (\<forall>k. k \<noteq> ai_key (re_token_dest a) \<and> k \<noteq> ai_key (re_token_escrow a) \<longrightarrow> balance rt x' k = balance rt x k)
   \<and> (ai_key (re_token_dest a) \<noteq> ai_key (re_token_escrow a) \<longrightarrow>
        balance rt x' (ai_key (re_token_dest a)) = balance rt x (ai_key (re_token_dest a)) + unat m
      \<and> balance rt x (ai_key (re_token_escrow a)) = balance rt x' (ai_key (re_token_escrow a))
          + (if os_oft_type s = Adapter then unat n else 0)))"

lemma paid_only:
  assumes "paid rt clock a s x x' n m"
  shows "balance rt x k < balance rt x' k \<Longrightarrow> k = ai_key (re_token_dest a)"
    and "balance rt x' k < balance rt x k \<Longrightarrow> k = ai_key (re_token_escrow a)"
  using assms by (cases "k = ai_key (re_token_dest a)"; cases "k = ai_key (re_token_escrow a)"; auto simp: paid_def split: if_splits)+

lemma LzReceive_tokens_paid:
  assumes laws: "runtime_laws rt" and tok: "LzReceive_tokens rt clock x a s mint n = Inr (s', x', m)"
  shows "paid rt clock a s x x' n m"
proof (cases "os_oft_type s = Adapter")
  case True
  note law = runtime_lawsD [OF laws]
  obtain sd d where tr: "transfer_checked rt clock x (ai_key (re_token_program a)) (ai_key (re_token_escrow a))
       (ai_key (re_token_mint a)) (ai_key (re_token_dest a)) (ai_key (re_oft_store a)) sd n d = Inr x'"
    and post: "get_post_fee_amount_ld rt clock x' (ai_key (re_token_mint a)) n = Inr m"
    using tok True by (auto simp: LzReceive_tokens_def Let_def result_simps)
  show ?thesis
  proof (cases "ai_key (re_token_escrow a) = ai_key (re_token_dest a)")
    case True
    then show ?thesis using \<open>os_oft_type s = Adapter\<close> post transfer_keeps(3) [OF law(3) tr] by (simp add: paid_def)
  next
    case False
    obtain net where "get_post_fee_amount_ld rt clock x (ai_key (re_token_mint a)) n = Inr net"
      "balance rt x (ai_key (re_token_escrow a)) = balance rt x' (ai_key (re_token_escrow a)) + unat n"
      "balance rt x' (ai_key (re_token_dest a)) = balance rt x (ai_key (re_token_dest a)) + unat net"
      "\<forall>k. k \<noteq> ai_key (re_token_escrow a) \<and> k \<noteq> ai_key (re_token_dest a) \<longrightarrow> balance rt x' k = balance rt x k"
      by (rule transfer_moves [OF law(3) tr False])
    then show ?thesis
      using \<open>os_oft_type s = Adapter\<close> post LzReceive_tokens_effect(3) [OF laws tok] by (simp add: paid_def)
  qed
next
  case False
  then obtain ma where "optional_account rt (re_mint_authority a) = Some ma"
    using tok by (cases "optional_account rt (re_mint_authority a)") (auto simp: LzReceive_tokens_def)
  then have mt: "mint_to rt x (ai_key (re_token_program a)) (ai_key (re_token_mint a)) (ai_key (re_token_dest a))
      (ai_key ma) [ai_key (re_oft_store a)] (signer_seeds (ai_key (re_token_escrow a)) (os_bump s)) n = Inr x'" "m = n"
    using tok False by (auto simp: LzReceive_tokens_def Let_def result_simps)
  show ?thesis using False mt(2) mint_to_moves(2,3) [OF runtime_lawsD(5) [OF laws] mt(1)] by (simp add: paid_def)
qed

lemma init_token_dest_balance:
  assumes "create_law rt" and "init_token_dest_if_needed rt x a = Inr x'"
  shows "balance rt x' k = balance rt x k"
  using init_token_dest_Inr(1) [OF assms(2)] opened_balance [OF create_lawD(4) [OF assms(1)]] by metis

lemma init_token_dest_address:
  assumes "init_token_dest_if_needed rt x a = Inr x'"
  shows "ai_key (re_token_dest a) = get_associated_token_address rt (ai_key (re_to_address a))
     (ai_key (re_token_mint a)) (ai_key (re_token_program a))"
  using assms by (auto simp: init_token_dest_if_needed_def result_simps)

lemma LzReceive_compose_untouched:
  assumes "endpoint_no_tokens rt" and "LzReceive_compose rt x a ra s p m = Inr x'"
  shows "tokens_untouched rt x x'"
  using assms(2) endpoint_no_tokensD(3) [OF assms(1)]
  by (auto simp: LzReceive_compose_def result_simps msg_codec_compose_msg_eq split: if_splits)

text \<open>The whole instruction pays like its token step: what comes before and after moves no tokens.\<close>

lemma LzReceive_paid:
  assumes laws: "runtime_laws rt" "endpoint_no_tokens rt"
    and acc: "LzReceive_try_accounts rt w a p = Inr (peer, s, mint, x)"
    and cl: "endpoint_clear rt x ep oapp ca seeds cp = Inr x1"
    and tok: "LzReceive_tokens rt clock x1 a s mint n = Inr (s', x2, m)"
    and cmp: "LzReceive_compose rt x2 a ra s' p m = Inr x'"
  shows "paid rt clock a s (ext w) x' n m" and "balance rt x k = balance rt (ext w) k"
    and "owner rt x' (ai_key (re_token_dest a)) = Some (ai_key (re_to_address a))"
proof -
  note dest = LzReceive_accounts_Inr(8) [OF acc]
  note u1 = tokens_untouchedD [OF endpoint_no_tokensD(2) [OF laws(2) cl]]
    and u2 = tokens_untouchedD [OF LzReceive_compose_untouched [OF laws(2) cmp]]
  show bal: "balance rt x k = balance rt (ext w) k" for k
    by (rule init_token_dest_balance [OF runtime_lawsD(6) [OF laws(1)] dest])
  show "paid rt clock a s (ext w) x' n m"
    using LzReceive_tokens_paid [OF laws(1) tok] unfolding paid_def u1(1) u2(1) u2(3) bal .
  show "owner rt x' (ai_key (re_token_dest a)) = Some (ai_key (re_to_address a))"
    using init_token_dest_Inr(2) [OF dest] LzReceive_tokens_effect(1) [OF laws(1) tok] u1(2) u2(2) by simp
qed

lemma init_token_dest_custody:
  assumes "create_law rt" and "init_token_dest_if_needed rt x a = Inr x'"
  shows "custody_kept rt x x'"
  using init_token_dest_Inr(1) [OF assms(2)] custody_opened [OF create_lawD(4) [OF assms(1)]] custody_refl by metis

lemma LzReceive_compose_custody:
  assumes "endpoint_law rt" and "LzReceive_compose rt x a ra s p m = Inr x'"
  shows "custody_kept rt x x'"
  using assms(2) endpoint_lawD(5) [OF assms(1)]
  by (auto simp: LzReceive_compose_def result_simps msg_codec_compose_msg_eq split: if_splits)

text \<open>After the tokens moved, every store is still covered.\<close>

lemma LzReceive_tokens_custody:
  assumes laws: "runtime_laws rt" and ok: "\<And>k t. accounts w k = Some (AOFTStore t) \<Longrightarrow> store_ok rt x k t"
    and s: "accounts w (ai_key (re_oft_store a)) = Some (AOFTStore s)" "ai_key (re_token_escrow a) = os_token_escrow s"
    and tok: "LzReceive_tokens rt clock x a s mint n = Inr (s', x', m)"
  shows "accounts w k = Some (AOFTStore t) \<Longrightarrow> k \<noteq> ai_key (re_oft_store a) \<Longrightarrow> store_ok rt x' k t"
    and "store_ok rt x' (ai_key (re_oft_store a)) s'"
proof -
  note e = LzReceive_tokens_effect [OF laws tok]
  show "store_ok rt x' k t" if "accounts w k = Some (AOFTStore t)" "k \<noteq> ai_key (re_oft_store a)"
    using ok [OF that(1)] e(1) e(2) [of "os_token_escrow t"] s(2) escrows_distinct [OF ok [OF that(1)] ok [OF s(1)] that(2)]
    by (auto simp: store_ok_def)
  have st: "s' = s\<lparr>os_tvl_ld := os_tvl_ld s'\<rparr>"
    and tvl: "unat (os_tvl_ld s) = unat (os_tvl_ld s') + (if os_oft_type s = Adapter then unat n else 0)"
    using LzReceive_tokens_store [OF tok] by auto
  have "unat (os_tvl_ld s') \<le> balance rt x' (os_token_escrow s)"
    using tvl e(2) [of "os_token_escrow s"] s(2) ok [OF s(1)] by (auto simp: store_ok_def split: if_splits)
  then have "store_ok rt x' (ai_key (re_oft_store a)) (s\<lparr>os_tvl_ld := os_tvl_ld s'\<rparr>)"
    using ok [OF s(1)] tvl e(1) by (auto simp: store_ok_def unat_eq_self_iff [of "os_tvl_ld s'" 0])
  then show "store_ok rt x' (ai_key (re_oft_store a)) s'" using st by simp
qed

lemma lz_receive_ok:
  assumes laws: "runtime_laws rt" and ok: "world_ok rt w" and rcv: "lz_receive rt clock w a ra p = Inr w'"
  shows "world_ok rt w'"
  using rcv
proof (cases rule: lz_receive_cases)
  case (received peer s mint x ca x1 sd amt peer' s' x2 m x')
  note acc = received(1) and cl = received(3) and lim = received(6) and tok = received(7) and cmp = received(8) and w' = received(9)
  note f = LzReceive_accounts_Inr [OF acc] and law = runtime_lawsD [OF laws]
  have k1: "custody_kept rt (ext w) x1"
    by (rule custody_trans [OF init_token_dest_custody [OF law(6) f(8)] endpoint_lawD(4) [OF law(7) cl]])
  have k2: "custody_kept rt x2 x'" by (rule LzReceive_compose_custody [OF law(7) cmp])
  have ok1: "store_ok rt x1 k t" if "accounts w k = Some (AOFTStore t)" for k t
    by (rule store_ok_custody [OF world_okD(1) [OF ok that] k1])
  note cust = LzReceive_tokens_custody [OF laws ok1 f(1,4) tok]
  have "peer_ok peer'"
    using world_okD(2) [OF ok f(2)] LzReceive_limits_Inr(1,2) [OF lim] by (simp add: peer_ok_def same_peer_size)
  then show ?thesis
    using cust store_ok_custody [OF _ k2] world_okD(2) [OF ok]
    by (auto simp: world_ok_def w' split: if_splits)
qed

lemma LzReceive_compose_call:
  assumes "LzReceive_compose rt x a ra s p m = Inr x'" and "40 < length (lp_message p)"
  shows "\<exists>cc. endpoint_send_compose rt x (os_endpoint_program s) (ai_key (re_oft_store a)) cc
      (signer_seeds (ai_key (re_token_escrow a)) (os_bump s)) (LzReceive_compose_params a p m (drop 40 (lp_message p))) = Inr x'"
  using assms by (auto simp: LzReceive_compose_def result_simps msg_codec_compose_msg_eq)

lemma LzReceive_compose_fields:
  "co_to (LzReceive_compose_params a p m c) = ai_key (re_to_address a)"
  "co_guid (LzReceive_compose_params a p m c) = lp_guid p" "co_index (LzReceive_compose_params a p m c) = 0"
  "compose_msg_codec_nonce (co_message (LzReceive_compose_params a p m c)) = Inr (lp_nonce p)"
  "compose_msg_codec_src_eid (co_message (LzReceive_compose_params a p m c)) = Inr (lp_src_eid p)"
  "compose_msg_codec_amount_ld (co_message (LzReceive_compose_params a p m c)) = Inr m"
  "drop 20 (co_message (LzReceive_compose_params a p m c)) = c"
  by (simp_all add: LzReceive_compose_params_def bytes_simps)

text \<open>A delivery from end to end: the amount in the message, what is paid, and what is reported.\<close>

lemma lz_receive_pays:
  assumes laws: "runtime_laws rt" "endpoint_no_tokens rt" and rcv: "lz_receive rt clock w a ra p = Inr w'"
    and s: "accounts w (ai_key (re_oft_store a)) = Some (AOFTStore s)"
  obtains (pays) sd amt m tvl where "msg_codec_amount_sd (lp_message p) = Inr sd" "unat amt = unat sd * rate s"
    "events w' = events w @ [LzReceive_event a p m]" "paid rt clock a s (ext w) (ext w') amt m"
    "ai_key (re_token_mint a) = os_token_mint s" "ai_key (re_token_escrow a) = os_token_escrow s"
    "msg_codec_send_to (lp_message p) = Inr (ai_key (re_to_address a))"
    "ai_key (re_token_dest a) = get_associated_token_address rt (ai_key (re_to_address a)) (os_token_mint s) (ai_key (re_token_program a))"
    "owner rt (ext w') (ai_key (re_token_dest a)) = Some (ai_key (re_to_address a))"
    "accounts w' (ai_key (re_oft_store a)) = Some (AOFTStore (s\<lparr>os_tvl_ld := tvl\<rparr>))"
    "unat (os_tvl_ld s) = unat tvl + (if os_oft_type s = Adapter then unat amt else 0)"
    "40 < length (lp_message p) \<longrightarrow> (\<exists>x2 cc. endpoint_send_compose rt x2 (os_endpoint_program s) (ai_key (re_oft_store a)) cc
       (signer_seeds (os_token_escrow s) (os_bump s)) (LzReceive_compose_params a p m (drop 40 (lp_message p))) = Inr (ext w'))"
  using rcv
proof (cases rule: lz_receive_cases)
  case (received peer s0 mint x ca x1 sd amt peer' s' x2 m x')
  note acc = received(1) and cl = received(3) and sd = received(4,5) and tok = received(7) and cmp = received(8) and w' = received(9)
  note f = LzReceive_accounts_Inr [OF acc]
  have s0: "s0 = s" using f(1) s by simp
  note pay = LzReceive_paid [OF laws acc cl tok cmp, unfolded s0]
  obtain tvl where s': "s' = s\<lparr>os_tvl_ld := tvl\<rparr>"
    and tvl: "unat (os_tvl_ld s) = unat tvl + (if os_oft_type s = Adapter then unat amt else 0)"
    using LzReceive_tokens_store [OF tok, unfolded s0] by blast
  have call: "40 < length (lp_message p) \<longrightarrow> (\<exists>x2 cc. endpoint_send_compose rt x2 (os_endpoint_program s) (ai_key (re_oft_store a)) cc
       (signer_seeds (os_token_escrow s) (os_bump s)) (LzReceive_compose_params a p m (drop 40 (lp_message p))) = Inr x')"
    using LzReceive_compose_call [OF cmp] f(4) by (intro impI exI [of _ x2]) (simp add: s' s0)
  show ?thesis
    by (rule pays [of sd amt m tvl])
      (use sd f(4,5,7) init_token_dest_address [OF f(8)] pay(1,3) tvl call in \<open>simp_all add: w' s' s0 int_iff\<close>)
qed

section \<open>Properties\<close>

text \<open>
  C8: only cleared payloads of the configured peer are paid, and only to the recipient. When
  \<^verbatim>\<open>lz_receive\<close> succeeds, the sender named in the parameters is the peer stored for the source
  endpoint, and the endpoint cleared exactly this nonce, guid and message in the OFT's name
  before any balance changed. The only token account that then holds more than before is
  the associated account, for the OFT's mint, of the recipient named in the message, which
  that recipient owns; the only one that can hold less is the OFT's escrow.
\<close>

theorem lz_receive_authentic:
  assumes "lz_receive rt clock w a ra p = Inr w'" and "runtime_laws rt" and "endpoint_no_tokens rt"
  shows "\<exists>peer s x ca x1 to. accounts w (ai_key (re_peer a)) = Some (APeerConfig peer)
     \<and> accounts w (ai_key (re_oft_store a)) = Some (AOFTStore s) \<and> \<not> os_paused s
     \<and> create_program_address rt (peer_seeds (ai_key (re_oft_store a)) (lp_src_eid p) @ [[pc_bump peer]]) (program_id rt)
         = Some (ai_key (re_peer a))
     \<and> pc_peer_address peer = lp_sender p
     \<and> endpoint_clear rt x (os_endpoint_program s) (ai_key (re_oft_store a)) ca
         (signer_seeds (os_token_escrow s) (os_bump s))
         \<lparr>cl_receiver = ai_key (re_oft_store a), cl_src_eid = lp_src_eid p, cl_sender = lp_sender p,
          cl_nonce = lp_nonce p, cl_guid = lp_guid p, cl_message = lp_message p\<rparr> = Inr x1
     \<and> (\<forall>k. balance rt x k = balance rt (ext w) k)
     \<and> msg_codec_send_to (lp_message p) = Inr to \<and> ai_key (re_to_address a) = to
     \<and> ai_key (re_token_dest a) = get_associated_token_address rt to (os_token_mint s) (ai_key (re_token_program a))
     \<and> owner rt x (ai_key (re_token_dest a)) = Some to \<and> owner rt (ext w') (ai_key (re_token_dest a)) = Some to
     \<and> (\<forall>k. balance rt (ext w) k < balance rt (ext w') k \<longrightarrow> k = ai_key (re_token_dest a))
     \<and> (\<forall>k. balance rt (ext w') k < balance rt (ext w) k \<longrightarrow> k = os_token_escrow s)"
  using assms(1)
proof (cases rule: lz_receive_cases)
  case (received peer s mint x ca x1 sd amt peer' s' x2 m x')
  note acc = received(1) and np = received(2) and cl = received(3) and tok = received(7) and cmp = received(8) and w' = received(9)
  note f = LzReceive_accounts_Inr [OF acc]
  have seeds: "create_program_address rt (peer_seeds (ai_key (re_oft_store a)) (lp_src_eid p) @ [[pc_bump peer]]) (program_id rt)
      = Some (ai_key (re_peer a))"
    using acc by (auto simp: LzReceive_try_accounts_def check_peer_seeds_def check_defs result_simps)
  note pay = LzReceive_paid [OF assms(2,3) acc cl tok cmp]
  have ext: "ext w' = x'" by (simp add: w')
  note moves = paid_only [OF pay(1)]
  show ?thesis
    unfolding ext
  proof (intro exI conjI allI impI)
    show "endpoint_clear rt x (os_endpoint_program s) (ai_key (re_oft_store a)) ca
        (signer_seeds (os_token_escrow s) (os_bump s))
        \<lparr>cl_receiver = ai_key (re_oft_store a), cl_src_eid = lp_src_eid p, cl_sender = lp_sender p,
         cl_nonce = lp_nonce p, cl_guid = lp_guid p, cl_message = lp_message p\<rparr> = Inr x1"
      using cl by (simp add: LzReceive_clear_params_def)
    show "ai_key (re_token_dest a) = get_associated_token_address rt (ai_key (re_to_address a)) (os_token_mint s)
        (ai_key (re_token_program a))" using init_token_dest_address [OF f(8)] f(5) by simp
  qed (use f np seeds pay(2,3) init_token_dest_Inr(2) [OF f(8)] moves in simp_all)
qed

text \<open>
  C5: an inbound transfer releases what the message says and no more. In a world that
  satisfies the invariant, a successful \<^verbatim>\<open>lz_receive\<close> reads an amount in shared decimals,
  converts it exactly, takes exactly that amount off an adapter's \<^verbatim>\<open>tvl_ld\<close> (so it never
  releases more than is locked) and at most that amount out of the escrow.
\<close>

theorem lz_receive_releases:
  assumes "runtime_laws rt" and "world_ok rt w" and "lz_receive rt clock w a ra p = Inr w'"
    and "accounts w (ai_key (re_oft_store a)) = Some (AOFTStore s)"
  shows "\<exists>sd tvl. msg_codec_amount_sd (lp_message p) = Inr sd
     \<and> accounts w' (ai_key (re_oft_store a)) = Some (AOFTStore (s\<lparr>os_tvl_ld := tvl\<rparr>))
     \<and> unat (os_tvl_ld s) = unat tvl + (if os_oft_type s = Adapter then unat sd * rate s else 0)
     \<and> balance rt (ext w) (os_token_escrow s)
         \<le> balance rt (ext w') (os_token_escrow s) + (if os_oft_type s = Adapter then unat sd * rate s else 0)"
  using assms(3)
proof (cases rule: lz_receive_cases)
  case (received peer s0 mint x ca x1 sd amt peer' s' x2 m x')
  note acc = received(1) and cl = received(3) and sd = received(4,5) and tok = received(7) and cmp = received(8) and w' = received(9)
  note f = LzReceive_accounts_Inr [OF acc] and law = runtime_lawsD [OF assms(1)]
  have s0: "s0 = s" using f(1) assms(4) by simp
  note own = store_ok_owner [OF world_okD(1) [OF assms(2,4)]]
  have k1: "custody_kept rt (ext w) x1"
    by (rule custody_trans [OF init_token_dest_custody [OF law(6) f(8)] endpoint_lawD(4) [OF law(7) cl]])
  note e = LzReceive_tokens_effect [OF assms(1) tok]
  have own2: "owner rt x2 (os_token_escrow s) = Some (oft_pda rt (os_token_escrow s))"
    using e(1) custody_keptD(1) [OF k1 own] own by simp
  have "balance rt (ext w) (os_token_escrow s)
      \<le> balance rt x' (os_token_escrow s) + (if os_oft_type s = Adapter then unat amt else 0)"
    using e(2) [of "os_token_escrow s"] custody_keptD(2) [OF k1 own] f(4) s0
      custody_keptD(2) [OF LzReceive_compose_custody [OF law(7) cmp] own2] by simp
  moreover have "unat amt = unat sd * rate s" using sd(2) by (simp add: s0 int_iff)
  ultimately show ?thesis
    using sd(1) LzReceive_tokens_store [OF tok, unfolded s0]
    by (intro exI [of _ sd] exI [of _ "os_tvl_ld s'"]) (auto simp: w')
qed

text \<open>
  C16: the reported amount is the credited amount. A successful \<^verbatim>\<open>lz_receive\<close> emits one
  \<^verbatim>\<open>OFTReceived\<close> event, and the balance of the recipient's account grows by exactly the amount in
  it, provided that account is not the escrow itself; a compose message carries the same
  amount. It is the amount in the message converted to local decimals, less the transfer fee
  the token withholds when an adapter unlocks it, and exactly it when a native OFT mints it.
\<close>

theorem lz_receive_credits:
  assumes "runtime_laws rt" and "endpoint_no_tokens rt" and "lz_receive rt clock w a ra p = Inr w'"
    and "accounts w (ai_key (re_oft_store a)) = Some (AOFTStore s)"
    and "ai_key (re_token_dest a) \<noteq> os_token_escrow s"
  shows "\<exists>sd amt m. msg_codec_amount_sd (lp_message p) = Inr sd \<and> unat amt = unat sd * rate s
     \<and> (if os_oft_type s = Adapter then get_post_fee_amount_ld rt clock (ext w') (os_token_mint s) amt = Inr m else m = amt)
     \<and> unat m \<le> unat amt
     \<and> balance rt (ext w') (ai_key (re_token_dest a)) = balance rt (ext w) (ai_key (re_token_dest a)) + unat m
     \<and> events w' = events w @ [Received \<lparr>recv_guid = lp_guid p, recv_src_eid = lp_src_eid p,
          recv_to = ai_key (re_to_address a), recv_amount_received_ld = m\<rparr>]
     \<and> (40 < length (lp_message p) \<longrightarrow> (\<exists>x2 cc cp. endpoint_send_compose rt x2 (os_endpoint_program s) (ai_key (re_oft_store a)) cc
            (signer_seeds (os_token_escrow s) (os_bump s)) cp = Inr (ext w') \<and> co_to cp = ai_key (re_to_address a) \<and> compose_msg_codec_amount_ld (co_message cp) = Inr m))"
proof (rule lz_receive_pays [OF assms(1-4)])
  fix sd amt m tvl
  assume sd: "msg_codec_amount_sd (lp_message p) = Inr sd" "unat amt = unat sd * rate s"
    and ev: "events w' = events w @ [LzReceive_event a p m]" and pay: "paid rt clock a s (ext w) (ext w') amt m"
    and k: "ai_key (re_token_mint a) = os_token_mint s" "ai_key (re_token_escrow a) = os_token_escrow s"
    and call: "40 < length (lp_message p) \<longrightarrow> (\<exists>x2 cc. endpoint_send_compose rt x2 (os_endpoint_program s) (ai_key (re_oft_store a)) cc
       (signer_seeds (os_token_escrow s) (os_bump s)) (LzReceive_compose_params a p m (drop 40 (lp_message p))) = Inr (ext w'))"
  have "unat m \<le> unat amt"
    using pay runtime_lawsD(2) [OF assms(1)] net_of_le
    by (auto simp: paid_def get_post_fee_amount_ld_iff post_fee_law_def split: if_splits option.splits)
  moreover have "\<exists>x2 cc cp. endpoint_send_compose rt x2 (os_endpoint_program s) (ai_key (re_oft_store a)) cc
      (signer_seeds (os_token_escrow s) (os_bump s)) cp = Inr (ext w')
      \<and> co_to cp = ai_key (re_to_address a) \<and> compose_msg_codec_amount_ld (co_message cp) = Inr m"
    if "40 < length (lp_message p)"
    using call that LzReceive_compose_fields(1,6) by blast
  ultimately show ?thesis
    using sd ev pay [unfolded paid_def k] assms(5)
    by - (rule exI [of _ sd], rule exI [of _ amt], rule exI [of _ m], simp add: LzReceive_event_def)
qed

text \<open>
  C22: a compose message is handed on intact. When the compose step of \<^verbatim>\<open>lz_receive\<close> succeeds on
  a message longer than 40 bytes, the endpoint was given, for the recipient and at index 0, a compose message
  from which the nonce, the source endpoint, the reported amount and the bytes after the
  first 40 are read back; shorter messages leave the endpoint alone.
\<close>

theorem lz_receive_composes:
  assumes "LzReceive_compose rt x a ra s p m = Inr x'"
  shows "if length (lp_message p) \<le> 40 then x' = x
     else (\<exists>cc cp. endpoint_send_compose rt x (os_endpoint_program s) (ai_key (re_oft_store a)) cc
             (signer_seeds (ai_key (re_token_escrow a)) (os_bump s)) cp = Inr x'
          \<and> co_to cp = ai_key (re_to_address a) \<and> co_guid cp = lp_guid p \<and> co_index cp = 0
          \<and> compose_msg_codec_nonce (co_message cp) = Inr (lp_nonce p)
          \<and> compose_msg_codec_src_eid (co_message cp) = Inr (lp_src_eid p)
          \<and> compose_msg_codec_amount_ld (co_message cp) = Inr m
          \<and> drop 20 (co_message cp) = drop 40 (lp_message p))"
proof (cases "length (lp_message p) \<le> 40")
  case False
  then have "40 < length (lp_message p)" by simp
  from LzReceive_compose_call [OF assms this] obtain cc where "endpoint_send_compose rt x (os_endpoint_program s)
      (ai_key (re_oft_store a)) cc (signer_seeds (ai_key (re_token_escrow a)) (os_bump s))
      (LzReceive_compose_params a p m (drop 40 (lp_message p))) = Inr x'" by blast
  then show ?thesis
    using False LzReceive_compose_fields
    by (simp, intro exI [of _ cc] exI [of _ "LzReceive_compose_params a p m (drop 40 (lp_message p))"]) simp
qed (use assms in \<open>simp add: LzReceive_compose_def msg_codec_compose_msg_eq\<close>)

section \<open>An example delivery\<close>

text \<open>
  500000 units arrive for wallet 8, whose associated token account does not exist yet, with a
  compose payload, at the adapter that has 600000 locked.
\<close>

definition receive_world :: "ledger world" where
  "receive_world = transfer_world ((example_store Adapter)\<lparr>os_tvl_ld := 600000\<rparr>) example_peer (escrow_ledger 900000)"

definition example_receive :: LzReceive where
  "example_receive = \<lparr>re_payer = acct 30 True True, re_peer = acct 57 False True, re_oft_store = acct 120 False True,
     re_token_escrow = acct 2 False True, re_to_address = acct 8 False False, re_token_dest = acct 106 False True,
     re_token_mint = acct 1 False True, re_mint_authority = acct 100 False False, re_token_program = acct 103 False False,
     re_associated_token_program = acct 102 False False, re_system_program = acct 101 False False,
     re_event_authority = acct 62 False False, re_program = acct 100 False False\<rparr>"

definition example_receive_params :: LzReceiveParams where
  "example_receive_params = \<lparr>lp_src_eid = 5, lp_sender = repeat32 77, lp_nonce = 3, lp_guid = repeat32 9,
     lp_message = msg_codec_encode (repeat32 8) 500 (repeat32 66) (Some [1, 2])\<rparr>"

lemma receive_world_ok: "world_ok ledger_runtime receive_world"
  using example_peer_ok
  by (simp add: world_ok_def receive_world_def transfer_world_def store_ok_def ledger_owner ledger_balance
      escrow_ledger_def escrow_account_def example_store_def digest_def OFT_SEED_def)

lemma example_message:
  "msg_codec_send_to (lp_message example_receive_params) = Inr (repeat32 8)"
  "msg_codec_amount_sd (lp_message example_receive_params) = Inr 500"
  "length (lp_message example_receive_params) = 74"
  by (simp_all add: example_receive_params_def bytes_simps length_msg_codec_encode)

definition delivered_ledger :: ledger where
  "delivered_ledger = (escrow_ledger 900000)\<lparr>lg_tokens := (lg_tokens (escrow_ledger 900000))(repeat32 106 \<mapsto>
     \<lparr>ta_token_program = repeat32 103, ta_mint = repeat32 1, ta_owner = repeat32 8, ta_amount = 0\<rparr>)\<rparr>"

lemma receive_world_accounts:
  "\<exists>mint. LzReceive_try_accounts ledger_runtime receive_world example_receive example_receive_params
     = Inr (example_peer, (example_store Adapter)\<lparr>os_tvl_ld := 600000\<rparr>, mint, delivered_ledger)"
proof -
  have dest: "init_token_dest_if_needed ledger_runtime (ext receive_world) example_receive = Inr delivered_ledger"
    by (simp add: init_token_dest_if_needed_def receive_world_def transfer_world_def example_receive_def acct_def
        escrow_ledger_def escrow_account_def demo_ledger_def ledger_create_token_def ledger_token_def digest_def
        check_defs delivered_ledger_def)
  have params: "lp_src_eid example_receive_params = 5" "lp_sender example_receive_params = repeat32 77"
    by (simp_all add: example_receive_params_def)
  show ?thesis
    using dest
    by (simp add: LzReceive_try_accounts_def example_message params)
      (simp add: transfer_world_defs receive_world_def example_receive_def escrow_ledger_def escrow_account_def
        wallet_account_def ledger_token_def check_mint_authority_def optional_account_def)
qed

lemma example_receive_tokens:
  "\<exists>s' x'. LzReceive_tokens ledger_runtime (Inr (clock_at 5)) (x\<lparr>lg_tokens := lg_tokens delivered_ledger, lg_fee := None\<rparr>)
     example_receive ((example_store Adapter)\<lparr>os_tvl_ld := 600000\<rparr>) mint 500000 = Inr (s', x', 500000) \<and> lg_fee x' = None"
  by (simp add: LzReceive_tokens_def u_sub_def ledger_transfer_def ledger_token_def example_receive_def acct_def
      delivered_ledger_def escrow_ledger_def escrow_account_def demo_ledger_def wallet_account_def ledger_net_def
      u_add_def example_store_def set_amount_def get_post_fee_amount_ld_def)

lemma example_receive_succeeds:
  "\<exists>w'. lz_receive ledger_runtime (Inr (clock_at 5)) receive_world example_receive [acct 104 False False] example_receive_params
     = Inr w' \<and> lg_fee (ext w') = None"
proof -
  let ?s = "(example_store Adapter)\<lparr>os_tvl_ld := 600000\<rparr>" and ?ra = "[acct 104 False False]"
  obtain mint where acc: "LzReceive_try_accounts ledger_runtime receive_world example_receive example_receive_params
     = Inr (example_peer, ?s, mint, delivered_ledger)"
    using receive_world_accounts by blast
  let ?x1 = "delivered_ledger\<lparr>lg_cleared := LzReceive_clear_params example_receive example_receive_params # lg_cleared delivered_ledger\<rparr>"
  have eq: "?x1\<lparr>lg_tokens := lg_tokens delivered_ledger, lg_fee := None\<rparr> = ?x1"
    by (simp add: delivered_ledger_def escrow_ledger_def demo_ledger_def)
  obtain s' x2 where tok: "LzReceive_tokens ledger_runtime (Inr (clock_at 5)) ?x1 example_receive ?s mint 500000 = Inr (s', x2, 500000)"
    and fee: "lg_fee x2 = None"
    using example_receive_tokens [of ?x1 mint] unfolding eq by blast
  have lim: "LzReceive_limits (Inr (clock_at 5)) example_peer n = Inr example_peer" for n
    by (simp add: LzReceive_limits_def consume_limit_def refill_limit_def example_peer_def PeerConfig_zero_def)
  have sd: "sd2ld ?s 500 = Inr 500000" by (simp add: int_iff example_store_def)
  have size: "PeerConfig_size example_peer \<le> PeerConfig_INIT_SPACE" using example_peer_ok by (simp add: peer_ok_def)
  have "\<exists>x3. LzReceive_compose ledger_runtime x2 example_receive ?ra s' example_receive_params 500000 = Inr x3 \<and> lg_fee x3 = None"
    using fee by (simp add: LzReceive_compose_def msg_codec_compose_msg_eq example_message slice_from_def)
  then obtain x3 where fee3: "lg_fee x3 = None"
    and "LzReceive_compose ledger_runtime x2 example_receive ?ra s' example_receive_params 500000 = Inr x3" by blast
  then have "LzReceive_apply ledger_runtime (Inr (clock_at 5)) delivered_ledger example_receive ?ra example_peer ?s mint
      example_receive_params = Inr (example_peer, s', x3, 500000)"
    using tok lim sd
    by (simp add: LzReceive_apply_def example_message slice_def emit_cpi_def LzReceive_infos_def)
      (simp add: example_store_def example_receive_def acct_def)
  then show ?thesis using acc size fee3 by (simp add: lz_receive_def save_peer_def)
qed

theorem lz_receive_authentic_witness:
  "\<exists>w' x ca x1. lz_receive ledger_runtime (Inr (clock_at 5)) receive_world example_receive [acct 104 False False]
       example_receive_params = Inr w' \<and> owner ledger_runtime (ext w') (repeat32 106) = Some (repeat32 8)
     \<and> (\<forall>k. balance ledger_runtime (ext receive_world) k < balance ledger_runtime (ext w') k \<longrightarrow> k = repeat32 106)
     \<and> endpoint_clear ledger_runtime x (repeat32 3) (repeat32 120) ca (signer_seeds (repeat32 2) 255)
         \<lparr>cl_receiver = repeat32 120, cl_src_eid = 5, cl_sender = repeat32 77, cl_nonce = 3, cl_guid = repeat32 9,
          cl_message = msg_codec_encode (repeat32 8) 500 (repeat32 66) (Some [1, 2])\<rparr> = Inr x1"
proof -
  obtain w' where w': "lz_receive ledger_runtime (Inr (clock_at 5)) receive_world example_receive [acct 104 False False]
      example_receive_params = Inr w'" using example_receive_succeeds by blast
  show ?thesis
    using w' lz_receive_authentic [OF w' ledger_laws ledger_no_tokens]
    by (auto simp: receive_world_def transfer_world_def example_receive_def acct_def example_receive_params_def
        example_store_def)
qed

theorem lz_receive_releases_witness:
  "\<exists>w' st. lz_receive ledger_runtime (Inr (clock_at 5)) receive_world example_receive [acct 104 False False]
       example_receive_params = Inr w'
     \<and> accounts w' (repeat32 120) = Some (AOFTStore st) \<and> unat (os_tvl_ld st) = 100000
     \<and> 400000 \<le> balance ledger_runtime (ext w') (repeat32 2)"
proof -
  obtain w' where w': "lz_receive ledger_runtime (Inr (clock_at 5)) receive_world example_receive [acct 104 False False]
      example_receive_params = Inr w'" using example_receive_succeeds by blast
  have st: "accounts receive_world (ai_key (re_oft_store example_receive))
      = Some (AOFTStore ((example_store Adapter)\<lparr>os_tvl_ld := 600000\<rparr>))"
    and k: "ai_key (re_oft_store example_receive) = repeat32 120"
    and bal: "balance ledger_runtime (ext receive_world) (repeat32 2) = 900000"
    by (simp_all add: receive_world_def transfer_world_def example_receive_def acct_def ledger_balance
        escrow_ledger_def escrow_account_def)
  show ?thesis
    using w' lz_receive_releases [OF ledger_laws receive_world_ok w' st] bal unfolding k
    by (auto simp: example_message example_store_def)
qed

theorem lz_receive_credits_witness:
  "\<exists>w'. lz_receive ledger_runtime (Inr (clock_at 5)) receive_world example_receive [acct 104 False False]
       example_receive_params = Inr w'
     \<and> balance ledger_runtime (ext w') (repeat32 106) = 500000
     \<and> events w' = [Received \<lparr>recv_guid = repeat32 9, recv_src_eid = 5, recv_to = repeat32 8, recv_amount_received_ld = 500000\<rparr>]"
proof -
  obtain w' where w': "lz_receive ledger_runtime (Inr (clock_at 5)) receive_world example_receive [acct 104 False False]
      example_receive_params = Inr w'" and fee: "lg_fee (ext w') = None" using example_receive_succeeds by blast
  let ?s = "(example_store Adapter)\<lparr>os_tvl_ld := 600000\<rparr>"
  have st: "accounts receive_world (ai_key (re_oft_store example_receive)) = Some (AOFTStore ?s)"
    and ne: "ai_key (re_token_dest example_receive) \<noteq> os_token_escrow ?s" and ev: "events receive_world = []"
    and k: "ai_key (re_token_dest example_receive) = repeat32 106" "ai_key (re_to_address example_receive) = repeat32 8"
    and bal: "balance ledger_runtime (ext receive_world) (repeat32 106) = 0"
    by (simp_all add: receive_world_def transfer_world_def example_receive_def acct_def ledger_balance
        escrow_ledger_def escrow_account_def example_store_def demo_ledger_def)
  have gl: "lp_guid example_receive_params = repeat32 9" "lp_src_eid example_receive_params = 5"
    by (simp_all add: example_receive_params_def)
  have net: "get_post_fee_amount_ld ledger_runtime (Inr (clock_at 5)) (ext w') (repeat32 1) n = Inr m \<longleftrightarrow> n = m" for n m
    using fee by (simp add: get_post_fee_amount_ld_def)
  have "m = 500000" if "unat m = 500000" for m :: u64 using that by (simp add: unat_eq_self_iff [of m 500000])
  then show ?thesis
    using w' lz_receive_credits [OF ledger_laws ledger_no_tokens w' st ne] unfolding k bal ev gl
    by (auto simp: example_message example_store_def net)
qed

theorem lz_receive_composes_witness:
  "\<exists>x' cc cp. endpoint_send_compose ledger_runtime delivered_ledger (repeat32 3) (repeat32 120) cc
       (signer_seeds (repeat32 2) 255) cp = Inr x'
     \<and> compose_msg_codec_amount_ld (co_message cp) = Inr 500000 \<and> drop 20 (co_message cp) = replicate 32 66 @ [1, 2]"
proof -
  obtain x' where c: "LzReceive_compose ledger_runtime delivered_ledger example_receive [acct 104 False False] (example_store Adapter)
      example_receive_params 500000 = Inr x'"
    by (simp add: LzReceive_compose_def msg_codec_compose_msg_eq example_message slice_from_def)
  have "drop 40 (lp_message example_receive_params) = replicate 32 66 @ [1, 2]"
    by (simp add: example_receive_params_def msg_codec_encode_def)
  then show ?thesis
    using lz_receive_composes [OF c] by (auto simp: example_message example_receive_def acct_def example_store_def)
qed

end
