(* ===== verification/Lz_Receive_Types.thy ===== *)
theory Lz_Receive_Types
  imports Lz_Receive
begin

text \<open>
  The account list LayerZero's executor asks for before it calls \<^verbatim>\<open>lz_receive\<close>
  (\<^verbatim>\<open>instructions/lz_receive_types.rs\<close>). Prefix \<open>lt_\<close>.
\<close>

section \<open>Definitions\<close>

record LzReceiveTypes =
  lt_oft_store :: AccountInfo
  lt_token_mint :: AccountInfo

definition LzReceiveTypes_try_accounts :: "'x runtime \<Rightarrow> 'x world \<Rightarrow> LzReceiveTypes \<Rightarrow> (OFTStore \<times> Mint) result" where
  "LzReceiveTypes_try_accounts rt w a =
     and_then (load_oft_store w (lt_oft_store a)) (\<lambda>s.
     and_then (get_mint rt (ext w) (ai_key (lt_token_mint a))) (\<lambda>mint.
     and_then (check_oft_store_seeds rt s (lt_oft_store a)) (\<lambda>_.
     and_then (check_address (os_token_mint s) (lt_token_mint a) (Anchor ConstraintAddress)) (\<lambda>_.
     Inr (s, mint)))))"

definition readonly :: "pubkey \<Rightarrow> LzAccount" where
  "readonly k = \<lparr>la_pubkey = k, la_is_signer = False, la_is_writable = False\<rparr>"

definition writable :: "pubkey \<Rightarrow> LzAccount" where
  "writable k = \<lparr>la_pubkey = k, la_is_signer = False, la_is_writable = True\<rparr>"

text \<open>Accounts 0 to 12, the ones of the \<^verbatim>\<open>LzReceive\<close> struct.\<close>

definition LzReceiveTypes_fixed :: "'x runtime \<Rightarrow> LzReceiveTypes \<Rightarrow> OFTStore \<Rightarrow> Mint \<Rightarrow> LzReceiveParams \<Rightarrow> pubkey \<Rightarrow> LzAccount list" where
  "LzReceiveTypes_fixed rt a s mint params to_address =
     (let (peer, _) = find_program_address rt (peer_seeds (ai_key (lt_oft_store a)) (lp_src_eid params)) (program_id rt);
          token_program = mi_token_program mint;
          token_dest = get_associated_token_address rt to_address (os_token_mint s) token_program;
          mint_authority = (case mi_mint_authority mint of Some k \<Rightarrow> k | None \<Rightarrow> program_id rt);
          (event_authority_account, _) = find_program_address rt [EVENT_SEED rt] (program_id rt)
      in [\<lparr>la_pubkey = default_pubkey, la_is_signer = True, la_is_writable = True\<rparr>,
          writable peer, writable (ai_key (lt_oft_store a)), writable (os_token_escrow s),
          readonly to_address, writable token_dest, writable (ai_key (lt_token_mint a)), readonly mint_authority,
          readonly token_program, readonly (ASSOCIATED_TOKEN_ID rt),
          readonly (SYSTEM_PROGRAM_ID rt), readonly event_authority_account, readonly (program_id rt)])"

definition LzReceiveTypes_compose_accounts :: "'x runtime \<Rightarrow> Clock result \<Rightarrow> 'x \<Rightarrow> LzReceiveTypes \<Rightarrow> OFTStore \<Rightarrow> LzReceiveParams \<Rightarrow>
    pubkey \<Rightarrow> LzAccount list result" where
  "LzReceiveTypes_compose_accounts rt clock x a s params to_address =
     and_then (msg_codec_compose_msg (lp_message params)) (\<lambda>compose_msg.
     (case compose_msg of
        Some message \<Rightarrow>
          and_then (msg_codec_amount_sd (lp_message params)) (\<lambda>amount_sd.
          and_then (sd2ld s amount_sd) (\<lambda>amount_ld.
          and_then (if os_oft_type s = Native then Inr amount_ld
                    else get_post_fee_amount_ld rt clock x (ai_key (lt_token_mint a)) amount_ld) (\<lambda>amount_received_ld.
          Inr (get_accounts_for_send_compose rt (os_endpoint_program s) (ai_key (lt_oft_store a)) to_address
                 (lp_guid params) 0
                 (compose_msg_codec_encode (lp_nonce params) (lp_src_eid params) amount_received_ld message)))))
      | None \<Rightarrow> Inr []))"

definition LzReceiveTypes_apply :: "'x runtime \<Rightarrow> Clock result \<Rightarrow> 'x \<Rightarrow> LzReceiveTypes \<Rightarrow> OFTStore \<Rightarrow> Mint \<Rightarrow> LzReceiveParams \<Rightarrow>
    LzAccount list result" where
  "LzReceiveTypes_apply rt clock x a s mint params =
     and_then (msg_codec_send_to (lp_message params)) (\<lambda>to_address.
     and_then (LzReceiveTypes_compose_accounts rt clock x a s params to_address) (\<lambda>accounts_for_composing.
     Inr (LzReceiveTypes_fixed rt a s mint params to_address
          @ get_accounts_for_clear rt (os_endpoint_program s) (ai_key (lt_oft_store a)) (lp_src_eid params)
              (lp_sender params) (lp_nonce params)
          @ accounts_for_composing)))"

definition lz_receive_types :: "'x runtime \<Rightarrow> Clock result \<Rightarrow> 'x world \<Rightarrow> LzReceiveTypes \<Rightarrow> LzReceiveParams \<Rightarrow> LzAccount list result" where
  "lz_receive_types rt clock w a params =
     and_then (LzReceiveTypes_try_accounts rt w a) (\<lambda>(s, mint).
     LzReceiveTypes_apply rt clock (ext w) a s mint params)"

section \<open>How the executor uses the list\<close>

text \<open>
  The executor puts itself in the place of the default address and passes the accounts in
  order: the first thirteen fill the \<^verbatim>\<open>LzReceive\<close> struct, the others are the remaining accounts.
\<close>

definition as_info :: "LzAccount \<Rightarrow> AccountInfo" where
  "as_info l = \<lparr>ai_key = la_pubkey l, ai_is_signer = la_is_signer l, ai_is_writable = la_is_writable l\<rparr>"

definition LzReceive_of :: "pubkey \<Rightarrow> LzAccount list \<Rightarrow> LzReceive" where
  "LzReceive_of executor ls = (let info = (\<lambda>i. as_info (ls ! i)) in
     \<lparr>re_payer = (info 0)\<lparr>ai_key := executor\<rparr>, re_peer = info 1, re_oft_store = info 2, re_token_escrow = info 3,
      re_to_address = info 4, re_token_dest = info 5, re_token_mint = info 6, re_mint_authority = info 7,
      re_token_program = info 8, re_associated_token_program = info 9, re_system_program = info 10,
      re_event_authority = info 11, re_program = info 12\<rparr>)"

lemma LzReceiveTypes_accounts_Inr:
  assumes "LzReceiveTypes_try_accounts rt w a = Inr (s, mint)"
  shows "accounts w (ai_key (lt_oft_store a)) = Some (AOFTStore s)" "ai_key (lt_token_mint a) = os_token_mint s"
    "get_mint rt (ext w) (os_token_mint s) = Inr mint"
    "create_program_address rt (oft_seeds (os_token_escrow s) @ [[os_bump s]]) (program_id rt) = Some (ai_key (lt_oft_store a))"
  using assms
  by (auto simp: LzReceiveTypes_try_accounts_def check_oft_store_seeds_def check_defs result_simps)

lemma LzReceive_of_fixed:
  assumes "ls = LzReceiveTypes_fixed rt a s mint p to @ rest"
  shows "LzReceive_of executor ls =
    \<lparr>re_payer = \<lparr>ai_key = executor, ai_is_signer = True, ai_is_writable = True\<rparr>,
     re_peer = as_info (writable (fst (find_program_address rt (peer_seeds (ai_key (lt_oft_store a)) (lp_src_eid p)) (program_id rt)))),
     re_oft_store = as_info (writable (ai_key (lt_oft_store a))), re_token_escrow = as_info (writable (os_token_escrow s)),
     re_to_address = as_info (readonly to),
     re_token_dest = as_info (writable (get_associated_token_address rt to (os_token_mint s) (mi_token_program mint))),
     re_token_mint = as_info (writable (ai_key (lt_token_mint a))),
     re_mint_authority = as_info (readonly (case mi_mint_authority mint of Some k \<Rightarrow> k | None \<Rightarrow> program_id rt)),
     re_token_program = as_info (readonly (mi_token_program mint)),
     re_associated_token_program = as_info (readonly (ASSOCIATED_TOKEN_ID rt)),
     re_system_program = as_info (readonly (SYSTEM_PROGRAM_ID rt)),
     re_event_authority = as_info (readonly (fst (find_program_address rt [EVENT_SEED rt] (program_id rt)))),
     re_program = as_info (readonly (program_id rt))\<rparr>"
    and "length (LzReceiveTypes_fixed rt a s mint p to) = 13"
  by (simp_all add: assms LzReceive_of_def LzReceiveTypes_fixed_def as_info_def Let_def case_prod_unfold)

lemma as_info_sel [simp]:
  "ai_key (as_info (writable k)) = k" "ai_is_writable (as_info (writable k))" "ai_key (as_info (readonly k)) = k"
  by (simp_all add: as_info_def writable_def readonly_def)

section \<open>Properties\<close>


text \<open>
  C21: the compose accounts fit the compose message. The accounts \<^verbatim>\<open>lz_receive_types\<close> asks for
  are those of exactly the message \<^verbatim>\<open>lz_receive\<close> hands to the endpoint later, provided the
  token's fee configuration is still the same and the amount arrives in the same epoch.
\<close>

theorem lz_receive_types_compose_match:
  assumes "transfer_law rt" and "LzReceive_tokens rt clock x1 r s mint amt = Inr (s', x2, m)"
    and "msg_codec_amount_sd (lp_message p) = Inr sd" and "sd2ld s sd = Inr amt" and "40 < length (lp_message p)"
    and "ai_key (re_token_mint r) = ai_key (lt_token_mint a)"
    and "get_transfer_fee_config rt x (ai_key (lt_token_mint a)) = get_transfer_fee_config rt x1 (ai_key (lt_token_mint a))"
  shows "LzReceiveTypes_compose_accounts rt clock x a s p to = Inr (get_accounts_for_send_compose rt (os_endpoint_program s)
      (ai_key (lt_oft_store a)) to (lp_guid p) 0 (co_message (LzReceive_compose_params r p m (drop 40 (lp_message p)))))"
proof -
  have "(if os_oft_type s = Native then Inr amt else get_post_fee_amount_ld rt clock x (ai_key (lt_token_mint a)) amt) = Inr m"
  proof (cases "os_oft_type s")
    case Native
    then show ?thesis using assms(2) by (auto simp: LzReceive_tokens_def Let_def result_simps split: option.splits)
  next
    case Adapter
    then obtain sds d where tr: "transfer_checked rt clock x1 (ai_key (re_token_program r)) (ai_key (re_token_escrow r))
         (ai_key (re_token_mint r)) (ai_key (re_token_dest r)) (ai_key (re_oft_store r)) sds amt d = Inr x2"
      and post: "get_post_fee_amount_ld rt clock x2 (ai_key (re_token_mint r)) amt = Inr m"
      using assms(2) by (auto simp: LzReceive_tokens_def Let_def result_simps)
    show ?thesis
      using Adapter post transfer_keeps(2) [OF assms(1) tr] assms(6,7) by (simp add: get_post_fee_amount_ld_def)
  qed
  then show ?thesis
    using assms(3-5) by (simp add: LzReceiveTypes_compose_accounts_def msg_codec_compose_msg_eq LzReceive_compose_params_def)
qed

section \<open>The example delivery\<close>

definition example_types :: LzReceiveTypes where
  "example_types = \<lparr>lt_oft_store = acct 120 False False, lt_token_mint = acct 1 False False\<rparr>"

lemma example_types_accounts:
  "\<exists>mint. LzReceiveTypes_try_accounts ledger_runtime receive_world example_types
     = Inr ((example_store Adapter)\<lparr>os_tvl_ld := 600000\<rparr>, mint) \<and> mi_token_program mint = repeat32 103"
  by (simp add: LzReceiveTypes_try_accounts_def transfer_world_defs receive_world_def example_types_def escrow_ledger_def)

lemma example_types_succeeds:
  "\<exists>ls. lz_receive_types ledger_runtime (Inr (clock_at 5)) receive_world example_types example_receive_params = Inr ls"
proof -
  obtain mint where acc: "LzReceiveTypes_try_accounts ledger_runtime receive_world example_types
     = Inr ((example_store Adapter)\<lparr>os_tvl_ld := 600000\<rparr>, mint)" using example_types_accounts by blast
  have sd: "sd2ld ((example_store Adapter)\<lparr>os_tvl_ld := 600000\<rparr>) 500 = Inr 500000" by (simp add: int_iff example_store_def)
  have "lg_fee (ext receive_world) = None"
    by (simp add: receive_world_def transfer_world_def escrow_ledger_def demo_ledger_def)
  then show ?thesis
    using sd by (simp add: lz_receive_types_def acc LzReceiveTypes_apply_def example_message LzReceiveTypes_compose_accounts_def
        msg_codec_compose_msg_eq get_post_fee_amount_ld_def)
qed


theorem lz_receive_types_compose_match_witness:
  "\<exists>m. LzReceiveTypes_compose_accounts ledger_runtime (Inr (clock_at 5)) (ext receive_world) example_types
     ((example_store Adapter)\<lparr>os_tvl_ld := 600000\<rparr>) example_receive_params (repeat32 8)
   = Inr (get_accounts_for_send_compose ledger_runtime (repeat32 3) (repeat32 120) (repeat32 8) (repeat32 9) 0
       (co_message (LzReceive_compose_params example_receive example_receive_params m
         (drop 40 (lp_message example_receive_params)))))"
proof -
  let ?x = "delivered_ledger\<lparr>lg_tokens := lg_tokens delivered_ledger, lg_fee := None\<rparr>"
    and ?s = "(example_store Adapter)\<lparr>os_tvl_ld := 600000\<rparr>"
  obtain s' x' where tok: "LzReceive_tokens ledger_runtime (Inr (clock_at 5)) ?x example_receive ?s \<lparr>mi_token_program = repeat32 103, mi_decimals = 9, mi_mint_authority = None\<rparr> 500000 = Inr (s', x', 500000)"
    using example_receive_tokens by blast
  have "sd2ld ?s 500 = Inr 500000" by (simp add: int_iff example_store_def)
  moreover have "lg_fee (ext receive_world) = None"
    by (simp add: receive_world_def transfer_world_def escrow_ledger_def demo_ledger_def)
  ultimately show ?thesis
    using lz_receive_types_compose_match [OF ledger_transfer_law tok example_message(2), of example_types "ext receive_world" "repeat32 8"]
    by (auto simp: example_message example_receive_def example_types_def acct_def example_store_def)
qed

end
