(* ===== verification/OFT_Program.thy ===== *)
theory OFT_Program
  imports Lz_Receive_Types
begin

text \<open>
  The program as a whole (\<^verbatim>\<open>lib.rs\<close>): the instruction dispatcher, and the executions it has
  when transactions of any callers, in any order, interleave with transactions that do not
  involve the program.
\<close>

section \<open>Dispatch\<close>

record Version =
  ver_interface :: u64
  ver_message :: u64

definition oft_version :: "Version result" where
  "oft_version = Inr \<lparr>ver_interface = 2, ver_message = 1\<rparr>"

text \<open>An instruction with its accounts, its remaining accounts where the handler uses them, and its parameters.\<close>

datatype instruction =
    IOftVersion
  | IInitOft InitOFT "AccountInfo list" InitOFTParams
  | ISetOftConfig SetOFTConfig "AccountInfo list" SetOFTConfigParams
  | ISetPeerConfig SetPeerConfig SetPeerConfigParams
  | ISetPause SetPause SetPauseParams
  | IWithdrawFee WithdrawFee WithdrawFeeParams
  | IQuoteOft QuoteOFT QuoteOFTParams
  | IQuoteSend QuoteSend "AccountInfo list" QuoteSendParams
  | ISend Send "AccountInfo list" SendParams
  | ILzReceive LzReceive "AccountInfo list" LzReceiveParams
  | ILzReceiveTypes LzReceiveTypes LzReceiveParams

datatype response =
    RUnit
  | RVersion Version
  | RQuoteOft QuoteOFTResult
  | RFee MessagingFee
  | RSend MessagingReceipt OFTReceipt
  | RAccounts "LzAccount list"

fun exec :: "'x runtime \<Rightarrow> Clock result \<Rightarrow> 'x world \<Rightarrow> instruction \<Rightarrow> (response \<times> 'x world) result" where
  "exec rt clock w IOftVersion = and_then oft_version (\<lambda>v. Inr (RVersion v, w))"
| "exec rt clock w (IInitOft a ra p) = and_then (init_oft rt w a ra p) (\<lambda>w'. Inr (RUnit, w'))"
| "exec rt clock w (ISetOftConfig a ra p) = and_then (set_oft_config rt w a ra p) (\<lambda>w'. Inr (RUnit, w'))"
| "exec rt clock w (ISetPeerConfig a p) = and_then (set_peer_config rt clock w a p) (\<lambda>w'. Inr (RUnit, w'))"
| "exec rt clock w (ISetPause a p) = and_then (set_pause rt w a p) (\<lambda>w'. Inr (RUnit, w'))"
| "exec rt clock w (IWithdrawFee a p) = and_then (withdraw_fee rt clock w a p) (\<lambda>w'. Inr (RUnit, w'))"
| "exec rt clock w (IQuoteOft a p) = and_then (quote_oft rt clock w a p) (\<lambda>q. Inr (RQuoteOft q, w))"
| "exec rt clock w (IQuoteSend a ra p) = and_then (quote_send rt clock w a ra p) (\<lambda>f. Inr (RFee f, w))"
| "exec rt clock w (ISend a ra p) = and_then (send rt clock w a ra p) (\<lambda>(mr, rc, w'). Inr (RSend mr rc, w'))"
| "exec rt clock w (ILzReceive a ra p) = and_then (lz_receive rt clock w a ra p) (\<lambda>w'. Inr (RUnit, w'))"
| "exec rt clock w (ILzReceiveTypes a p) = and_then (lz_receive_types rt clock w a p) (\<lambda>ls. Inr (RAccounts ls, w))"

section \<open>Executions\<close>

text \<open>The \<^verbatim>\<open>Signer\<close> fields. An account of the program has no private key, so it is none of them.\<close>

fun signers :: "instruction \<Rightarrow> AccountInfo list" where
  "signers (IInitOft a ra p) = [io_payer a]"
| "signers (ISetOftConfig a ra p) = [so_admin a]"
| "signers (ISetPeerConfig a p) = [pe_admin a]"
| "signers (ISetPause a p) = [sp_signer a]"
| "signers (IWithdrawFee a p) = [wf_admin a]"
| "signers (ISend a ra p) = [se_signer a]"
| "signers (ILzReceive a ra p) = [re_payer a]"
| "signers _ = []"

definition signers_ok :: "'x world \<Rightarrow> instruction \<Rightarrow> bool" where
  "signers_ok w i = (\<forall>ai \<in> set (signers i). accounts w (ai_key ai) = None)"

text \<open>
  A step is a transaction that succeeds, labelled with the instruction and its response, or
  anything else that happens on the chain and keeps the custody of escrows. A transaction
  that fails changes nothing and is no step.
\<close>

inductive oft_step :: "'x runtime \<Rightarrow> 'x world \<Rightarrow> (instruction \<times> response) option \<Rightarrow> 'x world \<Rightarrow> bool" for rt where
  transaction: "signers_ok w i \<Longrightarrow> exec rt clock w i = Inr (r, w') \<Longrightarrow> oft_step rt w (Some (i, r)) w'"
| elsewhere: "custody_kept rt (ext w) x' \<Longrightarrow> oft_step rt w None (w\<lparr>ext := x'\<rparr>)"

inductive_cases oft_step_cases: "oft_step rt w l w'"

inductive oft_run :: "'x runtime \<Rightarrow> 'x world \<Rightarrow> (instruction \<times> response) list \<Rightarrow> 'x world \<Rightarrow> bool" for rt w where
  start: "oft_run rt w [] w"
| more: "oft_run rt w ls w1 \<Longrightarrow> oft_step rt w1 l w2 \<Longrightarrow> oft_run rt w (ls @ (case l of None \<Rightarrow> [] | Some e \<Rightarrow> [e])) w2"

text \<open>The program is deployed without accounts.\<close>

definition deployed :: "'x world \<Rightarrow> bool" where
  "deployed w = (accounts w = Map.empty \<and> events w = [])"

section \<open>Invariants of runs\<close>

locale run_invariant =
  fixes rt :: "'x runtime" and start_ok inv :: "'x world \<Rightarrow> bool"
  assumes inv_start: "start_ok w \<Longrightarrow> inv w"
    and inv_step: "inv w \<Longrightarrow> oft_step rt w l w' \<Longrightarrow> inv w'"
begin

lemma inv_run: "oft_run rt w ls w' \<Longrightarrow> start_ok w \<Longrightarrow> inv w'"
  by (induction rule: oft_run.induct) (auto intro: inv_start inv_step)

end

lemma withdraw_fee_ok:
  assumes law: "transfer_law rt" and ok: "world_ok rt w" and "withdraw_fee rt clock w a p = Inr w'"
  shows "world_ok rt w'"
  using assms(3)
proof (cases rule: withdraw_fee_cases)
  case (withdrawn s mint escrow x')
  note acc = withdrawn(1) and le = withdrawn(2) and tr = withdrawn(3) and w' = withdrawn(4)
  note s = WithdrawFee_accounts_Inr(1) [OF acc]
  have "store_ok rt x' k t" if t: "accounts w k = Some (AOFTStore t)" for k t
  proof (cases "k = ai_key (wf_oft_store a)")
    case True
    then show ?thesis
      using t s world_okD(1) [OF ok t] transfer_keeps(1) [OF law tr]
        transfer_loses [OF law tr, of "os_token_escrow s"] le by (auto simp: store_ok_def)
  next
    case False
    have "os_token_escrow t \<noteq> os_token_escrow s"
      by (rule escrows_distinct [OF world_okD(1) [OF ok t] world_okD(1) [OF ok s] False])
    then show ?thesis
      using world_okD(1) [OF ok t] transfer_keeps(1) [OF law tr]
        transfer_loses [OF law tr, of "os_token_escrow t"] by (auto simp: store_ok_def)
  qed
  then show ?thesis using world_okD(2) [OF ok] by (simp add: world_ok_def w')
qed

lemma exec_ok:
  assumes "runtime_laws rt" "world_ok rt w" "signers_ok w i" "exec rt clock w i = Inr (r, w')"
  shows "world_ok rt w'"
proof -
  note law = runtime_lawsD [OF assms(1)]
  show ?thesis
    using assms(2-4) withdraw_fee_ok [OF law(3) assms(2)] set_oft_config_ok [OF law(7) assms(2)] set_pause_ok [OF assms(2)]
      set_peer_config_ok [OF law(6) assms(2)] init_oft_ok [OF law(6,7) assms(2)]
      send_ok [OF assms(1,2)] lz_receive_ok [OF assms(1,2)]
    by (cases i) (auto simp: result_simps signers_ok_def)
qed

interpretation custody: run_invariant rt "\<lambda>w. runtime_laws rt \<and> deployed w" "\<lambda>w. runtime_laws rt \<and> world_ok rt w" for rt
proof unfold_locales
  fix w :: "'a world" assume "runtime_laws rt \<and> deployed w"
  then show "runtime_laws rt \<and> world_ok rt w" by (simp add: deployed_def world_ok_def)
next
  fix w :: "'a world" and l w' assume "runtime_laws rt \<and> world_ok rt w" and "oft_step rt w l w'"
  then show "runtime_laws rt \<and> world_ok rt w'"
    by (auto elim!: oft_step_cases intro: exec_ok world_ok_ext)
qed

section \<open>What a transaction does to a store\<close>

text \<open>
  \<open>outflow\<close> and \<open>inflow\<close> read off a transaction what it adds to and takes from the locked value
  of the OFT at \<open>k\<close>: the amount received on the other chain for a \<^verbatim>\<open>send\<close>, the amount of the
  message in local decimals for an \<^verbatim>\<open>lz_receive\<close>.
\<close>

definition outflow :: "pubkey \<Rightarrow> instruction \<times> response \<Rightarrow> nat" where
  "outflow k e = (case e of (ISend a ra p, RSend mr rc) \<Rightarrow>
     if ai_key (se_oft_store a) = k then unat (or_amount_received_ld rc) else 0 | _ \<Rightarrow> 0)"

definition inflow :: "pubkey \<Rightarrow> nat \<Rightarrow> instruction \<times> response \<Rightarrow> nat" where
  "inflow k r e = (case e of (ILzReceive a ra p, _) \<Rightarrow>
     if ai_key (re_oft_store a) = k
     then (case msg_codec_amount_sd (lp_message p) of Inr sd \<Rightarrow> unat sd * r | Inl _ \<Rightarrow> 0) else 0 | _ \<Rightarrow> 0)"

text \<open>The store stays, keeps its immutable fields, and its locked value changes by the flows only.\<close>

definition store_moves :: "OFTStore \<Rightarrow> OFTStore \<Rightarrow> nat \<Rightarrow> nat \<Rightarrow> bool" where
  "store_moves s s' out_ld in_ld = (same_immutable s s' \<and>
     (if os_oft_type s = Adapter then unat (os_tvl_ld s') + in_ld = unat (os_tvl_ld s) + out_ld
      else os_tvl_ld s' = os_tvl_ld s))"

lemma same_immutable_tvl: "s' = s\<lparr>os_tvl_ld := v\<rparr> \<Longrightarrow> same_immutable s s'"
  by (simp add: same_immutable_def)

lemma send_store:
  assumes "send rt clock w a ra p = Inr (mr, rc, w')" and "accounts w k = Some (AOFTStore s)"
  shows "\<exists>s'. accounts w' k = Some (AOFTStore s') \<and> store_moves s s' (outflow k (ISend a ra p, RSend mr rc)) 0
     \<and> s' = s\<lparr>os_tvl_ld := os_tvl_ld s'\<rparr> \<and> (k = ai_key (se_oft_store a) \<longrightarrow> \<not> os_paused s)"
  using assms(1)
proof (cases rule: send_cases)
  case (sent peer s0 mint fee peer' s' x1 sd opts x')
  note acc = sent(1) and np = sent(2) and tok = sent(6) and w' = sent(10)
  note f = Send_accounts_Inr [OF acc] and st = Send_tokens_store [OF tok]
  show ?thesis
  proof (cases "k = ai_key (se_oft_store a)")
    case True
    with f(1) assms(2) have s: "s0 = s" by simp
    then have "same_immutable s s'" using st by (metis same_immutable_tvl)
    then show ?thesis using True np st s by (auto simp: w' store_moves_def outflow_def unat_eq_self_iff)
  next
    case False
    then show ?thesis using f(2) assms(2) by (auto simp: w' store_moves_def outflow_def)
  qed
qed

lemma lz_receive_store:
  assumes "lz_receive rt clock w a ra p = Inr w'" and "accounts w k = Some (AOFTStore s)"
  shows "\<exists>s'. accounts w' k = Some (AOFTStore s') \<and> store_moves s s' 0 (inflow k (rate s) (ILzReceive a ra p, r))
     \<and> s' = s\<lparr>os_tvl_ld := os_tvl_ld s'\<rparr> \<and> (k = ai_key (re_oft_store a) \<longrightarrow> \<not> os_paused s)"
  using assms(1)
proof (cases rule: lz_receive_cases)
  case (received peer s0 mint x ca x1 sd amt peer' s' x2 m x')
  note acc = received(1) and np = received(2) and sd = received(4,5) and tok = received(7) and w' = received(9)
  note f = LzReceive_accounts_Inr [OF acc] and st = LzReceive_tokens_store [OF tok]
  show ?thesis
  proof (cases "k = ai_key (re_oft_store a)")
    case True
    with f(1) assms(2) have s: "s0 = s" by simp
    then have "same_immutable s s'" using st by (metis same_immutable_tvl)
    then show ?thesis using True np st s sd by (auto simp: w' store_moves_def inflow_def unat_eq_self_iff int_iff)
  next
    case False
    then show ?thesis using f(2) assms(2) by (auto simp: w' store_moves_def inflow_def)
  qed
qed

text \<open>
  Who may change the configuration: the admin through \<^verbatim>\<open>set_oft_config\<close>, and the pauser or
  unpauser through \<^verbatim>\<open>set_pause\<close>, which touches the flag only.
\<close>

definition config_authorised :: "pubkey \<Rightarrow> OFTStore \<Rightarrow> OFTStore \<Rightarrow> instruction \<Rightarrow> bool" where
  "config_authorised k s s' i = (case i of
      ISetOftConfig a ra p \<Rightarrow> ai_key (so_oft_store a) = k \<and> ai_is_signer (so_admin a) \<and> ai_key (so_admin a) = os_admin s
    | ISetPause a p \<Rightarrow> ai_key (sp_oft_store a) = k \<and> ai_is_signer (sp_signer a) \<and> s' = s\<lparr>os_paused := sp_paused p\<rparr>
        \<and> (if sp_paused p then os_pauser s else os_unpauser s) = Some (ai_key (sp_signer a))
    | _ \<Rightarrow> False)"

definition store_step :: "pubkey \<Rightarrow> OFTStore \<Rightarrow> 'x world \<Rightarrow> instruction \<times> response \<Rightarrow> bool" where
  "store_step k s w' e = (\<exists>s'. accounts w' k = Some (AOFTStore s')
     \<and> store_moves s s' (outflow k e) (inflow k (rate s) e)
     \<and> (s' = s\<lparr>os_tvl_ld := os_tvl_ld s'\<rparr> \<or> config_authorised k s s' (fst e)))"

lemma store_step_same:
  assumes "accounts w' k = Some (AOFTStore s)" and "outflow k e = 0" and "inflow k (rate s) e = 0"
  shows "store_step k s w' e"
  using assms by (auto simp: store_step_def store_moves_def)

lemma flow_zero [simp]:
  "outflow k (IOftVersion, r) = 0" "outflow k (IInitOft a ra ip, r) = 0" "outflow k (ISetOftConfig b ra cp, r) = 0"
  "outflow k (ISetPeerConfig c pp, r) = 0" "outflow k (ISetPause d up, r) = 0" "outflow k (IWithdrawFee e wp, r) = 0"
  "outflow k (IQuoteOft f qp, r) = 0" "outflow k (IQuoteSend g ra sp, r) = 0" "outflow k (ILzReceive h ra lp, r) = 0"
  "outflow k (ILzReceiveTypes l lp, r) = 0"
  "inflow k n (IOftVersion, r) = 0" "inflow k n (IInitOft a ra ip, r) = 0" "inflow k n (ISetOftConfig b ra cp, r) = 0"
  "inflow k n (ISetPeerConfig c pp, r) = 0" "inflow k n (ISetPause d up, r) = 0" "inflow k n (IWithdrawFee e wp, r) = 0"
  "inflow k n (IQuoteOft f qp, r) = 0" "inflow k n (IQuoteSend g ra sp, r) = 0" "inflow k n (ISend m ra mp, r) = 0"
  "inflow k n (ILzReceiveTypes l lp, r) = 0"
  by (simp_all add: outflow_def inflow_def)

lemma set_oft_config_store:
  assumes "set_oft_config rt w a ra p = Inr w'" and "accounts w k = Some (AOFTStore s)"
  shows "store_step k s w' (ISetOftConfig a ra p, r)"
  using assms(1)
proof (rule set_oft_config_cases)
  fix s0 s' x'
  assume old: "accounts w (ai_key (so_oft_store a)) = Some (AOFTStore s0)" "ai_is_signer (so_admin a)"
    "os_admin s0 = ai_key (so_admin a)"
    and ap: "SetOFTConfig_apply rt a ra s0 (ext w) p = Inr (s', x')"
    and w': "w' = save_oft_store (w\<lparr>ext := x'\<rparr>) (so_oft_store a) s'"
  show ?thesis
    using old assms(2) SetOFTConfig_apply_frame(1,2) [OF ap]
    by (cases "k = ai_key (so_oft_store a)") (auto simp: w' store_step_def store_moves_def config_authorised_def)
qed

lemma set_pause_store:
  assumes "set_pause rt w a p = Inr w'" and "accounts w k = Some (AOFTStore s)"
  shows "store_step k s w' (ISetPause a p, r)"
  using assms(1)
proof (rule set_pause_cases)
  fix s0
  assume "accounts w (ai_key (sp_oft_store a)) = Some (AOFTStore s0)" "ai_is_signer (sp_signer a)"
    "is_valid_signer (ai_key (sp_signer a)) s0 (sp_paused p)"
    "w' = save_oft_store w (sp_oft_store a) (s0\<lparr>os_paused := sp_paused p\<rparr>)"
  then show ?thesis
    using assms(2)
    by (cases "k = ai_key (sp_oft_store a)")
      (auto simp: store_step_def store_moves_def config_authorised_def is_valid_signer_def same_immutable_def split: if_splits)
qed

lemma exec_store:
  assumes "exec rt clock w i = Inr (r, w')" and "accounts w k = Some (AOFTStore s)"
  shows "store_step k s w' (i, r)"
proof (cases i)
  case (IInitOft a ra p)
  then have "init_oft rt w a ra p = Inr w'" using assms(1) by (auto simp: result_simps)
  then show ?thesis using assms(2)
    by (auto elim!: init_oft_cases simp: IInitOft save_lz_receive_types_def intro!: store_step_same)
next
  case (ISetPeerConfig a p)
  then have "set_peer_config rt clock w a p = Inr w'" using assms(1) by (auto simp: result_simps)
  then show ?thesis using assms(2)
    by (auto elim!: set_peer_config_cases simp: ISetPeerConfig intro!: store_step_same)
next
  case (ISend a ra p)
  then obtain mr rc where "send rt clock w a ra p = Inr (mr, rc, w')" "r = RSend mr rc"
    using assms(1) by (auto simp: result_simps)
  then show ?thesis using send_store assms(2) by (fastforce simp: ISend store_step_def)
next
  case (ILzReceive a ra p)
  then have "lz_receive rt clock w a ra p = Inr w'" using assms(1) by (auto simp: result_simps)
  then show ?thesis using lz_receive_store assms(2) by (fastforce simp: ILzReceive store_step_def)
qed (use assms in \<open>auto simp: result_simps intro: store_step_same set_oft_config_store set_pause_store\<close>)

text \<open>Every store of \<open>w0\<close> is still there, with the same immutable fields.\<close>

definition stores_kept :: "'x world \<Rightarrow> 'x world \<Rightarrow> bool" where
  "stores_kept w0 w = (\<forall>k s. accounts w0 k = Some (AOFTStore s) \<longrightarrow>
     (\<exists>s'. accounts w k = Some (AOFTStore s') \<and> same_immutable s s'))"

lemma stores_kept_step:
  assumes "stores_kept w0 w" and "oft_step rt w l w'"
  shows "stores_kept w0 w'"
  using assms(2)
proof (cases rule: oft_step.cases)
  case (transaction i clock r)
  show ?thesis
    unfolding stores_kept_def
  proof (intro allI impI)
    fix k s assume "accounts w0 k = Some (AOFTStore s)"
    then obtain s1 where s1: "accounts w k = Some (AOFTStore s1)" "same_immutable s s1"
      using assms(1) by (auto simp: stores_kept_def)
    from exec_store [OF transaction(3) s1(1)] s1(2)
    show "\<exists>s'. accounts w' k = Some (AOFTStore s') \<and> same_immutable s s'"
      by (auto simp: store_step_def store_moves_def intro: same_immutable_trans)
  qed
next
  case (elsewhere x')
  then show ?thesis using assms(1) by (simp add: stores_kept_def)
qed

interpretation history: run_invariant rt "\<lambda>w. w = w0" "stores_kept w0" for rt w0
  by unfold_locales (auto simp: stores_kept_def [of w0 w0] intro: stores_kept_step)

section \<open>Properties\<close>

text \<open>
  C1: solvency. In every state the program can reach from its deployment, through any
  transactions of any callers interleaved with anything else on the chain that respects
  custody, every OFT's escrow is owned by the OFT and holds at least the value recorded as
  locked; so every amount the program still owes is covered.
\<close>

theorem solvency:
  assumes "runtime_laws rt" and "deployed w0" and "oft_run rt w0 ls w" and "accounts w k = Some (AOFTStore s)"
  shows "owner rt (ext w) (os_token_escrow s) = Some k \<and> unat (os_tvl_ld s) \<le> balance rt (ext w) (os_token_escrow s)"
  using custody.inv_run [OF assms(3)] assms(1,2,4) by (auto dest!: world_okD(1) simp: store_ok_def)

text \<open>
  C3: the locked value is the net flow. Along any run, an adapter's \<^verbatim>\<open>tvl_ld\<close> plus everything
  \<^verbatim>\<open>lz_receive\<close> released equals its value before plus everything \<^verbatim>\<open>send\<close> locked; no other
  instruction changes it.
\<close>

theorem tvl_is_net_flow:
  assumes "oft_run rt w ls w'" and "accounts w k = Some (AOFTStore s)" and "os_oft_type s = Adapter"
  shows "\<exists>s'. accounts w' k = Some (AOFTStore s') \<and> same_immutable s s'
     \<and> unat (os_tvl_ld s') + (\<Sum>e\<leftarrow>ls. inflow k (rate s) e) = unat (os_tvl_ld s) + (\<Sum>e\<leftarrow>ls. outflow k e)"
  using assms
proof (induction rule: oft_run.induct)
  case start
  then show ?case by (intro exI [of _ s]) simp
next
  case (more ls w1 l w2)
  then obtain s1 where s1: "accounts w1 k = Some (AOFTStore s1)" "same_immutable s s1"
    "unat (os_tvl_ld s1) + (\<Sum>e\<leftarrow>ls. inflow k (rate s) e) = unat (os_tvl_ld s) + (\<Sum>e\<leftarrow>ls. outflow k e)"
    by blast
  from more.hyps(2) show ?case
  proof (cases rule: oft_step.cases)
    case (transaction i clock r)
    obtain s2 where s2: "accounts w2 k = Some (AOFTStore s2)" "same_immutable s1 s2"
      "unat (os_tvl_ld s2) + inflow k (rate s1) (i, r) = unat (os_tvl_ld s1) + outflow k (i, r)"
      using exec_store [OF transaction(3) s1(1)] s1(2) more.prems(2)
      by (auto simp: store_step_def store_moves_def same_immutable_def)
    have "rate s1 = rate s" using s1(2) by (simp add: same_immutable_def)
    then show ?thesis
      using s1(3) s2 transaction(1) same_immutable_trans [OF s1(2) s2(2)]
      by (intro exI [of _ s2]) simp
  next
    case (elsewhere x')
    then show ?thesis using s1 by (intro exI [of _ s1]) simp
  qed
qed

text \<open>
  C7: only the authorised change the configuration. If a transaction changes anything of a
  store but its locked value, it is a \<^verbatim>\<open>set_oft_config\<close> signed by the admin stored there, or a
  \<^verbatim>\<open>set_pause\<close> signed by the stored pauser (to pause) or unpauser (to unpause) that changes the
  flag only. The immutable fields never change at all, and the account never goes away.
\<close>

theorem config_change_authorised:
  assumes "exec rt clock w i = Inr (r, w')" and "accounts w k = Some (AOFTStore s)"
  shows "\<exists>s'. accounts w' k = Some (AOFTStore s') \<and> same_immutable s s'
     \<and> (s' = s\<lparr>os_tvl_ld := os_tvl_ld s'\<rparr> \<or> config_authorised k s s' i)"
  using exec_store [OF assms] by (auto simp: store_step_def store_moves_def)

text \<open>
  C13: the configuration of a created OFT is permanent. Along any run, an OFT that exists keeps
  existing at its address with the same type, decimal rate, mint, escrow, endpoint and bump.
\<close>

theorem immutable_forever:
  assumes "oft_run rt w ls w'" and "accounts w k = Some (AOFTStore s)"
  shows "\<exists>s'. accounts w' k = Some (AOFTStore s') \<and> os_oft_type s' = os_oft_type s \<and> os_ld2sd_rate s' = os_ld2sd_rate s
     \<and> os_token_mint s' = os_token_mint s \<and> os_token_escrow s' = os_token_escrow s
     \<and> os_endpoint_program s' = os_endpoint_program s \<and> os_bump s' = os_bump s"
  using history.inv_run [OF assms(1) refl] assms(2) by (auto simp: stores_kept_def same_immutable_def)

text \<open>
  C12: reachable configurations are sane. In every reachable state each OFT sits at the
  canonical address of its escrow, distinct OFTs have distinct escrows, its rate is positive
  (so conversions never divide by zero), fees of OFTs and peers are below 100\%, a native OFT
  has nothing locked, no rate limiter holds more than its capacity, and every peer fits the
  account allocated for it.
\<close>

theorem reachable_config_sane:
  assumes "runtime_laws rt" and "deployed w0" and "oft_run rt w0 ls w"
  shows "(\<forall>k s. accounts w k = Some (AOFTStore s) \<longrightarrow>
        find_program_address rt (oft_seeds (os_token_escrow s)) (program_id rt) = (k, os_bump s)
      \<and> 0 < rate s \<and> unat (os_default_fee_bps s) < 10000 \<and> (os_oft_type s = Native \<longrightarrow> os_tvl_ld s = 0)
      \<and> (\<forall>k' s'. accounts w k' = Some (AOFTStore s') \<and> os_token_escrow s' = os_token_escrow s \<longrightarrow> k' = k))
     \<and> (\<forall>k p. accounts w k = Some (APeerConfig p) \<longrightarrow> PeerConfig_size p \<le> PeerConfig_INIT_SPACE
      \<and> (\<forall>f. pc_fee_bps p = Some f \<longrightarrow> unat f < 10000)
      \<and> (\<forall>l. pc_outbound_rate_limiter p = Some l \<or> pc_inbound_rate_limiter p = Some l \<longrightarrow> rl_tokens l \<le> rl_capacity l))"
proof -
  have ok: "world_ok rt w" using custody.inv_run [OF assms(3)] assms(1,2) by simp
  have "k' = k" if "accounts w k = Some (AOFTStore s)" "accounts w k' = Some (AOFTStore s')"
    "os_token_escrow s' = os_token_escrow s" for k k' s s'
    using escrows_distinct [OF world_okD(1) [OF ok that(2)] world_okD(1) [OF ok that(1)]] that(3) by auto
  moreover have "find_program_address rt (oft_seeds (os_token_escrow s)) (program_id rt) = (k, os_bump s)
      \<and> 0 < rate s \<and> unat (os_default_fee_bps s) < 10000 \<and> (os_oft_type s = Native \<longrightarrow> os_tvl_ld s = 0)"
    if "accounts w k = Some (AOFTStore s)" for k s
    using world_okD(1) [OF ok that] rate_pos [of s] by (simp add: store_ok_def)
  moreover have "peer_ok p" if "accounts w k = Some (APeerConfig p)" for k p
    by (rule world_okD(2) [OF ok that])
  ultimately show ?thesis by (auto simp: peer_ok_def peer_wf_def limiter_wf_def)
qed

text \<open>
  C14: a paused OFT moves nothing. While an OFT is paused, no \<^verbatim>\<open>send\<close>, \<^verbatim>\<open>lz_receive\<close>,
  \<^verbatim>\<open>quote_oft\<close> or \<^verbatim>\<open>quote_send\<close> on it succeeds, whatever the other accounts and parameters.
\<close>

theorem paused_blocks:
  assumes "accounts w k = Some (AOFTStore s)" and "os_paused s"
  shows "(\<forall>a ra p x. ai_key (se_oft_store a) = k \<longrightarrow> send rt clock w a ra p \<noteq> Inr x)
     \<and> (\<forall>a ra p x. ai_key (re_oft_store a) = k \<longrightarrow> lz_receive rt clock w a ra p \<noteq> Inr x)
     \<and> (\<forall>a p x. ai_key (qo_oft_store a) = k \<longrightarrow> quote_oft rt clock w a p \<noteq> Inr x)
     \<and> (\<forall>a ra p x. ai_key (qs_oft_store a) = k \<longrightarrow> quote_send rt clock w a ra p \<noteq> Inr x)"
proof (intro conjI allI impI notI)
  fix a ra p x assume "ai_key (se_oft_store a) = k" and "send rt clock w a ra p = Inr x"
  then show False using send_store [OF _ assms(1), of rt clock a ra p] assms(2) by (cases x) auto
next
  fix a ra p x assume "ai_key (re_oft_store a) = k" and "lz_receive rt clock w a ra p = Inr x"
  then show False using lz_receive_store [OF _ assms(1), of rt clock a ra p] assms(2) by auto
qed (use assms in \<open>auto simp: quote_oft_def QuoteOFT_apply_def QuoteOFT_try_accounts_def quote_send_def QuoteSend_apply_def
      QuoteSend_try_accounts_def result_simps\<close>)

text \<open>
  C11: withdrawing fees never panics. In every reachable state the subtraction
  \<^verbatim>\<open>token_escrow.amount - tvl_ld\<close> of \<^verbatim>\<open>withdraw_fee\<close> does not overflow: with valid accounts the
  outcome is \<^verbatim>\<open>InvalidFee\<close> or that of the token transfer.
\<close>

theorem withdraw_fee_no_overflow:
  assumes "runtime_laws rt" and "deployed w0" and "oft_run rt w0 ls w"
    and "WithdrawFee_try_accounts rt w a = Inr (s, mint, escrow)"
  shows "\<exists>available. u_sub (ta_amount escrow) (os_tvl_ld s) = Inr available
     \<and> (unat available < unat (wf_fee_ld p) \<longrightarrow> withdraw_fee rt clock w a p = Inl (OFT InvalidFee))"
proof -
  note f = WithdrawFee_accounts_Inr [OF assms(4)]
  have "store_ok rt (ext w) (ai_key (wf_oft_store a)) s"
    using custody.inv_run [OF assms(3)] assms(1,2) world_okD(1) f(1) by blast
  then have le: "unat (os_tvl_ld s) \<le> unat (ta_amount escrow)"
    using balance_account [OF f(5)] by (simp add: store_ok_def)
  then have "unat (ta_amount escrow - os_tvl_ld s) = unat (ta_amount escrow) - unat (os_tvl_ld s)"
    by (simp add: unat_sub word_le_nat_alt)
  then show ?thesis
    using le assms(4) by (auto simp: u_sub_def withdraw_fee_def WithdrawFee_apply_def require_def word_le_nat_alt)
qed

section \<open>Example runs\<close>

text \<open>The world after \<^verbatim>\<open>init_oft\<close> created the example adapter on the empty program.\<close>

definition created_world :: "ledger world" where
  "created_world = \<lparr>accounts = [repeat32 120 \<mapsto> AOFTStore ((example_store Adapter)\<lparr>os_endpoint_program := repeat32 104\<rparr>),
       repeat32 245 \<mapsto> ALzReceiveTypes \<lparr>lr_oft_store = repeat32 120, lr_token_mint = repeat32 1\<rparr>],
     events = [],
     ext = (escrow_ledger 0)\<lparr>lg_delegate := [repeat32 120 \<mapsto> repeat32 4]\<rparr>\<rparr>"

lemma example_init_result:
  "init_oft ledger_runtime (empty_world demo_ledger) example_init [] (example_init_params 6) = Inr created_world"
  by (simp add: init_oft_def InitOFT_try_accounts_def InitOFT_apply_def u_sub_def u_pow_def example_init_defs
      created_world_def save_oft_store_def save_lz_receive_types_def example_store_def escrow_ledger_def escrow_account_def
      Let_def)

lemma created_run:
  "deployed (empty_world demo_ledger)"
  "oft_run ledger_runtime (empty_world demo_ledger) [(IInitOft example_init [] (example_init_params 6), RUnit)] created_world"
proof -
  show "deployed (empty_world demo_ledger)" by (simp add: deployed_def empty_world_def)
  have "oft_step ledger_runtime (empty_world demo_ledger) (Some (IInitOft example_init [] (example_init_params 6), RUnit)) created_world"
    by (rule oft_step.transaction) (simp_all add: signers_ok_def empty_world_def example_init_result [unfolded empty_world_def])
  from oft_run.more [OF oft_run.start this]
  show "oft_run ledger_runtime (empty_world demo_ledger) [(IInitOft example_init [] (example_init_params 6), RUnit)] created_world"
    by simp
qed

theorem solvency_witness:
  "\<exists>s. accounts created_world (repeat32 120) = Some (AOFTStore s)
     \<and> owner ledger_runtime (ext created_world) (os_token_escrow s) = Some (repeat32 120)"
proof -
  obtain s where s: "accounts created_world (repeat32 120) = Some (AOFTStore s)" by (simp add: created_world_def)
  from solvency [OF ledger_laws created_run s] s show ?thesis by blast
qed

theorem reachable_config_sane_witness:
  "\<exists>s. accounts created_world (repeat32 120) = Some (AOFTStore s) \<and> 0 < rate s"
proof -
  obtain s where s: "accounts created_world (repeat32 120) = Some (AOFTStore s)" by (simp add: created_world_def)
  from reachable_config_sane [OF ledger_laws created_run] s show ?thesis by blast
qed

theorem withdraw_fee_no_overflow_witness:
  "withdraw_fee ledger_runtime (Inr (clock_at 5)) created_world example_withdraw \<lparr>wf_fee_ld = 1\<rparr> = Inl (OFT InvalidFee)"
proof -
  let ?s = "(example_store Adapter)\<lparr>os_endpoint_program := repeat32 104\<rparr>"
  have "\<exists>mint. WithdrawFee_try_accounts ledger_runtime created_world example_withdraw = Inr (?s, mint, escrow_account 0)"
    by (simp add: example_withdraw_defs created_world_def)
  then obtain mint where acc: "WithdrawFee_try_accounts ledger_runtime created_world example_withdraw = Inr (?s, mint, escrow_account 0)"
    by blast
  have "u_sub (ta_amount (escrow_account 0)) (os_tvl_ld ?s) = Inr 0"
    by (simp add: u_sub_def escrow_account_def example_store_def)
  then show ?thesis
    using withdraw_fee_no_overflow [OF ledger_laws created_run acc, of "\<lparr>wf_fee_ld = 1\<rparr>" "Inr (clock_at 5)"] by auto
qed

text \<open>One transfer through the example adapter.\<close>

lemma example_send_run:
  "\<exists>mr w'. oft_run ledger_runtime (send_world example_peer) [(ISend example_send example_remaining example_send_params,
       RSend mr \<lparr>or_amount_sent_ld = 1000000, or_amount_received_ld = 986000\<rparr>)] w'"
proof -
  obtain mr w' where s: "send ledger_runtime (Inr (clock_at 5)) (send_world example_peer) example_send example_remaining
      example_send_params = Inr (mr, \<lparr>or_amount_sent_ld = 1000000, or_amount_received_ld = 986000\<rparr>, w')"
    using example_send_succeeds by blast
  have "accounts (send_world example_peer) (ai_key (se_signer example_send)) = None"
    by (simp add: send_world_def transfer_world_def example_send_def acct_def)
  then have "oft_step ledger_runtime (send_world example_peer) (Some (ISend example_send example_remaining example_send_params,
       RSend mr \<lparr>or_amount_sent_ld = 1000000, or_amount_received_ld = 986000\<rparr>)) w'"
    by (intro oft_step.transaction [where clock = "Inr (clock_at 5)"]) (simp_all add: signers_ok_def s)
  from oft_run.more [OF oft_run.start this] show ?thesis by auto
qed

theorem tvl_is_net_flow_witness:
  "\<exists>ls w' s'. oft_run ledger_runtime (send_world example_peer) ls w' \<and> accounts w' (repeat32 120) = Some (AOFTStore s')
     \<and> unat (os_tvl_ld s') = 986000"
proof -
  obtain mr w' where run: "oft_run ledger_runtime (send_world example_peer) [(ISend example_send example_remaining
      example_send_params, RSend mr \<lparr>or_amount_sent_ld = 1000000, or_amount_received_ld = 986000\<rparr>)] w'" (is "oft_run _ _ ?ls _")
    using example_send_run by blast
  have st: "accounts (send_world example_peer) (repeat32 120) = Some (AOFTStore (example_store Adapter))"
    by (simp add: send_world_def transfer_world_def)
  have "(\<Sum>e\<leftarrow>?ls. outflow (repeat32 120) e) = 986000" by (simp add: outflow_def example_send_def acct_def)
  then show ?thesis
    using run tvl_is_net_flow [OF run st] by (auto simp: example_store_def)
qed

theorem immutable_forever_witness:
  "\<exists>ls w' s'. oft_run ledger_runtime (send_world example_peer) ls w' \<and> ls \<noteq> []
     \<and> accounts w' (repeat32 120) = Some (AOFTStore s') \<and> os_token_escrow s' = repeat32 2"
proof -
  obtain mr w' where run: "oft_run ledger_runtime (send_world example_peer) [(ISend example_send example_remaining
      example_send_params, RSend mr \<lparr>or_amount_sent_ld = 1000000, or_amount_received_ld = 986000\<rparr>)] w'"
    using example_send_run by blast
  have st: "accounts (send_world example_peer) (repeat32 120) = Some (AOFTStore (example_store Adapter))"
    by (simp add: send_world_def transfer_world_def)
  show ?thesis using run immutable_forever [OF run st] by (fastforce simp: example_store_def)
qed

theorem config_change_authorised_witness:
  "\<exists>s'. accounts (save_oft_store created_world (acct 120 False True) s') (repeat32 120) = Some (AOFTStore s')
     \<and> config_authorised (repeat32 120) ((example_store Adapter)\<lparr>os_endpoint_program := repeat32 104\<rparr>) s'
         (ISetOftConfig \<lparr>so_admin = acct 4 True False, so_oft_store = acct 120 False True\<rparr> [] (ConfigPaused True))"
proof -
  let ?s = "(example_store Adapter)\<lparr>os_endpoint_program := repeat32 104\<rparr>"
    and ?a = "\<lparr>so_admin = acct 4 True False, so_oft_store = acct 120 False True\<rparr>"
  let ?s' = "?s\<lparr>os_paused := True\<rparr>"
  let ?w' = "save_oft_store created_world (acct 120 False True) ?s'"
  have ex: "exec ledger_runtime (Inr (clock_at 5)) created_world (ISetOftConfig ?a [] (ConfigPaused True)) = Inr (RUnit, ?w')"
    by (simp add: set_oft_config_def SetOFTConfig_try_accounts_def check_oft_store_seeds_def check_admin_def check_defs
        load_oft_store_def created_world_def save_oft_store_def example_world_defs)
  have st: "accounts created_world (repeat32 120) = Some (AOFTStore ?s)" by (simp add: created_world_def)
  from config_change_authorised [OF ex st] show ?thesis
    by (intro exI [of _ ?s']) (auto simp: acct_def example_store_def)
qed

text \<open>The transfer that goes through in \<open>example_send_succeeds\<close> is stopped by the pause flag alone.\<close>

theorem paused_blocks_witness:
  "\<forall>x. send ledger_runtime (Inr (clock_at 5))
     (transfer_world ((example_store Adapter)\<lparr>os_paused := True\<rparr>) example_peer send_ledger)
     example_send example_remaining example_send_params \<noteq> Inr x"
proof -
  have "accounts (transfer_world ((example_store Adapter)\<lparr>os_paused := True\<rparr>) example_peer send_ledger) (repeat32 120)
      = Some (AOFTStore ((example_store Adapter)\<lparr>os_paused := True\<rparr>))" by (simp add: transfer_world_def)
  from paused_blocks [OF this, of ledger_runtime "Inr (clock_at 5)"] show ?thesis by (simp add: example_send_def acct_def)
qed

end
