(* ===== verification/Endpoint_Mock.thy ===== *)
theory Endpoint_Mock
  imports OFT_World Example_Ledger
begin

text \<open>
  The stand-in for LayerZero's endpoint that the repository's tests deploy
  (\<^verbatim>\<open>programs/endpoint-mock\<close>): one instruction that registers an OApp. It is a program of
  its own, with its own address \<open>mock_id\<close> and its own accounts; the OFT program is verified
  against the interface of the real endpoint, not against this mock. Prefix \<open>ro_\<close>.
\<close>

section \<open>Definitions\<close>

definition OAPP_SEED :: bytes where "OAPP_SEED = [0x4F, 0x41, 0x70, 0x70]"

record OAppRegistry =
  reg_delegate :: pubkey
  reg_bump :: u8

definition OAppRegistry_INIT_SPACE :: nat where "OAppRegistry_INIT_SPACE = 32 + 1"

record 'x mock_world =
  registries :: "pubkey \<rightharpoonup> OAppRegistry"
  mock_ext :: 'x

record RegisterOApp =
  ro_payer :: AccountInfo
  ro_oapp :: AccountInfo
  ro_oapp_registry :: AccountInfo
  ro_system_program :: AccountInfo
  ro_event_authority :: AccountInfo
  ro_program :: AccountInfo

record RegisterOAppParams =
  ro_delegate :: pubkey

definition RegisterOApp_try_accounts :: "'x runtime \<Rightarrow> pubkey \<Rightarrow> 'x mock_world \<Rightarrow> RegisterOApp \<Rightarrow> (u8 \<times> 'x) result" where
  "RegisterOApp_try_accounts rt mock_id w a =
     and_then (check_signer (ro_payer a)) (\<lambda>_.
     and_then (check_signer (ro_oapp a)) (\<lambda>_.
     and_then (check_program (SYSTEM_PROGRAM_ID rt) (ro_system_program a)) (\<lambda>_.
     let (k, bump) = find_program_address rt [OAPP_SEED, to_bytes (ai_key (ro_oapp a))] mock_id in
     and_then (require (ai_key (ro_oapp_registry a) = k) (Anchor ConstraintSeeds)) (\<lambda>_.
     and_then (require (registries w k = None) AccountAlreadyInUse) (\<lambda>_.
     and_then (create_account rt (mock_ext w) (ai_key (ro_payer a)) k (8 + OAppRegistry_INIT_SPACE)) (\<lambda>x'.
     and_then (check_mut (ro_oapp_registry a)) (\<lambda>_.
     and_then (check_mut (ro_payer a)) (\<lambda>_.
     and_then (require (ai_key (ro_event_authority a) = fst (find_program_address rt [EVENT_AUTHORITY_SEED rt] mock_id))
                 (Anchor ConstraintSeeds)) (\<lambda>_.
     Inr (bump, x'))))))))))"

definition RegisterOApp_apply :: "u8 \<Rightarrow> RegisterOAppParams \<Rightarrow> OAppRegistry" where
  "RegisterOApp_apply bump params = \<lparr>reg_delegate = ro_delegate params, reg_bump = bump\<rparr>"

definition register_oapp :: "'x runtime \<Rightarrow> pubkey \<Rightarrow> 'x mock_world \<Rightarrow> RegisterOApp \<Rightarrow> RegisterOAppParams \<Rightarrow> 'x mock_world result" where
  "register_oapp rt mock_id w a params =
     and_then (RegisterOApp_try_accounts rt mock_id w a) (\<lambda>(bump, x').
     Inr (w\<lparr>registries := (registries w)(ai_key (ro_oapp_registry a) \<mapsto> RegisterOApp_apply bump params), mock_ext := x'\<rparr>))"

section \<open>Properties\<close>

text \<open>
  C40: an OApp registers itself, once. A successful registration was signed by the OApp,
  stores the delegate with the canonical bump at the address derived from the OApp, changes
  no other registry, and every later registration of the same OApp fails.
\<close>

theorem register_oapp_once:
  assumes "register_oapp rt mock_id w a p = Inr w'"
  shows "ai_is_signer (ro_oapp a)
     \<and> (\<exists>k bump. find_program_address rt [OAPP_SEED, to_bytes (ai_key (ro_oapp a))] mock_id = (k, bump) \<and> registries w k = None
          \<and> registries w' = (registries w)(k \<mapsto> \<lparr>reg_delegate = ro_delegate p, reg_bump = bump\<rparr>))
     \<and> (\<forall>b q w''. ai_key (ro_oapp b) = ai_key (ro_oapp a) \<longrightarrow> register_oapp rt mock_id w' b q \<noteq> Inr w'')"
  using assms
  by (auto simp: register_oapp_def RegisterOApp_try_accounts_def RegisterOApp_apply_def check_defs result_simps Let_def
      split: prod.splits)

definition example_register :: RegisterOApp where
  "example_register = \<lparr>ro_payer = acct 30 True True, ro_oapp = acct 120 True False, ro_oapp_registry = acct 14 False True,
     ro_system_program = acct 101 False False, ro_event_authority = acct 62 False False, ro_program = acct 104 False False\<rparr>"

theorem register_oapp_once_witness:
  "\<exists>w'. register_oapp ledger_runtime (repeat32 104) \<lparr>registries = Map.empty, mock_ext = demo_ledger\<rparr> example_register
       \<lparr>ro_delegate = repeat32 4\<rparr> = Inr w'
     \<and> (\<forall>q w''. register_oapp ledger_runtime (repeat32 104) w' example_register q \<noteq> Inr w'')"
proof -
  have "\<exists>w'. register_oapp ledger_runtime (repeat32 104) \<lparr>registries = Map.empty, mock_ext = demo_ledger\<rparr> example_register
       \<lparr>ro_delegate = repeat32 4\<rparr> = Inr w'"
    by (simp add: register_oapp_def RegisterOApp_try_accounts_def check_defs example_register_def acct_def digest_def OAPP_SEED_def)
  then obtain w' where w': "register_oapp ledger_runtime (repeat32 104) \<lparr>registries = Map.empty, mock_ext = demo_ledger\<rparr>
      example_register \<lparr>ro_delegate = repeat32 4\<rparr> = Inr w'" by blast
  show ?thesis using w' register_oapp_once [OF w'] by blast
qed

end
