(* ===== verification/Spec2Isabelle.thy ===== *)
theory Spec2Isabelle
  imports OFT_Program Endpoint_Mock
begin

text \<open>
  A verification development for the Solana OFT program of \<^verbatim>\<open>cross-chain-contracts\<close>
  (\<^verbatim>\<open>src/solana-oft-deployment/programs/oft\<close>, written with Anchor in Rust) and the endpoint
  mock beside it. The program moves a token between chains over LayerZero: on the sending
  chain it locks the token in an escrow (an \<^emph>\<open>adapter\<close> OFT) or burns it (a \<^emph>\<open>native\<close> OFT) and
  hands a message to LayerZero's endpoint; on the receiving chain it checks and clears such
  a message and unlocks or mints the amount.

  \<^bold>\<open>The parts and where they are modelled.\<close>
  \<^item> \<^verbatim>\<open>OFT_Prelude\<close>: Rust's integers as words, overflow-checked operators (the workspace sets
    \<^verbatim>\<open>overflow-checks\<close>, so \<^verbatim>\<open>+ - *\<close> panic), \<^verbatim>\<open>Result\<close> as a sum with every error and panic a
    transaction can end in, \<^verbatim>\<open>[u8; 32]\<close>, slices, big-endian integers. The locale \<open>fixed_field\<close>
    is the contract of a fixed-width field of a message; the codecs use its instances.
  \<^item> \<^verbatim>\<open>Msg_Codec\<close> (\<^verbatim>\<open>msg_codec.rs\<close>) and \<^verbatim>\<open>Compose_Msg_Codec\<close> (\<^verbatim>\<open>compose_msg_codec.rs\<close>): the two
    message formats, their round trips and lengths.
  \<^item> \<^verbatim>\<open>OFT_Store\<close> (\<^verbatim>\<open>state/oft.rs\<close>): the configuration account and decimal conversion, whose
    contract is the locale \<open>decimal_conversion\<close>.
  \<^item> \<^verbatim>\<open>Rate_Limiter\<close> and \<^verbatim>\<open>Peer_Config\<close> (\<^verbatim>\<open>state/peer_config.rs\<close>): the token bucket with its
    refinement to an exact bucket over the naturals and, through the locale \<open>token_bucket\<close>, the
    bound over time windows; the per-destination account.
  \<^item> \<^verbatim>\<open>OFT_Runtime\<close>: what the program calls and does not contain (Solana, the token programs, the
    endpoint), as one record of functions that every definition takes as its first argument.
    \<^verbatim>\<open>Token_Laws\<close> states what is relied on from them as named predicates (\<open>runtime_laws\<close>), and
    \<^verbatim>\<open>Example_Ledger\<close> is a concrete runtime that satisfies all of them and evaluates the examples.
  \<^item> \<^verbatim>\<open>Fees\<close> (the functions of \<^verbatim>\<open>quote_send.rs\<close>): the OFT fee, the inversion of the Token-2022
    transfer fee, dust removal.
  \<^item> \<^verbatim>\<open>OFT_World\<close> (\<^verbatim>\<open>events.rs\<close>, constants of \<^verbatim>\<open>lib.rs\<close>): the program's accounts as a map, the event
    log, and the account checks Anchor generates from the constraint attributes.
  \<^item> one theory per group of instructions, each with the account struct, its constraints
    (\<open>X_try_accounts\<close>), the handler (\<open>X_apply\<close>) and the entry point of \<^verbatim>\<open>lib.rs\<close>, which writes the
    accounts back: \<^verbatim>\<open>Init_OFT\<close>, \<^verbatim>\<open>OFT_Admin\<close> (\<^verbatim>\<open>set_oft_config\<close>, \<^verbatim>\<open>set_pause\<close>), \<^verbatim>\<open>Set_Peer_Config\<close>, \<^verbatim>\<open>Quotes\<close>
    (\<^verbatim>\<open>quote_oft\<close>, \<^verbatim>\<open>quote_send\<close>), \<^verbatim>\<open>Withdraw_Fee\<close>, \<^verbatim>\<open>OFT_Send\<close>, \<^verbatim>\<open>Lz_Receive\<close>, \<^verbatim>\<open>Lz_Receive_Types\<close>.
  \<^item> \<^verbatim>\<open>OFT_Invariant\<close>: the invariant \<open>world_ok\<close> of the accounts and the instructions that keep it
    without moving an OFT's tokens.
  \<^item> \<^verbatim>\<open>OFT_Program\<close> (\<^verbatim>\<open>lib.rs\<close>): the dispatcher \<open>exec\<close>, the step relation \<open>oft_step\<close> (transactions of
    any caller, interleaved with everything else on the chain), runs, and the locale
    \<open>run_invariant\<close> with its two instances \<open>custody\<close> and \<open>history\<close>.
  \<^item> \<^verbatim>\<open>Endpoint_Mock\<close> (\<^verbatim>\<open>programs/endpoint-mock\<close>): the mock's one instruction.

  \<^bold>\<open>What is shown.\<close> Solvency: in every reachable state the escrow covers the locked value
  (\<open>solvency\<close>), which is the net of what was sent and received (\<open>tvl_is_net_flow\<close>); fee
  withdrawals never touch it and never panic. Conservation across chains:
  \<open>transfer_conserved\<close>, from the sender's receipt to the balance of the recipient's account.
  Per instruction: what a \<^verbatim>\<open>send\<close> and an \<^verbatim>\<open>lz_receive\<close> do to balances, messages,
  limits and events, and which error each refused call gets. Authority: who can change what.
  Quotes agree with sends. The account list for the executor is accepted. Arithmetic: every
  conversion and fee is exact, rounding is in the OFT's favour, and what can overflow is
  stated.

  \<^bold>\<open>Assumptions, each a named hypothesis.\<close> \<open>runtime_laws\<close>: program-derived addresses verify
  with their bump; the token program's fee function is the documented one; transfers, burns,
  mints and account creations change the balances they say; the endpoint's instructions do
  not spend an OFT's tokens. The creator of an OFT chooses its endpoint program, so for an OFT
  with another endpoint than LayerZero's this is trust in that program. \<open>endpoint_no_tokens\<close>,
  where a theorem gives balances after a whole instruction exactly: the endpoint's \<^verbatim>\<open>clear\<close> and
  \<^verbatim>\<open>send_compose\<close> touch no token account, and neither does \<^verbatim>\<open>send\<close> when no fee in the LayerZero
  token is offered. \<open>custody_kept\<close>: transactions elsewhere do not spend an OFT's
  tokens either, since only the program signs for its addresses; a token whose issuer can
  seize balances (a permanent delegate) falls outside it. \<open>signers_ok\<close>: program accounts have
  no private key. The clock is an argument of each transaction.

  \<^bold>\<open>Bounds and fuel.\<close> No definition needs fuel: the code has no loops beyond list traversals.
  Amounts are 64-bit, products of fees 128-bit, as in the code.

  \<^bold>\<open>Not modelled.\<close> Rent, lamports and compute budgets; the byte layout of accounts, except the
  size of a peer, which bounds what can be stored; checks of the Anchor runtime outside the
  declared constraints; the Solidity contracts and JavaScript scripts of the repository; the
  crates the program calls, which are the runtime record.
\<close>

section \<open>From one chain to another\<close>

lemma send_message_of:
  assumes "send rt clock w a ra p = Inr (mr, rc, w')" and "accounts w (ai_key (se_oft_store a)) = Some (AOFTStore s)"
    and "ld2sd s (or_amount_received_ld rc) = Inr sd"
  shows "\<exists>x1 ep. endpoint_send rt x1 (os_endpoint_program s) (ai_key (se_oft_store a)) ra
        (signer_seeds (os_token_escrow s) (os_bump s)) ep = Inr (mr, ext w')
      \<and> es_message ep = msg_codec_encode (sm_to p) sd (ai_key (se_signer a)) (sm_compose_msg p)"
    and "unat (or_amount_received_ld rc) = unat sd * rate s"
proof -
  have "(\<exists>x1 ep. endpoint_send rt x1 (os_endpoint_program s) (ai_key (se_oft_store a)) ra
        (signer_seeds (os_token_escrow s) (os_bump s)) ep = Inr (mr, ext w')
      \<and> es_message ep = msg_codec_encode (sm_to p) sd (ai_key (se_signer a)) (sm_compose_msg p))
     \<and> unat (or_amount_received_ld rc) = unat sd * rate s"
    using assms(1)
  proof (cases rule: send_cases)
    case (sent peer s0 mint fee peer' s' x1 sd' opts x')
    note acc = sent(1) and fee = sent(3) and tok = sent(6) and sd = sent(7) and ep = sent(9) and w' = sent(10)
    have s0: "s0 = s" using Send_accounts_Inr(1) [OF acc] assms(2) by simp
    have "os_ld2sd_rate s' = os_ld2sd_rate s" using Send_tokens_store [OF tok] by (cases s') (auto simp: s0)
    then have sd': "sd' = sd" using sd assms(3) by (simp add: ld2sd_def)
    have "unat (or_amount_received_ld rc) = unat sd * rate s"
      using compute_fee_carried [OF fee] assms(3) by (auto simp: s0 sd2ld_iff)
    then show ?thesis
      using ep by (auto simp: w' s0 sd' intro!: exI [of _ x1] exI [of _ "Send_endpoint_params a peer p sd opts"])
        (simp add: Send_endpoint_params_def)
  qed
  then show "\<exists>x1 ep. endpoint_send rt x1 (os_endpoint_program s) (ai_key (se_oft_store a)) ra
        (signer_seeds (os_token_escrow s) (os_bump s)) ep = Inr (mr, ext w')
      \<and> es_message ep = msg_codec_encode (sm_to p) sd (ai_key (se_signer a)) (sm_compose_msg p)"
    and "unat (or_amount_received_ld rc) = unat sd * rate s" by auto
qed

text \<open>
  C2: value is conserved across chains. A successful \<^verbatim>\<open>send\<close> hands the endpoint a message; take
  any OFT on any chain whose \<^verbatim>\<open>lz_receive\<close> accepts that message. The amount it releases is, up to
  the two decimal scales, exactly the received amount in the sender's receipt. The account it
  pays is the associated account of the recipient the sender named, owned by that recipient,
  and its balance grows by exactly the reported amount: the released amount itself if it is
  minted, and what the token's transfer fee leaves of it if it is unlocked. The escrow of an
  adapter loses exactly the released amount, as does its \<^verbatim>\<open>tvl_ld\<close>, and every other token account
  keeps its balance. The recipient's account must not be the receiving OFT's own escrow.
\<close>

theorem transfer_conserved:
  assumes "send rt clock w a ra p = Inr (mr, rc, w')" and "accounts w (ai_key (se_oft_store a)) = Some (AOFTStore s)"
    and "ld2sd s (or_amount_received_ld rc) = Inr sd"
    and "lp_message q = msg_codec_encode (sm_to p) sd (ai_key (se_signer a)) (sm_compose_msg p)"
    and "lz_receive rt2 clock2 w2 b rb q = Inr w2'" and "accounts w2 (ai_key (re_oft_store b)) = Some (AOFTStore t)"
    and "runtime_laws rt2" and "endpoint_no_tokens rt2" and "ai_key (re_token_dest b) \<noteq> os_token_escrow t"
  shows "(\<exists>x1 ep. endpoint_send rt x1 (os_endpoint_program s) (ai_key (se_oft_store a)) ra
            (signer_seeds (os_token_escrow s) (os_bump s)) ep = Inr (mr, ext w') \<and> es_message ep = lp_message q)
     \<and> ai_key (re_token_dest b) = get_associated_token_address rt2 (sm_to p) (os_token_mint t) (ai_key (re_token_program b))
     \<and> owner rt2 (ext w2') (ai_key (re_token_dest b)) = Some (sm_to p)
     \<and> (\<exists>amt m tvl. unat amt * rate s = unat (or_amount_received_ld rc) * rate t
          \<and> (if os_oft_type t = Adapter then get_post_fee_amount_ld rt2 clock2 (ext w2') (os_token_mint t) amt = Inr m else m = amt)
          \<and> balance rt2 (ext w2') (ai_key (re_token_dest b)) = balance rt2 (ext w2) (ai_key (re_token_dest b)) + unat m
          \<and> balance rt2 (ext w2) (os_token_escrow t) = balance rt2 (ext w2') (os_token_escrow t)
              + (if os_oft_type t = Adapter then unat amt else 0)
          \<and> (\<forall>k. k \<noteq> ai_key (re_token_dest b) \<and> k \<noteq> os_token_escrow t \<longrightarrow> balance rt2 (ext w2') k = balance rt2 (ext w2) k)
          \<and> events w2' = events w2 @ [Received \<lparr>recv_guid = lp_guid q, recv_src_eid = lp_src_eid q,
               recv_to = sm_to p, recv_amount_received_ld = m\<rparr>]
          \<and> accounts w2' (ai_key (re_oft_store b)) = Some (AOFTStore (t\<lparr>os_tvl_ld := tvl\<rparr>))
          \<and> unat (os_tvl_ld t) = unat tvl + (if os_oft_type t = Adapter then unat amt else 0))"
proof (rule lz_receive_pays [OF assms(7,8,5,6)])
  fix sd' amt m tvl
  assume sd': "msg_codec_amount_sd (lp_message q) = Inr sd'" "unat amt = unat sd' * rate t"
    and ev: "events w2' = events w2 @ [LzReceive_event b q m]" and pay: "paid rt2 clock2 b t (ext w2) (ext w2') amt m"
    and k: "ai_key (re_token_mint b) = os_token_mint t" "ai_key (re_token_escrow b) = os_token_escrow t"
    and to: "msg_codec_send_to (lp_message q) = Inr (ai_key (re_to_address b))"
    and dest: "ai_key (re_token_dest b) = get_associated_token_address rt2 (ai_key (re_to_address b)) (os_token_mint t) (ai_key (re_token_program b))"
    and own: "owner rt2 (ext w2') (ai_key (re_token_dest b)) = Some (ai_key (re_to_address b))"
    and st: "accounts w2' (ai_key (re_oft_store b)) = Some (AOFTStore (t\<lparr>os_tvl_ld := tvl\<rparr>))"
      "unat (os_tvl_ld t) = unat tvl + (if os_oft_type t = Adapter then unat amt else 0)"
  have msg: "sm_to p = ai_key (re_to_address b)" "sd' = sd"
    using sd'(1) to by (simp_all add: assms(4) bytes_simps)
  note sent = send_message_of [OF assms(1,2,3)]
  have "unat amt * rate s = unat (or_amount_received_ld rc) * rate t" using sent(2) sd'(2) msg(2) by simp
  then have "\<exists>amt m tvl. unat amt * rate s = unat (or_amount_received_ld rc) * rate t
          \<and> (if os_oft_type t = Adapter then get_post_fee_amount_ld rt2 clock2 (ext w2') (os_token_mint t) amt = Inr m else m = amt)
          \<and> balance rt2 (ext w2') (ai_key (re_token_dest b)) = balance rt2 (ext w2) (ai_key (re_token_dest b)) + unat m
          \<and> balance rt2 (ext w2) (os_token_escrow t) = balance rt2 (ext w2') (os_token_escrow t)
              + (if os_oft_type t = Adapter then unat amt else 0)
          \<and> (\<forall>k. k \<noteq> ai_key (re_token_dest b) \<and> k \<noteq> os_token_escrow t \<longrightarrow> balance rt2 (ext w2') k = balance rt2 (ext w2) k)
          \<and> events w2' = events w2 @ [Received \<lparr>recv_guid = lp_guid q, recv_src_eid = lp_src_eid q,
               recv_to = sm_to p, recv_amount_received_ld = m\<rparr>]
          \<and> accounts w2' (ai_key (re_oft_store b)) = Some (AOFTStore (t\<lparr>os_tvl_ld := tvl\<rparr>))
          \<and> unat (os_tvl_ld t) = unat tvl + (if os_oft_type t = Adapter then unat amt else 0)"
    using ev pay [unfolded paid_def k] st assms(9)
    by - (rule exI [of _ amt], rule exI [of _ m], rule exI [of _ tvl], simp add: LzReceive_event_def msg(1))
  then show ?thesis using sent(1) dest own by (simp add: assms(4) msg(1))
qed

text \<open>The example transfer arrives at a native OFT with the same scale.\<close>

definition native_world :: "ledger world" where
  "native_world = transfer_world (example_store Native) example_peer (escrow_ledger 0)"

definition native_receive :: LzReceive where
  "native_receive = example_receive\<lparr>re_mint_authority := acct 120 False False\<rparr>"

definition native_receive_params :: LzReceiveParams where
  "native_receive_params = example_receive_params\<lparr>lp_message := msg_codec_encode (repeat32 8) 986 (repeat32 30) None\<rparr>"

definition native_ledger :: ledger where
  "native_ledger = (escrow_ledger 0)\<lparr>lg_tokens := (lg_tokens (escrow_ledger 0))(repeat32 106 \<mapsto>
     \<lparr>ta_token_program = repeat32 103, ta_mint = repeat32 1, ta_owner = repeat32 8, ta_amount = 0\<rparr>)\<rparr>"

lemma native_message:
  "msg_codec_send_to (lp_message native_receive_params) = Inr (repeat32 8)"
  "msg_codec_amount_sd (lp_message native_receive_params) = Inr 986"
  "msg_codec_compose_msg (lp_message native_receive_params) = Inr None"
  by (simp_all add: native_receive_params_def bytes_simps)

lemma native_accounts:
  "\<exists>mint. LzReceive_try_accounts ledger_runtime native_world native_receive native_receive_params
      = Inr (example_peer, example_store Native, mint, native_ledger)"
proof -
  have params: "lp_src_eid native_receive_params = 5" "lp_sender native_receive_params = repeat32 77"
    by (simp_all add: native_receive_params_def example_receive_params_def)
  have "init_token_dest_if_needed ledger_runtime (ext native_world) native_receive = Inr native_ledger"
    by (simp add: init_token_dest_if_needed_def native_world_def transfer_world_def native_receive_def example_receive_def
        native_ledger_def acct_def escrow_ledger_def escrow_account_def demo_ledger_def ledger_create_token_def
        ledger_token_def digest_def check_defs)
  then show ?thesis
    by (simp add: LzReceive_try_accounts_def native_message params)
      (simp add: transfer_world_defs native_world_def native_receive_def example_receive_def escrow_ledger_def escrow_account_def
        wallet_account_def ledger_token_def check_mint_authority_def optional_account_def)
qed

lemma native_receive_succeeds:
  "\<exists>w'. lz_receive ledger_runtime (Inr (clock_at 5)) native_world native_receive [acct 104 False False] native_receive_params = Inr w'"
proof -
  let ?x1 = "native_ledger\<lparr>lg_cleared := LzReceive_clear_params native_receive native_receive_params # lg_cleared native_ledger\<rparr>"
  obtain mint where acc: "LzReceive_try_accounts ledger_runtime native_world native_receive native_receive_params
      = Inr (example_peer, example_store Native, mint, native_ledger)" using native_accounts by blast
  have lim: "LzReceive_limits (Inr (clock_at 5)) example_peer n = Inr example_peer" for n
    by (simp add: LzReceive_limits_def consume_limit_def refill_limit_def example_peer_def PeerConfig_zero_def)
  have sd: "sd2ld (example_store Native) 986 = Inr 986000" by (simp add: int_iff example_store_def)
  have size: "PeerConfig_size example_peer \<le> PeerConfig_INIT_SPACE" using example_peer_ok by (simp add: peer_ok_def)
  obtain s' x2 where "LzReceive_tokens ledger_runtime (Inr (clock_at 5)) ?x1 native_receive (example_store Native)
      mint 986000 = Inr (s', x2, 986000)"
    by (simp add: LzReceive_tokens_def optional_account_def native_receive_def example_receive_def acct_def ledger_mint_to_def
        ledger_token_def u_add_def example_store_def native_ledger_def)
  then have "LzReceive_apply ledger_runtime (Inr (clock_at 5)) native_ledger native_receive [acct 104 False False] example_peer
      (example_store Native) mint native_receive_params = Inr (example_peer, s', x2, 986000)"
    using lim sd
    by (simp add: LzReceive_apply_def native_message slice_def LzReceive_compose_def emit_cpi_def LzReceive_infos_def)
      (simp add: example_store_def native_receive_def example_receive_def acct_def)
  then show ?thesis using acc size by (simp add: lz_receive_def save_peer_def)
qed

theorem transfer_conserved_witness:
  "\<exists>w2'. lz_receive ledger_runtime (Inr (clock_at 5)) native_world native_receive [acct 104 False False] native_receive_params = Inr w2'
     \<and> owner ledger_runtime (ext w2') (repeat32 106) = Some (repeat32 8)
     \<and> balance ledger_runtime (ext native_world) (repeat32 106) = 0
     \<and> balance ledger_runtime (ext w2') (repeat32 106) = 986000
     \<and> events w2' = [Received \<lparr>recv_guid = repeat32 9, recv_src_eid = 5, recv_to = repeat32 8, recv_amount_received_ld = 986000\<rparr>]"
proof -
  obtain mr w' where s: "send ledger_runtime (Inr (clock_at 5)) (send_world example_peer) example_send example_remaining
      example_send_params = Inr (mr, \<lparr>or_amount_sent_ld = 1000000, or_amount_received_ld = 986000\<rparr>, w')"
    using example_send_succeeds by blast
  obtain w2' where r: "lz_receive ledger_runtime (Inr (clock_at 5)) native_world native_receive [acct 104 False False]
      native_receive_params = Inr w2'" using native_receive_succeeds by blast
  have st: "accounts (send_world example_peer) (ai_key (se_oft_store example_send)) = Some (AOFTStore (example_store Adapter))"
    and t: "accounts native_world (ai_key (re_oft_store native_receive)) = Some (AOFTStore (example_store Native))"
    and e: "events native_world = []" and to: "sm_to example_send_params = repeat32 8"
    and k: "ai_key (re_token_dest native_receive) = repeat32 106"
    and ne: "ai_key (re_token_dest native_receive) \<noteq> os_token_escrow (example_store Native)"
    and bal: "balance ledger_runtime (ext native_world) (repeat32 106) = 0"
    and g: "lp_guid native_receive_params = repeat32 9" "lp_src_eid native_receive_params = 5"
    by (simp_all add: send_world_def transfer_world_def example_send_def acct_def native_world_def native_receive_def
        example_receive_def example_send_params_def example_store_def ledger_balance escrow_ledger_def escrow_account_def
        demo_ledger_def native_receive_params_def example_receive_params_def)
  have sd: "ld2sd (example_store Adapter) (or_amount_received_ld \<lparr>or_amount_sent_ld = 1000000, or_amount_received_ld = 986000\<rparr>)
      = Inr 986" by (simp add: ld2sd_def u_div_def example_store_def)
  have msg: "lp_message native_receive_params = msg_codec_encode (sm_to example_send_params) 986 (ai_key (se_signer example_send))
      (sm_compose_msg example_send_params)"
    by (simp add: native_receive_params_def example_send_params_def example_send_def acct_def)
  have "m = 986000" if "unat m * 1000 = unat (986000::u64) * 1000" for m :: u64
    using that by (simp add: unat_eq_self_iff [of m 986000])
  then show ?thesis
    using r transfer_conserved [OF s st sd msg r t ledger_laws ledger_no_tokens ne] unfolding k to g e bal
    by (auto simp: example_store_def)
qed

end
